(* ===== verification/Gateway_Prelude.thy ===== *)
theory Gateway_Prelude
  imports Main
begin

text \<open>
  Shared vocabulary of the development: the JavaScript idioms the gateway's sources use
  (truthiness, \<open>??\<close> and \<open>||\<close>, string operations, decimal printing), handlers that
  return a value or throw while keeping the state they have already written, and the
  list operations that a Prisma query on a table denotes.
\<close>

named_theorems js_simps \<open>unfoldings of the JavaScript idioms\<close>
named_theorems row_simps \<open>rewriting of table operations\<close>
named_theorems flow_simps \<open>rewriting of throwing and catching handlers\<close>

section \<open>JavaScript idioms\<close>

text \<open>An optional string is truthy when it is present and not empty.\<close>

fun truthy :: "string option \<Rightarrow> bool" where
  "truthy None = False"
| "truthy (Some s) = (s \<noteq> [])"

text \<open>\<open>a ?? b\<close> takes \<open>b\<close> for a missing value only; \<open>a || b\<close> also for the empty string.\<close>

definition nullish :: "'a option \<Rightarrow> 'a \<Rightarrow> 'a" where
  [js_simps]: "nullish a b = (case a of None \<Rightarrow> b | Some x \<Rightarrow> x)"

definition js_or :: "string option \<Rightarrow> string \<Rightarrow> string" where
  [js_simps]: "js_or a b = (if truthy a then the a else b)"

text \<open>\<open>cond ? x : undefined\<close> and \<open>x || undefined\<close> / \<open>x || null\<close> on strings.\<close>

definition truthy_or_none :: "string option \<Rightarrow> string option" where
  [js_simps]: "truthy_or_none a = (if truthy a then a else None)"

definition startsWith :: "string \<Rightarrow> string \<Rightarrow> bool" where
  [js_simps]: "startsWith s p = (take (length p) s = p)"

definition endsWith :: "string \<Rightarrow> string \<Rightarrow> bool" where
  [js_simps]: "endsWith s p = (length p \<le> length s \<and> drop (length s - length p) s = p)"

fun str_includes :: "string \<Rightarrow> string \<Rightarrow> bool" where
  "str_includes [] p = (p = [])"
| "str_includes (c # s) p = (take (length p) (c # s) = p \<or> str_includes s p)"

text \<open>\<open>s.slice(0, n)\<close>, \<open>s.slice(-n)\<close> and \<open>s.substring(n)\<close> for natural \<open>n\<close>.\<close>

definition slice_to :: "string \<Rightarrow> nat \<Rightarrow> string" where
  [js_simps]: "slice_to s n = take n s"

definition slice_last :: "string \<Rightarrow> nat \<Rightarrow> string" where
  [js_simps]: "slice_last s n = drop (length s - n) s"

text \<open>\<open>s.split(c)\<close> on a one-character separator: never empty.\<close>

fun split_on :: "'a \<Rightarrow> 'a list \<Rightarrow> 'a list list" where
  "split_on c [] = [[]]"
| "split_on c (x # xs) =
     (if x = c then [] # split_on c xs
      else (case split_on c xs of
              [] \<Rightarrow> [[x]]
            | w # ws \<Rightarrow> (x # w) # ws))"

fun join_with :: "'a list \<Rightarrow> 'a list list \<Rightarrow> 'a list" where
  "join_with sep [] = []"
| "join_with sep [w] = w"
| "join_with sep (w # v # ws) = w @ sep @ join_with sep (v # ws)"

lemma split_on_nonempty [simp]: "split_on c s \<noteq> []"
  by (induction s) (auto split: list.splits)

lemma join_with_Cons_char: "join_with sep ((x # w) # ws) = x # join_with sep (w # ws)"
  by (cases ws) auto

lemma join_split_on: "join_with [c] (split_on c s) = s"
proof (induction s)
  case (Cons x s)
  then show ?case
    by (cases "split_on c s") (auto simp: join_with_Cons_char)
qed simp

lemma split_on_none [simp]: "c \<notin> set s \<Longrightarrow> split_on c s = [s]"
  by (induction s) auto

lemma split_on_sep: "c \<notin> set a \<Longrightarrow> split_on c (a @ c # b) = a # split_on c b"
  by (induction a) auto

lemma split_on_parts: "w \<in> set (split_on c s) \<Longrightarrow> c \<notin> set w"
  by (induction s arbitrary: w) (auto split: if_splits list.splits)

lemma length_split_on: "length (split_on c s) = Suc (count_list s c)"
  by (induction s) (auto split: list.splits)

text \<open>Decimal printing of a natural number and of an integer (\<open>Number.toString\<close>).\<close>

definition digit_char :: "nat \<Rightarrow> char" where
  "digit_char d = (char_of (48 + d) :: char)"

fun show_nat :: "nat \<Rightarrow> string" where
  "show_nat n = (if n < 10 then [digit_char n] else show_nat (n div 10) @ [digit_char (n mod 10)])"

declare show_nat.simps [simp del]

definition show_int :: "int \<Rightarrow> string" where
  "show_int i = (if i < 0 then ''-'' @ show_nat (nat (- i)) else show_nat (nat i))"

fun parse_digits :: "nat \<Rightarrow> string \<Rightarrow> nat" where
  "parse_digits acc [] = acc"
| "parse_digits acc (c # cs) = parse_digits (10 * acc + (of_char c - 48)) cs"

lemma parse_digits_append: "parse_digits a (s @ t) = parse_digits (parse_digits a s) t"
  by (induction s arbitrary: a) auto

lemma of_digit_char: "d < 10 \<Longrightarrow> of_char (digit_char d) = 48 + d"
  by (simp add: digit_char_def)

lemma parse_show_nat: "parse_digits 0 (show_nat n) = n"
proof (induction n rule: show_nat.induct)
  case (1 n)
  show ?case
  proof (cases "n < 10")
    case True
    then show ?thesis by (simp add: show_nat.simps [of n] of_digit_char)
  next
    case False
    then show ?thesis
      using 1 by (simp add: show_nat.simps [of n] parse_digits_append of_digit_char)
  qed
qed

lemma show_nat_inject [simp]: "show_nat m = show_nat n \<longleftrightarrow> m = n"
  by (metis parse_show_nat)

lemma show_nat_digits: "set (show_nat n) \<subseteq> digit_char ` {..<10}"
  by (induction n rule: show_nat.induct) (subst show_nat.simps, auto)

text \<open>\<open>Math.ceil(a / b)\<close> and \<open>Math.round(a / b)\<close> on integers with a positive divisor.\<close>

definition ceil_div :: "int \<Rightarrow> int \<Rightarrow> int" where
  "ceil_div a b = - ((- a) div b)"

definition round_div :: "int \<Rightarrow> int \<Rightarrow> int" where
  "round_div a b = (2 * a + b) div (2 * b)"

lemma ceil_div_bounds:
  assumes "0 < b"
  shows "a \<le> ceil_div a b * b" and "(ceil_div a b - 1) * b < a"
proof -
  have eq: "b * ((- a) div b) + (- a) mod b = - a" by simp
  have m: "0 \<le> (- a) mod b" "(- a) mod b < b" using assms by simp_all
  have c: "ceil_div a b * b = - (b * ((- a) div b))" by (simp add: ceil_div_def)
  show "a \<le> ceil_div a b * b" using eq m c by linarith
  have "(ceil_div a b - 1) * b = ceil_div a b * b - b" by (simp add: left_diff_distrib)
  then show "(ceil_div a b - 1) * b < a" using eq m c by linarith
qed

lemma ceil_div_nonneg: "0 < b \<Longrightarrow> 0 \<le> a \<Longrightarrow> 0 \<le> ceil_div a b"
  by (simp add: ceil_div_def div_nonpos_pos_le0)

lemma le_div_iff_int:
  assumes "0 < (d::int)"
  shows "c \<le> a div d \<longleftrightarrow> c * d \<le> a"
proof -
  have "(a - c * d) div d = a div d - c"
    using assms div_mult_self1 [of d a "- c"] by simp
  then show ?thesis
    using pos_imp_zdiv_nonneg_iff [OF assms, of "a - c * d"] by simp
qed

lemma round_div_ge_iff:
  assumes "0 < b"
  shows "c \<le> round_div a b \<longleftrightarrow> (2 * c - 1) * b \<le> 2 * a"
proof -
  have "c \<le> (2 * a + b) div (2 * b) \<longleftrightarrow> c * (2 * b) \<le> 2 * a + b"
    using assms by (intro le_div_iff_int) simp
  then show ?thesis by (simp add: round_div_def algebra_simps)
qed

section \<open>Handlers that return or throw\<close>

text \<open>
  A handler runs on a state and either returns a value or throws; what it wrote before
  throwing stays written (the sources use no transaction around a handler). \<open>and_then\<close>
  is sequencing, \<open>catching\<close> is \<open>try { .. } catch\<close>.
\<close>

datatype exn =
    HttpExn int string   \<comment> \<open>HTTP status and the \<open>error\<close> code of the body\<close>
  | PrismaExn string     \<comment> \<open>Prisma's error code, e.g. P2002 (unique) or P2025 (not found)\<close>
  | JsError string       \<comment> \<open>\<open>new Error(message)\<close>\<close>

type_synonym ('a, 'w) handled = "(exn + 'a) \<times> 'w"

definition ok :: "'a \<Rightarrow> 'w \<Rightarrow> ('a, 'w) handled" where
  [flow_simps]: "ok a w = (Inr a, w)"

definition throw :: "exn \<Rightarrow> 'w \<Rightarrow> ('a, 'w) handled" where
  [flow_simps]: "throw e w = (Inl e, w)"

definition and_then ::
  "('a, 'w) handled \<Rightarrow> ('a \<Rightarrow> 'w \<Rightarrow> ('b, 'w) handled) \<Rightarrow> ('b, 'w) handled" where
  "and_then r k = (case r of (Inl e, w) \<Rightarrow> (Inl e, w) | (Inr a, w) \<Rightarrow> k a w)"

definition catching ::
  "('a, 'w) handled \<Rightarrow> (exn \<Rightarrow> 'w \<Rightarrow> ('a, 'w) handled) \<Rightarrow> ('a, 'w) handled" where
  "catching r h = (case r of (Inl e, w) \<Rightarrow> h e w | (Inr a, w) \<Rightarrow> (Inr a, w))"

text \<open>\<open>p.catch(() => {})\<close>: the rejection is swallowed, the state is what it is.\<close>

definition swallow :: "('a, 'w) handled \<Rightarrow> (unit, 'w) handled" where
  [flow_simps]: "swallow r = (Inr (), snd r)"

lemma and_then_simps [simp, flow_simps]:
  "and_then (Inl e, w) k = (Inl e, w)"
  "and_then (Inr a, w) k = k a w"
  by (simp_all add: and_then_def)

lemma catching_simps [simp, flow_simps]:
  "catching (Inl e, w) h = h e w"
  "catching (Inr a, w) h = (Inr a, w)"
  by (simp_all add: catching_def)

lemma pair_of_fst: "fst x = a \<Longrightarrow> x = (a, snd x)"
  by (cases x) simp

lemma and_then_split:
  "P (and_then r k) \<longleftrightarrow>
     (\<forall>e w. r = (Inl e, w) \<longrightarrow> P (Inl e, w)) \<and> (\<forall>a w. r = (Inr a, w) \<longrightarrow> P (k a w))"
  by (cases r; cases "fst r") (auto simp: and_then_def)

lemma catching_split:
  "P (catching r h) \<longleftrightarrow>
     (\<forall>e w. r = (Inl e, w) \<longrightarrow> P (h e w)) \<and> (\<forall>a w. r = (Inr a, w) \<longrightarrow> P (Inr a, w))"
  by (cases r; cases "fst r") (auto simp: catching_def)

lemma and_then_ok_state: "snd (and_then r (\<lambda>a w. (Inr (f a w), w))) = snd r"
  by (cases r; cases "fst r") (auto simp: and_then_def)

text \<open>A property of the state kept by every step is kept by the sequence.\<close>

lemma and_then_keeps:
  assumes "I (snd r)" and "\<And>a w. I w \<Longrightarrow> I (snd (k a w))"
  shows "I (snd (and_then r k))"
  using assms by (cases r; cases "fst r") (auto simp: and_then_def)

section \<open>Tables\<close>

text \<open>
  A table is the list of its rows. \<open>findFirst\<close> is \<^const>\<open>List.find\<close>, \<open>findMany\<close> is
  \<^const>\<open>filter\<close>, \<open>count\<close> is the length of the filtered list, \<open>updateMany\<close> and
  \<open>deleteMany\<close> are the two functions below; \<open>update\<close> on a missing row fails.
\<close>

definition updateMany :: "('r \<Rightarrow> bool) \<Rightarrow> ('r \<Rightarrow> 'r) \<Rightarrow> 'r list \<Rightarrow> 'r list" where
  "updateMany p f rows = map (\<lambda>r. if p r then f r else r) rows"

definition deleteMany :: "('r \<Rightarrow> bool) \<Rightarrow> 'r list \<Rightarrow> 'r list" where
  "deleteMany p rows = filter (\<lambda>r. \<not> p r) rows"

definition count_rows :: "('r \<Rightarrow> bool) \<Rightarrow> 'r list \<Rightarrow> nat" where
  "count_rows p rows = length (filter p rows)"

definition exists_row :: "('r \<Rightarrow> bool) \<Rightarrow> 'r list \<Rightarrow> bool" where
  "exists_row p rows = (List.find p rows \<noteq> None)"

lemma exists_row_iff [row_simps]: "exists_row p rows \<longleftrightarrow> (\<exists>r \<in> set rows. p r)"
  by (auto simp: exists_row_def find_None_iff)

lemma find_Some_row: "List.find p rows = Some r \<Longrightarrow> p r \<and> r \<in> set rows"
  by (auto simp: find_Some_iff)

lemma find_None_row [row_simps]: "List.find p rows = None \<longleftrightarrow> (\<forall>r \<in> set rows. \<not> p r)"
  by (auto simp: find_None_iff)

lemma set_updateMany: "set (updateMany p f rows) = (\<lambda>r. if p r then f r else r) ` set rows"
  by (simp add: updateMany_def)

lemma length_updateMany [simp]: "length (updateMany p f rows) = length rows"
  by (simp add: updateMany_def)

lemma updateMany_Nil [simp]: "updateMany p f [] = []"
  and updateMany_Cons [simp]:
    "updateMany p f (r # rows) = (if p r then f r else r) # updateMany p f rows"
  by (simp_all add: updateMany_def)

lemma updateMany_append [simp]:
  "updateMany p f (xs @ ys) = updateMany p f xs @ updateMany p f ys"
  by (simp add: updateMany_def)

lemma updateMany_none [row_simps]: "\<forall>r \<in> set rows. \<not> p r \<Longrightarrow> updateMany p f rows = rows"
  by (induction rows) auto

lemma map_updateMany:
  assumes "\<And>r. g (f r) = g r"
  shows "map g (updateMany p f rows) = map g rows"
  using assms by (induction rows) auto

lemma find_updateMany_same:
  assumes "\<And>r. p (f r) = p r"
  shows "List.find p (updateMany p f rows) = map_option f (List.find p rows)"
  using assms by (induction rows) auto

lemma find_updateMany_other:
  assumes "\<And>r. q (f r) = q r"
  shows "List.find q (updateMany p f rows) =
    map_option (\<lambda>r. if p r then f r else r) (List.find q rows)"
  using assms by (induction rows) auto

lemma find_key_update:
  assumes "\<And>r. g (f r) = g r"
  shows "List.find (\<lambda>m. g m = k) (updateMany (\<lambda>m. g m = i) f rows) =
    (if k = i then map_option f (List.find (\<lambda>m. g m = k) rows) else List.find (\<lambda>m. g m = k) rows)"
  using assms by (induction rows) auto

lemma find_deleteMany [row_simps]: "List.find p (deleteMany p rows) = None"
  by (auto simp: deleteMany_def find_None_iff)

lemma in_deleteMany [simp]: "r \<in> set (deleteMany p rows) \<longleftrightarrow> r \<in> set rows \<and> \<not> p r"
  by (auto simp: deleteMany_def)

lemma find_append [row_simps]:
  "List.find p (xs @ ys) = (case List.find p xs of None \<Rightarrow> List.find p ys | Some r \<Rightarrow> Some r)"
  by (induction xs) auto

lemma count_rows_append [simp]: "count_rows p (xs @ ys) = count_rows p xs + count_rows p ys"
  by (simp add: count_rows_def)

lemma count_rows_Nil [simp]: "count_rows p [] = 0"
  and count_rows_Cons [simp]:
    "count_rows p (r # rows) = (if p r then Suc (count_rows p rows) else count_rows p rows)"
  by (simp_all add: count_rows_def)

lemma count_rows_0 [row_simps]: "count_rows p rows = 0 \<longleftrightarrow> (\<forall>r \<in> set rows. \<not> p r)"
  by (auto simp: count_rows_def filter_empty_conv)

lemma count_updateMany_inv:
  assumes "\<And>r. q (f r) = q r"
  shows "count_rows q (updateMany p f rows) = count_rows q rows"
  using assms by (induction rows) auto

lemma distinct_key_unique:
  "distinct (map g rows) \<Longrightarrow> r \<in> set rows \<Longrightarrow> r' \<in> set rows \<Longrightarrow> g r = g r' \<Longrightarrow> r = r'"
  by (simp add: distinct_map inj_on_def)

lemma find_by_key:
  "distinct (map g rows) \<Longrightarrow> r \<in> set rows \<Longrightarrow> List.find (\<lambda>x. g x = g r) rows = Some r"
  by (induction rows) (auto simp: image_iff)

end
