(* ===== verification/Gateway_Types.thy ===== *)
theory Gateway_Types
  imports Gateway_Prelude "HOL-Library.Word"
begin

text \<open>
  The data types that cross component boundaries: the authenticated protocol a guard
  attaches to a request, the on-chain identity, the queue payload of a notification, the
  decrypted channels and the outcome of a dispatch
  (\<open>src/src/common/types/*.types.ts\<close>). A TypeScript union of string literals is a
  datatype; a plain \<open>string\<close> field stays a string. Times are milliseconds since the epoch.
\<close>

type_synonym bytes = "8 word list"
type_synonym millis = int

section \<open>Channels, priorities\<close>

datatype channel = Email | Telegram | Sms

datatype priority = Normal | Important | Critical

fun channel_name :: "channel \<Rightarrow> string" where
  "channel_name Email = ''email''"
| "channel_name Telegram = ''telegram''"
| "channel_name Sms = ''sms''"

instantiation channel :: linorder
begin

definition channel_rank :: "channel \<Rightarrow> nat" where
  "channel_rank c = (case c of Email \<Rightarrow> 0 | Telegram \<Rightarrow> 1 | Sms \<Rightarrow> 2)"

definition less_eq_channel :: "channel \<Rightarrow> channel \<Rightarrow> bool" where
  "less_eq_channel a b = (channel_rank a \<le> channel_rank b)"

definition less_channel :: "channel \<Rightarrow> channel \<Rightarrow> bool" where
  "less_channel a b = (channel_rank a < channel_rank b)"

instance
  by intro_classes
    (auto simp: less_eq_channel_def less_channel_def channel_rank_def split: channel.splits)

end

section \<open>The authenticated protocol\<close>

record auth_protocol =
  ap_protocolId :: string
  ap_protocolPubkey :: string
  ap_apiKeyId :: string
  ap_tier :: int
  ap_scopes :: "string list"
  ap_environment :: string
  ap_isActive :: bool
  ap_sendsThisPeriod :: "int option"
  ap_name :: "string option"
  ap_overageEnabled :: "bool option"
  ap_isTestKey :: "bool option"
  ap_testKeyType :: "string option"
  ap_verificationStatus :: "string option"

section \<open>The on-chain identity\<close>

text \<open>
  The X25519 key is a \<open>Uint8Array\<close> as it comes from the chain; a trip through \<open>JSON.stringify\<close> and
  \<open>JSON.parse\<close> leaves a plain object with the bytes under numeric keys, which has no \<open>length\<close>.
\<close>

datatype key_value = U8 bytes | PlainObject bytes

record identity =
  id_owner :: string
  id_encryptedEmail :: bytes
  id_emailHash :: bytes
  id_nonce :: bytes
  id_registeredAt :: int
  id_optInAll :: bool
  id_optInDefi :: bool
  id_optInGovernance :: bool
  id_optInMarketing :: bool
  id_digestMode :: bool
  id_channelEmail :: bool
  id_channelTelegram :: bool
  id_channelSms :: bool
  id_encryptedTelegramId :: bytes
  id_telegramIdHash :: bytes
  id_nonceTelegram :: bytes
  id_encryptedPhone :: bytes
  id_phoneHash :: bytes
  id_nonceSms :: bytes
  id_senderX25519Pubkey :: "key_value option"

text \<open>An identity as \<open>serializeForCache\<close> writes it: the byte arrays it names as base64 text.\<close>

record cached_identity =
  ci_owner :: string
  ci_encryptedEmail :: string
  ci_emailHash :: string
  ci_nonce :: string
  ci_registeredAt :: int
  ci_optInAll :: bool
  ci_optInDefi :: bool
  ci_optInGovernance :: bool
  ci_optInMarketing :: bool
  ci_digestMode :: bool
  ci_channelEmail :: bool
  ci_channelTelegram :: bool
  ci_channelSms :: bool
  ci_encryptedTelegramId :: string
  ci_telegramIdHash :: string
  ci_nonceTelegram :: string
  ci_encryptedPhone :: string
  ci_phoneHash :: string
  ci_nonceSms :: string
  ci_senderX25519Pubkey :: "key_value option"

section \<open>Decrypted channels and the notification job\<close>

text \<open>An absent identifier and an empty one are both falsy; the job's test contact has the same shape.\<close>

record channels =
  ch_email :: "string option"
  ch_telegramChatId :: "string option"
  ch_phone :: "string option"

definition no_channels :: channels where
  "no_channels = \<lparr>ch_email = None, ch_telegramChatId = None, ch_phone = None\<rparr>"

definition hasAnyChannel :: "channels \<Rightarrow> bool" where
  "hasAnyChannel c = (truthy (ch_email c) \<or> truthy (ch_telegramChatId c) \<or> truthy (ch_phone c))"

record job_data =
  jd_notificationId :: string
  jd_protocolId :: string
  jd_protocolPubkey :: string
  jd_protocolName :: string
  jd_wallet :: string
  jd_walletHash :: "string option"
  jd_subject :: string
  jd_body :: string
  jd_category :: string
  jd_writeReceipt :: bool
  jd_digestMode :: bool
  jd_priority :: "priority option"
  jd_channels :: "channel list option"
  jd_excludedChannels :: "channel list option"
  jd_preferredChannel :: "channel option"
  jd_isSandbox :: "bool option"
  jd_testContact :: "channels option"
  jd_tier :: "int option"
  jd_templateId :: "string option"
  jd_telegramTemplateId :: "string option"
  jd_templateVariables :: "(string \<times> string) list option"

section \<open>Outcomes of a dispatch\<close>

text \<open>\<open>oc_channel = None\<close> is the source's \<open>'unknown'\<close>.\<close>

record outcome =
  oc_channel :: "channel option"
  oc_success :: bool
  oc_messageId :: "string option"
  oc_provider :: "string option"
  oc_error :: "string option"

record dispatch_result =
  dr_outcomes :: "outcome list"
  dr_totalChannels :: nat
  dr_successCount :: nat
  dr_allDelivered :: bool

text \<open>A JSON value, as request and response bodies hold it.\<close>

datatype json =
    JNull | JBool bool | JNumber int | JString string | JArray "json list" | JObject "(string \<times> json) list"

end
