(* ===== verification/Redis_Service.thy ===== *)
theory Redis_Service
  imports Gateway_Types
begin

text \<open>
  The Redis client as the gateway uses it (\<open>src/src/modules/redis/redis.module.ts\<close> only
  constructs it). Redis is not code of the repository: its commands are the fields of a
  record \<open>redis_api\<close> that every definition takes as an argument, and the locale
  \<open>redis_service\<close> states the documented behaviour the gateway relies on. Values that the
  code writes as JSON text are represented by the object they encode.
\<close>

section \<open>Values and commands\<close>

datatype redis_value =
    RText string
  | RNum int
  | RNotificationId string          \<comment> \<open>\<open>JSON.stringify({ notificationId })\<close>\<close>
  | RAuth auth_protocol             \<comment> \<open>a cached \<open>AuthenticatedProtocol\<close>\<close>
  | RIdentity cached_identity          \<comment> \<open>a cached identity account\<close>
  | RHash "(string \<times> string) list"  \<comment> \<open>a hash written with \<open>HSET\<close>\<close>
  | RSub string "millis option" int   \<comment> \<open>a cached subscription: status, \<open>currentPeriodEnd\<close>, \<open>sendsThisPeriod\<close>\<close>
  | RNonce "string option" "string option" "string option" "string option"   \<comment> \<open>a group nonce: bot type, protocol, status, chat\<close>

text \<open>
  The state of the server has the abstract type \<open>'r\<close>. Each command takes the state and the
  time of the call; expiry times are in milliseconds.
\<close>

record 'r redis_api =
  r_get :: "'r \<Rightarrow> millis \<Rightarrow> string \<Rightarrow> redis_value option"
  r_setex :: "'r \<Rightarrow> millis \<Rightarrow> string \<Rightarrow> redis_value \<Rightarrow> int \<Rightarrow> 'r"
  r_setnx :: "'r \<Rightarrow> millis \<Rightarrow> string \<Rightarrow> redis_value \<Rightarrow> int \<Rightarrow> bool \<times> 'r"
  r_del :: "'r \<Rightarrow> string \<Rightarrow> 'r"
  r_incr :: "'r \<Rightarrow> millis \<Rightarrow> string \<Rightarrow> int \<times> 'r"
  r_pexpire :: "'r \<Rightarrow> millis \<Rightarrow> string \<Rightarrow> int \<Rightarrow> 'r"
  r_pttl :: "'r \<Rightarrow> millis \<Rightarrow> string \<Rightarrow> int"
  r_hset :: "'r \<Rightarrow> string \<Rightarrow> string \<Rightarrow> string \<Rightarrow> 'r"

text \<open>\<open>parseInt(await redis.get(key), 10)\<close> with \<open>0\<close> for a missing key.\<close>

definition redis_count :: "'r redis_api \<Rightarrow> 'r \<Rightarrow> millis \<Rightarrow> string \<Rightarrow> int" where
  "redis_count R s t k = (case r_get R s t k of Some (RNum n) \<Rightarrow> n | _ \<Rightarrow> 0)"

definition is_counter :: "'r redis_api \<Rightarrow> 'r \<Rightarrow> millis \<Rightarrow> string \<Rightarrow> bool" where
  "is_counter R s t k = (case r_get R s t k of None \<Rightarrow> True | Some (RNum n) \<Rightarrow> 0 \<le> n | Some _ \<Rightarrow> False)"

section \<open>What the gateway relies on\<close>

locale redis_service =
  fixes R :: "'r redis_api"
  assumes get_setex: "t \<le> t' \<Longrightarrow> r_get R (r_setex R s t k v ttl) t' k' =
      (if k' = k then (if t' < t + ttl then Some v else None) else r_get R s t' k')"
    and setnx: "r_setnx R s t k v ttl =
      (if r_get R s t k = None then (True, r_setex R s t k v ttl) else (False, s))"
    and get_del: "r_get R (r_del R s k) t k' = (if k' = k then None else r_get R s t k')"
    and incr_result: "is_counter R s t k \<Longrightarrow> fst (r_incr R s t k) = redis_count R s t k + 1"
    and get_incr_new: "t \<le> t' \<Longrightarrow> r_get R s t k = None \<Longrightarrow>
      r_get R (snd (r_incr R s t k)) t' k = Some (RNum 1)"
    and get_incr_old: "t \<le> t' \<Longrightarrow> r_get R s t k = Some (RNum n) \<Longrightarrow>
      r_get R (snd (r_incr R s t k)) t' k = map_option (\<lambda>_. RNum (n + 1)) (r_get R s t' k)"
    and get_incr_other: "k' \<noteq> k \<Longrightarrow> r_get R (snd (r_incr R s t k)) t' k' = r_get R s t' k'"
    and get_pexpire: "t \<le> t' \<Longrightarrow> r_get R (r_pexpire R s t k ms) t' k' =
      (if k' = k then (if t' < t + ms then r_get R s t k else None) else r_get R s t' k')"
    and get_hset: "k' \<noteq> k \<Longrightarrow> r_get R (r_hset R s k fld fv) t k' = r_get R s t k'"
begin

text \<open>\<open>SET key value EX ttl NX\<close> is a lock: the first caller gets it, a second one is refused until expiry.\<close>

lemma setnx_first: "r_get R s t k = None \<Longrightarrow> fst (r_setnx R s t k v ttl)"
  by (simp add: setnx)

lemma setnx_then_held:
  assumes "t \<le> t'" "t' < t + ttl" "r_get R s t k = None"
  shows "r_get R (snd (r_setnx R s t k v ttl)) t' k = Some v"
  using assms by (simp add: setnx get_setex)

lemma setnx_refused:
  "r_get R s t k \<noteq> None \<Longrightarrow> r_setnx R s t k v ttl = (False, s)"
  by (simp add: setnx)

lemma setnx_other:
  "t \<le> t' \<Longrightarrow> k' \<noteq> k \<Longrightarrow> r_get R (snd (r_setnx R s t k v ttl)) t' k' = r_get R s t' k'"
  by (simp add: setnx get_setex)

text \<open>Counting: \<open>INCR\<close> adds one to what the key holds at that time.\<close>

lemma count_incr_same:
  assumes "is_counter R s t k"
  shows "redis_count R (snd (r_incr R s t k)) t k = redis_count R s t k + 1"
proof (cases "r_get R s t k")
  case None
  then show ?thesis by (simp add: redis_count_def get_incr_new)
next
  case (Some v)
  with assms obtain n where v: "v = RNum n" by (auto simp: is_counter_def split: redis_value.splits)
  with Some get_incr_old [of t t s k n] show ?thesis by (simp add: redis_count_def)
qed

lemma counter_incr_same: "is_counter R s t k \<Longrightarrow> is_counter R (snd (r_incr R s t k)) t k"
proof (cases "r_get R s t k")
  case None
  then show ?thesis by (simp add: is_counter_def get_incr_new)
next
  case (Some v)
  assume "is_counter R s t k"
  with Some obtain n where "v = RNum n" "0 \<le> n" by (auto simp: is_counter_def split: redis_value.splits)
  with Some get_incr_old [of t t s k n] show ?thesis by (simp add: is_counter_def)
qed

lemma count_incr_other:
  "k' \<noteq> k \<Longrightarrow> redis_count R (snd (r_incr R s t k)) t' k' = redis_count R s t' k'"
  by (simp add: redis_count_def get_incr_other)

lemma count_pexpire:
  assumes "t \<le> t'" "t' < t + ms"
  shows "redis_count R (r_pexpire R s t k ms) t' k = redis_count R s t k"
  using assms by (simp add: redis_count_def get_pexpire)

lemma counter_pexpire:
  "t \<le> t' \<Longrightarrow> is_counter R s t k \<Longrightarrow> is_counter R (r_pexpire R s t k ms) t' k"
  by (simp add: is_counter_def get_pexpire)

end

section \<open>An implementation of the interface\<close>

text \<open>
  A keyspace with expiry times, as the Redis documentation describes it. It shows that the
  hypotheses of \<open>redis_service\<close> hold together, and the witnesses run the code on it.
\<close>

type_synonym keyspace = "string \<Rightarrow> (redis_value \<times> millis option) option"

definition mem_get :: "keyspace \<Rightarrow> millis \<Rightarrow> string \<Rightarrow> redis_value option" where
  "mem_get s t k = (case s k of None \<Rightarrow> None
     | Some (v, None) \<Rightarrow> Some v
     | Some (v, Some e) \<Rightarrow> (if t < e then Some v else None))"

definition mem_setex :: "keyspace \<Rightarrow> millis \<Rightarrow> string \<Rightarrow> redis_value \<Rightarrow> int \<Rightarrow> keyspace" where
  "mem_setex s t k v ttl = s(k \<mapsto> (v, Some (t + ttl)))"

definition mem_setnx :: "keyspace \<Rightarrow> millis \<Rightarrow> string \<Rightarrow> redis_value \<Rightarrow> int \<Rightarrow> bool \<times> keyspace" where
  "mem_setnx s t k v ttl =
     (if mem_get s t k = None then (True, mem_setex s t k v ttl) else (False, s))"

definition mem_incr :: "keyspace \<Rightarrow> millis \<Rightarrow> string \<Rightarrow> int \<times> keyspace" where
  "mem_incr s t k = (case mem_get s t k of
       None \<Rightarrow> (1, s(k \<mapsto> (RNum 1, None)))
     | Some (RNum n) \<Rightarrow> (n + 1, s(k \<mapsto> (RNum (n + 1), (case s k of None \<Rightarrow> None | Some (v, e) \<Rightarrow> e))))
     | Some _ \<Rightarrow> (0, s))"

definition mem_pexpire :: "keyspace \<Rightarrow> millis \<Rightarrow> string \<Rightarrow> int \<Rightarrow> keyspace" where
  "mem_pexpire s t k ms = (case mem_get s t k of
       None \<Rightarrow> s(k := None) | Some v \<Rightarrow> s(k \<mapsto> (v, Some (t + ms))))"

definition mem_pttl :: "keyspace \<Rightarrow> millis \<Rightarrow> string \<Rightarrow> int" where
  "mem_pttl s t k = (case mem_get s t k of None \<Rightarrow> -2
     | Some v \<Rightarrow> (case s k of Some (_, Some e) \<Rightarrow> e - t | _ \<Rightarrow> -1))"

definition mem_hset :: "keyspace \<Rightarrow> string \<Rightarrow> string \<Rightarrow> string \<Rightarrow> keyspace" where
  "mem_hset s k fld v = s(k \<mapsto> (RHash ((fld, v) #
     (case s k of Some (RHash h, _) \<Rightarrow> filter (\<lambda>p. fst p \<noteq> fld) h | _ \<Rightarrow> [])), None))"

definition mem_redis :: "keyspace redis_api" where
  "mem_redis = \<lparr>r_get = mem_get, r_setex = mem_setex, r_setnx = mem_setnx,
     r_del = (\<lambda>s k. s(k := None)), r_incr = mem_incr, r_pexpire = mem_pexpire, r_pttl = mem_pttl,
     r_hset = mem_hset\<rparr>"

lemmas mem_defs = mem_redis_def mem_get_def mem_setex_def mem_setnx_def mem_incr_def
  mem_pexpire_def mem_pttl_def mem_hset_def redis_count_def is_counter_def

lemma mem_incr_result:
  "is_counter mem_redis s t k \<Longrightarrow> fst (mem_incr s t k) = redis_count mem_redis s t k + 1"
  by (auto simp: mem_defs split: option.splits if_splits redis_value.splits)

lemma mem_get_pexpire:
  "t \<le> t' \<Longrightarrow> mem_get (mem_pexpire s t k ms) t' k' =
      (if k' = k then (if t' < t + ms then mem_get s t k else None) else mem_get s t' k')"
  by (auto simp: mem_get_def mem_pexpire_def split: option.splits if_splits)

lemma mem_get_incr_old:
  "t \<le> t' \<Longrightarrow> mem_get s t k = Some (RNum n) \<Longrightarrow>
     mem_get (snd (mem_incr s t k)) t' k = map_option (\<lambda>_. RNum (n + 1)) (mem_get s t' k)"
  by (auto simp: mem_get_def mem_incr_def split: option.splits if_splits)

lemma mem_get_incr_new:
  "mem_get s t k = None \<Longrightarrow> mem_get (snd (mem_incr s t k)) t' k = Some (RNum 1)"
  by (simp add: mem_incr_def) (simp add: mem_get_def)

lemma mem_get_incr_other:
  "k' \<noteq> k \<Longrightarrow> mem_get (snd (mem_incr s t k)) t' k' = mem_get s t' k'"
  by (simp add: mem_incr_def split: option.splits redis_value.splits) (simp add: mem_get_def)

interpretation mem: redis_service mem_redis
proof (unfold_locales, goal_cases)
  case (1 t t' s k v ttl k')
  then show ?case by (simp add: mem_redis_def mem_setex_def mem_get_def)
next
  case (2 s t k v ttl)
  show ?case by (simp add: mem_redis_def mem_setnx_def)
next
  case (3 s k t k')
  show ?case by (simp add: mem_redis_def mem_get_def)
next
  case (4 s t k)
  then show ?case using mem_incr_result by (simp add: mem_redis_def)
next
  case (5 t t' s k)
  then show ?case by (simp add: mem_redis_def mem_get_incr_new)
next
  case (6 t t' s k n)
  then show ?case by (simp add: mem_redis_def mem_get_incr_old)
next
  case (7 k' k s t t')
  then show ?case by (simp add: mem_redis_def mem_get_incr_other)
next
  case (8 t t' s k ms k')
  then show ?case by (simp add: mem_redis_def mem_get_pexpire)
next
  case (9 k' k s fld v t)
  then show ?case by (simp add: mem_redis_def mem_hset_def mem_get_def)
qed

end
