(* ===== verification/Rate_Limit.thy ===== *)
theory Rate_Limit
  imports Redis_Service
begin

text \<open>
  Tiered rate limiting: the tier table (\<open>auth/rate-limit.constants.ts\<close>), the three-layer
  check of \<open>RateLimitService\<close> (\<open>auth/rate-limit.service.ts\<close>) and the interceptor that
  applies it (\<open>common/interceptors/rate-limit.interceptor.ts\<close>). Response headers are a
  map from name to value; the human-readable \<open>message\<close> texts are left out.
\<close>

section \<open>Tiers\<close>

record tier_limits =
  tl_name :: string
  tl_sendsPerMonth :: int
  tl_reqPerSecond :: int
  tl_burstLimit :: int
  tl_maxBatchSize :: int
  tl_maxBodyBytes :: int
  tl_maxSubjectChars :: int
  tl_webhooks :: int
  tl_apiKeys :: int
  tl_teamMembers :: int
  tl_customTemplates :: int
  tl_customDkim :: bool
  tl_analyticsRetentionDays :: int
  tl_sandboxDailyLimit :: int

definition tier_developer :: tier_limits where
  "tier_developer = \<lparr>tl_name = ''Developer'', tl_sendsPerMonth = 1000, tl_reqPerSecond = 2,
     tl_burstLimit = 10, tl_maxBatchSize = 10, tl_maxBodyBytes = 10000, tl_maxSubjectChars = 150,
     tl_webhooks = 1, tl_apiKeys = 2, tl_teamMembers = 1, tl_customTemplates = 0,
     tl_customDkim = False, tl_analyticsRetentionDays = 7, tl_sandboxDailyLimit = 10\<rparr>"

definition tier_growth :: tier_limits where
  "tier_growth = \<lparr>tl_name = ''Growth'', tl_sendsPerMonth = 50000, tl_reqPerSecond = 20,
     tl_burstLimit = 100, tl_maxBatchSize = 100, tl_maxBodyBytes = 50000, tl_maxSubjectChars = 200,
     tl_webhooks = 5, tl_apiKeys = 5, tl_teamMembers = 3, tl_customTemplates = 3,
     tl_customDkim = False, tl_analyticsRetentionDays = 30, tl_sandboxDailyLimit = 30\<rparr>"

definition tier_scale :: tier_limits where
  "tier_scale = \<lparr>tl_name = ''Scale'', tl_sendsPerMonth = 250000, tl_reqPerSecond = 100,
     tl_burstLimit = 500, tl_maxBatchSize = 100, tl_maxBodyBytes = 100000, tl_maxSubjectChars = 250,
     tl_webhooks = 20, tl_apiKeys = 20, tl_teamMembers = 10, tl_customTemplates = 20,
     tl_customDkim = True, tl_analyticsRetentionDays = 90, tl_sandboxDailyLimit = 60\<rparr>"

definition tier_enterprise :: tier_limits where
  "tier_enterprise = \<lparr>tl_name = ''Enterprise'', tl_sendsPerMonth = 1000000, tl_reqPerSecond = 500,
     tl_burstLimit = 2000, tl_maxBatchSize = 1000, tl_maxBodyBytes = 256000, tl_maxSubjectChars = 500,
     tl_webhooks = 100, tl_apiKeys = 100, tl_teamMembers = 999, tl_customTemplates = 999,
     tl_customDkim = True, tl_analyticsRetentionDays = 365, tl_sandboxDailyLimit = 90\<rparr>"

definition TIER_LIMITS :: "int \<Rightarrow> tier_limits option" where
  "TIER_LIMITS t = (if t = 0 then Some tier_developer else if t = 1 then Some tier_growth
     else if t = 2 then Some tier_scale else if t = 3 then Some tier_enterprise else None)"

definition OVERAGE_PRICE_PER_NOTIFICATION :: "int \<Rightarrow> int option" where
  "OVERAGE_PRICE_PER_NOTIFICATION t = (if t = 0 then Some 500 else if t = 1 then Some 400
     else if t = 2 then Some 300 else if t = 3 then Some 200 else None)"

definition getTierLimits :: "int \<Rightarrow> tier_limits" where
  "getTierLimits t = nullish (TIER_LIMITS t) tier_developer"

lemmas tier_defs = tier_developer_def tier_growth_def tier_scale_def tier_enterprise_def

lemma getTierLimits_cases:
  "getTierLimits t \<in> {tier_developer, tier_growth, tier_scale, tier_enterprise}"
  by (simp add: getTierLimits_def TIER_LIMITS_def js_simps)

lemma tier_limits_positive:
  "0 < tl_sendsPerMonth (getTierLimits t) \<and> 0 < tl_burstLimit (getTierLimits t)
   \<and> 0 < tl_maxBatchSize (getTierLimits t)"
  using getTierLimits_cases [of t] by (auto simp: tier_defs)

section \<open>The three-layer check\<close>

type_synonym headers = "string \<rightharpoonup> string"

record limit_result =
  lr_allowed :: bool
  lr_error :: "string option"
  lr_httpStatus :: "int option"
  lr_isOverage :: bool
  lr_overageCount :: "int option"
  lr_overagePrice :: "int option"
  lr_headers :: headers
  lr_retryAfter :: "int option"

definition allow_with :: "headers \<Rightarrow> limit_result" where
  "allow_with h = \<lparr>lr_allowed = True, lr_error = None, lr_httpStatus = None, lr_isOverage = False,
     lr_overageCount = None, lr_overagePrice = None, lr_headers = h, lr_retryAfter = None\<rparr>"

definition deny_with :: "string \<Rightarrow> int \<Rightarrow> headers \<Rightarrow> limit_result" where
  "deny_with e st h = \<lparr>lr_allowed = False, lr_error = Some e, lr_httpStatus = Some st,
     lr_isOverage = False, lr_overageCount = None, lr_overagePrice = None, lr_headers = h,
     lr_retryAfter = None\<rparr>"

lemma limit_result_simps [simp]:
  "lr_allowed (allow_with h)" "lr_headers (allow_with h) = h" "lr_error (allow_with h) = None"
  "\<not> lr_isOverage (allow_with h)"
  "\<not> lr_allowed (deny_with e st h)" "lr_error (deny_with e st h) = Some e"
  "lr_httpStatus (deny_with e st h) = Some st" "lr_headers (deny_with e st h) = h"
  by (simp_all add: allow_with_def deny_with_def)

definition windowMs :: int where "windowMs = 1000"

definition rate_key :: "string \<Rightarrow> millis \<Rightarrow> string" where
  "rate_key protocolId now = ''rl:'' @ protocolId @ '':'' @ show_int (now div windowMs)"

text \<open>The Lua script: \<open>INCR\<close>, \<open>PEXPIRE\<close> for the first request of a window, \<open>PTTL\<close>.\<close>

definition RATE_LIMIT_LUA ::
  "'r redis_api \<Rightarrow> 'r \<Rightarrow> millis \<Rightarrow> string \<Rightarrow> int \<Rightarrow> (int \<times> int) \<times> 'r" where
  "RATE_LIMIT_LUA R s now key window_ms =
     (let (current, s1) = r_incr R s now key;
          s2 = (if current = 1 then r_pexpire R s1 now key window_ms else s1)
      in ((current, r_pttl R s2 now key), s2))"

text \<open>
  \<open>Date.now()\<close> is read twice: \<open>now\<close> for the key, \<open>now2\<close> for the reset header. \<open>up\<close> says
  whether Redis answers; when it does not, the request is refused.
\<close>

definition checkPerSecondLimit ::
  "'r redis_api \<Rightarrow> bool \<Rightarrow> 'r \<Rightarrow> millis \<Rightarrow> millis \<Rightarrow> string \<Rightarrow> int \<Rightarrow> bool \<Rightarrow> limit_result \<times> 'r" where
  "checkPerSecondLimit R up s now now2 protocolId burstLimit isSandbox =
     (if \<not> up then
        (deny_with ''RATE_LIMIT_UNAVAILABLE'' 503
           [''X-RateLimit-Limit'' \<mapsto> ''0'', ''X-RateLimit-Remaining'' \<mapsto> ''0'', ''X-RateLimit-Reset'' \<mapsto> ''0''], s)
      else
        let key = rate_key protocolId now;
            ((current, ttlMs), s') = RATE_LIMIT_LUA R s now key windowMs;
            resetAt = ceil_div (now2 + max ttlMs 0) 1000;
            h = [''X-RateLimit-Limit'' \<mapsto> show_int burstLimit,
                 ''X-RateLimit-Remaining'' \<mapsto> show_int (max 0 (burstLimit - current)),
                 ''X-RateLimit-Reset'' \<mapsto> show_int resetAt,
                 ''X-Herald-Environment'' \<mapsto> (if isSandbox then ''sandbox'' else ''production'')]
        in if current > burstLimit then
             ((deny_with ''RATE_LIMIT_EXCEEDED'' 429
                (h(''X-RateLimit-Remaining'' \<mapsto> ''0'', ''Retry-After'' \<mapsto> ''1'')))\<lparr>lr_retryAfter := Some 1\<rparr>, s')
           else (allow_with h, s'))"

text \<open>
  \<open>Math.round((used / limit) * 100)\<close> is computed here on integers; the only place where
  it is compared is the threshold 80, whose exact boundary (79.5) the doubles hit exactly
  for the four limits of the table.
\<close>

definition checkMonthlyQuota ::
  "auth_protocol \<Rightarrow> int \<Rightarrow> tier_limits \<Rightarrow> headers \<Rightarrow> limit_result" where
  "checkMonthlyQuota p count limits existingHeaders =
     (let used = nullish (ap_sendsThisPeriod p) 0;
          limit = tl_sendsPerMonth limits;
          remaining = max 0 (limit - used);
          usagePercent = round_div (100 * used) limit;
          q0 = existingHeaders(''X-Herald-Quota-Used'' \<mapsto> show_int used,
                 ''X-Herald-Quota-Limit'' \<mapsto> show_int limit,
                 ''X-Herald-Quota-Remaining'' \<mapsto> show_int remaining);
          quotaHeaders = (if usagePercent \<ge> 80
             then q0(''X-Herald-Quota-Warning'' \<mapsto> ''true'',
                     ''X-Herald-Upgrade-Url'' \<mapsto> ''https://app.useherald.xyz/billing/upgrade'')
             else q0)
      in if used + count > limit then
           (if ap_overageEnabled p = Some True then
              let overageCount = used + count - limit;
                  pricePerNotif = nullish (OVERAGE_PRICE_PER_NOTIFICATION (ap_tier p)) 500;
                  totalOveragePrice = count * pricePerNotif
              in (allow_with (quotaHeaders(''X-Herald-Overage'' \<mapsto> ''true'',
                    ''X-Herald-Overage-Price'' \<mapsto> show_int totalOveragePrice)))
                 \<lparr>lr_isOverage := True, lr_overageCount := Some overageCount,
                  lr_overagePrice := Some totalOveragePrice\<rparr>
            else deny_with ''QUOTA_EXCEEDED'' 429
                   (quotaHeaders(''X-Herald-Quota-Remaining'' \<mapsto> ''0'')))
         else allow_with quotaHeaders)"

definition checkAllLimits ::
  "'r redis_api \<Rightarrow> bool \<Rightarrow> 'r \<Rightarrow> millis \<Rightarrow> millis \<Rightarrow> auth_protocol \<Rightarrow> bool \<Rightarrow> int \<Rightarrow> limit_result \<times> 'r" where
  "checkAllLimits R up s now now2 p isBatch batchCount =
     (let limits = getTierLimits (ap_tier p);
          isSandbox = (ap_environment p = ''sandbox'');
          effectiveBurst = (if isSandbox then 10 else tl_burstLimit limits);
          (perSec, s') = checkPerSecondLimit R up s now now2 (ap_protocolId p) effectiveBurst isSandbox
      in if \<not> lr_allowed perSec then (perSec, s')
         else if isBatch \<and> batchCount > tl_maxBatchSize limits then
           (deny_with ''BATCH_SIZE_EXCEEDED'' 422 (lr_headers perSec), s')
         else if \<not> isSandbox then (checkMonthlyQuota p batchCount limits (lr_headers perSec), s')
         else (allow_with ((lr_headers perSec)(''X-Herald-Environment'' \<mapsto> ''sandbox'')), s'))"

definition checkMonthlyQuotaSimple :: "int \<Rightarrow> int \<Rightarrow> bool" where
  "checkMonthlyQuotaSimple tier sends = (sends < tl_sendsPerMonth (getTierLimits tier))"

section \<open>The interceptor\<close>

text \<open>
  The interceptor reads \<open>request.protocol\<close>. The guards store the authenticated protocol in
  \<open>request.authProtocol\<close>, and \<open>request.protocol\<close> is Express's own property, the scheme of
  the URL. \<open>request_protocol\<close> lists what the property can hold; \<open>seen_protocol\<close> gives the
  fields as the property accesses of the source see them. On a string every accessed field
  is \<open>undefined\<close>: the template literal prints \<open>undefined\<close>, the tier finds no row in the
  table, the environment is not \<open>sandbox\<close> and the counters are missing.
\<close>

datatype request_protocol = NoProtocol | UrlScheme string | AuthObject auth_protocol

record rl_request =
  rq_protocol :: request_protocol
  rq_authProtocol :: "auth_protocol option"
  rq_url :: string
  rq_notifications :: "nat option"

definition undefined_fields :: auth_protocol where
  "undefined_fields = \<lparr>ap_protocolId = ''undefined'', ap_protocolPubkey = ''undefined'',
     ap_apiKeyId = ''undefined'', ap_tier = -1, ap_scopes = [], ap_environment = ''undefined'',
     ap_isActive = False, ap_sendsThisPeriod = None, ap_name = None, ap_overageEnabled = None,
     ap_isTestKey = None, ap_testKeyType = None, ap_verificationStatus = None\<rparr>"

fun seen_protocol :: "request_protocol \<Rightarrow> auth_protocol option" where
  "seen_protocol NoProtocol = None"
| "seen_protocol (UrlScheme s) = (if s = [] then None else Some undefined_fields)"
| "seen_protocol (AuthObject p) = Some p"

text \<open>What the client gets: the handler runs, or an HTTP error with the limit headers set.\<close>

datatype intercepted = Proceed headers | Refuse int "string option" headers "int option"

definition intercept ::
  "'r redis_api \<Rightarrow> bool \<Rightarrow> 'r \<Rightarrow> millis \<Rightarrow> millis \<Rightarrow> rl_request \<Rightarrow> intercepted \<times> 'r" where
  "intercept R up s now now2 rq =
     (case seen_protocol (rq_protocol rq) of
        None \<Rightarrow> (Proceed Map.empty, s)
      | Some p \<Rightarrow>
          let isBatch = str_includes (rq_url rq) ''/batch'';
              batchCount = (if isBatch then int (nullish (rq_notifications rq) 1) else 1);
              (result, s') = checkAllLimits R up s now now2 p isBatch batchCount
          in if \<not> lr_allowed result then
               (Refuse (nullish (lr_httpStatus result) 429) (lr_error result) (lr_headers result)
                  (lr_retryAfter result), s')
             else (Proceed (lr_headers result), s'))"


section \<open>The fixed window\<close>

text \<open>The answers to a sequence of requests of one protocol, at the given times.\<close>

fun per_second_run ::
  "'r redis_api \<Rightarrow> 'r \<Rightarrow> string \<Rightarrow> int \<Rightarrow> bool \<Rightarrow> millis list \<Rightarrow> bool list" where
  "per_second_run R s pid b sb [] = []"
| "per_second_run R s pid b sb (t # ts) =
     (let (r, s') = checkPerSecondLimit R True s t t pid b sb
      in lr_allowed r # per_second_run R s' pid b sb ts)"

fun intercept_run :: "'r redis_api \<Rightarrow> 'r \<Rightarrow> (millis \<times> rl_request) list \<Rightarrow> bool list" where
  "intercept_run R s [] = []"
| "intercept_run R s ((t, rq) # rest) =
     (let (r, s') = intercept R True s t t rq
      in (case r of Proceed _ \<Rightarrow> True | Refuse _ _ _ _ \<Rightarrow> False) # intercept_run R s' rest)"

lemma perSecond_allowed:
  "lr_allowed (fst (checkPerSecondLimit R True s t t2 pid b sb)) \<longleftrightarrow>
     fst (fst (RATE_LIMIT_LUA R s t (rate_key pid t) windowMs)) \<le> b"
  by (auto simp: checkPerSecondLimit_def Let_def split: prod.splits)

lemma perSecond_state:
  "snd (checkPerSecondLimit R True s t t2 pid b sb) =
     snd (RATE_LIMIT_LUA R s t (rate_key pid t) windowMs)"
  by (auto simp: checkPerSecondLimit_def Let_def split: prod.splits)

lemma perSecond_down: "\<not> lr_allowed (fst (checkPerSecondLimit R False s t t2 pid b sb))"
  "snd (checkPerSecondLimit R False s t t2 pid b sb) = s"
  by (simp_all add: checkPerSecondLimit_def)

lemma same_window: "t div windowMs = t' div windowMs \<Longrightarrow> t \<le> t' \<Longrightarrow> t' < t + windowMs"
  by (simp add: windowMs_def)

lemma rate_key_window: "t div windowMs = w \<Longrightarrow> rate_key pid t = ''rl:'' @ pid @ '':'' @ show_int w"
  by (simp add: rate_key_def)

context redis_service begin

lemma lua_first:
  assumes "r_get R s t k = None" "t \<le> t'" "t' < t + ms"
  shows "fst (fst (RATE_LIMIT_LUA R s t k ms)) = 1"
    and "r_get R (snd (RATE_LIMIT_LUA R s t k ms)) t' k = Some (RNum 1)"
proof -
  have one: "fst (r_incr R s t k) = 1"
    using assms(1) incr_result [of s t k] by (simp add: is_counter_def redis_count_def)
  have new: "r_get R (snd (r_incr R s t k)) t k = Some (RNum 1)"
    using assms(1) by (simp add: get_incr_new)
  show "fst (fst (RATE_LIMIT_LUA R s t k ms)) = 1"
    using one by (simp add: RATE_LIMIT_LUA_def Let_def split_beta)
  show "r_get R (snd (RATE_LIMIT_LUA R s t k ms)) t' k = Some (RNum 1)"
    using one new assms(2,3) get_pexpire [OF assms(2), of "snd (r_incr R s t k)" k ms k]
    by (simp add: RATE_LIMIT_LUA_def Let_def split_beta)
qed

lemma lua_next:
  assumes "r_get R s t k = Some (RNum n)" "1 \<le> n" "t \<le> t'" "r_get R s t' k = Some (RNum n)"
  shows "fst (fst (RATE_LIMIT_LUA R s t k ms)) = n + 1"
    and "r_get R (snd (RATE_LIMIT_LUA R s t k ms)) t' k = Some (RNum (n + 1))"
proof -
  have nxt: "fst (r_incr R s t k) = n + 1"
    using assms(1,2) incr_result [of s t k] by (simp add: is_counter_def redis_count_def)
  show "fst (fst (RATE_LIMIT_LUA R s t k ms)) = n + 1"
    using nxt by (simp add: RATE_LIMIT_LUA_def Let_def split_beta)
  show "r_get R (snd (RATE_LIMIT_LUA R s t k ms)) t' k = Some (RNum (n + 1))"
    using nxt assms get_incr_old [OF assms(3,1)]
    by (simp add: RATE_LIMIT_LUA_def Let_def split_beta)
qed

text \<open>
  What one window needs of the store: within the window the key holds the number of
  requests seen so far (\<open>0\<close>: the key is absent).
\<close>

definition window_count :: "'r \<Rightarrow> millis \<Rightarrow> int \<Rightarrow> string \<Rightarrow> int \<Rightarrow> bool" where
  "window_count s t0 w k n = (\<forall>t. t0 \<le> t \<and> t div windowMs = w \<longrightarrow>
     r_get R s t k = (if n = 0 then None else Some (RNum n)))"

lemma window_step:
  assumes wc: "window_count s t0 w k n" and n: "0 \<le> n" and t: "t0 \<le> t" "t div windowMs = w"
  shows "fst (fst (RATE_LIMIT_LUA R s t k windowMs)) = n + 1"
    and "window_count (snd (RATE_LIMIT_LUA R s t k windowMs)) t w k (n + 1)"
proof -
  have now: "r_get R s t k = (if n = 0 then None else Some (RNum n))"
    using wc t by (simp add: window_count_def)
  have later: "t \<le> t' \<Longrightarrow> t' div windowMs = w \<Longrightarrow>
      r_get R s t' k = (if n = 0 then None else Some (RNum n))" for t'
    using wc t by (auto simp: window_count_def)
  show "fst (fst (RATE_LIMIT_LUA R s t k windowMs)) = n + 1"
  proof (cases "n = 0")
    case True
    then show ?thesis using now lua_first(1) [of s t k t windowMs] by (simp add: windowMs_def)
  next
    case False
    then show ?thesis using now n lua_next(1) [of s t k n t] by simp
  qed
  show "window_count (snd (RATE_LIMIT_LUA R s t k windowMs)) t w k (n + 1)"
  proof (unfold window_count_def, intro allI impI)
    fix t' assume t': "t \<le> t' \<and> t' div windowMs = w"
    then have "t' < t + windowMs" using t same_window by simp
    with t' now n later [of t'] show "r_get R (snd (RATE_LIMIT_LUA R s t k windowMs)) t' k =
        (if n + 1 = 0 then None else Some (RNum (n + 1)))"
      using lua_first(2) [of s t k t' windowMs] lua_next(2) [of s t k n t' windowMs]
      by (cases "n = 0") auto
  qed
qed

lemma window_run:
  assumes "window_count s t0 w k (int n)" and "sorted (t0 # ts)"
    and "\<forall>t \<in> set ts. t div windowMs = w \<and> rate_key pid t = k"
  shows "per_second_run R s pid b sb ts = map (\<lambda>i. int (n + Suc i) \<le> b) [0..<length ts]"
  using assms
proof (induction ts arbitrary: s t0 n)
  case (Cons t ts)
  have t: "t0 \<le> t" "t div windowMs = w" and key: "rate_key pid t = k"
    using Cons.prems by auto
  note step = window_step [OF Cons.prems(1) _ t]
  let ?s' = "snd (RATE_LIMIT_LUA R s t k windowMs)"
  have wc: "window_count ?s' t w k (int (Suc n))"
    using step(2) by (simp add: add.commute)
  have rest: "sorted (t # ts)" "\<forall>t \<in> set ts. t div windowMs = w \<and> rate_key pid t = k"
    using Cons.prems(2,3) by auto
  have IH: "per_second_run R ?s' pid b sb ts = map (\<lambda>i. int (Suc n + Suc i) \<le> b) [0..<length ts]"
    by (rule Cons.IH [OF wc rest])
  have hd: "per_second_run R s pid b sb (t # ts) = (int n + 1 \<le> b) # per_second_run R ?s' pid b sb ts"
    using step(1) perSecond_allowed [of R s t t pid b sb] perSecond_state [of R s t t pid b sb] key
    by (simp add: split_beta)
  have "map (\<lambda>i. int (n + Suc i) \<le> b) [0..<Suc (length ts)] =
      (int n + 1 \<le> b) # map (\<lambda>i. int (Suc n + Suc i) \<le> b) [0..<length ts]"
    by (simp add: upt_conv_Cons map_Suc_upt [symmetric] add.commute del: upt_Suc)
  then show ?case by (simp only: hd IH list.size(4) add_Suc_right add_0_right)
qed simp

lemma fresh_window_run:
  assumes "sorted ts" and "\<forall>t \<in> set ts. t div windowMs = w"
    and "\<forall>t. t div windowMs = w \<longrightarrow> r_get R s t (rate_key pid t) = None"
  shows "per_second_run R s pid b sb ts = map (\<lambda>i. int (Suc i) \<le> b) [0..<length ts]"
proof (cases ts)
  case (Cons t ts')
  have "window_count s t w (rate_key pid t) (int 0)"
    using assms(2,3) Cons by (auto simp: window_count_def rate_key_def)
  from window_run [OF this, of ts pid b sb] show ?thesis
    using assms(1,2) Cons by (auto simp: rate_key_def)
qed simp

end

section \<open>The decision\<close>

lemma quota_allowed:
  "lr_allowed (checkMonthlyQuota p count limits h) \<longleftrightarrow>
     nullish (ap_sendsThisPeriod p) 0 + count \<le> tl_sendsPerMonth limits \<or> ap_overageEnabled p = Some True"
  by (auto simp: checkMonthlyQuota_def Let_def allow_with_def)

lemma quota_overage:
  assumes "lr_isOverage (checkMonthlyQuota p count limits h)"
  shows "ap_overageEnabled p = Some True"
    and "lr_overageCount (checkMonthlyQuota p count limits h) =
      Some (nullish (ap_sendsThisPeriod p) 0 + count - tl_sendsPerMonth limits)"
    and "lr_overagePrice (checkMonthlyQuota p count limits h) =
      Some (count * nullish (OVERAGE_PRICE_PER_NOTIFICATION (ap_tier p)) 500)"
    and "tl_sendsPerMonth limits < nullish (ap_sendsThisPeriod p) 0 + count"
  using assms by (auto simp: checkMonthlyQuota_def Let_def deny_with_def allow_with_def split: if_splits)

lemma price_positive: "0 < nullish (OVERAGE_PRICE_PER_NOTIFICATION t) 500"
  by (simp add: OVERAGE_PRICE_PER_NOTIFICATION_def js_simps)

lemma checkAllLimits_allowed:
  "lr_allowed (fst (checkAllLimits R up s t t2 p isBatch n)) \<longleftrightarrow>
     (let limits = getTierLimits (ap_tier p); sb = (ap_environment p = ''sandbox'')
      in lr_allowed (fst (checkPerSecondLimit R up s t t2 (ap_protocolId p)
             (if sb then 10 else tl_burstLimit limits) sb))
         \<and> (isBatch \<longrightarrow> n \<le> tl_maxBatchSize limits)
         \<and> (sb \<or> nullish (ap_sendsThisPeriod p) 0 + n \<le> tl_sendsPerMonth limits
             \<or> ap_overageEnabled p = Some True))"
  by (auto simp: checkAllLimits_def Let_def quota_allowed split_beta)

lemma checkAllLimits_state:
  "snd (checkAllLimits R up s t t2 p isBatch n) =
     snd (checkPerSecondLimit R up s t t2 (ap_protocolId p)
       (if ap_environment p = ''sandbox'' then 10 else tl_burstLimit (getTierLimits (ap_tier p)))
       (ap_environment p = ''sandbox''))"
  by (auto simp: checkAllLimits_def Let_def split: prod.splits)

lemma intercept_scheme:
  assumes "rq_protocol rq = UrlScheme sch" "sch \<noteq> []" "\<not> str_includes (rq_url rq) ''/batch''"
  shows "(case fst (intercept R True s t t2 rq) of Proceed _ \<Rightarrow> True | Refuse _ _ _ _ \<Rightarrow> False) \<longleftrightarrow>
      lr_allowed (fst (checkPerSecondLimit R True s t t2 ''undefined'' 10 False))"
    and "snd (intercept R True s t t2 rq) = snd (checkPerSecondLimit R True s t t2 ''undefined'' 10 False)"
proof -
  have dev: "getTierLimits (-1) = tier_developer"
    by (simp add: getTierLimits_def TIER_LIMITS_def js_simps)
  let ?r = "checkAllLimits R True s t t2 undefined_fields False 1"
  have r: "lr_allowed (fst ?r) = lr_allowed (fst (checkPerSecondLimit R True s t t2 ''undefined'' 10 False))"
    "snd ?r = snd (checkPerSecondLimit R True s t t2 ''undefined'' 10 False)"
    by (auto simp: checkAllLimits_allowed checkAllLimits_state undefined_fields_def dev tier_developer_def
        js_simps Let_def)
  show "(case fst (intercept R True s t t2 rq) of Proceed _ \<Rightarrow> True | Refuse _ _ _ _ \<Rightarrow> False) \<longleftrightarrow>
      lr_allowed (fst (checkPerSecondLimit R True s t t2 ''undefined'' 10 False))"
    and "snd (intercept R True s t t2 rq) = snd (checkPerSecondLimit R True s t t2 ''undefined'' 10 False)"
    using assms r by (simp_all add: intercept_def Let_def split_beta)
qed

lemma intercept_run_scheme:
  assumes "\<forall>(t, rq) \<in> set reqs. \<exists>sch. rq_protocol rq = UrlScheme sch \<and> sch \<noteq> []"
    and "\<forall>(t, rq) \<in> set reqs. \<not> str_includes (rq_url rq) ''/batch''"
  shows "intercept_run R s reqs = per_second_run R s ''undefined'' 10 False (map fst reqs)"
  using assms
proof (induction reqs arbitrary: s)
  case (Cons x reqs)
  obtain t rq where x: "x = (t, rq)" by (cases x)
  with Cons.prems obtain sch where "rq_protocol rq = UrlScheme sch" "sch \<noteq> []" by auto
  with Cons.prems x intercept_scheme [of rq sch R s t t] Cons.IH show ?case
    by (simp add: split_beta)
qed simp


section \<open>Properties\<close>

text \<open>C30: Fixed window. Requests of one protocol that fall into one second of the clock are
  answered in order: exactly the first \<open>burstLimit\<close> of them are let through, whatever their
  spacing inside the second.\<close>

theorem fixed_window_exact:
  assumes "redis_service R" and "sorted ts" and "\<forall>t \<in> set ts. t div windowMs = w"
    and "\<forall>t. t div windowMs = w \<longrightarrow> r_get R s t (rate_key pid t) = None"
  shows "per_second_run R s pid b sb ts = map (\<lambda>i. int (Suc i) \<le> b) [0..<length ts]"
  using redis_service.fresh_window_run [OF assms] .

theorem fixed_window_exact_witness:
  "per_second_run mem_redis (\<lambda>_. None) ''p1'' 2 False [5000, 5001, 5999] = [True, True, False]"
proof -
  have "per_second_run mem_redis (\<lambda>_. None) ''p1'' 2 False [5000, 5001, 5999] =
      map (\<lambda>i. int (Suc i) \<le> 2) [0..<length [5000, 5001, 5999 :: int]]"
    by (rule fixed_window_exact [OF mem.redis_service_axioms, where w = 5])
      (simp_all add: windowMs_def mem_redis_def mem_get_def)
  then show ?thesis by (simp add: upt_rec)
qed

text \<open>The three layers decide together. With Redis answering, a request passes exactly when
  the window still has room, a batch is no larger than the tier allows, and (outside the
  sandbox) the monthly quota covers it or overages are enabled; with Redis down it is refused.\<close>

theorem checkAllLimits_decision:
  assumes "redis_service R" and "is_counter R s t (rate_key (ap_protocolId p) t)"
  shows "lr_allowed (fst (checkAllLimits R up s t t2 p isBatch n)) \<longleftrightarrow>
    (let limits = getTierLimits (ap_tier p); sb = (ap_environment p = ''sandbox'')
     in up
      \<and> redis_count R s t (rate_key (ap_protocolId p) t) + 1 \<le> (if sb then 10 else tl_burstLimit limits)
      \<and> (isBatch \<longrightarrow> n \<le> tl_maxBatchSize limits)
      \<and> (sb \<or> nullish (ap_sendsThisPeriod p) 0 + n \<le> tl_sendsPerMonth limits
          \<or> ap_overageEnabled p = Some True))"
proof -
  have "fst (fst (RATE_LIMIT_LUA R s t (rate_key (ap_protocolId p) t) windowMs)) =
      redis_count R s t (rate_key (ap_protocolId p) t) + 1"
    using redis_service.incr_result [OF assms] by (simp add: RATE_LIMIT_LUA_def Let_def split_beta)
  then show ?thesis
    by (cases up) (simp_all add: checkAllLimits_allowed perSecond_allowed perSecond_down Let_def)
qed

definition sample_protocol :: auth_protocol where
  "sample_protocol = \<lparr>ap_protocolId = ''p1'', ap_protocolPubkey = ''K'', ap_apiKeyId = ''k1'',
     ap_tier = 0, ap_scopes = [''notify:write''], ap_environment = ''production'',
     ap_isActive = True, ap_sendsThisPeriod = Some 990, ap_name = Some ''Demo'',
     ap_overageEnabled = Some True, ap_isTestKey = None, ap_testKeyType = None,
     ap_verificationStatus = None\<rparr>"

theorem checkAllLimits_decision_witness:
  "lr_allowed (fst (checkAllLimits mem_redis True (\<lambda>_. None) 5000 5000 sample_protocol True 10))
   \<and> \<not> lr_allowed (fst (checkAllLimits mem_redis True (\<lambda>_. None) 5000 5000 sample_protocol True 11))"
proof -
  have c: "is_counter mem_redis (\<lambda>_. None) 5000 (rate_key (ap_protocolId sample_protocol) 5000)"
    by (simp add: mem_defs)
  show ?thesis
    unfolding checkAllLimits_decision [OF mem.redis_service_axioms c]
    by (simp add: sample_protocol_def getTierLimits_def TIER_LIMITS_def tier_developer_def
        js_simps mem_defs)
qed

text \<open>Overage price. When a send goes over the quota with overages enabled, the price in the
  answer is computed on the whole request, not on the notifications above the quota: a request
  that starts below the quota is charged strictly more than its overage count times the price.\<close>

theorem overage_charges_whole_request:
  assumes "lr_isOverage (checkMonthlyQuota p count limits h)"
    and "nullish (ap_sendsThisPeriod p) 0 < tl_sendsPerMonth limits"
  shows "\<exists>n c. lr_overageCount (checkMonthlyQuota p count limits h) = Some n
    \<and> lr_overagePrice (checkMonthlyQuota p count limits h) = Some c
    \<and> 0 < n \<and> n * nullish (OVERAGE_PRICE_PER_NOTIFICATION (ap_tier p)) 500 < c"
  using quota_overage [OF assms(1)] assms(2) price_positive [of "ap_tier p"]
  by (auto intro!: mult_strict_right_mono)

theorem overage_charges_whole_request_witness:
  "\<exists>n c. lr_overageCount (checkMonthlyQuota sample_protocol 11 tier_developer Map.empty) = Some n
    \<and> lr_overagePrice (checkMonthlyQuota sample_protocol 11 tier_developer Map.empty) = Some c
    \<and> 0 < n \<and> n * nullish (OVERAGE_PRICE_PER_NOTIFICATION (ap_tier sample_protocol)) 500 < c"
  by (rule overage_charges_whole_request)
    (simp_all add: checkMonthlyQuota_def sample_protocol_def tier_developer_def allow_with_def
      Let_def js_simps)

text \<open>C31: One bucket for everyone. Requests arrive with \<open>request.protocol\<close> holding the URL scheme,
  so the interceptor never sees which protocol is calling: non-batch requests of any mix of
  protocols, tiers and environments share one window of 10, and the 11th in a second is refused.\<close>

theorem interceptor_single_bucket:
  assumes "redis_service R" and "sorted (map fst reqs)"
    and "\<forall>(t, rq) \<in> set reqs. t div windowMs = w"
    and "\<forall>(t, rq) \<in> set reqs. \<exists>sch. rq_protocol rq = UrlScheme sch \<and> sch \<noteq> []"
    and "\<forall>(t, rq) \<in> set reqs. \<not> str_includes (rq_url rq) ''/batch''"
    and "\<forall>t. t div windowMs = w \<longrightarrow> r_get R s t (rate_key ''undefined'' t) = None"
  shows "intercept_run R s reqs = map (\<lambda>i. i < 10) [0..<length reqs]"
proof -
  have "per_second_run R s ''undefined'' 10 False (map fst reqs) =
      map (\<lambda>i. int (Suc i) \<le> 10) [0..<length (map fst reqs)]"
    by (rule redis_service.fresh_window_run [OF assms(1,2) _ assms(6)]) (use assms(3) in auto)
  then show ?thesis
    unfolding intercept_run_scheme [OF assms(4,5)] by auto
qed

theorem interceptor_single_bucket_witness:
  "intercept_run mem_redis (\<lambda>_. None)
     (map (\<lambda>i. (7000 + int i, \<lparr>rq_protocol = UrlScheme ''https'',
         rq_authProtocol = Some (sample_protocol\<lparr>ap_protocolId := show_nat i, ap_tier := 3\<rparr>),
         rq_url = ''/v1/notify'', rq_notifications = None\<rparr>)) [0..<11])
   = map (\<lambda>i. i < 10) [0..<11]"
proof -
  let ?reqs = "map (\<lambda>i. (7000 + int i, \<lparr>rq_protocol = UrlScheme ''https'',
         rq_authProtocol = Some (sample_protocol\<lparr>ap_protocolId := show_nat i, ap_tier := 3\<rparr>),
         rq_url = ''/v1/notify'', rq_notifications = None\<rparr>)) [0..<11]"
  have "intercept_run mem_redis (\<lambda>_. None) ?reqs = map (\<lambda>i. i < 10) [0..<length ?reqs]"
    by (rule interceptor_single_bucket [OF mem.redis_service_axioms, where w = 7])
      (auto simp: windowMs_def mem_redis_def mem_get_def upt_rec)
  then show ?thesis by simp
qed

end
