(* ===== verification/Gateway_World.thy ===== *)
theory Gateway_World
  imports Redis_Service
begin

text \<open>
  The persistent state of the gateway: one record field per PostgreSQL table the modelled
  code touches (the columns it reads or writes, \<open>prisma/schema.prisma\<close>), the Redis state,
  and one log per BullMQ queue of the jobs the code has added to it. A table is the list of
  its rows in insertion order; the uniqueness constraints the code runs into
  (\<open>notifications.id\<close>, \<open>notifications.idempotency_key\<close>) are checked on \<open>create\<close>.
\<close>

section \<open>Rows\<close>

record notification =
  nt_id :: string
  nt_protocolId :: string
  nt_walletHash :: string
  nt_status :: string
  nt_category :: string
  nt_subjectHash :: string
  nt_idempotencyKey :: "string option"
  nt_writeReceipt :: bool
  nt_queuedAt :: millis
  nt_processingAt :: "millis option"
  nt_deliveredAt :: "millis option"
  nt_receiptTx :: "string option"
  nt_receiptFailureReason :: "string option"
  nt_lastReceiptAttemptAt :: "millis option"
  nt_sesMessageId :: "string option"
  nt_emailProvider :: "string option"
  nt_bounce :: bool
  nt_bounceType :: "string option"
  nt_errorCode :: "string option"
  nt_retryCount :: int
  nt_arweaveId :: "string option"
  nt_ciphertext :: "string option"
  nt_nonce :: "string option"
  nt_riskScore :: int
  nt_scanVerdict :: "string option"
  nt_trackingEnabled :: bool

record api_key =
  ak_id :: string
  ak_protocolId :: string
  ak_keyHash :: string
  ak_keyPrefix :: string
  ak_environment :: string
  ak_scopes :: "string list"
  ak_isRevoked :: bool
  ak_expiresAt :: "millis option"
  ak_isTestKey :: bool
  ak_testDailyLimit :: int
  ak_testKeyType :: "string option"
  ak_testKeyIpHash :: "string option"

record protocol =
  pr_id :: string
  pr_protocolPubkey :: string
  pr_nameEncrypted :: bytes
  pr_tier :: int
  pr_isActive :: bool
  pr_isSuspended :: bool
  pr_verificationStatus :: string
  pr_sendsThisPeriod :: int
  pr_overageEnabled :: bool
  pr_periodResetAt :: millis

record protocol_settings =
  ps_protocolId :: string
  ps_customFromName :: "string option"
  ps_websiteUrl :: "string option"
  ps_testEmail :: "string option"
  ps_testTelegramId :: "string option"
  ps_testPhone :: "string option"
  ps_trackEngagement :: bool
  ps_telegramBotTokenEncrypted :: "bytes option"
  ps_telegramBotUsername :: "string option"
  ps_telegramGroupChatId :: "string option"
  ps_telegramThreadIds :: "(string \<times> string) list option"
  ps_telegramAutoPinEnabled :: bool
  ps_telegramWelcomeMessage :: "string option"
  ps_telegramGroupMemberCount :: "int option"
  ps_telegramMemberCountAt :: "millis option"
  ps_telegramMigrationSentAt :: "millis option"

record subscription =
  sb_protocolId :: string
  sb_tier :: int
  sb_status :: string
  sb_helioSubscriptionId :: "string option"
  sb_currentPeriodStart :: "millis option"
  sb_currentPeriodEnd :: "millis option"
  sb_sendsThisPeriod :: int
  sb_periodResetAt :: millis
  sb_cancelAtPeriodEnd :: bool

record payment =
  py_protocolId :: string
  py_amountUsdc :: int
  py_helioTransactionId :: "string option"
  py_solanaTxSignature :: "string option"
  py_periodsPaid :: int
  py_periodStart :: millis
  py_periodEnd :: millis
  py_status :: string

record helio_event =
  he_id :: string
  he_helioEventId :: string
  he_eventType :: string
  he_protocolId :: "string option"
  he_payloadHash :: string
  he_processed :: bool
  he_processedAt :: "millis option"

record template =
  tp_id :: string
  tp_protocolId :: string
  tp_name :: string
  tp_subjectTemplate :: "string option"
  tp_status :: string
  tp_category :: string
  tp_htmlSource :: "string option"
  tp_textSource :: "string option"
  tp_previewText :: "string option"
  tp_isActive :: bool
  tp_isDefault :: bool
  tp_version :: int

record template_version =
  tv_id :: string
  tv_templateId :: string
  tv_version :: int
  tv_htmlSource :: string
  tv_subjectTemplate :: "string option"

record telegram_template =
  tt_id :: string
  tt_protocolId :: string
  tt_category :: string
  tt_textTemplate :: string
  tt_buttons :: "(string option \<times> string option) list option"   \<comment> \<open>label and URL template\<close>
  tt_isActive :: bool

record webhook =
  wh_id :: string
  wh_protocolId :: string
  wh_url :: string
  wh_events :: "string list"
  wh_secretHash :: string
  wh_isActive :: bool
  wh_failureCount :: int
  wh_lastSuccessAt :: "millis option"
  wh_lastFailureAt :: "millis option"

record webhook_delivery =
  wd_webhookId :: string
  wd_event :: string
  wd_httpStatus :: "int option"
  wd_latencyMs :: int
  wd_attempt :: nat
  wd_success :: bool
  wd_error :: "string option"

record email_bounce =
  eb_notificationId :: string
  eb_walletHash :: string
  eb_bounceType :: string
  eb_sesMessageId :: string
  eb_diagnosticCode :: "string option"
  eb_bouncedAt :: millis

record email_suppression =
  es_walletHash :: string
  es_reason :: string
  es_suppressedAt :: millis
  es_notificationId :: string

record email_delivery =
  ed_notificationId :: string
  ed_sesMessageId :: string
  ed_smtpResponse :: "string option"
  ed_processingTime :: "int option"
  ed_deliveredAt :: millis

record channel_delivery =
  cd_notificationId :: string
  cd_channel :: "channel option"
  cd_success :: bool
  cd_messageId :: "string option"
  cd_provider :: "string option"
  cd_error :: "string option"
  cd_deliveredAt :: "millis option"

record portal_user =
  pu_walletHash :: string
  pu_emailHash :: "string option"
  pu_optInAll :: bool
  pu_optInDefi :: bool
  pu_optInGovernance :: bool
  pu_optInMarketing :: bool
  pu_updatedAt :: millis

record unsubscribe_token =
  ut_tokenHash :: string
  ut_walletHash :: string
  ut_category :: "string option"
  ut_usedAt :: "millis option"
  ut_expiresAt :: millis

record portal_session =
  se_jwtJti :: string
  se_walletHash :: string
  se_revoked :: bool
  se_expiresAt :: millis

record protocol_subscription =
  su_walletPubkey :: "string option"
  su_walletHash :: string
  su_protocolId :: string
  su_channels :: "string list"
  su_status :: string
  su_source :: string
  su_subscribedAt :: millis
  su_updatedAt :: millis

record digest_row =
  dg_id :: string
  dg_walletHash :: string
  dg_protocolId :: string
  dg_subject :: string
  dg_category :: string
  dg_queuedAt :: millis
  dg_scheduledFor :: millis
  dg_sentAt :: "millis option"

record pending_connection =
  tc_walletPubkey :: string
  tc_chatId :: string
  tc_telegramUsername :: "string option"
  tc_claimed :: bool
  tc_expiresAt :: millis

record engagement =
  ng_notificationId :: string
  ng_protocolId :: string
  ng_eventType :: string
  ng_linkUrl :: "16 word list option"
  ng_createdAt :: millis

text \<open>An entry of a digest job.\<close>

record digest_entry =
  de_id :: string
  de_protocolId :: string
  de_subject :: string
  de_category :: string
  de_queuedAt :: millis

datatype schedule_type = ONE_TIME | RECURRING

datatype job_status = PENDING | RUNNING | COMPLETED | FAILED | CANCELLED

record scheduled_row =
  sc_id :: string
  sc_protocolId :: string
  sc_wallet :: "string option"
  sc_subject :: string
  sc_body :: string
  sc_category :: string
  sc_channels :: "string list"
  sc_type :: schedule_type
  sc_cronExpr :: "string option"
  sc_timezone :: string
  sc_nextRunAt :: millis
  sc_lastRunAt :: "millis option"
  sc_status :: job_status
  sc_templateId :: "string option"

record sandbox_receipt =
  sr_apiKeyId :: string
  sr_notificationId :: "string option"
  sr_walletHash :: string
  sr_subject :: "string option"
  sr_status :: string
  sr_devnetTx :: "string option"
  sr_channel :: "string option"
  sr_deliveredAt :: "millis option"
  sr_createdAt :: millis

record moderation_item =
  mq_protocolId :: string
  mq_severity :: string
  mq_rulesTriggers :: "string list"

record dkim_key =
  dk_id :: string
  dk_protocolId :: "string option"
  dk_domain :: string
  dk_selector :: string
  dk_publicKey :: string
  dk_kmsKeyId :: string
  dk_isActive :: bool
  dk_dnsVerified :: bool
  dk_sesVerified :: bool
  dk_sesCnames :: "(string \<times> string) list option"   \<comment> \<open>name and value\<close>
  dk_resendId :: "string option"
  dk_resendVerified :: bool
  dk_createdAt :: millis

record bimi_row =
  bi_id :: string
  bi_protocolId :: string
  bi_domain :: string
  bi_selector :: string
  bi_logoUrl :: string
  bi_vmcUrl :: "string option"
  bi_isVerified :: bool
  bi_dmarcVerified :: bool
  bi_published :: bool

record bimi_log =
  bl_protocolId :: string
  bl_domain :: string
  bl_checkType :: string
  bl_status :: string

record protocol_preference =
  pf_walletHash :: string
  pf_protocolId :: string
  pf_optInDefi :: "bool option"
  pf_optInGovernance :: "bool option"
  pf_optInMarketing :: "bool option"
  pf_optInSystem :: "bool option"
  pf_channels :: "string list"

record campaign =
  cp_id :: string
  cp_protocolId :: string
  cp_wallets :: "string list"     \<comment> \<open>of its audience\<close>
  cp_subject :: string
  cp_body :: string
  cp_category :: string
  cp_channels :: "string list"
  cp_status :: string
  cp_startedAt :: "millis option"
  cp_totalTargets :: nat
  cp_totalSent :: nat
  cp_createdAt :: millis

record request_log =
  rl_id :: string
  rl_protocolId :: string
  rl_apiKeyId :: "string option"
  rl_isTestKey :: bool
  rl_method :: string
  rl_endpoint :: string
  rl_requestBody :: "json option"
  rl_responseBody :: "json option"
  rl_statusCode :: int
  rl_latencyMs :: int
  rl_correlationId :: "string option"
  rl_ipHash :: "string option"
  rl_createdAt :: millis

record protocol_asset =
  pa_protocolId :: string
  pa_assetType :: string
  pa_url :: string
  pa_isActive :: bool

section \<open>What leaves the gateway\<close>

record email_message =
  em_to :: string
  em_from :: string
  em_replyTo :: string
  em_subject :: string
  em_html :: string
  em_text :: "16 word list"
  em_headers :: "(string \<times> string) list"

text \<open>A text is a list of UTF-16 code units; a button carries a URL or callback data.\<close>

datatype telegram_button = UrlButton "16 word list" "16 word list" | CallbackButton "16 word list" string

datatype telegram_media = NoMedia | Photo string | Video string

record telegram_message =
  tm_chat :: string
  tm_token :: "string option"   \<comment> \<open>the custom bot's, \<open>None\<close> for Herald's bot\<close>
  tm_media :: telegram_media
  tm_text :: "16 word list"
  tm_buttons :: "telegram_button list list"
  tm_silent :: bool
  tm_thread :: "string option"

text \<open>What a \<open>write_receipt\<close> transaction is about.\<close>

datatype notification_category = DEFI | GOVERNANCE | MARKETING | OTHER

record receipt_request =
  rq_protocolOwner :: string
  rq_recipientHash :: bytes
  rq_notificationId :: bytes
  rq_category :: notification_category

text \<open>One entry per request the gateway makes to a provider or to a webhook endpoint, whatever the answer.\<close>

datatype sent =
    SentMail email_message
  | SentTelegram telegram_message
  | SentPin string string "string option"            \<comment> \<open>chat, message, custom bot token\<close>
  | SentSms string "16 word list" string             \<comment> \<open>phone, message, sender id\<close>
  | SentReceipt receipt_request
  | SentChain string string                          \<comment> \<open>an instruction of the authority, the protocol's key\<close>
  | SentHelioCancel string
  | SentAnswer "string option" string "16 word list option"   \<comment> \<open>bot token, callback query, its notice\<close>
  | SentLeave string string                          \<comment> \<open>bot token, chat\<close>
  | SentPost string "(string \<times> string) list" string  \<comment> \<open>URL, headers, body\<close>

section \<open>Queue payloads\<close>

text \<open>
  What a payment webhook of Helio carries. The numbers are what \<open>Number\<close> makes of the fields: \<open>None\<close> when
  that is not an integer (for the amount: not a number, rounded down otherwise).
\<close>

record helio_payload =
  hp_event :: string
  hp_transactionId :: string
  hp_protocolPubkey :: string
  hp_tier :: "int option"
  hp_months :: "int option"
  hp_amountUsdc :: "int option"
  hp_solanaTxSignature :: "string option"

text \<open>A webhook payload: event id, event type, timestamp, and the fields of \<open>data\<close> that the worker reads.\<close>

record webhook_payload =
  wp_eventId :: string
  wp_eventType :: string
  wp_timestamp :: millis
  wp_notificationId :: "string option"
  wp_status :: "string option"

record webhook_job =
  wj_webhookId :: string
  wj_url :: string
  wj_secret :: string
  wj_payload :: webhook_payload

text \<open>An SES notification, with the fields the bounce worker reads.\<close>

record ses_message =
  sx_notificationType :: string
  sx_messageId :: "string option"
  sx_bounceType :: "string option"
  sx_diagnosticCode :: "string option"
  sx_smtpResponse :: "string option"
  sx_processingTime :: "int option"

record receipt_item =
  ri_id :: string
  ri_protocolId :: string
  ri_walletHash :: string
  ri_category :: string

section \<open>The world\<close>

record 'r world =
  w_redis :: 'r
  w_redisUp :: bool
  w_notifications :: "notification list"
  w_apiKeys :: "api_key list"
  w_protocols :: "protocol list"
  w_settings :: "protocol_settings list"
  w_subscriptions :: "subscription list"
  w_payments :: "payment list"
  w_helioEvents :: "helio_event list"
  w_templates :: "template list"
  w_templateVersions :: "template_version list"
  w_telegramTemplates :: "telegram_template list"
  w_webhooks :: "webhook list"
  w_webhookDeliveries :: "webhook_delivery list"
  w_bounces :: "email_bounce list"
  w_suppressions :: "email_suppression list"
  w_emailDeliveries :: "email_delivery list"
  w_channelDeliveries :: "channel_delivery list"
  w_portalUsers :: "portal_user list"
  w_unsubTokens :: "unsubscribe_token list"
  w_portalSessions :: "portal_session list"
  w_audience :: "protocol_subscription list"
  w_preferences :: "protocol_preference list"
  w_pendingConnections :: "pending_connection list"
  w_engagements :: "engagement list"
  w_digest :: "digest_row list"
  w_scheduled :: "scheduled_row list"
  w_sandboxReceipts :: "sandbox_receipt list"
  w_moderation :: "moderation_item list"
  w_notificationJobs :: "(job_data \<times> string option) list"
  w_webhookJobs :: "webhook_job list"
  w_digestJobs :: "(string \<times> digest_entry list \<times> string) list"
  w_receiptJobs :: "(receipt_item list \<times> string) list"
  w_bounceJobs :: "ses_message list"
  w_billingJobs :: "(string \<times> helio_payload) list"
  w_dkimKeys :: "dkim_key list"
  w_assets :: "protocol_asset list"
  w_bimi :: "bimi_row list"
  w_bimiLogs :: "bimi_log list"
  w_campaigns :: "campaign list"
  w_requestLogs :: "request_log list"
  w_sent :: "sent list"
  w_templateCache :: "32 word \<rightharpoonup> string"   \<comment> \<open>compiled templates in memory, by the hash of their source\<close>

definition empty_world :: "'r \<Rightarrow> 'r world" where
  "empty_world s = \<lparr>w_redis = s, w_redisUp = True, w_notifications = [], w_apiKeys = [],
     w_protocols = [], w_settings = [], w_subscriptions = [], w_payments = [],
     w_helioEvents = [], w_templates = [], w_templateVersions = [], w_telegramTemplates = [], w_webhooks = [], w_webhookDeliveries = [],
     w_bounces = [], w_suppressions = [], w_emailDeliveries = [], w_channelDeliveries = [],
     w_portalUsers = [], w_unsubTokens = [], w_portalSessions = [], w_audience = [], w_preferences = [],
     w_pendingConnections = [], w_engagements = [], w_digest = [], w_scheduled = [], w_sandboxReceipts = [], w_moderation = [],
     w_notificationJobs = [], w_webhookJobs = [], w_digestJobs = [], w_receiptJobs = [],
     w_bounceJobs = [], w_billingJobs = [], w_dkimKeys = [], w_assets = [], w_bimi = [], w_bimiLogs = [],
     w_campaigns = [], w_requestLogs = [], w_sent = [],
     w_templateCache = Map.empty\<rparr>"

abbreviation redis_error :: exn where
  "redis_error \<equiv> JsError ''ECONNREFUSED''"

section \<open>The notification table\<close>

text \<open>The defaults of the schema, with the columns every \<open>create\<close> of the sources gives.\<close>

definition new_notification ::
  "string \<Rightarrow> string \<Rightarrow> string \<Rightarrow> string \<Rightarrow> string \<Rightarrow> string \<Rightarrow> millis \<Rightarrow> notification" where
  "new_notification i protocolId walletHash subjectHash status category now =
     \<lparr>nt_id = i, nt_protocolId = protocolId, nt_walletHash = walletHash, nt_status = status,
      nt_category = category, nt_subjectHash = subjectHash, nt_idempotencyKey = None,
      nt_writeReceipt = True, nt_queuedAt = now, nt_processingAt = None, nt_deliveredAt = None,
      nt_receiptTx = None, nt_receiptFailureReason = None, nt_lastReceiptAttemptAt = None,
      nt_sesMessageId = None, nt_emailProvider = None, nt_bounce = False, nt_bounceType = None,
      nt_errorCode = None, nt_retryCount = 0, nt_arweaveId = None, nt_ciphertext = None,
      nt_nonce = None, nt_riskScore = 0, nt_scanVerdict = None, nt_trackingEnabled = False\<rparr>"

definition notification_by_id :: "'r world \<Rightarrow> string \<Rightarrow> notification option" where
  "notification_by_id w i = List.find (\<lambda>n. nt_id n = i) (w_notifications w)"

definition key_taken :: "'r world \<Rightarrow> notification \<Rightarrow> bool" where
  "key_taken w n = (exists_row (\<lambda>m. nt_id m = nt_id n) (w_notifications w)
     \<or> (nt_idempotencyKey n \<noteq> None
         \<and> exists_row (\<lambda>m. nt_idempotencyKey m = nt_idempotencyKey n) (w_notifications w)))"

definition settings_of :: "string \<Rightarrow> 'r world \<Rightarrow> protocol_settings option" where
  "settings_of protocolId w = List.find (\<lambda>s. ps_protocolId s = protocolId) (w_settings w)"

definition create_notification :: "notification \<Rightarrow> 'r world \<Rightarrow> (unit, 'r world) handled" where
  "create_notification n w =
     (if key_taken w n then throw (PrismaExn ''P2002'') w
      else ok () (w\<lparr>w_notifications := w_notifications w @ [n]\<rparr>))"

definition update_notification ::
  "string \<Rightarrow> (notification \<Rightarrow> notification) \<Rightarrow> 'r world \<Rightarrow> (unit, 'r world) handled" where
  "update_notification i f w =
     (if exists_row (\<lambda>n. nt_id n = i) (w_notifications w)
      then ok () (w\<lparr>w_notifications := updateMany (\<lambda>n. nt_id n = i) f (w_notifications w)\<rparr>)
      else throw (PrismaExn ''P2025'') w)"

text \<open>\<open>prisma.notification.createMany\<close>: all rows or none.\<close>

fun create_notifications :: "notification list \<Rightarrow> 'r world \<Rightarrow> (unit, 'r world) handled" where
  "create_notifications [] w = ok () w"
| "create_notifications (n # ns) w =
     (case create_notification n w of
        (Inl e, _) \<Rightarrow> throw e w
      | (Inr _, w1) \<Rightarrow> (case create_notifications ns w1 of
            (Inl e, _) \<Rightarrow> throw e w
          | (Inr _, w2) \<Rightarrow> ok () w2))"

section \<open>A keyed table as an interface\<close>

text \<open>
  What the clients of a table with a primary key rely on. \<open>wf\<close> is the table's uniqueness
  invariant, \<open>keeps\<close> the updates that leave the unique columns alone.
\<close>

locale keyed_table =
  fixes look :: "'w \<Rightarrow> string \<Rightarrow> 'row option"
    and insert_row :: "'row \<Rightarrow> 'w \<Rightarrow> (unit, 'w) handled"
    and modify :: "string \<Rightarrow> ('row \<Rightarrow> 'row) \<Rightarrow> 'w \<Rightarrow> (unit, 'w) handled"
    and key :: "'row \<Rightarrow> string"
    and wf :: "'w \<Rightarrow> bool"
    and keeps :: "('row \<Rightarrow> 'row) \<Rightarrow> bool"
  assumes insert_ok: "insert_row r w = (Inr u, w') \<Longrightarrow>
      look w (key r) = None \<and> look w' k = (if k = key r then Some r else look w k)"
    and insert_fail: "insert_row r w = (Inl e, w') \<Longrightarrow> w' = w \<and> e = PrismaExn ''P2002''"
    and insert_wf: "wf w \<Longrightarrow> wf (snd (insert_row r w))"
    and modify_hit: "look w k = Some r \<Longrightarrow> fst (modify k f w) = Inr ()"
    and modify_look: "look w k = Some r \<Longrightarrow> keeps f \<Longrightarrow>
      look (snd (modify k f w)) k' = (if k' = k then Some (f r) else look w k')"
    and modify_miss: "look w k = None \<Longrightarrow> modify k f w = (Inl (PrismaExn ''P2025''), w)"
    and modify_wf: "wf w \<Longrightarrow> keeps f \<Longrightarrow> wf (snd (modify k f w))"
begin

lemma modify_cases:
  obtains (hit) r where "look w k = Some r" "fst (modify k f w) = Inr ()"
  | (miss) "look w k = None" "modify k f w = (Inl (PrismaExn ''P2025''), w)"
  using modify_hit modify_miss by (cases "look w k") auto

lemma modify_other: "keeps f \<Longrightarrow> k' \<noteq> k \<Longrightarrow> look (snd (modify k f w)) k' = look w k'"
  by (cases rule: modify_cases [of w k f]) (simp_all add: modify_look)

lemma modify_state_of_swallow: "snd (swallow (modify k f w)) = snd (modify k f w)"
  by (simp add: swallow_def)

lemma insert_then_modify:
  assumes "insert_row r w = (Inr u, w')" "keeps f"
  shows "fst (modify (key r) f w') = Inr ()"
    and "look (snd (modify (key r) f w')) (key r) = Some (f r)"
proof -
  have look: "look w' (key r) = Some r" using insert_ok [OF assms(1)] by simp
  show "fst (modify (key r) f w') = Inr ()" by (rule modify_hit [OF look])
  show "look (snd (modify (key r) f w')) (key r) = Some (f r)"
    using modify_look [OF look assms(2)] by simp
qed

lemma insert_result: "fst (insert_row r w) = Inr () \<or> insert_row r w = (Inl (PrismaExn ''P2002''), w)"
proof (cases "insert_row r w")
  case (Pair a w')
  then show ?thesis using insert_fail [of r w] by (cases a) auto
qed

end

text \<open>The invariant of the notification table: ids are distinct, and so are idempotency keys.\<close>

definition unique_notifications :: "'r world \<Rightarrow> bool" where
  "unique_notifications w \<longleftrightarrow>
     distinct (map nt_id (w_notifications w))
     \<and> distinct (filter (\<lambda>k. k \<noteq> None) (map nt_idempotencyKey (w_notifications w)))"

definition keeps_keys :: "(notification \<Rightarrow> notification) \<Rightarrow> bool" where
  "keeps_keys f \<longleftrightarrow> (\<forall>n. nt_id (f n) = nt_id n \<and> nt_idempotencyKey (f n) = nt_idempotencyKey n)"

lemma keeps_keysD:
  "keeps_keys f \<Longrightarrow> nt_id (f n) = nt_id n \<and> nt_idempotencyKey (f n) = nt_idempotencyKey n"
  by (simp add: keeps_keys_def)

lemma create_notification_look:
  assumes "create_notification n w = (Inr u, w')"
  shows "notification_by_id w (nt_id n) = None
    \<and> notification_by_id w' k = (if k = nt_id n then Some n else notification_by_id w k)"
proof -
  have fresh: "\<not> key_taken w n" and w': "w' = w\<lparr>w_notifications := w_notifications w @ [n]\<rparr>"
    using assms by (simp_all add: create_notification_def flow_simps split: if_splits)
  have none: "notification_by_id w (nt_id n) = None"
    using fresh by (simp add: key_taken_def exists_row_def notification_by_id_def)
  then show ?thesis
    by (simp add: w' notification_by_id_def find_append split: option.splits)
qed

lemma create_notification_unique:
  "unique_notifications w \<Longrightarrow> unique_notifications (snd (create_notification n w))"
  by (auto simp: create_notification_def unique_notifications_def key_taken_def flow_simps row_simps)

lemma update_notification_look:
  assumes "notification_by_id w i = Some n" "keeps_keys f"
  shows "notification_by_id (snd (update_notification i f w)) k =
    (if k = i then Some (f n) else notification_by_id w k)"
proof -
  have hit: "exists_row (\<lambda>n. nt_id n = i) (w_notifications w)"
    using assms(1) by (auto simp: notification_by_id_def exists_row_def)
  have "List.find (\<lambda>m. nt_id m = k) (updateMany (\<lambda>m. nt_id m = i) f (w_notifications w)) =
      (if k = i then map_option f (List.find (\<lambda>m. nt_id m = k) (w_notifications w))
       else List.find (\<lambda>m. nt_id m = k) (w_notifications w))"
    by (rule find_key_update) (simp add: keeps_keysD [OF assms(2)])
  then show ?thesis
    using hit assms(1) by (simp add: update_notification_def notification_by_id_def flow_simps)
qed

lemma update_notification_unique:
  assumes "unique_notifications w" "keeps_keys f"
  shows "unique_notifications (snd (update_notification i f w))"
proof -
  have "map nt_id (updateMany p f rows) = map nt_id rows"
    and "map nt_idempotencyKey (updateMany p f rows) = map nt_idempotencyKey rows" for p rows
    using keeps_keysD [OF assms(2)] by (auto intro!: map_updateMany)
  then show ?thesis
    using assms(1) by (simp add: update_notification_def unique_notifications_def flow_simps)
qed

interpretation nt: keyed_table notification_by_id create_notification update_notification
  nt_id unique_notifications keeps_keys
proof (unfold_locales, goal_cases)
  case (1 r w u w' k)
  then show ?case by (rule create_notification_look)
next
  case (2 r w e w')
  then show ?case by (auto simp: create_notification_def flow_simps split: if_splits)
next
  case (3 w r)
  then show ?case by (rule create_notification_unique)
next
  case (4 w k r f)
  then show ?case
    by (simp add: update_notification_def notification_by_id_def exists_row_def flow_simps)
next
  case (5 w k r f k')
  then show ?case by (rule update_notification_look)
next
  case (6 w k f)
  then show ?case
    by (simp add: update_notification_def notification_by_id_def exists_row_def flow_simps)
next
  case (7 w f k)
  then show ?case by (rule update_notification_unique)
qed

text \<open>Both operations touch the notification table only.\<close>

lemma create_notification_frame:
  "\<exists>ns. snd (create_notification n w) = w\<lparr>w_notifications := ns\<rparr>"
  by (auto simp: create_notification_def flow_simps intro: exI [of _ "w_notifications w"])

lemma update_notification_frame:
  "\<exists>ns. snd (update_notification i f w) = w\<lparr>w_notifications := ns\<rparr>"
  by (auto simp: update_notification_def flow_simps intro: exI [of _ "w_notifications w"])

end
