(* ===== verification/Js_Regex.thy ===== *)
theory Js_Regex
  imports Gateway_Prelude
begin

text \<open>
  The part of JavaScript's regular expressions that the gateway tests strings with:
  character classes, sequence, alternation, optional parts, bounded and unbounded
  repetition, unanchored search (\<open>RegExp.prototype.test\<close>) and anchored matching
  (\<open>/^...$/\<close>). \<open>matches r s\<close> lists what can be left of \<open>s\<close> after \<open>r\<close> has matched a prefix, in
  the order in which JavaScript's backtracking tries the possibilities (\<open>Star\<close> is greedy, \<open>Lazy\<close>
  is \<open>*?\<close>), so the first entry is the match that \<open>replace\<close> and \<open>exec\<close> take; as a set it is proved
  equal to the usual language semantics. \<open>replace_all\<close> is \<open>String.prototype.replace\<close> under the
  \<open>g\<close> flag.
\<close>

datatype 'c rex =
    Eps
  | Cls "'c \<Rightarrow> bool"
  | Seq "'c rex" "'c rex"
  | Alt "'c rex" "'c rex"
  | Star "'c rex"
  | Lazy "'c rex"

type_synonym re = "char rex"

section \<open>The language of an expression\<close>

inductive in_lang :: "'c rex \<Rightarrow> 'c list \<Rightarrow> bool" where
  eps: "in_lang Eps []"
| cls: "P c \<Longrightarrow> in_lang (Cls P) [c]"
| seq: "in_lang a u \<Longrightarrow> in_lang b v \<Longrightarrow> in_lang (Seq a b) (u @ v)"
| alt_l: "in_lang a u \<Longrightarrow> in_lang (Alt a b) u"
| alt_r: "in_lang b u \<Longrightarrow> in_lang (Alt a b) u"
| star_nil: "in_lang (Star a) []"
| star_step: "in_lang a u \<Longrightarrow> in_lang (Star a) v \<Longrightarrow> in_lang (Star a) (u @ v)"
| lazy: "in_lang (Star a) u \<Longrightarrow> in_lang (Lazy a) u"

inductive_simps in_lang_Eps [simp]: "in_lang Eps u"
inductive_simps in_lang_Cls [simp]: "in_lang (Cls P) u"
inductive_simps in_lang_Seq: "in_lang (Seq a b) u"
inductive_simps in_lang_Alt [simp]: "in_lang (Alt a b) u"
inductive_simps in_lang_Lazy [simp]: "in_lang (Lazy a) u"
inductive_cases in_lang_StarE: "in_lang (Star a) u"

section \<open>The matcher\<close>

function matches :: "'c rex \<Rightarrow> 'c list \<Rightarrow> 'c list list" where
  "matches Eps s = [s]"
| "matches (Cls P) s = (case s of [] \<Rightarrow> [] | c # t \<Rightarrow> if P c then [t] else [])"
| "matches (Seq a b) s = concat (map (matches b) (matches a s))"
| "matches (Alt a b) s = matches a s @ matches b s"
| "matches (Star a) s =
     concat (map (matches (Star a)) (filter (\<lambda>t. length t < length s) (matches a s))) @ [s]"
| "matches (Lazy a) s =
     s # concat (map (matches (Lazy a)) (filter (\<lambda>t. length t < length s) (matches a s)))"
  by pat_completeness auto
termination
  by (relation "measures [\<lambda>(r, s). size r, \<lambda>(r, s). length s]") auto

declare matches.simps(5) [simp del] matches.simps(6) [simp del]

fun test :: "'c rex \<Rightarrow> 'c list \<Rightarrow> bool" where
  "test r [] = (matches r [] \<noteq> [])"
| "test r (c # s) = (matches r (c # s) \<noteq> [] \<or> test r s)"

definition full_match :: "'c rex \<Rightarrow> 'c list \<Rightarrow> bool" where
  "full_match r s = ([] \<in> set (matches r s))"

section \<open>Derived expressions\<close>

fun lower :: "char \<Rightarrow> char" where
  "lower c = (let n = (of_char c :: nat) in if 65 \<le> n \<and> n \<le> 90 then char_of (n + 32) else c)"

text \<open>\<open>lit\<close> is a literal string, \<open>lit_i\<close> a literal under the \<open>i\<close> flag.\<close>

fun lit :: "'c list \<Rightarrow> 'c rex" where
  "lit [] = Eps"
| "lit (c # cs) = Seq (Cls (\<lambda>x. x = c)) (lit cs)"

fun lit_i :: "string \<Rightarrow> re" where
  "lit_i [] = Eps"
| "lit_i (c # cs) = Seq (Cls (\<lambda>x. lower x = lower c)) (lit_i cs)"

definition opt :: "'c rex \<Rightarrow> 'c rex" where "opt r = Alt r Eps"

definition plus :: "'c rex \<Rightarrow> 'c rex" where "plus r = Seq r (Star r)"

fun alts :: "'c rex list \<Rightarrow> 'c rex" where
  "alts [] = Cls (\<lambda>_. False)"
| "alts [r] = r"
| "alts (r # q # rs) = Alt r (alts (q # rs))"

fun seqs :: "'c rex list \<Rightarrow> 'c rex" where
  "seqs [] = Eps"
| "seqs [r] = r"
| "seqs (r # q # rs) = Seq r (seqs (q # rs))"

text \<open>\<open>r{m,n}\<close> with \<open>m \<le> n\<close>.\<close>

fun upto_times :: "nat \<Rightarrow> 'c rex \<Rightarrow> 'c rex" where
  "upto_times 0 r = Eps"
| "upto_times (Suc n) r = opt (Seq r (upto_times n r))"

fun repeat_between :: "nat \<Rightarrow> nat \<Rightarrow> 'c rex \<Rightarrow> 'c rex" where
  "repeat_between 0 n r = upto_times n r"
| "repeat_between (Suc m) n r = Seq r (repeat_between m (n - 1) r)"

text \<open>\<open>\s\<close>, \<open>\d\<close> and \<open>.\<close> on the code units below 256.\<close>

definition is_space :: "char \<Rightarrow> bool" where
  "is_space c = (let n = (of_char c :: nat) in n = 32 \<or> n = 160 \<or> (9 \<le> n \<and> n \<le> 13))"

definition is_digit :: "char \<Rightarrow> bool" where
  "is_digit c = (let n = (of_char c :: nat) in 48 \<le> n \<and> n \<le> 57)"

definition not_newline :: "char \<Rightarrow> bool" where
  "not_newline c = (let n = (of_char c :: nat) in n \<noteq> 10 \<and> n \<noteq> 13)"

definition spaces1 :: re where "spaces1 = plus (Cls is_space)"

section \<open>The matcher computes the language\<close>

lemma matches_suffix: "t \<in> set (matches r s) \<Longrightarrow> \<exists>u. s = u @ t \<and> in_lang r u"
proof (induction r s arbitrary: t rule: matches.induct)
  case (2 P s)
  then show ?case by (auto split: list.splits if_splits)
next
  case (3 a b s)
  from "3.prems" obtain m where m: "m \<in> set (matches a s)" "t \<in> set (matches b m)" by auto
  obtain u where "s = u @ m" "in_lang a u" using "3.IH"(1) [OF m(1)] by blast
  moreover obtain v where "m = v @ t" "in_lang b v" using "3.IH"(2) [OF m] by blast
  ultimately show ?case by (auto intro!: exI [of _ "u @ v"] in_lang.seq)
next
  case (4 a b s)
  then show ?case by auto
next
  case (5 a s)
  from "5.prems" consider "t = s"
    | m where "m \<in> set (matches a s)" "length m < length s" "t \<in> set (matches (Star a) m)"
    by (auto simp: matches.simps(5) [of a s])
  then show ?case
  proof cases
    case 1
    then show ?thesis by (auto intro: in_lang.star_nil)
  next
    case 2
    obtain u where u: "s = u @ m" "in_lang a u" using "5.IH"(1) [OF 2(1)] by blast
    have "m \<in> set (filter (\<lambda>t. length t < length s) (matches a s))" using 2 by simp
    from "5.IH"(2) [OF this 2(3)] obtain v where "m = v @ t" "in_lang (Star a) v" by blast
    with u show ?thesis by (auto intro!: exI [of _ "u @ v"] in_lang.star_step)
  qed
next
  case (6 a s)
  from "6.prems" consider "t = s"
    | m where "m \<in> set (matches a s)" "length m < length s" "t \<in> set (matches (Lazy a) m)"
    by (auto simp: matches.simps(6) [of a s])
  then show ?case
  proof cases
    case 1
    then show ?thesis by (auto intro: in_lang.star_nil)
  next
    case 2
    obtain u where u: "s = u @ m" "in_lang a u" using "6.IH"(1) [OF 2(1)] by blast
    have "m \<in> set (filter (\<lambda>t. length t < length s) (matches a s))" using 2 by simp
    from "6.IH"(2) [OF this 2(3)] obtain v where "m = v @ t" "in_lang (Star a) v" by auto
    with u show ?thesis by (auto intro!: exI [of _ "u @ v"] in_lang.star_step)
  qed
qed auto

lemma matches_star_self [simp]: "t \<in> set (matches (Star a) t)"
  by (subst matches.simps(5)) simp

text \<open>The two repetitions differ in the order of the possibilities only.\<close>

lemma matches_lazy_set: "set (matches (Lazy a) s) = set (matches (Star a) s)"
proof (induction s rule: length_induct)
  case (1 s)
  then show ?case by (auto simp: matches.simps(5) [of a s] matches.simps(6) [of a s])
qed

lemma lang_matches: "in_lang r u \<Longrightarrow> t \<in> set (matches r (u @ t))"
proof (induction arbitrary: t rule: in_lang.induct)
  case (seq a u b v)
  from seq.IH(1) [of "v @ t"] seq.IH(2) [of t]
  have "t \<in> \<Union> (set ` set (map (matches b) (matches a (u @ v @ t))))" by auto
  then show ?case by simp
next
  case (star_step a u v)
  show ?case
  proof (cases "u = []")
    case True
    with star_step.IH(2) show ?thesis by simp
  next
    case False
    let ?s = "u @ v @ t"
    have "v @ t \<in> set (filter (\<lambda>m. length m < length ?s) (matches a ?s))"
      using False star_step.IH(1) [of "v @ t"] by simp
    then have "set (matches (Star a) (v @ t)) \<subseteq> set (matches (Star a) ?s)"
      by (auto simp: matches.simps(5) [of a ?s])
    then show ?thesis using star_step.IH(2) [of t] by auto
  qed
next
  case (lazy a u)
  then show ?case by (simp add: matches_lazy_set)
qed auto

theorem matches_iff: "t \<in> set (matches r s) \<longleftrightarrow> (\<exists>u. s = u @ t \<and> in_lang r u)"
  using matches_suffix lang_matches by blast

lemma full_match_iff: "full_match r s \<longleftrightarrow> in_lang r s"
  by (simp add: full_match_def matches_iff)

lemma matches_nonempty: "matches r s \<noteq> [] \<longleftrightarrow> (\<exists>u t. s = u @ t \<and> in_lang r u)"
proof -
  have "matches r s \<noteq> [] \<longleftrightarrow> (\<exists>t. t \<in> set (matches r s))" by (cases "matches r s") auto
  then show ?thesis by (auto simp: matches_iff)
qed

theorem test_iff: "test r s \<longleftrightarrow> (\<exists>p u t. s = p @ u @ t \<and> in_lang r u)"
proof (induction s)
  case Nil
  then show ?case by (auto simp: matches_nonempty)
next
  case (Cons c s)
  have "(\<exists>p u t. c # s = p @ u @ t \<and> in_lang r u) \<longleftrightarrow>
     (\<exists>u t. c # s = u @ t \<and> in_lang r u) \<or> (\<exists>p u t. s = p @ u @ t \<and> in_lang r u)"
    (is "?L \<longleftrightarrow> ?A \<or> ?B")
  proof
    assume ?L
    then obtain p u t where "c # s = p @ u @ t" "in_lang r u" by blast
    then show "?A \<or> ?B" by (cases p) auto
  next
    assume "?A \<or> ?B"
    then show ?L
    proof
      assume ?A
      then show ?L by (metis append_Nil)
    next
      assume ?B
      then show ?L by (metis append_Cons)
    qed
  qed
  then show ?case using Cons by (simp add: matches_nonempty)
qed

lemma test_append: "test r s \<Longrightarrow> test r (p @ s @ q)"
  by (auto simp: test_iff) (metis append.assoc)

section \<open>Derived expressions, by their language\<close>

lemma in_lang_Seq_Cls:
  "in_lang (Seq (Cls P) r) u \<longleftrightarrow> (\<exists>c v. u = c # v \<and> P c \<and> in_lang r v)"
  by (subst in_lang_Seq) (auto intro: exI [of _ "[_]"])

lemma in_lang_lit [simp]: "in_lang (lit w) u \<longleftrightarrow> u = w"
  by (induction w arbitrary: u) (auto simp: in_lang_Seq_Cls)

lemma in_lang_opt [simp]: "in_lang (opt r) u \<longleftrightarrow> u = [] \<or> in_lang r u"
  by (auto simp: opt_def)

lemma in_lang_upto_cls:
  "in_lang (upto_times n (Cls P)) u \<longleftrightarrow> length u \<le> n \<and> list_all P u"
proof (induction n arbitrary: u)
  case (Suc n)
  then show ?case by (cases u) (auto simp: in_lang_Seq_Cls)
qed auto

lemma in_lang_repeat_cls:
  "m \<le> n \<Longrightarrow> in_lang (repeat_between m n (Cls P)) u \<longleftrightarrow> m \<le> length u \<and> length u \<le> n \<and> list_all P u"
proof (induction m arbitrary: n u)
  case 0
  then show ?case by (simp add: in_lang_upto_cls)
next
  case (Suc m)
  then have "m \<le> n - 1" by simp
  with Suc show ?case by (cases u) (auto simp: in_lang_Seq_Cls)
qed

section \<open>Global replacement\<close>

text \<open>
  \<open>s.replace(/r/g, f)\<close>: the leftmost match is replaced, then the search goes on behind it. \<open>pre\<close> is
  asked of the character before the match (for \<open>^\<close> under the \<open>m\<close> flag), \<open>post\<close> of the text after it
  (for \<open>$\<close>). The expressions of the sources never match the empty string here, and the side
  condition on the lengths says so.
\<close>

definition line_start :: "char option \<Rightarrow> bool" where
  "line_start prev = (case prev of None \<Rightarrow> True | Some c \<Rightarrow> \<not> not_newline c)"

definition line_end :: "string \<Rightarrow> bool" where
  "line_end t = (case t of [] \<Rightarrow> True | c # _ \<Rightarrow> \<not> not_newline c)"

definition first_match :: "'c rex \<Rightarrow> ('c list \<Rightarrow> bool) \<Rightarrow> 'c list \<Rightarrow> 'c list option" where
  "first_match r post s = List.find (\<lambda>t. post t \<and> length t < length s) (matches r s)"

lemma first_match_shorter: "first_match r post s = Some t \<Longrightarrow> length t < length s"
  by (auto simp: first_match_def find_Some_iff)

lemma first_match_Nil [simp]: "first_match r post [] = None"
  by (simp add: first_match_def find_None_iff)

function replace_from ::
  "('c option \<Rightarrow> bool) \<Rightarrow> 'c rex \<Rightarrow> ('c list \<Rightarrow> bool) \<Rightarrow> ('c list \<Rightarrow> 'c list) \<Rightarrow> 'c option \<Rightarrow> 'c list \<Rightarrow> 'c list" where
  "replace_from pre r post f prev s =
     (case (if pre prev then first_match r post s else None) of
        Some t \<Rightarrow> (let u = take (length s - length t) s in f u @ replace_from pre r post f (Some (last u)) t)
      | None \<Rightarrow> (case s of [] \<Rightarrow> [] | c # s' \<Rightarrow> c # replace_from pre r post f (Some c) s'))"
  by pat_completeness auto
termination
  by (relation "measure (\<lambda>(_, _, _, _, _, s). length s)")
     (auto split: if_splits dest: first_match_shorter)

declare replace_from.simps [simp del]

definition replace_all :: "'c rex \<Rightarrow> ('c list \<Rightarrow> 'c list) \<Rightarrow> 'c list \<Rightarrow> 'c list" where
  "replace_all r f s = replace_from (\<lambda>_. True) r (\<lambda>_. True) f None s"

definition replace_lines :: "re \<Rightarrow> (string \<Rightarrow> bool) \<Rightarrow> (string \<Rightarrow> string) \<Rightarrow> string \<Rightarrow> string" where
  "replace_lines r post f s = replace_from line_start r post f None s"

text \<open>What the pattern cannot match stays as it is.\<close>

lemma replace_from_none:
  assumes "\<not> test r s"
  shows "replace_from pre r post f prev s = s"
  using assms
proof (induction s arbitrary: prev)
  case Nil
  then show ?case by (simp add: replace_from.simps [of _ _ _ _ _ "[]"] first_match_def)
next
  case (Cons c s)
  then show ?case by (simp add: replace_from.simps [of _ _ _ _ _ "c # s"] first_match_def)
qed

lemma replace_all_none: "\<not> test r s \<Longrightarrow> replace_all r f s = s"
  by (simp add: replace_all_def replace_from_none)

text \<open>A replacement that never lengthens its match never lengthens the text.\<close>

lemma replace_from_length:
  assumes "\<And>u. length (f u) \<le> length u"
  shows "length (replace_from pre r post f prev s) \<le> length s"
proof (induction s arbitrary: prev rule: length_induct)
  case (1 s)
  show ?case
  proof (cases "if pre prev then first_match r post s else None")
    case None
    show ?thesis
    proof (cases s)
      case Nil
      with None show ?thesis by (subst replace_from.simps) simp
    next
      case (Cons c s')
      then show ?thesis using None 1 by (subst replace_from.simps) simp
    qed
  next
    case (Some t)
    then have t: "length t < length s" by (auto split: if_splits dest: first_match_shorter)
    let ?u = "take (length s - length t) s"
    have "length (f ?u) \<le> length s - length t" using assms [of ?u] by simp
    moreover have "length (replace_from pre r post f (Some (last ?u)) t) \<le> length t" using 1 t by blast
    ultimately show ?thesis using t by (subst replace_from.simps) (simp add: Some Let_def)
  qed
qed

lemma replace_all_length:
  "(\<And>u. length (f u) \<le> length u) \<Longrightarrow> length (replace_all r f s) \<le> length s"
  by (simp add: replace_all_def replace_from_length)

lemma replace_lines_length:
  "(\<And>u. length (f u) \<le> length u) \<Longrightarrow> length (replace_lines r post f s) \<le> length s"
  by (simp add: replace_lines_def replace_from_length)

section \<open>Replacement without the \<open>g\<close> flag, and replacement patterns\<close>

fun find_sub :: "string \<Rightarrow> string \<Rightarrow> nat option" where
  "find_sub p [] = (if p = [] then Some 0 else None)"
| "find_sub p (c # s) = (if take (length p) (c # s) = p then Some 0 else map_option Suc (find_sub p s))"

text \<open>What \<open>replace\<close> makes of a replacement string: \<open>$$\<close>, \<open>$&\<close>, \<open>$`\<close> and \<open>$'\<close> are patterns.\<close>

fun expand_dollars :: "string \<Rightarrow> string \<Rightarrow> string \<Rightarrow> string \<Rightarrow> string" where
  "expand_dollars b m a [] = []"
| "expand_dollars b m a [c] = [c]"
| "expand_dollars b m a (c # d # r) =
     (if c = CHR ''$'' \<and> d = CHR ''$'' then CHR ''$'' # expand_dollars b m a r
      else if c = CHR ''$'' \<and> d = CHR ''&'' then m @ expand_dollars b m a r
      else if c = CHR ''$'' \<and> d = CHR 0x60 then b @ expand_dollars b m a r
      else if c = CHR ''$'' \<and> d = CHR 0x27 then a @ expand_dollars b m a r
      else c # expand_dollars b m a (d # r))"

text \<open>\<open>s.replace(p, r)\<close> for a string \<open>p\<close>: the first occurrence.\<close>

definition replace_str :: "string \<Rightarrow> string \<Rightarrow> string \<Rightarrow> string" where
  "replace_str s p r =
     (case find_sub p s of
        None \<Rightarrow> s
      | Some i \<Rightarrow> (let b = take i s; a = drop (i + length p) s in b @ expand_dollars b p a r @ a))"

text \<open>\<open>s.replace(/r/, f)\<close> without the \<open>g\<close> flag.\<close>

fun replace_first :: "'c rex \<Rightarrow> ('c list \<Rightarrow> 'c list) \<Rightarrow> 'c list \<Rightarrow> 'c list" where
  "replace_first r f [] = []"
| "replace_first r f (c # s) =
     (case first_match r (\<lambda>_. True) (c # s) of
        Some t \<Rightarrow> f (take (length (c # s) - length t) (c # s)) @ t
      | None \<Rightarrow> c # replace_first r f s)"

text \<open>\<open>s.replace(new RegExp(p, 'g'), r)\<close> where \<open>p\<close> has no special character; \<open>before\<close> is what has been passed.\<close>

function replace_str_from :: "string \<Rightarrow> string \<Rightarrow> string \<Rightarrow> string \<Rightarrow> string" where
  "replace_str_from p r before s =
     (if s = [] then []
      else if p \<noteq> [] \<and> take (length p) s = p
      then expand_dollars before p (drop (length p) s) r @ replace_str_from p r (before @ p) (drop (length p) s)
      else hd s # replace_str_from p r (before @ [hd s]) (tl s))"
  by pat_completeness auto
termination
  by (relation "measure (\<lambda>(_, _, _, s). length s)") (auto simp: neq_Nil_conv)

declare replace_str_from.simps [simp del]

definition replace_str_all :: "string \<Rightarrow> string \<Rightarrow> string \<Rightarrow> string" where
  "replace_str_all s p r = replace_str_from p r [] s"

end
