(* ===== verification/Auth.thy ===== *)
theory Auth
  imports Gateway_World Js_Regex
begin

text \<open>
  API keys and the guards: \<open>AuthService\<close> (\<open>auth/auth.service.ts\<close>), \<open>AuthGuard\<close>,
  \<open>ScopeGuard\<close>, \<open>InternalGuard\<close> and \<open>PortalAuthGuard\<close> (\<open>common/guards/*.guard.ts\<close>).
  SHA-256, base58, the AES decryption of the protocol name and the decoding of a JWT payload
  are parameters.
\<close>

section \<open>API keys\<close>

definition CACHE_TTL_SECONDS :: int where "CACHE_TTL_SECONDS = 300"

definition auth_cache_key :: "string \<Rightarrow> string" where
  "auth_cache_key keyHash = ''auth:key:'' @ keyHash"

definition is_base58 :: "char \<Rightarrow> bool" where
  "is_base58 c = (let n = (of_char c :: nat) in
     (49 \<le> n \<and> n \<le> 57) \<or> (65 \<le> n \<and> n \<le> 72) \<or> (74 \<le> n \<and> n \<le> 78) \<or> (80 \<le> n \<and> n \<le> 90)
     \<or> (97 \<le> n \<and> n \<le> 107) \<or> (109 \<le> n \<and> n \<le> 122))"

definition isValidKeyFormat :: "string \<Rightarrow> bool" where
  "isValidKeyFormat key = full_match
     (seqs [lit ''hrld_'', alts [lit ''live'', lit ''test''], lit ''_'',
        repeat_between 30 60 (Cls is_base58)]) key"

text \<open>\<open>decryptName\<close> is AES-256-GCM under the configured key; \<open>None\<close> when the key is missing or decryption throws.\<close>

definition decryptProtocolName :: "(bytes \<Rightarrow> string option) \<Rightarrow> bytes \<Rightarrow> string" where
  "decryptProtocolName decryptName nameEncrypted = nullish (decryptName nameEncrypted) ''Unknown Protocol''"

definition auth_result ::
  "(bytes \<Rightarrow> string option) \<Rightarrow> api_key \<Rightarrow> protocol \<Rightarrow> protocol_settings option \<Rightarrow> auth_protocol" where
  "auth_result decryptName k p settings =
     \<lparr>ap_protocolId = pr_id p, ap_protocolPubkey = pr_protocolPubkey p, ap_apiKeyId = ak_id k,
      ap_tier = pr_tier p, ap_scopes = ak_scopes k, ap_environment = ak_environment k,
      ap_isActive = pr_isActive p, ap_sendsThisPeriod = Some (pr_sendsThisPeriod p),
      ap_name = Some (js_or (Option.bind settings ps_customFromName)
                  (decryptProtocolName decryptName (pr_nameEncrypted p))),
      ap_overageEnabled = Some (pr_overageEnabled p),
      ap_isTestKey = Some (ak_isTestKey k), ap_testKeyType = truthy_or_none (ak_testKeyType k),
      ap_verificationStatus = Some (pr_verificationStatus p)\<rparr>"

definition validateApiKey ::
  "'r redis_api \<Rightarrow> (string \<Rightarrow> string) \<Rightarrow> (bytes \<Rightarrow> string option) \<Rightarrow> millis \<Rightarrow> string
     \<Rightarrow> 'r world \<Rightarrow> (auth_protocol option, 'r world) handled" where
  "validateApiKey R sha decryptName now plainTextKey w =
     (if \<not> isValidKeyFormat plainTextKey then ok None w
      else
        let keyHash = sha plainTextKey;
            cacheKey = auth_cache_key keyHash
        in case (if w_redisUp w then r_get R (w_redis w) now cacheKey else None) of
          Some (RAuth p) \<Rightarrow> ok (Some p) w
        | _ \<Rightarrow>
          (case List.find (\<lambda>k. ak_keyHash k = keyHash \<and> \<not> ak_isRevoked k) (w_apiKeys w) of
             None \<Rightarrow> ok None w
           | Some k \<Rightarrow>
             (case List.find (\<lambda>p. pr_id p = ak_protocolId k) (w_protocols w) of
                None \<Rightarrow> ok None w
              | Some p \<Rightarrow>
                if pr_isSuspended p then throw (HttpExn 401 ''AUTH_ACCOUNT_SUSPENDED'') w
                else if \<not> pr_isActive p then throw (HttpExn 401 ''AUTH_ACCOUNT_INACTIVE'') w
                else if ak_isTestKey k \<and> (case ak_expiresAt k of None \<Rightarrow> False | Some e \<Rightarrow> now > e)
                  then throw (HttpExn 401 ''SANDBOX_KEY_EXPIRED'') w
                else
                  let settings = List.find (\<lambda>s. ps_protocolId s = pr_id p) (w_settings w);
                      result = auth_result decryptName k p settings;
                      r1 = (if w_redisUp w then r_setex R (w_redis w) now cacheKey (RAuth result)
                              (CACHE_TTL_SECONDS * 1000) else w_redis w);
                      r2 = (if w_redisUp w then r_hset R r1 ''auth:last_used'' (ak_id k) (show_int now) else r1)
                  in ok (Some result) (w\<lparr>w_redis := r2\<rparr>))))"

record generated_key =
  gk_plainText :: string
  gk_hash :: string
  gk_prefix :: string

text \<open>\<open>suffix\<close> is \<open>bs58.encode(randomBytes(32))\<close>.\<close>

definition generateApiKey :: "(string \<Rightarrow> string) \<Rightarrow> string \<Rightarrow> string \<Rightarrow> generated_key" where
  "generateApiKey sha environment suffix =
     (let env = (if environment = ''production'' then ''live'' else ''test'');
          plainText = ''hrld_'' @ env @ ''_'' @ suffix
      in \<lparr>gk_plainText = plainText, gk_hash = sha plainText, gk_prefix = take 16 plainText\<rparr>)"

definition invalidateCache :: "'r redis_api \<Rightarrow> string \<Rightarrow> 'r world \<Rightarrow> (unit, 'r world) handled" where
  "invalidateCache R keyHash w =
     (if w_redisUp w then ok () (w\<lparr>w_redis := r_del R (w_redis w) (auth_cache_key keyHash)\<rparr>)
      else throw redis_error w)"

section \<open>Guards\<close>

record guard_request =
  gr_headers :: "string \<rightharpoonup> string"
  gr_url :: string
  gr_authProtocol :: "auth_protocol option"
  gr_walletHash :: "string option"

definition internal_protocol :: "protocol \<Rightarrow> auth_protocol" where
  "internal_protocol p =
     \<lparr>ap_protocolId = pr_id p, ap_protocolPubkey = pr_protocolPubkey p, ap_apiKeyId = ''internal'',
      ap_tier = pr_tier p, ap_scopes = [''notify:write'', ''notify:read'', ''admin''],
      ap_environment = ''production'', ap_isActive = pr_isActive p, ap_sendsThisPeriod = None,
      ap_name = None, ap_overageEnabled = None, ap_isTestKey = None, ap_testKeyType = None,
      ap_verificationStatus = None\<rparr>"

definition is_internal_request :: "string option \<Rightarrow> guard_request \<Rightarrow> bool" where
  "is_internal_request internalKey rq \<longleftrightarrow>
     truthy internalKey
     \<and> gr_headers rq ''x-internal-service'' = Some ''herald-admin''
     \<and> gr_headers rq ''x-internal-key'' = internalKey
     \<and> (startsWith (gr_url rq) ''/v1/domains'' \<or> startsWith (gr_url rq) ''/v1/templates'')"

definition authGuard ::
  "'r redis_api \<Rightarrow> (string \<Rightarrow> string) \<Rightarrow> (bytes \<Rightarrow> string option) \<Rightarrow> string option \<Rightarrow> millis
     \<Rightarrow> guard_request \<Rightarrow> 'r world \<Rightarrow> (guard_request, 'r world) handled" where
  "authGuard R sha decryptName internalKey now rq w =
     (if is_internal_request internalKey rq then
        (if \<not> truthy (gr_headers rq ''x-protocol-id'')
         then throw (HttpExn 401 ''Missing x-protocol-id for internal request'') w
         else case List.find (\<lambda>p. Some (pr_id p) = gr_headers rq ''x-protocol-id'') (w_protocols w) of
             None \<Rightarrow> throw (HttpExn 401 ''Invalid protocolId'') w
           | Some p \<Rightarrow> ok (rq\<lparr>gr_authProtocol := Some (internal_protocol p)\<rparr>) w)
      else case gr_headers rq ''authorization'' of
          None \<Rightarrow> throw (HttpExn 401 ''AUTH_INVALID_KEY'') w
        | Some h \<Rightarrow>
            if \<not> startsWith h ''Bearer '' then throw (HttpExn 401 ''AUTH_INVALID_KEY'') w
            else and_then (validateApiKey R sha decryptName now (drop 7 h) w)
              (\<lambda>res w'. case res of
                  None \<Rightarrow> throw (HttpExn 401 ''AUTH_INVALID_KEY'') w'
                | Some p \<Rightarrow> ok (rq\<lparr>gr_authProtocol := Some p\<rparr>) w'))"

text \<open>\<open>requiredScopes\<close> is the metadata the \<open>@RequiredScopes\<close> decorator attached, if any.\<close>

definition scopeGuard :: "string list option \<Rightarrow> guard_request \<Rightarrow> 'w \<Rightarrow> (unit, 'w) handled" where
  "scopeGuard requiredScopes rq w =
     (case requiredScopes of
        None \<Rightarrow> ok () w
      | Some [] \<Rightarrow> ok () w
      | Some scopes \<Rightarrow>
          (case gr_authProtocol rq of
             None \<Rightarrow> throw (HttpExn 403 ''AUTH_INSUFFICIENT_SCOPE'') w
           | Some p \<Rightarrow>
               if list_all (\<lambda>sc. List.member (ap_scopes p) sc) scopes then ok () w
               else throw (HttpExn 403 ''AUTH_INSUFFICIENT_SCOPE'') w))"

text \<open>The internal guard stores a partial protocol object, of which only the id is set.\<close>

definition internalGuard ::
  "string option \<Rightarrow> guard_request \<Rightarrow> 'w \<Rightarrow> (guard_request \<times> string, 'w) handled" where
  "internalGuard internalSecret rq w =
     (if \<not> truthy internalSecret \<or> internalSecret \<noteq> gr_headers rq ''x-internal-secret''
      then throw (HttpExn 401 ''INVALID_INTERNAL_REQUEST'') w
      else if \<not> truthy (gr_headers rq ''x-protocol-id'')
      then throw (HttpExn 401 ''MISSING_PROTOCOL_ID'') w
      else ok (rq, the (gr_headers rq ''x-protocol-id'')) w)"

definition extractBearer :: "guard_request \<Rightarrow> string option" where
  "extractBearer rq = (case gr_headers rq ''authorization'' of
       None \<Rightarrow> None
     | Some h \<Rightarrow> (case split_on (CHR '' '') h of
         t # token # _ \<Rightarrow> (if t = ''Bearer'' then Some token else None)
       | _ \<Rightarrow> None))"

text \<open>\<open>payloadOf\<close> decodes the second part of the token: its \<open>type\<close> and \<open>jti\<close>, \<open>None\<close> where parsing throws.\<close>

definition portalAuthGuard ::
  "(string \<Rightarrow> (string option \<times> string option) option) \<Rightarrow> millis
     \<Rightarrow> guard_request \<Rightarrow> 'r world \<Rightarrow> (guard_request, 'r world) handled" where
  "portalAuthGuard payloadOf now rq w =
     (case truthy_or_none (extractBearer rq) of
        None \<Rightarrow> throw (HttpExn 401 ''Missing portal token'') w
      | Some raw \<Rightarrow>
          (case (case split_on (CHR ''.'') raw of
                   _ # p # _ \<Rightarrow> payloadOf p
                 | _ \<Rightarrow> None) of
             Some (typ, jti) \<Rightarrow>
               (if typ \<noteq> Some ''portal'' \<or> \<not> truthy jti
                then throw (HttpExn 401 ''Invalid portal token'') w
                else case List.find (\<lambda>s. Some (se_jwtJti s) = jti) (w_portalSessions w) of
                    None \<Rightarrow> throw (HttpExn 401 ''Portal session expired or revoked'') w
                  | Some s \<Rightarrow>
                      if se_revoked s \<or> se_expiresAt s < now
                      then throw (HttpExn 401 ''Portal session expired or revoked'') w
                      else ok (rq\<lparr>gr_walletHash := Some (se_walletHash s)\<rparr>) w)
           | None \<Rightarrow> throw (HttpExn 401 ''Invalid portal token'') w))"


section \<open>Facts about keys and guards\<close>

lemma isValidKeyFormat_iff:
  "isValidKeyFormat key \<longleftrightarrow>
     (\<exists>env suffix. key = ''hrld_'' @ env @ ''_'' @ suffix \<and> env \<in> {''live'', ''test''}
        \<and> 30 \<le> length suffix \<and> length suffix \<le> 60 \<and> list_all is_base58 suffix)"
  by (auto simp: isValidKeyFormat_def full_match_iff in_lang_Seq in_lang_repeat_cls)

lemma generated_plainText:
  "gk_plainText (generateApiKey sha e suffix) =
     ''hrld_'' @ (if e = ''production'' then ''live'' else ''test'') @ ''_'' @ suffix"
  by (simp add: generateApiKey_def Let_def)

lemma generated_hash: "gk_hash (generateApiKey sha e suffix) = sha (gk_plainText (generateApiKey sha e suffix))"
  by (simp add: generateApiKey_def Let_def)

lemma generated_format:
  "list_all is_base58 suffix \<Longrightarrow> 30 \<le> length suffix \<Longrightarrow> length suffix \<le> 60 \<Longrightarrow>
     isValidKeyFormat (gk_plainText (generateApiKey sha e suffix))"
  unfolding isValidKeyFormat_iff generated_plainText
  by (rule exI [of _ "if e = ''production'' then ''live'' else ''test''"], rule exI [of _ suffix]) auto

text \<open>What a key may do according to the database.\<close>

definition key_row :: "(string \<Rightarrow> string) \<Rightarrow> string \<Rightarrow> 'r world \<Rightarrow> api_key option" where
  "key_row sha key w = List.find (\<lambda>k. ak_keyHash k = sha key \<and> \<not> ak_isRevoked k) (w_apiKeys w)"

definition protocol_row :: "string \<Rightarrow> 'r world \<Rightarrow> protocol option" where
  "protocol_row i w = List.find (\<lambda>p. pr_id p = i) (w_protocols w)"

definition key_expired :: "millis \<Rightarrow> api_key \<Rightarrow> bool" where
  "key_expired now k = (ak_isTestKey k \<and> (case ak_expiresAt k of None \<Rightarrow> False | Some e \<Rightarrow> now > e))"

definition authorises ::
  "(string \<Rightarrow> string) \<Rightarrow> (bytes \<Rightarrow> string option) \<Rightarrow> millis \<Rightarrow> string \<Rightarrow> 'r world \<Rightarrow> auth_protocol \<Rightarrow> bool" where
  "authorises sha dec now key w p \<longleftrightarrow> isValidKeyFormat key \<and>
     (\<exists>k pr. key_row sha key w = Some k \<and> protocol_row (ak_protocolId k) w = Some pr
        \<and> \<not> pr_isSuspended pr \<and> pr_isActive pr \<and> \<not> key_expired now k
        \<and> p = auth_result dec k pr (List.find (\<lambda>s. ps_protocolId s = pr_id pr) (w_settings w)))"

definition cached_auth :: "'r redis_api \<Rightarrow> (string \<Rightarrow> string) \<Rightarrow> millis \<Rightarrow> string \<Rightarrow> 'r world \<Rightarrow> auth_protocol option" where
  "cached_auth R sha now key w = (if w_redisUp w
     then (case r_get R (w_redis w) now (auth_cache_key (sha key)) of Some (RAuth p) \<Rightarrow> Some p | _ \<Rightarrow> None)
     else None)"

lemma validate_hit:
  "isValidKeyFormat key \<Longrightarrow> cached_auth R sha now key w = Some p \<Longrightarrow>
     validateApiKey R sha dec now key w = (Inr (Some p), w)"
  by (auto simp: validateApiKey_def cached_auth_def Let_def flow_simps
      split: if_splits option.splits redis_value.splits)

lemma validate_cold:
  assumes "cached_auth R sha now key w = None"
  shows "validateApiKey R sha dec now key w = (Inr (Some p), w') \<longleftrightarrow>
    authorises sha dec now key w p \<and>
    w' = w\<lparr>w_redis := (if w_redisUp w
      then r_hset R (r_setex R (w_redis w) now (auth_cache_key (sha key)) (RAuth p) (CACHE_TTL_SECONDS * 1000))
             ''auth:last_used'' (ap_apiKeyId p) (show_int now)
      else w_redis w)\<rparr>"
proof -
  let ?get = "if w_redisUp w then r_get R (w_redis w) now (auth_cache_key (sha key)) else None"
  have cold: "(case ?get of Some (RAuth p) \<Rightarrow> a p | _ \<Rightarrow> b) = b" for a :: "auth_protocol \<Rightarrow> 'z" and b
    using assms by (auto simp: cached_auth_def split: option.splits redis_value.splits if_splits)
  have id: "ap_apiKeyId (auth_result dec k pr st) = ak_id k" for k pr st
    by (simp add: auth_result_def)
  show ?thesis
    unfolding validateApiKey_def Let_def cold authorises_def key_row_def protocol_row_def key_expired_def
    by (auto simp: flow_simps id split: option.splits if_splits)
qed

lemma authGuard_ok:
  assumes "authGuard R sha dec ik now rq w = (Inr rq', w')"
  shows "(is_internal_request ik rq \<and> w' = w \<and> (\<exists>p. Some (pr_id p) = gr_headers rq ''x-protocol-id''
            \<and> p \<in> set (w_protocols w) \<and> rq' = rq\<lparr>gr_authProtocol := Some (internal_protocol p)\<rparr>))
       \<or> (\<not> is_internal_request ik rq \<and> (\<exists>key p. gr_headers rq ''authorization'' = Some (''Bearer '' @ key)
            \<and> validateApiKey R sha dec now key w = (Inr (Some p), w')
            \<and> rq' = rq\<lparr>gr_authProtocol := Some p\<rparr>))"
proof (cases "is_internal_request ik rq")
  case True
  with assms show ?thesis
    by (auto simp: authGuard_def flow_simps dest!: find_Some_row split: if_splits option.splits)
next
  case False
  with assms obtain h where h: "gr_headers rq ''authorization'' = Some h" "startsWith h ''Bearer ''"
    by (auto simp: authGuard_def flow_simps split: option.splits if_splits)
  then have split: "h = ''Bearer '' @ drop 7 h"
    using append_take_drop_id [of 7 h] by (simp add: startsWith_def eval_nat_numeral)
  show ?thesis
    using assms False h split
    by (auto simp: authGuard_def flow_simps and_then_def split: sum.splits option.splits prod.splits)
qed

section \<open>Properties\<close>

text \<open>C32: Round trip of an API key. A key issued by \<open>generateApiKey\<close> with a base58 suffix of 30 to
  60 characters, whose hash is stored in a live row of an active protocol, authenticates as that
  protocol; and nothing but the hash of the key is compared with the database.\<close>

theorem issued_key_authenticates:
  assumes "list_all is_base58 suffix" "30 \<le> length suffix" "length suffix \<le> 60"
    and "g = generateApiKey sha e suffix"
    and "distinct (map ak_keyHash (w_apiKeys w))" "k \<in> set (w_apiKeys w)" "ak_keyHash k = gk_hash g"
    and "\<not> ak_isRevoked k" "\<not> key_expired now k"
    and "protocol_row (ak_protocolId k) w = Some pr" "pr_isActive pr" "\<not> pr_isSuspended pr"
    and "cached_auth R sha now (gk_plainText g) w = None"
  shows "\<exists>p w'. validateApiKey R sha dec now (gk_plainText g) w = (Inr (Some p), w')
    \<and> ap_protocolId p = pr_id pr \<and> ap_apiKeyId p = ak_id k \<and> ap_scopes p = ak_scopes k
    \<and> ap_tier p = pr_tier pr \<and> ap_environment p = ak_environment k"
proof -
  have "key_row sha (gk_plainText g) w = Some k"
  proof -
    have hash: "ak_keyHash k = sha (gk_plainText g)" using assms(4,7) generated_hash by simp
    have "x \<in> set (w_apiKeys w) \<Longrightarrow> ak_keyHash x = ak_keyHash k \<Longrightarrow> x = k" for x
      using distinct_key_unique [OF assms(5)] assms(6) by blast
    moreover have "List.find (\<lambda>x. ak_keyHash x = ak_keyHash k \<and> \<not> ak_isRevoked x) (w_apiKeys w) \<noteq> None"
      using assms(6,8) unfolding find_None_row by blast
    ultimately have "List.find (\<lambda>x. ak_keyHash x = ak_keyHash k \<and> \<not> ak_isRevoked x) (w_apiKeys w) = Some k"
      using find_Some_row by fastforce
    then show ?thesis by (simp add: key_row_def hash [symmetric])
  qed
  moreover have "isValidKeyFormat (gk_plainText g)"
    using generated_format [OF assms(1-3)] assms(4) by simp
  ultimately have "authorises sha dec now (gk_plainText g) w
      (auth_result dec k pr (List.find (\<lambda>s. ps_protocolId s = pr_id pr) (w_settings w)))"
    using assms(9-12) by (auto simp: authorises_def)
  then show ?thesis
    using validate_cold [OF assms(13)] by (auto simp: auth_result_def)
qed

definition sample_pr :: protocol where
  "sample_pr = \<lparr>pr_id = ''p1'', pr_protocolPubkey = ''K'', pr_nameEncrypted = [], pr_tier = 1,
     pr_isActive = True, pr_isSuspended = False, pr_verificationStatus = ''verified'',
     pr_sendsThisPeriod = 0, pr_overageEnabled = False, pr_periodResetAt = 0\<rparr>"

definition sample_ak :: api_key where
  "sample_ak = \<lparr>ak_id = ''k1'', ak_protocolId = ''p1'', ak_keyHash = ''hrld_test_'' @ replicate 30 CHR ''a'',
     ak_keyPrefix = ''hrld_test_aaaaaa'', ak_environment = ''sandbox'', ak_scopes = [''notify:write''],
     ak_isRevoked = False, ak_expiresAt = None, ak_isTestKey = False, ak_testDailyLimit = 100,
     ak_testKeyType = None, ak_testKeyIpHash = None\<rparr>"

definition sample_world :: "keyspace world" where
  "sample_world = (empty_world (\<lambda>_. None))\<lparr>w_apiKeys := [sample_ak], w_protocols := [sample_pr]\<rparr>"

lemmas sample_defs = sample_pr_def sample_ak_def sample_world_def empty_world_def

theorem issued_key_authenticates_witness:
  "\<exists>p w'. validateApiKey mem_redis id (\<lambda>_. None) 5000
       (gk_plainText (generateApiKey id ''sandbox'' (replicate 30 CHR ''a''))) sample_world = (Inr (Some p), w')
    \<and> ap_protocolId p = ''p1'' \<and> ap_apiKeyId p = ''k1'' \<and> ap_scopes p = [''notify:write'']
    \<and> ap_tier p = 1 \<and> ap_environment p = ''sandbox''"
proof -
  have "\<exists>p w'. validateApiKey mem_redis id (\<lambda>_. None) 5000
       (gk_plainText (generateApiKey id ''sandbox'' (replicate 30 CHR ''a''))) sample_world = (Inr (Some p), w')
    \<and> ap_protocolId p = pr_id sample_pr \<and> ap_apiKeyId p = ak_id sample_ak \<and> ap_scopes p = ak_scopes sample_ak
    \<and> ap_tier p = pr_tier sample_pr \<and> ap_environment p = ak_environment sample_ak"
    by (rule issued_key_authenticates [where suffix = "replicate 30 CHR ''a''" and e = "''sandbox''" and sha = id])
      (simp_all add: sample_defs generateApiKey_def key_expired_def protocol_row_def cached_auth_def
        mem_redis_def mem_get_def is_base58_def list_all_iff Let_def)
  then show ?thesis by (simp add: sample_defs)
qed

text \<open>Revocation is seen late. Once a key has been validated, every request within the next 300
  seconds is answered from the cache, whatever has happened to the key or the protocol in the
  database meanwhile (revoked, suspended, deleted); after that, and after \<open>invalidateCache\<close>, the
  database decides again.\<close>

theorem revocation_latency:
  assumes "redis_service R" "w_redisUp w" "cached_auth R sha t key w = None"
    and "validateApiKey R sha dec t key w = (Inr (Some p), w1)"
    and "w2 = w1\<lparr>w_apiKeys := keys, w_protocols := protocols, w_settings := settings\<rparr>" "t \<le> t'"
  shows "(t' < t + 300000 \<longrightarrow> validateApiKey R sha dec t' key w2 = (Inr (Some p), w2))
    \<and> (\<forall>q w3. t + 300000 \<le> t' \<and> validateApiKey R sha dec t' key w2 = (Inr (Some q), w3) \<longrightarrow>
           authorises sha dec t' key w2 q)
    \<and> (\<forall>q w3. validateApiKey R sha dec t' key (snd (invalidateCache R (sha key) w2)) = (Inr (Some q), w3) \<longrightarrow>
           authorises sha dec t' key w2 q)"
proof -
  have ck: "auth_cache_key x \<noteq> ''auth:last_used''" for x by (simp add: auth_cache_key_def)
  have fmt: "isValidKeyFormat key" and w1: "w_redis w1 = r_hset R (r_setex R (w_redis w) t
      (auth_cache_key (sha key)) (RAuth p) 300000) ''auth:last_used'' (ap_apiKeyId p) (show_int t)"
      "w_redisUp w1"
    using validate_cold [OF assms(3)] assms(2,4) by (auto simp: authorises_def CACHE_TTL_SECONDS_def)
  have get: "r_get R (w_redis w2) t' (auth_cache_key (sha key)) =
      (if t' < t + 300000 then Some (RAuth p) else None)"
    using assms(5,6) w1 ck redis_service.get_setex [OF assms(1)] redis_service.get_hset [OF assms(1)]
    by simp
  have up: "w_redisUp w2" using assms(5) w1 by simp
  have 1: "t' < t + 300000 \<Longrightarrow> validateApiKey R sha dec t' key w2 = (Inr (Some p), w2)"
    using validate_hit [OF fmt, of R sha t' w2 p dec] get up by (simp add: cached_auth_def)
  have 2: "t + 300000 \<le> t' \<Longrightarrow> validateApiKey R sha dec t' key w2 = (Inr (Some q), w3) \<Longrightarrow>
      authorises sha dec t' key w2 q" for q w3
    using validate_cold [of R sha t' key w2 dec q w3] get by (simp add: cached_auth_def)
  let ?w = "snd (invalidateCache R (sha key) w2)"
  have "cached_auth R sha t' key ?w = None"
    using up redis_service.get_del [OF assms(1)] by (simp add: invalidateCache_def flow_simps cached_auth_def)
  from validate_cold [OF this] have 3: "validateApiKey R sha dec t' key ?w = (Inr (Some q), w3) \<Longrightarrow>
      authorises sha dec t' key w2 q" for q w3
    by (auto simp: invalidateCache_def flow_simps authorises_def key_row_def protocol_row_def split: if_splits)
  from 1 2 3 show ?thesis by blast
qed

definition revoked_world :: "keyspace world" where
  "revoked_world = (snd (validateApiKey mem_redis id (\<lambda>_. None) 0 (ak_keyHash sample_ak) sample_world))
     \<lparr>w_apiKeys := [sample_ak\<lparr>ak_isRevoked := True\<rparr>], w_protocols := [sample_pr], w_settings := []\<rparr>"

theorem revocation_latency_witness:
  "(\<exists>p. validateApiKey mem_redis id (\<lambda>_. None) 299999 (ak_keyHash sample_ak) revoked_world = (Inr (Some p), revoked_world))
   \<and> (\<forall>q w3. validateApiKey mem_redis id (\<lambda>_. None) 300000 (ak_keyHash sample_ak) revoked_world \<noteq> (Inr (Some q), w3))"
proof
  let ?v = "validateApiKey mem_redis id (\<lambda>_. None) 0 (ak_keyHash sample_ak) sample_world"
  have fmt: "isValidKeyFormat (ak_keyHash sample_ak)"
    unfolding isValidKeyFormat_iff
    by (rule exI [of _ "''test''"], rule exI [of _ "replicate 30 CHR ''a''"])
      (simp add: sample_defs is_base58_def list_all_iff)
  have none: "cached_auth mem_redis id 0 (ak_keyHash sample_ak) sample_world = None"
    by (simp add: sample_defs cached_auth_def mem_redis_def mem_get_def)
  have "authorises id (\<lambda>_. None) 0 (ak_keyHash sample_ak) sample_world
      (auth_result (\<lambda>_. None) sample_ak sample_pr None)"
    using fmt by (simp add: authorises_def key_row_def protocol_row_def key_expired_def sample_defs)
  then have v: "?v = (Inr (Some (auth_result (\<lambda>_. None) sample_ak sample_pr None)), snd ?v)"
    using validate_cold [OF none, of "\<lambda>_. None" "auth_result (\<lambda>_. None) sample_ak sample_pr None"]
    by (metis snd_conv)
  show "\<exists>p. validateApiKey mem_redis id (\<lambda>_. None) 299999 (ak_keyHash sample_ak) revoked_world = (Inr (Some p), revoked_world)"
    using revocation_latency [OF mem.redis_service_axioms _ none v revoked_world_def, of 299999]
    by (simp add: sample_defs)
  have no: "\<not> authorises id (\<lambda>_. None) 300000 (ak_keyHash sample_ak) revoked_world q" for q
    by (simp add: authorises_def key_row_def revoked_world_def sample_defs)
  show "\<forall>q w3. validateApiKey mem_redis id (\<lambda>_. None) 300000 (ak_keyHash sample_ak) revoked_world \<noteq> (Inr (Some q), w3)"
    using revocation_latency [OF mem.redis_service_axioms _ none v revoked_world_def, of 300000] no
    by (auto simp: sample_defs)
qed

text \<open>The guards let nobody through without credentials. A request that passes \<open>AuthGuard\<close> and
  then \<open>ScopeGuard\<close> carries a protocol that is either an existing one named by a request with the
  internal service's key on a domain or template path, or the one an API key stands for (from the
  cache or the database); and it holds every required scope.\<close>

theorem guards_authenticate:
  assumes "authGuard R sha dec ik now rq w = (Inr rq', w')" and "scopeGuard (Some scopes) rq' w' = (Inr u, w'')"
  shows "(\<exists>p. gr_authProtocol rq' = Some p \<and> set scopes \<subseteq> set (ap_scopes p) \<or> scopes = [])
    \<and> ((is_internal_request ik rq \<and> (\<exists>p \<in> set (w_protocols w).
           Some (pr_id p) = gr_headers rq ''x-protocol-id'' \<and> gr_authProtocol rq' = Some (internal_protocol p)))
      \<or> (\<exists>key p. gr_headers rq ''authorization'' = Some (''Bearer '' @ key) \<and> gr_authProtocol rq' = Some p
           \<and> isValidKeyFormat key
           \<and> (cached_auth R sha now key w = Some p \<or> authorises sha dec now key w p)))"
proof -
  have valid: "isValidKeyFormat key \<and> (cached_auth R sha now key w = Some p \<or> authorises sha dec now key w p)"
    if "validateApiKey R sha dec now key w = (Inr (Some p), w')" for key p
  proof -
    have fmt: "isValidKeyFormat key"
      using that by (auto simp: validateApiKey_def flow_simps split: if_splits)
    show ?thesis
    proof (cases "cached_auth R sha now key w")
      case None
      from validate_cold [OF None] that show ?thesis using fmt by blast
    next
      case (Some q)
      from validate_hit [OF fmt Some] that Some fmt show ?thesis by simp
    qed
  qed
  from authGuard_ok [OF assms(1)] have auth: "(is_internal_request ik rq \<and> (\<exists>p \<in> set (w_protocols w).
           Some (pr_id p) = gr_headers rq ''x-protocol-id'' \<and> gr_authProtocol rq' = Some (internal_protocol p)))
      \<or> (\<exists>key p. gr_headers rq ''authorization'' = Some (''Bearer '' @ key) \<and> gr_authProtocol rq' = Some p
           \<and> isValidKeyFormat key
           \<and> (cached_auth R sha now key w = Some p \<or> authorises sha dec now key w p))"
    using valid by fastforce
  have scope: "\<exists>p. gr_authProtocol rq' = Some p \<and> set scopes \<subseteq> set (ap_scopes p) \<or> scopes = []"
    using assms(2) by (auto simp: scopeGuard_def flow_simps list_all_iff split: list.splits option.splits if_splits)
  from auth scope show ?thesis by blast
qed

theorem guards_authenticate_witness:
  "\<exists>p. authGuard mem_redis id (\<lambda>_. None) (Some ''s3cret'') 0
        \<lparr>gr_headers = [''x-internal-service'' \<mapsto> ''herald-admin'', ''x-internal-key'' \<mapsto> ''s3cret'',
            ''x-protocol-id'' \<mapsto> ''p1''], gr_url = ''/v1/domains'', gr_authProtocol = None, gr_walletHash = None\<rparr>
        sample_world = (Inr p, sample_world) \<and> (\<exists>a. gr_authProtocol p = Some a \<and> {''admin''} \<subseteq> set (ap_scopes a))"
proof -
  let ?rq = "\<lparr>gr_headers = [''x-internal-service'' \<mapsto> ''herald-admin'', ''x-internal-key'' \<mapsto> ''s3cret'',
            ''x-protocol-id'' \<mapsto> ''p1''], gr_url = ''/v1/domains'', gr_authProtocol = None, gr_walletHash = None\<rparr>"
  let ?rq' = "?rq\<lparr>gr_authProtocol := Some (internal_protocol sample_pr)\<rparr>"
  have a: "authGuard mem_redis id (\<lambda>_. None) (Some ''s3cret'') 0 ?rq sample_world = (Inr ?rq', sample_world)"
    by (simp add: authGuard_def is_internal_request_def startsWith_def sample_defs flow_simps)
  have s: "scopeGuard (Some [''admin'']) ?rq' sample_world = (Inr (), sample_world)"
    by (simp add: scopeGuard_def internal_protocol_def flow_simps)
  from guards_authenticate [OF a s] a show ?thesis by auto
qed

end
