(* ===== verification/Scanner.thy ===== *)
theory Scanner
  imports Js_Regex
begin

text \<open>
  The content scanner (\<open>notify/content-scanner.service.ts\<close>): thirteen weighted patterns,
  five patterns of legitimate wording that lower the score, and the verdict. The patterns
  are built with the combinators of \<open>Js_Regex\<close> under the \<open>i\<close> flag, on the ASCII range.
\<close>

record suspicious_pattern =
  sp_pattern :: re
  sp_weight :: int
  sp_label :: string

definition word_i :: "string list \<Rightarrow> re" where
  "word_i ws = alts (map lit_i ws)"

text \<open>\<open>(?:w\s+)?\<close>\<close>

definition opt_word :: "string \<Rightarrow> re" where
  "opt_word w = opt (Seq (lit_i w) spaces1)"

definition SUSPICIOUS_PATTERNS :: "suspicious_pattern list" where
  "SUSPICIOUS_PATTERNS =
    [\<lparr>sp_pattern = seqs [lit_i ''claim'', spaces1, opt_word ''your'', lit_i ''airdrop'', spaces1, lit_i ''now''],
      sp_weight = 35, sp_label = ''fake_airdrop_urgency''\<rparr>,
     \<lparr>sp_pattern = seqs [lit_i ''connect'', spaces1, opt_word ''your'', lit_i ''wallet'', spaces1,
        lit_i ''to'', spaces1, lit_i ''verify''],
      sp_weight = 40, sp_label = ''wallet_drainer_pattern''\<rparr>,
     \<lparr>sp_pattern = seqs [lit_i ''verify'', spaces1, opt_word ''your'', lit_i ''wallet'', spaces1,
        opt_word ''to'', word_i [''claim'', ''receive'']],
      sp_weight = 35, sp_label = ''verify_to_claim''\<rparr>,
     \<lparr>sp_pattern = seqs [word_i [''click'', ''tap''], spaces1, word_i [''here'', ''below''], spaces1,
        lit_i ''to'', spaces1, word_i [''claim'', ''collect'', ''receive''], spaces1, word_i [''free'', ''bonus'']],
      sp_weight = 30, sp_label = ''click_to_claim_free''\<rparr>,
     \<lparr>sp_pattern = seqs [word_i [''bit.ly'', ''tinyurl.com'', ''t.co'', ''goo.gl'', ''ow.ly'', ''is.gd'', ''buff.ly''],
        Cls (\<lambda>c. of_char c = (92 :: nat) \<or> c = CHR ''/'' \<or> c = CHR ''?'')],
      sp_weight = 25, sp_label = ''url_shortener''\<rparr>,
     \<lparr>sp_pattern = seqs [lit_i ''urgent'', repeat_between 0 20 (Cls not_newline), lit_i ''action'',
        repeat_between 0 20 (Cls not_newline), lit_i ''required''],
      sp_weight = 20, sp_label = ''phishing_urgency''\<rparr>,
     \<lparr>sp_pattern = seqs [lit_i ''your'', spaces1, word_i [''account'', ''wallet'', ''funds''], spaces1,
        opt (seqs [lit_i ''has'', spaces1, lit_i ''been'', spaces1]), word_i [''compromised'', ''hacked'', ''flagged'']],
      sp_weight = 40, sp_label = ''account_compromise_scare''\<rparr>,
     \<lparr>sp_pattern = seqs [word_i [''send'', ''transfer''], spaces1, plus (Cls is_digit), Star (Cls is_space),
        word_i [''eth'', ''sol'', ''bnb'', ''usdc'', ''usdt''], spaces1, lit_i ''to'', spaces1, opt_word ''this'',
        word_i [''address'', ''wallet'']],
      sp_weight = 50, sp_label = ''transfer_to_address''\<rparr>,
     \<lparr>sp_pattern = seqs [word_i [''metamask'', ''phantom'', ''trustwallet'', ''ledger''], spaces1,
        word_i [''support'', ''team'', ''official''], spaces1, word_i [''here'', ''is'']],
      sp_weight = 45, sp_label = ''wallet_impersonation''\<rparr>,
     \<lparr>sp_pattern = seqs [alts [Seq (lit_i ''double'') (opt (lit_i ''d'')), Seq (lit_i ''multiplie'') (opt (lit_i ''d'')),
          Seq (lit_i ''guarantee'') (opt (lit_i ''d''))], spaces1, opt_word ''your'',
        word_i [''profit'', ''return'', ''investment'']],
      sp_weight = 30, sp_label = ''pump_dump_language''\<rparr>,
     \<lparr>sp_pattern = seqs [alts [seqs [lit_i ''limited'', spaces1, lit_i ''time''], lit_i ''exclusive'',
          seqs [lit_i ''only'', spaces1, plus (Cls is_digit), spaces1, lit_i ''spot'', opt (lit_i ''s'')]],
        spaces1, lit_i ''offer''],
      sp_weight = 15, sp_label = ''scarcity_manipulation''\<rparr>,
     \<lparr>sp_pattern = alts [seqs [lit_i ''seed'', spaces1, lit_i ''phrase''], seqs [lit_i ''private'', spaces1, lit_i ''key''],
        seqs [lit_i ''recovery'', spaces1, lit_i ''phrase''], lit_i ''mnemonic''],
      sp_weight = 60, sp_label = ''seed_phrase_request''\<rparr>,
     \<lparr>sp_pattern = seqs [word_i [''enter'', ''provide'', ''confirm'', ''share''], spaces1, opt_word ''your'',
        word_i [''password'', ''credentials'', ''login'']],
      sp_weight = 30, sp_label = ''credential_phishing''\<rparr>]"

definition two_words :: "string \<Rightarrow> string \<Rightarrow> re" where
  "two_words a b = seqs [lit_i a, spaces1, lit_i b]"

definition ALLOW_TERMS :: "re list" where
  "ALLOW_TERMS =
    [alts [two_words ''liquidation'' ''threshold'', two_words ''health'' ''factor'', two_words ''collateral'' ''ratio''],
     alts [seqs [lit_i ''staking'', spaces1, lit_i ''reward'', opt (lit_i ''s'')], two_words ''validator'' ''epoch'',
        two_words ''governance'' ''proposal''],
     alts [two_words ''price'' ''alert'', two_words ''market'' ''order'', two_words ''limit'' ''order'', lit_i ''slippage''],
     seqs [lit_i ''transaction'', spaces1, word_i [''confirmed'', ''failed'', ''pending'']],
     alts [two_words ''your'' ''position'', two_words ''open'' ''position'', two_words ''close'' ''position'']]"

datatype verdict = Pass | Review | Block

record scan_result =
  sn_riskScore :: int
  sn_verdict :: verdict
  sn_triggeredRules :: "string list"

fun verdict_name :: "verdict \<Rightarrow> string" where
  "verdict_name Pass = ''pass''"
| "verdict_name Review = ''review''"
| "verdict_name Block = ''block''"

definition scan_text :: "string \<Rightarrow> string \<Rightarrow> string" where
  "scan_text subject body = subject @ [CHR 0x0A] @ body"

text \<open>The two loops of \<open>scan\<close>: the accumulated score with the labels, then the reductions.\<close>

fun add_rules :: "string \<Rightarrow> suspicious_pattern list \<Rightarrow> int \<times> string list \<Rightarrow> int \<times> string list" where
  "add_rules text [] acc = acc"
| "add_rules text (p # ps) (score, triggered) =
     add_rules text ps (if test (sp_pattern p) text then (score + sp_weight p, triggered @ [sp_label p])
                        else (score, triggered))"

fun reduce_score :: "string \<Rightarrow> re list \<Rightarrow> int \<Rightarrow> int" where
  "reduce_score text [] score = score"
| "reduce_score text (safe # rest) score =
     reduce_score text rest (if test safe text then max 0 (score - 10) else score)"

definition scan :: "string \<Rightarrow> string \<Rightarrow> scan_result" where
  "scan subject body =
     (let text = scan_text subject body;
          (score0, triggered) = add_rules text SUSPICIOUS_PATTERNS (0, []);
          score = min 100 (reduce_score text ALLOW_TERMS score0)
      in \<lparr>sn_riskScore = score,
          sn_verdict = (if score \<ge> 70 then Block else if score \<ge> 40 then Review else Pass),
          sn_triggeredRules = triggered\<rparr>)"

section \<open>The score in closed form\<close>

definition hits :: "string \<Rightarrow> suspicious_pattern list" where
  "hits text = filter (\<lambda>p. test (sp_pattern p) text) SUSPICIOUS_PATTERNS"

definition weight :: "string \<Rightarrow> int" where
  "weight text = sum_list (map sp_weight (hits text))"

definition allowances :: "string \<Rightarrow> nat" where
  "allowances text = length (filter (\<lambda>r. test r text) ALLOW_TERMS)"

lemma add_rules_eq:
  "add_rules text ps (n, ls) =
     (n + sum_list (map sp_weight (filter (\<lambda>p. test (sp_pattern p) text) ps)),
      ls @ map sp_label (filter (\<lambda>p. test (sp_pattern p) text) ps))"
  by (induction ps arbitrary: n ls) auto

lemma reduce_score_eq:
  "0 \<le> n \<Longrightarrow> reduce_score text rs n = max 0 (n - 10 * int (length (filter (\<lambda>r. test r text) rs)))"
  by (induction rs arbitrary: n) auto

lemma weights_positive: "p \<in> set SUSPICIOUS_PATTERNS \<Longrightarrow> 0 < sp_weight p"
  by (auto simp: SUSPICIOUS_PATTERNS_def)

lemma weight_nonneg: "0 \<le> weight text"
  unfolding weight_def hits_def
  by (rule sum_list_nonneg) (auto dest: weights_positive)

lemma scan_score:
  "sn_riskScore (scan s b) =
     min 100 (max 0 (weight (scan_text s b) - 10 * int (allowances (scan_text s b))))"
  using weight_nonneg [of "scan_text s b"]
  by (simp add: scan_def Let_def add_rules_eq reduce_score_eq weight_def hits_def allowances_def)

lemma scan_rules: "sn_triggeredRules (scan s b) = map sp_label (hits (scan_text s b))"
  by (simp add: scan_def Let_def add_rules_eq hits_def)

lemma scan_verdict:
  "sn_verdict (scan s b) =
     (if sn_riskScore (scan s b) \<ge> 70 then Block else if sn_riskScore (scan s b) \<ge> 40 then Review else Pass)"
  by (simp add: scan_def Let_def split_beta)

lemma allowances_bound: "allowances text \<le> 5"
proof -
  have "length ALLOW_TERMS = 5" by (simp add: ALLOW_TERMS_def)
  then show ?thesis unfolding allowances_def by (metis length_filter_le)
qed

lemma sum_filter_mono:
  assumes "\<And>x. x \<in> set xs \<Longrightarrow> P x \<Longrightarrow> Q x" and "\<And>x. x \<in> set xs \<Longrightarrow> (0 :: int) \<le> f x"
  shows "sum_list (map f (filter P xs)) \<le> sum_list (map f (filter Q xs))"
  using assms by (induction xs) (fastforce intro: add_increasing)+

lemma weight_mono: "weight t \<le> weight (p @ t @ q)"
  unfolding weight_def hits_def
  by (rule sum_filter_mono) (auto intro: test_append less_imp_le dest: weights_positive)

section \<open>Properties\<close>

text \<open>C33: The verdict is decided by the rules that match. The score is the weight of the matching
  rules less ten per kind of legitimate wording, clipped to 0..100; a rule matches exactly when
  the text (subject, newline, body) contains a word of its pattern; the notification is blocked
  from 70 and reviewed from 40.\<close>

theorem scan_decision:
  "sn_riskScore (scan s b) = min 100 (max 0 (weight (scan_text s b) - 10 * int (allowances (scan_text s b))))
   \<and> (sn_verdict (scan s b) = Block \<longleftrightarrow> 70 + 10 * int (allowances (scan_text s b)) \<le> weight (scan_text s b))
   \<and> (sn_verdict (scan s b) = Pass \<longleftrightarrow> weight (scan_text s b) < 40 + 10 * int (allowances (scan_text s b)))
   \<and> (\<forall>l. l \<in> set (sn_triggeredRules (scan s b)) \<longleftrightarrow>
        (\<exists>p \<in> set SUSPICIOUS_PATTERNS. sp_label p = l
           \<and> (\<exists>u v x. scan_text s b = u @ v @ x \<and> in_lang (sp_pattern p) v)))"
  by (auto simp: scan_verdict scan_score scan_rules hits_def test_iff)

text \<open>Padding is not an escape from the rules, only a bounded discount. Whatever is put before
  the subject or after the body, every rule that matched still matches, and the score cannot drop
  below the weight of those rules less fifty (capped at 100): a text of weight 120 is blocked in
  every padding, and a text of weight 90 is at least reviewed.\<close>

theorem padding_discount:
  "set (sn_triggeredRules (scan s b)) \<subseteq> set (sn_triggeredRules (scan (p @ s) (b @ q)))
   \<and> min 100 (weight (scan_text s b) - 50) \<le> sn_riskScore (scan (p @ s) (b @ q))
   \<and> (120 \<le> weight (scan_text s b) \<longrightarrow> sn_verdict (scan (p @ s) (b @ q)) = Block)
   \<and> (90 \<le> weight (scan_text s b) \<longrightarrow> sn_verdict (scan (p @ s) (b @ q)) \<noteq> Pass)"
proof -
  have padded: "scan_text (p @ s) (b @ q) = p @ scan_text s b @ q" by (simp add: scan_text_def)
  have "min 100 (weight (scan_text s b) - 50) \<le> sn_riskScore (scan (p @ s) (b @ q))"
    using weight_mono [of "scan_text s b" p q] allowances_bound [of "scan_text (p @ s) (b @ q)"]
    unfolding scan_score padded by simp
  moreover have "set (sn_triggeredRules (scan s b)) \<subseteq> set (sn_triggeredRules (scan (p @ s) (b @ q)))"
    unfolding scan_rules hits_def padded by (auto intro: test_append)
  ultimately show ?thesis
    using scan_verdict [of "p @ s" "b @ q"] by (auto split: if_splits)
qed

lemma in_lang_lit_i_self: "in_lang (lit_i w) w"
  by (induction w) (auto simp: in_lang_Seq_Cls)

lemma sample_weight: "90 \<le> weight (scan_text '''' ''mnemonic double profit'')"
proof -
  let ?t = "scan_text '''' ''mnemonic double profit''"
  let ?P = "\<lambda>p. sp_label p \<in> {''seed_phrase_request'', ''pump_dump_language''}"
  have sp: "in_lang spaces1 '' ''"
    using in_lang.seq [OF in_lang.cls in_lang.star_nil, of is_space "CHR '' ''" "Cls is_space"]
    by (simp add: spaces1_def plus_def is_space_def)
  have mn: "in_lang (lit_i ''mnemonic'') ''mnemonic''" by (rule in_lang_lit_i_self)
  have dp: "in_lang (seqs [alts [Seq (lit_i ''double'') (opt (lit_i ''d'')), a, b], spaces1, opt w,
      alts [lit_i ''profit'', c, d]]) (''double'' @ '' '' @ [] @ ''profit'')" for a b c d w
    unfolding seqs.simps alts.simps
    using in_lang.seq [OF in_lang_lit_i_self [of "''double''"] in_lang.alt_r [OF in_lang.eps], of "lit_i ''d''"]
    by (intro in_lang.seq sp in_lang.alt_l in_lang_lit_i_self) (simp_all add: opt_def)
  have "test (sp_pattern p) ?t" if "p \<in> set SUSPICIOUS_PATTERNS" "?P p" for p
  proof -
    from that consider "sp_pattern p = alts [seqs [lit_i ''seed'', spaces1, lit_i ''phrase''], seqs [lit_i ''private'', spaces1, lit_i ''key''],
        seqs [lit_i ''recovery'', spaces1, lit_i ''phrase''], lit_i ''mnemonic'']"
      | "sp_pattern p = seqs [alts [Seq (lit_i ''double'') (opt (lit_i ''d'')), Seq (lit_i ''multiplie'') (opt (lit_i ''d'')),
          Seq (lit_i ''guarantee'') (opt (lit_i ''d''))], spaces1, opt (Seq (lit_i ''your'') spaces1),
          alts [lit_i ''profit'', lit_i ''return'', lit_i ''investment'']]"
      by (auto simp: SUSPICIOUS_PATTERNS_def word_i_def opt_word_def simp del: lit_i.simps)
    then show ?thesis
    proof cases
      case 1
      with mn have "in_lang (sp_pattern p) ''mnemonic''" by (simp del: lit_i.simps)
      moreover have "?t = [CHR 0x0A] @ ''mnemonic'' @ '' double profit''" by (simp add: scan_text_def)
      ultimately show ?thesis unfolding test_iff by blast
    next
      case 2
      with dp have "in_lang (sp_pattern p) (''double'' @ '' '' @ [] @ ''profit'')" by metis
      moreover have "?t = (CHR 0x0A # ''mnemonic '') @ (''double'' @ '' '' @ [] @ ''profit'') @ []"
        by (simp add: scan_text_def)
      ultimately show ?thesis unfolding test_iff by blast
    qed
  qed
  then have "sum_list (map sp_weight (filter ?P SUSPICIOUS_PATTERNS)) \<le> weight ?t"
    unfolding weight_def hits_def by (intro sum_filter_mono) (auto dest: weights_positive)
  then show ?thesis by (simp add: SUSPICIOUS_PATTERNS_def)
qed

theorem padding_discount_witness:
  "sn_verdict (scan (''Hi'' @ []) (''mnemonic double profit'' @ ''slippage'')) \<noteq> Pass"
  using padding_discount [of "[]" "''mnemonic double profit''" "''Hi''" "''slippage''"] sample_weight by simp

end
