(* ===== verification/Sandbox.thy ===== *)
theory Sandbox
  imports Auth Rate_Limit
begin

text \<open>
  Sandbox keys (\<open>sandbox/sandbox.service.ts\<close>): the daily quota of a test key and of the
  dashboard playground, both Redis counters that expire at the next UTC midnight, the creation
  of test keys with its limit per IP address, and the sandbox receipts with their nightly
  clean-up. \<open>setHours\<close> and \<open>setDate\<close> are taken in UTC.
\<close>

definition SANDBOX_PREFIX :: string where "SANDBOX_PREFIX = ''hrld_test_''"
definition EXPIRATION_DAYS :: int where "EXPIRATION_DAYS = 14"
definition IP_KEY_LIMIT_PER_DAY :: int where "IP_KEY_LIMIT_PER_DAY = 5"
definition PLAYGROUND_DAILY_LIMIT :: int where "PLAYGROUND_DAILY_LIMIT = 25"
definition DAY_MS :: int where "DAY_MS = 86400000"

definition DAILY_KEY :: "string \<Rightarrow> string" where "DAILY_KEY apiKeyId = ''sandbox:daily:'' @ apiKeyId"
definition IP_DAILY_KEY :: "string \<Rightarrow> string" where "IP_DAILY_KEY ipHash = ''sandbox:ip_daily:'' @ ipHash"
definition PLAYGROUND_DAILY_KEY :: "string \<Rightarrow> string" where
  "PLAYGROUND_DAILY_KEY apiKeyId = ''sandbox:playground:'' @ apiKeyId"

definition isTestKey :: "string \<Rightarrow> bool" where
  "isTestKey plainTextKey = startsWith plainTextKey SANDBOX_PREFIX"

definition isTestKeyByEnvironment :: "string \<Rightarrow> bool" where
  "isTestKeyByEnvironment environment = (environment = ''sandbox'' \<or> environment = ''test'')"

section \<open>Daily counters\<close>

definition midnight :: "millis \<Rightarrow> millis" where
  "midnight now = (now div DAY_MS + 1) * DAY_MS"

definition until_midnight :: "millis \<Rightarrow> int" where
  "until_midnight now = ceil_div (midnight now - now) 1000"

definition read_count :: "'r redis_api \<Rightarrow> millis \<Rightarrow> string \<Rightarrow> 'r world \<Rightarrow> (int, 'r world) handled" where
  "read_count R now key w =
     (if w_redisUp w then ok (redis_count R (w_redis w) now key) w else throw redis_error w)"

text \<open>\<open>await redis.incr(key); await redis.expire(key, ttl)\<close>\<close>

definition bump_store :: "'r redis_api \<Rightarrow> millis \<Rightarrow> string \<Rightarrow> int \<Rightarrow> 'r \<Rightarrow> 'r" where
  "bump_store R now key ttl s = r_pexpire R (snd (r_incr R s now key)) now key (ttl * 1000)"

definition bump_count :: "'r redis_api \<Rightarrow> millis \<Rightarrow> string \<Rightarrow> int \<Rightarrow> 'r world \<Rightarrow> (unit, 'r world) handled" where
  "bump_count R now key ttl w =
     (if w_redisUp w then ok () (w\<lparr>w_redis := bump_store R now key ttl (w_redis w)\<rparr>)
      else throw redis_error w)"

definition getTodayCount :: "'r redis_api \<Rightarrow> millis \<Rightarrow> string \<Rightarrow> 'r world \<Rightarrow> (int, 'r world) handled" where
  "getTodayCount R now apiKeyId w = read_count R now (DAILY_KEY apiKeyId) w"

definition getPlaygroundTodayCount :: "'r redis_api \<Rightarrow> millis \<Rightarrow> string \<Rightarrow> 'r world \<Rightarrow> (int, 'r world) handled" where
  "getPlaygroundTodayCount R now apiKeyId w = read_count R now (PLAYGROUND_DAILY_KEY apiKeyId) w"

section \<open>The quota of a test key\<close>

record sandbox_config =
  sx_isSandbox :: bool
  sx_testKeyType :: string
  sx_dailyLimit :: int
  sx_remainingToday :: int
  sx_expiresAt :: "millis option"
  sx_isExpired :: bool

record sandbox_validation =
  sv_allowed :: bool
  sv_isSandbox :: bool
  sv_testKeyType :: "string option"
  sv_apiKeyId :: "string option"
  sv_dailyLimit :: int
  sv_remainingToday :: int
  sv_errorCode :: "string option"

definition api_key_by_id :: "string \<Rightarrow> 'r world \<Rightarrow> api_key option" where
  "api_key_by_id i w = List.find (\<lambda>k. ak_id k = i) (w_apiKeys w)"

definition getSandboxConfig ::
  "'r redis_api \<Rightarrow> millis \<Rightarrow> string \<Rightarrow> 'r world \<Rightarrow> (sandbox_config option, 'r world) handled" where
  "getSandboxConfig R now apiKeyId w =
     (case api_key_by_id apiKeyId w of
        None \<Rightarrow> ok None w
      | Some k \<Rightarrow>
          if \<not> ak_isTestKey k then ok None w
          else and_then (getTodayCount R now apiKeyId w) (\<lambda>today w'.
            ok (Some \<lparr>sx_isSandbox = True, sx_testKeyType = js_or (ak_testKeyType k) ''integration'',
                sx_dailyLimit = ak_testDailyLimit k,
                sx_remainingToday = max 0 (ak_testDailyLimit k - today),
                sx_expiresAt = ak_expiresAt k,
                sx_isExpired = (case ak_expiresAt k of None \<Rightarrow> False | Some e \<Rightarrow> now > e)\<rparr>) w'))"

definition validateSandboxKey ::
  "'r redis_api \<Rightarrow> millis \<Rightarrow> string \<Rightarrow> 'r world \<Rightarrow> (sandbox_validation, 'r world) handled" where
  "validateSandboxKey R now apiKeyId w =
     (case api_key_by_id apiKeyId w of
        None \<Rightarrow> ok \<lparr>sv_allowed = False, sv_isSandbox = False, sv_testKeyType = None, sv_apiKeyId = None,
            sv_dailyLimit = 0, sv_remainingToday = 0, sv_errorCode = Some ''AUTH_INVALID_KEY''\<rparr> w
      | Some k \<Rightarrow>
          if ak_isRevoked k then ok \<lparr>sv_allowed = False, sv_isSandbox = True, sv_testKeyType = None,
            sv_apiKeyId = Some (ak_id k), sv_dailyLimit = 0, sv_remainingToday = 0,
            sv_errorCode = Some ''AUTH_KEY_REVOKED''\<rparr> w
          else if (case ak_expiresAt k of None \<Rightarrow> False | Some e \<Rightarrow> now > e)
          then ok \<lparr>sv_allowed = False, sv_isSandbox = True, sv_testKeyType = None,
            sv_apiKeyId = Some (ak_id k), sv_dailyLimit = 0, sv_remainingToday = 0,
            sv_errorCode = Some ''SANDBOX_KEY_EXPIRED''\<rparr> w
          else and_then (getTodayCount R now apiKeyId w) (\<lambda>today w'.
            let remaining = max 0 (ak_testDailyLimit k - today)
            in if remaining \<le> 0
               then ok \<lparr>sv_allowed = False, sv_isSandbox = True, sv_testKeyType = ak_testKeyType k,
                 sv_apiKeyId = Some (ak_id k), sv_dailyLimit = ak_testDailyLimit k, sv_remainingToday = 0,
                 sv_errorCode = Some ''SANDBOX_LIMIT_EXCEEDED''\<rparr> w'
               else ok \<lparr>sv_allowed = True, sv_isSandbox = True, sv_testKeyType = ak_testKeyType k,
                 sv_apiKeyId = Some (ak_id k), sv_dailyLimit = ak_testDailyLimit k,
                 sv_remainingToday = remaining, sv_errorCode = None\<rparr> w'))"

definition incrementUsage :: "'r redis_api \<Rightarrow> millis \<Rightarrow> string \<Rightarrow> 'r world \<Rightarrow> (unit, 'r world) handled" where
  "incrementUsage R now apiKeyId w =
     (case api_key_by_id apiKeyId w of
        None \<Rightarrow> ok () w
      | Some k \<Rightarrow> if \<not> ak_isTestKey k then ok () w
          else bump_count R now (DAILY_KEY apiKeyId) (until_midnight now) w)"

section \<open>Creating a test key\<close>

text \<open>\<open>suffix\<close> is the base58 text of 32 random bytes, \<open>newId\<close> the id the database generates.\<close>

definition checkIpLimit :: "'r redis_api \<Rightarrow> millis \<Rightarrow> string option \<Rightarrow> 'r world \<Rightarrow> (unit, 'r world) handled" where
  "checkIpLimit R now ipHash w =
     (if \<not> truthy ipHash then ok () w
      else let ipKey = IP_DAILY_KEY (the ipHash) in
        and_then (read_count R now ipKey w) (\<lambda>ipCount w1.
          if IP_KEY_LIMIT_PER_DAY \<le> ipCount then throw (HttpExn 400 ''SANDBOX_IP_LIMIT_EXCEEDED'') w1
          else bump_count R now ipKey 86400 w1))"

definition test_key_row ::
  "(string \<Rightarrow> string) \<Rightarrow> millis \<Rightarrow> string \<Rightarrow> string \<Rightarrow> string \<Rightarrow> string \<Rightarrow> string option \<Rightarrow> int \<Rightarrow> api_key" where
  "test_key_row sha expiresAt newId suffix protocolId testKeyType ipHash dailyLimit =
     (let plainText = ''hrld_test_'' @ suffix
      in \<lparr>ak_id = newId, ak_protocolId = protocolId, ak_keyHash = sha plainText,
          ak_keyPrefix = take 16 plainText, ak_environment = ''sandbox'',
          ak_scopes = [''notify:write'', ''notify:read''], ak_isRevoked = False,
          ak_expiresAt = Some expiresAt, ak_isTestKey = True, ak_testDailyLimit = dailyLimit,
          ak_testKeyType = Some testKeyType, ak_testKeyIpHash = truthy_or_none ipHash\<rparr>)"

definition createTestKey ::
  "'r redis_api \<Rightarrow> (string \<Rightarrow> string) \<Rightarrow> millis \<Rightarrow> string \<Rightarrow> string \<Rightarrow> string \<Rightarrow> string \<Rightarrow> string option
     \<Rightarrow> 'r world \<Rightarrow> (string \<times> millis, 'r world) handled" where
  "createTestKey R sha now newId suffix protocolId testKeyType ipHash w =
     and_then (checkIpLimit R now ipHash w) (\<lambda>_ w1.
       case protocol_row protocolId w1 of
         None \<Rightarrow> throw (PrismaExn ''P2025'') w1
       | Some p \<Rightarrow>
           let dailyLimit = tl_sandboxDailyLimit (getTierLimits (pr_tier p));
               expiresAt = now + EXPIRATION_DAYS * DAY_MS;
               row = test_key_row sha expiresAt newId suffix protocolId testKeyType ipHash dailyLimit
           in if exists_row (\<lambda>k. ak_keyHash k = ak_keyHash row) (w_apiKeys w1)
              then throw (PrismaExn ''P2002'') w1
              else ok (newId, expiresAt) (w1\<lparr>w_apiKeys := w_apiKeys w1 @ [row]\<rparr>))"

section \<open>Receipts\<close>

definition recordSandboxReceipt ::
  "millis \<Rightarrow> string \<Rightarrow> string option \<Rightarrow> string \<Rightarrow> string option \<Rightarrow> string option \<Rightarrow> string option
     \<Rightarrow> string option \<Rightarrow> 'r world \<Rightarrow> (unit, 'r world) handled" where
  "recordSandboxReceipt now apiKeyId notificationId walletHash subject status devnetTx channel w =
     ok () (w\<lparr>w_sandboxReceipts := w_sandboxReceipts w @
       [\<lparr>sr_apiKeyId = apiKeyId, sr_notificationId = notificationId, sr_walletHash = walletHash,
         sr_subject = subject, sr_status = js_or status ''delivered'', sr_devnetTx = devnetTx,
         sr_channel = channel, sr_deliveredAt = Some now, sr_createdAt = now\<rparr>]\<rparr>)"

text \<open>Newest first; rows of the same instant in insertion order.\<close>

definition getSandboxReceipts :: "millis \<Rightarrow> string \<Rightarrow> nat \<Rightarrow> 'r world \<Rightarrow> sandbox_receipt list" where
  "getSandboxReceipts now apiKeyId limit w =
     (let cutoff = now - 24 * 3600000
      in take limit (sort_key (\<lambda>r. - sr_createdAt r)
           (filter (\<lambda>r. sr_apiKeyId r = apiKeyId \<and> cutoff \<le> sr_createdAt r) (w_sandboxReceipts w))))"

definition cleanupOldReceipts :: "millis \<Rightarrow> 'r world \<Rightarrow> (nat, 'r world) handled" where
  "cleanupOldReceipts now w =
     (let cutoff = now - 25 * 3600000;
          old = (\<lambda>r. sr_createdAt r < cutoff)
      in ok (count_rows old (w_sandboxReceipts w))
           (w\<lparr>w_sandboxReceipts := deleteMany old (w_sandboxReceipts w)\<rparr>))"

section \<open>The playground\<close>

definition checkPlaygroundLimit ::
  "'r redis_api \<Rightarrow> millis \<Rightarrow> string \<Rightarrow> 'r world \<Rightarrow> (bool \<times> int \<times> int, 'r world) handled" where
  "checkPlaygroundLimit R now apiKeyId w =
     and_then (getPlaygroundTodayCount R now apiKeyId w) (\<lambda>today w'.
       let remaining = max 0 (PLAYGROUND_DAILY_LIMIT - today)
       in ok (remaining > 0, remaining, PLAYGROUND_DAILY_LIMIT) w')"

definition incrementPlaygroundUsage :: "'r redis_api \<Rightarrow> millis \<Rightarrow> string \<Rightarrow> 'r world \<Rightarrow> (unit, 'r world) handled" where
  "incrementPlaygroundUsage R now apiKeyId w =
     bump_count R now (PLAYGROUND_DAILY_KEY apiKeyId) (until_midnight now) w"

section \<open>A daily quota as an interface\<close>

text \<open>
  Both quotas are spent the way \<open>notify.service.ts\<close> and the playground endpoint do it: check,
  send, then increment. \<open>used w t0 d n\<close> says that \<open>n\<close> sends of day \<open>d\<close> are on record from
  time \<open>t0\<close> until the end of that day.
\<close>

definition sandbox_send :: "'r redis_api \<Rightarrow> string \<Rightarrow> millis \<Rightarrow> 'r world \<Rightarrow> (bool, 'r world) handled" where
  "sandbox_send R i now w = and_then (validateSandboxKey R now i w) (\<lambda>v w'.
     if sv_allowed v then and_then (incrementUsage R now i w') (\<lambda>_. ok True) else ok False w')"

definition playground_send :: "'r redis_api \<Rightarrow> string \<Rightarrow> millis \<Rightarrow> 'r world \<Rightarrow> (bool, 'r world) handled" where
  "playground_send R i now w = and_then (checkPlaygroundLimit R now i w) (\<lambda>v w'.
     if fst v then and_then (incrementPlaygroundUsage R now i w') (\<lambda>_. ok True) else ok False w')"

fun gate_run :: "(millis \<Rightarrow> 'w \<Rightarrow> (bool, 'w) handled) \<Rightarrow> 'w \<Rightarrow> millis list \<Rightarrow> bool list" where
  "gate_run gate w [] = []"
| "gate_run gate w (t # ts) =
     (fst (gate t w) = Inr True) # gate_run gate (snd (gate t w)) ts"

locale quota_gate =
  fixes gate :: "millis \<Rightarrow> 'w \<Rightarrow> (bool, 'w) handled"
    and used :: "'w \<Rightarrow> millis \<Rightarrow> int \<Rightarrow> int \<Rightarrow> bool"
    and limit :: int
  assumes admit: "used w t0 d n \<Longrightarrow> 0 \<le> n \<Longrightarrow> t0 \<le> t \<Longrightarrow> t div DAY_MS = d \<Longrightarrow> n < limit \<Longrightarrow>
      \<exists>w'. gate t w = (Inr True, w') \<and> used w' t d (n + 1)"
    and refuse: "used w t0 d n \<Longrightarrow> 0 \<le> n \<Longrightarrow> t0 \<le> t \<Longrightarrow> t div DAY_MS = d \<Longrightarrow> limit \<le> n \<Longrightarrow>
      \<exists>w'. gate t w = (Inr False, w') \<and> used w' t d n"
begin

lemma run_from:
  assumes "used w t0 d n" "0 \<le> n" "sorted (t0 # ts)" "\<forall>t \<in> set ts. t div DAY_MS = d"
  shows "gate_run gate w ts = map (\<lambda>i. n + int i < limit) [0..<length ts]"
  using assms
proof (induction ts arbitrary: w t0 n)
  case (Cons t ts)
  have upt: "map f [0..<length (t # ts)] = f 0 # map (\<lambda>i. f (Suc i)) [0..<length ts]" for f :: "nat \<Rightarrow> bool"
    by (simp add: upt_conv_Cons map_Suc_upt [symmetric] del: upt_Suc map_Suc_upt)
  show ?case
  proof (cases "n < limit")
    case True
    with admit [OF Cons.prems(1,2), of t] Cons.prems obtain w' where
      w': "gate t w = (Inr True, w')" "used w' t d (n + 1)" by auto
    from Cons.IH [OF w'(2)] Cons.prems w'(1) True show ?thesis
      unfolding upt by (simp add: algebra_simps)
  next
    case False
    with refuse [OF Cons.prems(1,2), of t] Cons.prems obtain w' where
      w': "gate t w = (Inr False, w')" "used w' t d n" by auto
    from Cons.IH [OF w'(2)] Cons.prems w'(1) False show ?thesis
      unfolding upt by auto
  qed
qed simp

lemma run_day:
  assumes "used w 0 d 0" "sorted ts" "\<forall>t \<in> set ts. 0 \<le> t \<and> t div DAY_MS = d"
  shows "gate_run gate w ts = map (\<lambda>i. int i < limit) [0..<length ts]"
  using run_from [OF assms(1), of ts] assms(2,3) by simp

end

section \<open>The counters provide it\<close>

definition day_count :: "'r redis_api \<Rightarrow> 'r \<Rightarrow> string \<Rightarrow> millis \<Rightarrow> int \<Rightarrow> int \<Rightarrow> bool" where
  "day_count R s k t0 d n = (\<forall>t. t0 \<le> t \<and> t div DAY_MS = d \<longrightarrow>
     r_get R s t k = (if n = 0 then None else Some (RNum n)))"

lemma same_day_before_midnight:
  assumes "t div DAY_MS = t' div DAY_MS"
  shows "t' < t + until_midnight t * 1000"
proof -
  have "t' < midnight t" using assms by (simp add: midnight_def DAY_MS_def)
  moreover have "midnight t - t \<le> until_midnight t * 1000"
    unfolding until_midnight_def by (rule ceil_div_bounds) simp
  ultimately show ?thesis by simp
qed

lemma until_midnight_lt: "t + until_midnight t * 1000 < midnight t + 1000"
  using ceil_div_bounds(2) [of 1000 "midnight t - t"] by (simp add: until_midnight_def left_diff_distrib)

context redis_service begin

lemma bump_day:
  assumes "day_count R s k t0 d n" "0 \<le> n" "t0 \<le> t" "t div DAY_MS = d"
  shows "day_count R (bump_store R t k (until_midnight t) s) k t d (n + 1)"
  unfolding day_count_def
proof (intro allI impI, elim conjE)
  fix t' assume t': "t \<le> t'" "t' div DAY_MS = d"
  have now: "r_get R s t k = (if n = 0 then None else Some (RNum n))"
    using assms by (simp add: day_count_def)
  have "r_get R (snd (r_incr R s t k)) t k = Some (RNum (n + 1))"
    using now get_incr_new [of t t s k] get_incr_old [of t t s k n] by (cases "n = 0") auto
  moreover have "t' < t + until_midnight t * 1000"
    by (rule same_day_before_midnight) (use assms(4) t'(2) in simp)
  ultimately show "r_get R (bump_store R t k (until_midnight t) s) t' k =
      (if n + 1 = 0 then None else Some (RNum (n + 1)))"
    using t'(1) assms(2) by (simp add: bump_store_def get_pexpire)
qed

lemma bump_gone:
  "t \<le> t' \<Longrightarrow> midnight t + 1000 \<le> t' \<Longrightarrow> r_get R (bump_store R t k (until_midnight t) s) t' k = None"
  using until_midnight_lt [of t] by (simp add: bump_store_def get_pexpire)

end

definition test_key_used ::
  "'r redis_api \<Rightarrow> string \<Rightarrow> int \<Rightarrow> 'r world \<Rightarrow> millis \<Rightarrow> int \<Rightarrow> int \<Rightarrow> bool" where
  "test_key_used R i limit w t0 d n \<longleftrightarrow> w_redisUp w
     \<and> (\<exists>k. api_key_by_id i w = Some k \<and> ak_isTestKey k \<and> \<not> ak_isRevoked k
         \<and> ak_testDailyLimit k = limit
         \<and> (\<forall>e. ak_expiresAt k = Some e \<longrightarrow> (d + 1) * DAY_MS \<le> e))
     \<and> day_count R (w_redis w) (DAILY_KEY i) t0 d n"

definition playground_used :: "'r redis_api \<Rightarrow> string \<Rightarrow> 'r world \<Rightarrow> millis \<Rightarrow> int \<Rightarrow> int \<Rightarrow> bool" where
  "playground_used R i w t0 d n \<longleftrightarrow> w_redisUp w
     \<and> day_count R (w_redis w) (PLAYGROUND_DAILY_KEY i) t0 d n"

lemma day_count_read:
  "day_count R s k t0 d n \<Longrightarrow> t0 \<le> t \<Longrightarrow> t div DAY_MS = d \<Longrightarrow> redis_count R s t k = n"
  by (simp add: day_count_def redis_count_def)

lemma day_count_later: "day_count R s k t0 d n \<Longrightarrow> t0 \<le> t \<Longrightarrow> day_count R s k t d n"
  by (auto simp: day_count_def)

lemma sandbox_send_step:
  assumes "test_key_used R i limit w t0 d n" "t0 \<le> t" "t div DAY_MS = d"
  shows "sandbox_send R i t w = (if n < limit
    then (Inr True, w\<lparr>w_redis := bump_store R t (DAILY_KEY i) (until_midnight t) (w_redis w)\<rparr>)
    else (Inr False, w))"
proof -
  obtain k where k: "api_key_by_id i w = Some k" "ak_isTestKey k" "\<not> ak_isRevoked k"
      "ak_testDailyLimit k = limit" "\<forall>e. ak_expiresAt k = Some e \<longrightarrow> (d + 1) * DAY_MS \<le> e"
    and up: "w_redisUp w" and c: "redis_count R (w_redis w) t (DAILY_KEY i) = n"
    using assms by (auto simp: test_key_used_def day_count_read)
  have "t < (d + 1) * DAY_MS" using assms(3) by (simp add: DAY_MS_def)
  then have "\<not> (case ak_expiresAt k of None \<Rightarrow> False | Some e \<Rightarrow> e < t)"
    using k(5) by (auto split: option.splits)
  then show ?thesis
    using k up c by (auto simp: sandbox_send_def validateSandboxKey_def incrementUsage_def getTodayCount_def
        read_count_def bump_count_def flow_simps Let_def)
qed

lemma playground_send_step:
  assumes "playground_used R i w t0 d n" "t0 \<le> t" "t div DAY_MS = d"
  shows "playground_send R i t w = (if n < PLAYGROUND_DAILY_LIMIT
    then (Inr True, w\<lparr>w_redis := bump_store R t (PLAYGROUND_DAILY_KEY i) (until_midnight t) (w_redis w)\<rparr>)
    else (Inr False, w))"
  using assms day_count_read [of R "w_redis w" "PLAYGROUND_DAILY_KEY i" t0 d n t]
  by (simp add: playground_used_def playground_send_def checkPlaygroundLimit_def incrementPlaygroundUsage_def
      getPlaygroundTodayCount_def read_count_def bump_count_def flow_simps Let_def)

sublocale redis_service \<subseteq> test_key: quota_gate "sandbox_send R i" "test_key_used R i limit" limit
  for i limit
proof (unfold_locales, goal_cases)
  case (1 w t0 d n t)
  then show ?case
    using sandbox_send_step [OF 1(1,3,4)] bump_day [of "w_redis w" "DAILY_KEY i" t0 d n t]
    by (simp add: test_key_used_def api_key_by_id_def)
next
  case (2 w t0 d n t)
  then show ?case
    using sandbox_send_step [OF 2(1,3,4)] day_count_later by (fastforce simp: test_key_used_def)
qed

sublocale redis_service \<subseteq> playground: quota_gate "playground_send R i" "playground_used R i" PLAYGROUND_DAILY_LIMIT
  for i
proof (unfold_locales, goal_cases)
  case (1 w t0 d n t)
  then show ?case
    using playground_send_step [OF 1(1,3,4)] bump_day [of "w_redis w" "PLAYGROUND_DAILY_KEY i" t0 d n t]
    by (simp add: playground_used_def)
next
  case (2 w t0 d n t)
  then show ?case
    using playground_send_step [OF 2(1,3,4)] day_count_later by (fastforce simp: playground_used_def)
qed

context redis_service begin

lemma test_key_day:
  "test_key_used R i limit w 0 d 0 \<Longrightarrow> sorted ts \<Longrightarrow> \<forall>t \<in> set ts. 0 \<le> t \<and> t div DAY_MS = d \<Longrightarrow>
     gate_run (sandbox_send R i) w ts = map (\<lambda>j. int j < limit) [0..<length ts]"
  by (rule test_key.run_day)

lemma playground_day:
  "playground_used R i w 0 d 0 \<Longrightarrow> sorted ts \<Longrightarrow> \<forall>t \<in> set ts. 0 \<le> t \<and> t div DAY_MS = d \<Longrightarrow>
     gate_run (playground_send R i) w ts = map (\<lambda>j. int j < PLAYGROUND_DAILY_LIMIT) [0..<length ts]"
  by (rule playground.run_day)

end

section \<open>Properties\<close>

text \<open>The sandbox quota is exact. For a live test key with no usage on record, the sends of one
  UTC day, in any spacing, are accepted exactly up to the key's daily limit; and the counter is
  gone one second after midnight, so the next day starts afresh.\<close>

theorem sandbox_quota_exact:
  assumes "redis_service R" and "w_redisUp w" and "api_key_by_id i w = Some k" "ak_isTestKey k" "\<not> ak_isRevoked k"
    and "\<forall>e. ak_expiresAt k = Some e \<longrightarrow> (d + 1) * DAY_MS \<le> e"
    and "\<forall>t. 0 \<le> t \<and> t div DAY_MS = d \<longrightarrow> r_get R (w_redis w) t (DAILY_KEY i) = None"
    and "sorted ts" "\<forall>t \<in> set ts. 0 \<le> t \<and> t div DAY_MS = d"
  shows "gate_run (sandbox_send R i) w ts = map (\<lambda>j. int j < ak_testDailyLimit k) [0..<length ts]
    \<and> (\<forall>t t' w'. incrementUsage R t i w = (Inr (), w') \<and> t \<le> t' \<and> midnight t + 1000 \<le> t' \<longrightarrow>
         redis_count R (w_redis w') t' (DAILY_KEY i) = 0)"
proof
  have "test_key_used R i (ak_testDailyLimit k) w 0 d 0"
    using assms(2-7) by (auto simp: test_key_used_def day_count_def)
  then show "gate_run (sandbox_send R i) w ts = map (\<lambda>j. int j < ak_testDailyLimit k) [0..<length ts]"
    using redis_service.test_key_day [OF assms(1)] assms(8,9) by blast
  show "\<forall>t t' w'. incrementUsage R t i w = (Inr (), w') \<and> t \<le> t' \<and> midnight t + 1000 \<le> t' \<longrightarrow>
         redis_count R (w_redis w') t' (DAILY_KEY i) = 0"
    using assms(2-4) redis_service.bump_gone [OF assms(1)]
    by (auto simp: incrementUsage_def bump_count_def flow_simps redis_count_def)
qed

definition sandbox_world :: "keyspace world" where
  "sandbox_world = sample_world\<lparr>w_apiKeys := [sample_ak\<lparr>ak_isTestKey := True, ak_testDailyLimit := 2\<rparr>]\<rparr>"

theorem sandbox_quota_exact_witness:
  "gate_run (sandbox_send mem_redis ''k1'') sandbox_world [0, 1000, 86399999] = [True, True, False]"
proof -
  have "gate_run (sandbox_send mem_redis ''k1'') sandbox_world [0, 1000, 86399999] =
      map (\<lambda>j. int j < ak_testDailyLimit (sample_ak\<lparr>ak_isTestKey := True, ak_testDailyLimit := 2\<rparr>))
        [0..<length [0, 1000, 86399999 :: int]]"
    by (rule conjunct1, rule sandbox_quota_exact [OF mem.redis_service_axioms, where d = 0])
      (simp_all add: sandbox_world_def sample_defs api_key_by_id_def mem_redis_def mem_get_def DAY_MS_def)
  then show ?thesis by (simp add: upt_rec)
qed

text \<open>The playground quota is exact: per API key, the first 25 sends of a UTC day are accepted
  and every later one of that day is refused.\<close>

theorem playground_quota_exact:
  assumes "redis_service R" and "w_redisUp w"
    and "\<forall>t. 0 \<le> t \<and> t div DAY_MS = d \<longrightarrow> r_get R (w_redis w) t (PLAYGROUND_DAILY_KEY i) = None"
    and "sorted ts" "\<forall>t \<in> set ts. 0 \<le> t \<and> t div DAY_MS = d"
  shows "gate_run (playground_send R i) w ts = map (\<lambda>j. j < 25) [0..<length ts]"
proof -
  have "playground_used R i w 0 d 0"
    using assms(2,3) by (simp add: playground_used_def day_count_def)
  then have "gate_run (playground_send R i) w ts = map (\<lambda>j. int j < PLAYGROUND_DAILY_LIMIT) [0..<length ts]"
    using redis_service.playground_day [OF assms(1)] assms(4,5) by blast
  then show ?thesis by (simp add: PLAYGROUND_DAILY_LIMIT_def)
qed

theorem playground_quota_exact_witness:
  "gate_run (playground_send mem_redis ''k1'') sample_world (map int [0..<30]) = map (\<lambda>j. j < 25) [0..<30]"
proof -
  have "gate_run (playground_send mem_redis ''k1'') sample_world (map int [0..<30]) =
      map (\<lambda>j. j < 25) [0..<length (map int [0..<30])]"
    by (rule playground_quota_exact [OF mem.redis_service_axioms, where d = 0])
      (auto simp: sample_defs mem_redis_def mem_get_def DAY_MS_def sorted_map intro: sorted_wrt_mono_rel)
  then show ?thesis by simp
qed

text \<open>The life of a test key. A key that \<open>createTestKey\<close> has stored is accepted by
  \<open>validateSandboxKey\<close>, with the full daily limit of its protocol's tier, at every time until
  fourteen days after its creation, and is refused as expired after that.\<close>

theorem test_key_lifetime:
  assumes "createTestKey R sha now i suffix pid ty ip w = (Inr (j, e), w')"
    and "\<forall>k \<in> set (w_apiKeys w). ak_id k \<noteq> i" and "w_redisUp w'"
    and "redis_count R (w_redis w') now' (DAILY_KEY i) = 0" and "protocol_row pid w = Some p"
  shows "j = i \<and> e = now + 14 * DAY_MS \<and>
    (\<exists>v. validateSandboxKey R now' i w' = (Inr v, w')
      \<and> (if now' \<le> e then sv_allowed v \<and> sv_dailyLimit v = tl_sandboxDailyLimit (getTierLimits (pr_tier p))
             \<and> sv_remainingToday v = sv_dailyLimit v
           else \<not> sv_allowed v \<and> sv_errorCode v = Some ''SANDBOX_KEY_EXPIRED''))"
proof -
  obtain w1 where ip: "checkIpLimit R now ip w = (Inr (), w1)"
    using assms(1) by (cases "checkIpLimit R now ip w"; cases "fst (checkIpLimit R now ip w)")
      (auto simp: createTestKey_def)
  have frame: "w_apiKeys w1 = w_apiKeys w" "w_protocols w1 = w_protocols w"
    using ip by (auto simp: checkIpLimit_def read_count_def bump_count_def flow_simps Let_def split: if_splits)
  have none: "List.find (\<lambda>k. ak_id k = i) (w_apiKeys w1) = None"
    using assms(2) frame by (simp add: row_simps)
  have pos: "0 < tl_sandboxDailyLimit (getTierLimits (pr_tier p))"
    by (simp add: getTierLimits_def TIER_LIMITS_def tier_developer_def tier_growth_def tier_scale_def
        tier_enterprise_def js_simps)
  have row: "protocol_row pid w1 = Some p" using assms(5) frame by (simp add: protocol_row_def)
  let ?k = "test_key_row sha (now + EXPIRATION_DAYS * DAY_MS) i suffix pid ty ip (tl_sandboxDailyLimit (getTierLimits (pr_tier p)))"
  define k where "k = ?k"
  have w': "w' = w1\<lparr>w_apiKeys := w_apiKeys w1 @ [k]\<rparr>" and je: "j = i" "e = now + 14 * DAY_MS"
    using assms(1) unfolding createTestKey_def ip and_then_simps row option.case ok_def throw_def Let_def k_def
    by (auto simp: EXPIRATION_DAYS_def split: if_splits)
  have k: "ak_id k = i" "\<not> ak_isRevoked k"
      "ak_expiresAt k = Some e" "ak_testDailyLimit k = tl_sandboxDailyLimit (getTierLimits (pr_tier p))"
    by (simp_all add: k_def test_key_row_def Let_def je EXPIRATION_DAYS_def)
  have "api_key_by_id i w' = Some k"
    using none k(1) by (simp add: w' api_key_by_id_def find_append)
  with k je have key: "api_key_by_id i w' = Some k" "ak_id k = i" "\<not> ak_isRevoked k" "j = i" "e = now + 14 * DAY_MS"
      "ak_expiresAt k = Some e" "ak_testDailyLimit k = tl_sandboxDailyLimit (getTierLimits (pr_tier p))"
    by simp_all
  then show ?thesis
    using assms(3,4) pos by (simp add: validateSandboxKey_def getTodayCount_def read_count_def flow_simps Let_def)
qed

theorem test_key_lifetime_witness:
  "\<exists>v w'. createTestKey mem_redis id 0 ''k2'' '''' ''p1'' ''full'' (Some ''ip'') sample_world = (Inr (''k2'', 14 * DAY_MS), w')
     \<and> validateSandboxKey mem_redis (14 * DAY_MS + 1) ''k2'' w' = (Inr v, w') \<and> \<not> sv_allowed v"
proof -
  define r where "r = createTestKey mem_redis id 0 ''k2'' '''' ''p1'' ''full'' (Some ''ip'') sample_world"
  define w' where "w' = snd r"
  have r: "r = (Inr (''k2'', 14 * DAY_MS), w')" and up: "w_redisUp w'"
    and c: "redis_count mem_redis (w_redis w') (14 * DAY_MS + 1) (DAILY_KEY ''k2'') = 0"
    unfolding w'_def r_def
    by (simp_all add: createTestKey_def checkIpLimit_def read_count_def bump_count_def bump_store_def protocol_row_def
        sample_defs flow_simps Let_def mem_defs IP_KEY_LIMIT_PER_DAY_def exists_row_def IP_DAILY_KEY_def
        DAILY_KEY_def EXPIRATION_DAYS_def test_key_row_def)
  have "\<exists>v. validateSandboxKey mem_redis (14 * DAY_MS + 1) ''k2'' w' = (Inr v, w') \<and> \<not> sv_allowed v"
    using test_key_lifetime [OF r [unfolded r_def] _ up c, of sample_pr]
    by (auto simp: sample_defs protocol_row_def)
  with r show ?thesis unfolding r_def by blast
qed

text \<open>The clean-up never removes a receipt anybody can still read. Whatever the nightly job
  deletes at time \<open>t\<close>, \<open>getSandboxReceipts\<close> answers as if nothing had been deleted, at every time
  from an hour before the job on.\<close>

theorem cleanup_keeps_visible:
  assumes "t \<le> t' + 3600000"
  shows "getSandboxReceipts t' i limit (snd (cleanupOldReceipts t w)) = getSandboxReceipts t' i limit w"
proof -
  have "(\<lambda>r :: sandbox_receipt. \<not> sr_createdAt r < t - 90000000 \<and> sr_apiKeyId r = i \<and> t' - 86400000 \<le> sr_createdAt r) =
      (\<lambda>r. sr_apiKeyId r = i \<and> t' - 86400000 \<le> sr_createdAt r)"
    using assms by fastforce
  then show ?thesis
    by (simp add: getSandboxReceipts_def cleanupOldReceipts_def deleteMany_def flow_simps Let_def filter_filter)
qed

theorem cleanup_keeps_visible_witness:
  "getSandboxReceipts 95000000 ''k1'' 100 (snd (cleanupOldReceipts 98600000
      (snd (recordSandboxReceipt 9000000 ''k1'' None ''wh'' None None None None sample_world)))) =
   getSandboxReceipts 95000000 ''k1'' 100
      (snd (recordSandboxReceipt 9000000 ''k1'' None ''wh'' None None None None sample_world))"
  by (rule cleanup_keeps_visible) simp

end
