(* ===== verification/Audience.thy ===== *)
theory Audience
  imports Gateway_World "HOL-Library.List_Lexorder" "HOL-Library.Char_ord"
begin

text \<open>
  The audience of a protocol (\<open>subscriptions/subscriptions.service.ts\<close>): opting in and out,
  the lookups, the broadcast targets and the statistics. JavaScript objects used as counters
  are association lists in insertion order; \<open>sha\<close> is SHA-256 and \<open>isoDay\<close> the date part of
  \<open>toISOString\<close>.
\<close>

fun count_key :: "'k \<Rightarrow> ('k \<times> nat) list \<Rightarrow> ('k \<times> nat) list" where
  "count_key k [] = [(k, 1)]"
| "count_key k ((j, n) # m) = (if j = k then (j, n + 1) # m else (j, n) # count_key k m)"

definition is_member :: "string \<Rightarrow> string \<Rightarrow> protocol_subscription \<Rightarrow> bool" where
  "is_member walletHash protocolId r = (su_walletHash r = walletHash \<and> su_protocolId r = protocolId)"

definition is_active_in :: "string \<Rightarrow> protocol_subscription \<Rightarrow> bool" where
  "is_active_in protocolId r = (su_protocolId r = protocolId \<and> su_status r = ''active'')"

definition subscribe ::
  "(string \<Rightarrow> string) \<Rightarrow> millis \<Rightarrow> string \<Rightarrow> string \<Rightarrow> string list \<Rightarrow> string \<Rightarrow> 'r world \<Rightarrow> (unit, 'r world) handled" where
  "subscribe sha now walletPubkey protocolId channels source w =
     (let walletHash = sha walletPubkey
      in if exists_row (is_member walletHash protocolId) (w_audience w)
         then ok () (w\<lparr>w_audience := updateMany (is_member walletHash protocolId)
               (\<lambda>r. r\<lparr>su_status := ''active'', su_channels := channels,
                      su_walletPubkey := Some walletPubkey, su_updatedAt := now\<rparr>) (w_audience w)\<rparr>)
         else ok () (w\<lparr>w_audience := w_audience w @
               [\<lparr>su_walletPubkey = Some walletPubkey, su_walletHash = walletHash, su_protocolId = protocolId,
                 su_channels = channels, su_status = ''active'', su_source = source,
                 su_subscribedAt = now, su_updatedAt = now\<rparr>]\<rparr>))"

definition unsubscribe ::
  "millis \<Rightarrow> string \<Rightarrow> string \<Rightarrow> 'r world \<Rightarrow> (unit, 'r world) handled" where
  "unsubscribe now walletHash protocolId w =
     ok () (w\<lparr>w_audience := updateMany (is_member walletHash protocolId)
       (\<lambda>r. r\<lparr>su_status := ''unsubscribed'', su_updatedAt := now\<rparr>) (w_audience w)\<rparr>)"

definition resubscribe ::
  "millis \<Rightarrow> string \<Rightarrow> string \<Rightarrow> 'r world \<Rightarrow> (unit, 'r world) handled" where
  "resubscribe now walletHash protocolId w =
     ok () (w\<lparr>w_audience := updateMany (is_member walletHash protocolId)
       (\<lambda>r. r\<lparr>su_status := ''active'', su_updatedAt := now\<rparr>) (w_audience w)\<rparr>)"

record subscription_check =
  sk_isSubscribed :: bool
  sk_channels :: "string list"
  sk_subscribedAt :: "millis option"

definition checkSubscription :: "string \<Rightarrow> string \<Rightarrow> 'r world \<Rightarrow> subscription_check" where
  "checkSubscription walletHash protocolId w =
     (let sub = List.find (is_member walletHash protocolId) (w_audience w)
      in \<lparr>sk_isSubscribed = (case sub of None \<Rightarrow> False | Some r \<Rightarrow> su_status r = ''active''),
          sk_channels = (case sub of None \<Rightarrow> [] | Some r \<Rightarrow> su_channels r),
          sk_subscribedAt = map_option su_subscribedAt sub\<rparr>)"

definition getSubscriberCount :: "string \<Rightarrow> 'r world \<Rightarrow> nat" where
  "getSubscriberCount protocolId w = count_rows (is_active_in protocolId) (w_audience w)"

record broadcast_target =
  bt_walletPubkey :: string
  bt_walletHash :: string
  bt_channels :: "string list"

definition getBroadcastTargets :: "string \<Rightarrow> 'r world \<Rightarrow> broadcast_target list" where
  "getBroadcastTargets protocolId w =
     map (\<lambda>r. \<lparr>bt_walletPubkey = the (su_walletPubkey r), bt_walletHash = su_walletHash r,
               bt_channels = su_channels r\<rparr>)
       (filter (\<lambda>r. is_active_in protocolId r \<and> su_walletPubkey r \<noteq> None) (w_audience w))"

record audience_stats =
  as_totalSubscribers :: nat
  as_broadcastableSubscribers :: nat
  as_bySource :: "(string \<times> nat) list"
  as_byChannel :: "(string \<times> nat) list"
  as_recentSubscriptions :: "(string \<times> nat) list"

definition getAudienceStats ::
  "(millis \<Rightarrow> string) \<Rightarrow> millis \<Rightarrow> string \<Rightarrow> 'r world \<Rightarrow> audience_stats" where
  "getAudienceStats isoDay now protocolId w =
     (let thirtyDaysAgo = now - 30 * 24 * 60 * 60 * 1000;
          allActive = filter (is_active_in protocolId) (w_audience w)
      in \<lparr>as_totalSubscribers = count_rows (is_active_in protocolId) (w_audience w),
          as_broadcastableSubscribers =
            count_rows (\<lambda>r. is_active_in protocolId r \<and> su_walletPubkey r \<noteq> None) (w_audience w),
          as_bySource = fold (\<lambda>r. count_key (su_source r)) allActive [],
          as_byChannel = fold (\<lambda>r m. fold count_key (su_channels r) m) allActive [],
          as_recentSubscriptions = sort_key fst (fold (\<lambda>r m.
            if thirtyDaysAgo \<le> su_subscribedAt r then count_key (isoDay (su_subscribedAt r)) m else m)
            allActive [])\<rparr>)"

record user_subscription =
  us_protocolId :: string
  us_status :: string
  us_channels :: "string list"
  us_subscribedAt :: millis
  us_updatedAt :: millis
  us_name :: "string option"
  us_websiteUrl :: "string option"

text \<open>The logo and the category list of the settings are not part of the model's settings row.\<close>

definition getUserSubscriptions :: "string \<Rightarrow> 'r world \<Rightarrow> user_subscription list" where
  "getUserSubscriptions walletHash w =
     map (\<lambda>r. let st = List.find (\<lambda>s. ps_protocolId s = su_protocolId r) (w_settings w)
              in \<lparr>us_protocolId = su_protocolId r, us_status = su_status r, us_channels = su_channels r,
                  us_subscribedAt = su_subscribedAt r, us_updatedAt = su_updatedAt r,
                  us_name = Option.bind st ps_customFromName, us_websiteUrl = Option.bind st ps_websiteUrl\<rparr>)
       (sort_key (\<lambda>r. - su_subscribedAt r) (filter (\<lambda>r. su_walletHash r = walletHash) (w_audience w)))"

section \<open>Facts\<close>

definition unique_members :: "'r world \<Rightarrow> bool" where
  "unique_members w = distinct (map (\<lambda>r. (su_walletHash r, su_protocolId r)) (w_audience w))"

lemma member_update_keys:
  assumes "\<And>r. su_walletHash (f r) = su_walletHash r" "\<And>r. su_protocolId (f r) = su_protocolId r"
  shows "map (\<lambda>r. (su_walletHash r, su_protocolId r)) (updateMany p f rows) =
    map (\<lambda>r. (su_walletHash r, su_protocolId r)) rows"
  using assms by (intro map_updateMany) simp

lemma subscribe_unique: "unique_members w \<Longrightarrow> unique_members (snd (subscribe sha now pk pid cs src w))"
  by (auto simp: subscribe_def unique_members_def flow_simps Let_def member_update_keys row_simps is_member_def)

lemma unsubscribe_unique: "unique_members w \<Longrightarrow> unique_members (snd (unsubscribe now h pid w))"
  by (simp add: unsubscribe_def unique_members_def flow_simps member_update_keys)

lemma resubscribe_unique: "unique_members w \<Longrightarrow> unique_members (snd (resubscribe now h pid w))"
  by (simp add: resubscribe_def unique_members_def flow_simps member_update_keys)

text \<open>What one lookup says after an update of one membership.\<close>

lemma check_after_update:
  assumes "\<And>r. su_walletHash (f r) = su_walletHash r" "\<And>r. su_protocolId (f r) = su_protocolId r"
  shows "List.find (is_member h' p') (updateMany (is_member h p) f rows) =
    (if h' = h \<and> p' = p then map_option f (List.find (is_member h p) rows) else List.find (is_member h' p') rows)"
  using assms by (induction rows) (auto simp: is_member_def)

lemma find_new_member:
  "\<not> exists_row (is_member h p) rows \<Longrightarrow> is_member h p r \<Longrightarrow>
     List.find (is_member h' p') (rows @ [r]) =
       (if h' = h \<and> p' = p then Some r else List.find (is_member h' p') rows)"
  by (auto simp: find_append exists_row_def is_member_def split: option.splits)

lemma count_key_sum: "sum_list (map snd (count_key k m)) = Suc (sum_list (map snd m))"
  by (induction k m rule: count_key.induct) auto

lemma fold_count_key_sum:
  "sum_list (map snd (fold (\<lambda>r. count_key (g r)) rows m)) = sum_list (map snd m) + length rows"
  by (induction rows arbitrary: m) (simp_all add: count_key_sum)

lemma targets_length:
  "length (getBroadcastTargets pid w) =
     count_rows (\<lambda>r. is_active_in pid r \<and> su_walletPubkey r \<noteq> None) (w_audience w)"
  by (simp add: getBroadcastTargets_def count_rows_def)

lemma targets_le: "length (getBroadcastTargets pid w) \<le> getSubscriberCount pid w"
proof -
  have "count_rows (\<lambda>r. is_active_in pid r \<and> su_walletPubkey r \<noteq> None) rows \<le>
      count_rows (is_active_in pid) rows" for rows
    by (induction rows) auto
  then show ?thesis by (simp only: targets_length getSubscriberCount_def)
qed

lemma targets_distinct:
  assumes "unique_members w"
  shows "distinct (map bt_walletHash (getBroadcastTargets pid w))"
proof -
  have "distinct (map su_walletHash (filter (\<lambda>r. is_active_in pid r \<and> su_walletPubkey r \<noteq> None) rows))"
    if "distinct (map (\<lambda>r. (su_walletHash r, su_protocolId r)) rows)" for rows
    using that by (induction rows) (auto simp: is_active_in_def)
  then show ?thesis
    using assms by (simp add: getBroadcastTargets_def unique_members_def comp_def)
qed

section \<open>Properties\<close>

text \<open>Opting in and out. After \<open>subscribe\<close> the wallet is an active member reachable by a
  broadcast with the channels it gave; after \<open>unsubscribe\<close> it is not, and \<open>resubscribe\<close> restores
  it; no step touches the membership of another wallet or another protocol, and none ever stores
  two rows for one wallet and protocol.\<close>

theorem membership_lifecycle:
  assumes "unique_members w"
  shows "let w1 = snd (subscribe sha now pk pid cs src w); h = sha pk;
             w2 = snd (unsubscribe t h pid w1); w3 = snd (resubscribe u h pid w2)
         in sk_isSubscribed (checkSubscription h pid w1) \<and> sk_channels (checkSubscription h pid w1) = cs
          \<and> \<lparr>bt_walletPubkey = pk, bt_walletHash = h, bt_channels = cs\<rparr> \<in> set (getBroadcastTargets pid w1)
          \<and> \<not> sk_isSubscribed (checkSubscription h pid w2)
          \<and> h \<notin> bt_walletHash ` set (getBroadcastTargets pid w2)
          \<and> sk_isSubscribed (checkSubscription h pid w3) \<and> sk_channels (checkSubscription h pid w3) = cs
          \<and> (\<forall>h' p'. (h', p') \<noteq> (h, pid) \<longrightarrow> (\<forall>v \<in> {w1, w2, w3}. checkSubscription h' p' v = checkSubscription h' p' w))
          \<and> (\<forall>v \<in> {w1, w2, w3}. unique_members v)"
proof -
  define h where "h = sha pk"
  define w1 where "w1 = snd (subscribe sha now pk pid cs src w)"
  define w2 where "w2 = snd (unsubscribe t h pid w1)"
  define w3 where "w3 = snd (resubscribe u h pid w2)"
  obtain r where r: "List.find (is_member h pid) (w_audience w1) = Some r" "su_status r = ''active''"
      "su_channels r = cs" "su_walletPubkey r = Some pk"
    and others: "\<And>h' p'. (h', p') \<noteq> (h, pid) \<Longrightarrow>
        List.find (is_member h' p') (w_audience w1) = List.find (is_member h' p') (w_audience w)"
  proof (cases "exists_row (is_member h pid) (w_audience w)")
    case True
    then obtain x where "List.find (is_member h pid) (w_audience w) = Some x"
      by (auto simp: exists_row_def)
    with True show ?thesis
      by (intro that) (auto simp: w1_def h_def subscribe_def flow_simps Let_def check_after_update)
  next
    case False
    let ?r = "\<lparr>su_walletPubkey = Some pk, su_walletHash = h, su_protocolId = pid, su_channels = cs,
      su_status = ''active'', su_source = src, su_subscribedAt = now, su_updatedAt = now\<rparr>"
    have "w_audience w1 = w_audience w @ [?r]"
      using False by (simp add: w1_def h_def subscribe_def flow_simps Let_def)
    then show ?thesis
      using find_new_member [OF False, of ?r] by (intro that [of ?r]) (auto simp: is_member_def)
  qed
  have w2: "List.find (is_member h' p') (w_audience w2) =
      (if h' = h \<and> p' = pid then Some (r\<lparr>su_status := ''unsubscribed'', su_updatedAt := t\<rparr>)
       else List.find (is_member h' p') (w_audience w1))" for h' p'
    using r by (simp add: w2_def unsubscribe_def flow_simps check_after_update)
  have w3: "List.find (is_member h' p') (w_audience w3) =
      (if h' = h \<and> p' = pid then Some (r\<lparr>su_status := ''active'', su_updatedAt := u\<rparr>)
       else List.find (is_member h' p') (w_audience w2))" for h' p'
    using w2 by (simp add: w3_def resubscribe_def flow_simps check_after_update)
  have uq: "unique_members w1" "unique_members w2" "unique_members w3"
    using assms by (simp_all add: w1_def w2_def w3_def subscribe_unique unsubscribe_unique resubscribe_unique)
  have in1: "r \<in> set (w_audience w1)" "su_walletHash r = h" "su_protocolId r = pid"
    using find_Some_row [OF r(1)] by (auto simp: is_member_def)
  have target: "\<lparr>bt_walletPubkey = pk, bt_walletHash = h, bt_channels = cs\<rparr> \<in> set (getBroadcastTargets pid w1)"
    unfolding getBroadcastTargets_def set_map
    by (rule rev_image_eqI [of r]) (simp_all add: r(2-4) in1 is_active_in_def)
  have gone: "h \<notin> bt_walletHash ` set (getBroadcastTargets pid w2)"
  proof
    assume "h \<in> bt_walletHash ` set (getBroadcastTargets pid w2)"
    then obtain x where x: "x \<in> set (w_audience w2)" "is_active_in pid x" "su_walletHash x = h"
      by (auto simp: getBroadcastTargets_def)
    have "w_audience w2 = updateMany (is_member h pid) (\<lambda>r. r\<lparr>su_status := ''unsubscribed'', su_updatedAt := t\<rparr>) (w_audience w1)"
      by (simp add: w2_def unsubscribe_def flow_simps)
    with x(1) obtain y where "x = (if is_member h pid y then y\<lparr>su_status := ''unsubscribed'', su_updatedAt := t\<rparr> else y)"
      by (auto simp only: set_updateMany)
    with x(2,3) show False by (cases "su_walletHash y = h \<and> su_protocolId y = pid")
        (auto simp: is_member_def is_active_in_def)
  qed
  have "sk_isSubscribed (checkSubscription h pid w1)" "sk_channels (checkSubscription h pid w1) = cs"
      "\<not> sk_isSubscribed (checkSubscription h pid w2)"
      "sk_isSubscribed (checkSubscription h pid w3)" "sk_channels (checkSubscription h pid w3) = cs"
    using r w2 w3 by (simp_all add: checkSubscription_def)
  moreover have "checkSubscription h' p' v = checkSubscription h' p' w"
    if "(h', p') \<noteq> (h, pid)" "v \<in> {w1, w2, w3}" for h' p' v
    using others [OF that(1)] w2 [of h' p'] w3 [of h' p'] that by (auto simp: checkSubscription_def)
  ultimately show ?thesis
    unfolding Let_def h_def [symmetric] w1_def [symmetric] w2_def [symmetric] w3_def [symmetric]
    using uq target gone by blast
qed

theorem membership_lifecycle_witness:
  "\<not> sk_isSubscribed (checkSubscription ''W'' ''p1'' (snd (unsubscribe 5 (id ''W'') ''p1''
      (snd (subscribe id 0 ''W'' ''p1'' [''email''] ''sdk'' (empty_world ()))))))"
proof -
  have "unique_members (empty_world ())" by (simp add: unique_members_def empty_world_def)
  from membership_lifecycle [OF this, of id 0 "''W''" "''p1''" "[''email'']" "''sdk''" 5 6]
  show ?thesis by (simp add: Let_def)
qed

text \<open>The audience figures agree. The total is the subscriber count, the broadcastable figure is
  the number of broadcast targets and at most the total, and the counts by source add up to it.\<close>

theorem audience_stats_consistent:
  "as_totalSubscribers (getAudienceStats isoDay now pid w) = getSubscriberCount pid w
   \<and> as_broadcastableSubscribers (getAudienceStats isoDay now pid w) = length (getBroadcastTargets pid w)
   \<and> length (getBroadcastTargets pid w) \<le> getSubscriberCount pid w
   \<and> sum_list (map snd (as_bySource (getAudienceStats isoDay now pid w))) = getSubscriberCount pid w"
  using targets_le [of pid w]
  by (simp add: getAudienceStats_def Let_def getSubscriberCount_def targets_length fold_count_key_sum)
    (simp add: count_rows_def)

end
