(* ===== verification/Job_Queue.thy ===== *)
theory Job_Queue
  imports Gateway_World
begin

text \<open>
  Adding jobs (\<open>queue/queue.service.ts\<close>). BullMQ is not code of the repository: how an
  \<open>add\<close> ends is an argument. The ten-second guard of \<open>withTimeout\<close> rejects the caller's
  promise but does not withdraw the \<open>add\<close>, which may still take effect.
\<close>

datatype add_outcome =
    Added
  | Rejected
  | TimedOut bool   \<comment> \<open>did the job reach the queue after all?\<close>

definition add_job :: "add_outcome \<Rightarrow> ('r world \<Rightarrow> 'r world) \<Rightarrow> 'r world \<Rightarrow> (unit, 'r world) handled" where
  "add_job outcome add w = (case outcome of
       Added \<Rightarrow> ok () (add w)
     | Rejected \<Rightarrow> throw (JsError ''queue'') w
     | TimedOut late \<Rightarrow> throw (JsError ''BullMQ enqueue timed out after 10000ms'') (if late then add w else w))"

text \<open>A log entry is the payload and the explicit job id, if the caller gave one.\<close>

definition enqueueNotification :: "add_outcome \<Rightarrow> job_data \<Rightarrow> 'r world \<Rightarrow> (unit, 'r world) handled" where
  "enqueueNotification outcome data w =
     add_job outcome (\<lambda>w. w\<lparr>w_notificationJobs := w_notificationJobs w @ [(data, None)]\<rparr>) w"

definition enqueueWebhook :: "add_outcome \<Rightarrow> webhook_job \<Rightarrow> 'r world \<Rightarrow> (unit, 'r world) handled" where
  "enqueueWebhook outcome data w =
     add_job outcome (\<lambda>w. w\<lparr>w_webhookJobs := w_webhookJobs w @ [data]\<rparr>) w"

text \<open>Did the job get into the queue?\<close>

definition reaches_queue :: "add_outcome \<Rightarrow> bool" where
  "reaches_queue outcome = (outcome = Added \<or> outcome = TimedOut True)"

lemma reaches_queue_simps [simp]:
  "reaches_queue Added" "\<not> reaches_queue Rejected" "reaches_queue (TimedOut b) = b"
  by (simp_all add: reaches_queue_def)

lemma enqueueNotification_cases:
  "enqueueNotification outcome data w =
     ((if outcome = Added then Inr () else
         Inl (JsError (if outcome = Rejected then ''queue'' else ''BullMQ enqueue timed out after 10000ms''))),
      (if reaches_queue outcome then w\<lparr>w_notificationJobs := w_notificationJobs w @ [(data, None)]\<rparr> else w))"
  by (cases outcome) (auto simp: enqueueNotification_def add_job_def reaches_queue_def flow_simps)

end
