(* ===== verification/Notify.thy ===== *)
theory Notify
  imports Scanner Sandbox Audience Job_Queue
begin

text \<open>
  The synchronous part of a notification (\<open>notify/notify.service.ts\<close>,
  \<open>notify/notify.controller.ts\<close>, \<open>notify/ai-classifier.service.ts\<close>,
  \<open>routing/sandbox-routing.service.ts\<close>): the production path, the sandbox path, the batch,
  the broadcast and the status queries. The generated UUIDs, SHA-256, the answer of the AI
  provider, the devnet client, the decryption of channels and the outcome of adding a job are
  arguments. The AI classification, which the code starts without awaiting it, runs at the point
  where it is started: it writes only tables the rest of the handler does not touch.
\<close>

section \<open>Requests and responses\<close>

record notify_dto =
  nd_wallet :: string
  nd_subject :: string
  nd_body :: string
  nd_category :: "string option"
  nd_preferred_channel :: "channel option"
  nd_priority :: "priority option"
  nd_receipt :: "bool option"
  nd_idempotencyKey :: "string option"
  nd_templateId :: "string option"
  nd_telegramTemplateId :: "string option"
  nd_batchChannels :: "channel list option"
  nd_batchExcludeChannels :: "channel list option"
  nd_variables :: "(string \<times> string) list option"

record notify_response =
  rs_notification_id :: string
  rs_status :: string
  rs_error_code :: "string option"
  rs_recipient_registered :: "bool option"
  rs_estimated_delivery_ms :: int
  rs_environment :: "string option"
  rs_sandbox_mode :: bool
  rs_test_contact :: "(string option \<times> string option \<times> string option) option"

definition idempotency_key :: "string \<Rightarrow> string" where
  "idempotency_key key = ''idempotency:notify:'' @ key"

definition production_response :: "string \<Rightarrow> string \<Rightarrow> string option \<Rightarrow> int \<Rightarrow> notify_response" where
  "production_response i status code est =
     \<lparr>rs_notification_id = i, rs_status = status, rs_error_code = code, rs_recipient_registered = None,
      rs_estimated_delivery_ms = est, rs_environment = Some ''production'', rs_sandbox_mode = False,
      rs_test_contact = None\<rparr>"

definition sandbox_response :: "string \<Rightarrow> string \<Rightarrow> string option \<Rightarrow> bool \<Rightarrow> notify_response" where
  "sandbox_response i status code registered =
     \<lparr>rs_notification_id = i, rs_status = status, rs_error_code = code,
      rs_recipient_registered = Some registered, rs_estimated_delivery_ms = 0,
      rs_environment = Some ''sandbox'', rs_sandbox_mode = True, rs_test_contact = None\<rparr>"

section \<open>AI classification\<close>

text \<open>
  The parsed answer of the provider; \<open>av_confident\<close> is \<open>confidence >= 0.8\<close>. The argument \<open>ai\<close> of
  the definitions below is \<open>None\<close> where no provider is configured and \<open>Some None\<close> where \<open>classify\<close>
  throws (a network error, invalid JSON or an unknown verdict).
\<close>

record ai_verdict =
  av_verdict :: string
  av_confident :: bool

definition parse_verdict :: "ai_verdict option \<Rightarrow> ai_verdict option" where
  "parse_verdict a = (case a of None \<Rightarrow> None
     | Some v \<Rightarrow> if av_verdict v \<in> {''allow'', ''flag'', ''block''} then Some v else None)"

definition classifyAndFlag ::
  "ai_verdict option option \<Rightarrow> string \<Rightarrow> int \<Rightarrow> string list \<Rightarrow> 'r world \<Rightarrow> 'r world" where
  "classifyAndFlag ai protocolId riskScore rules w =
     (case ai of None \<Rightarrow> w
      | Some answer \<Rightarrow> (case parse_verdict answer of
          None \<Rightarrow> w
        | Some v \<Rightarrow>
            if av_verdict v = ''allow'' \<and> riskScore < 60 then w
            else let severity = (if av_verdict v = ''block'' \<or> riskScore \<ge> 70 then ''high''
                                 else if av_confident v then ''medium'' else ''low'')
              in w\<lparr>w_moderation := w_moderation w @
                     [\<lparr>mq_protocolId = protocolId, mq_severity = severity, mq_rulesTriggers = rules\<rparr>],
                   w_protocols := updateMany
                     (\<lambda>p. pr_id p = protocolId \<and> pr_verificationStatus p \<notin> {''VERIFIED'', ''FLAGGED''})
                     (\<lambda>p. p\<lparr>pr_verificationStatus := ''FLAGGED''\<rparr>) (w_protocols w)\<rparr>))"

section \<open>The production path\<close>

definition production_row :: "(string \<Rightarrow> string) \<Rightarrow> string \<Rightarrow> millis \<Rightarrow> notify_dto \<Rightarrow> auth_protocol \<Rightarrow> scan_result \<Rightarrow> notification" where
  "production_row sha i now dto p sc =
     (new_notification i (ap_protocolId p) (sha (nd_wallet dto)) (sha (nd_subject dto)) ''queued''
        (nullish (nd_category dto) ''defi'') now)
       \<lparr>nt_idempotencyKey := nd_idempotencyKey dto, nt_writeReceipt := nullish (nd_receipt dto) True,
        nt_riskScore := sn_riskScore sc, nt_scanVerdict := Some (verdict_name (sn_verdict sc))\<rparr>"

definition production_job :: "(string \<Rightarrow> string) \<Rightarrow> string \<Rightarrow> notify_dto \<Rightarrow> auth_protocol \<Rightarrow> job_data" where
  "production_job sha i dto p =
     \<lparr>jd_notificationId = i, jd_protocolId = ap_protocolId p, jd_protocolPubkey = ap_protocolPubkey p,
      jd_protocolName = nullish (ap_name p) ''Unknown Protocol'', jd_wallet = nd_wallet dto,
      jd_walletHash = Some (sha (nd_wallet dto)), jd_subject = nd_subject dto, jd_body = nd_body dto,
      jd_category = nullish (nd_category dto) ''defi'', jd_writeReceipt = nullish (nd_receipt dto) True,
      jd_digestMode = False, jd_priority = Some (nullish (nd_priority dto) Normal),
      jd_channels = nd_batchChannels dto, jd_excludedChannels = nd_batchExcludeChannels dto,
      jd_preferredChannel = nd_preferred_channel dto, jd_isSandbox = None, jd_testContact = None,
      jd_tier = Some (ap_tier p), jd_templateId = nd_templateId dto,
      jd_telegramTemplateId = nd_telegramTemplateId dto, jd_templateVariables = nd_variables dto\<rparr>"

text \<open>Step 1: \<open>Some i\<close> is the duplicate's id to answer with, \<open>None\<close> to go on.\<close>

definition claim_idempotency ::
  "'r redis_api \<Rightarrow> millis \<Rightarrow> string \<Rightarrow> notify_dto \<Rightarrow> 'r world \<Rightarrow> (string option, 'r world) handled" where
  "claim_idempotency R now i dto w =
     (if \<not> truthy (nd_idempotencyKey dto) then ok None w
      else if \<not> w_redisUp w then throw redis_error w
      else let key = idempotency_key (the (nd_idempotencyKey dto));
               (stored, s) = r_setnx R (w_redis w) now key (RNotificationId i) (86400 * 1000);
               w1 = w\<lparr>w_redis := s\<rparr>
        in if stored then ok None w1
           else ok (Some (case r_get R s now key of Some (RNotificationId j) \<Rightarrow> j | _ \<Rightarrow> i)) w1)"

definition release_idempotency :: "'r redis_api \<Rightarrow> notify_dto \<Rightarrow> 'r world \<Rightarrow> 'r world" where
  "release_idempotency R dto w =
     (if truthy (nd_idempotencyKey dto) \<and> w_redisUp w
      then w\<lparr>w_redis := r_del R (w_redis w) (idempotency_key (the (nd_idempotencyKey dto)))\<rparr> else w)"

text \<open>Step 2: is the template one of the protocol's that is not approved?\<close>

definition template_pending :: "notify_dto \<Rightarrow> auth_protocol \<Rightarrow> 'r world \<Rightarrow> bool" where
  "template_pending dto p w =
     (truthy (nd_templateId dto) \<and>
      (case List.find (\<lambda>t. Some (tp_id t) = nd_templateId dto \<and> tp_protocolId t = ap_protocolId p) (w_templates w) of
         None \<Rightarrow> False | Some t \<Rightarrow> tp_status t \<noteq> ''APPROVED''))"

definition mark_enqueue_failed :: "string \<Rightarrow> 'r world \<Rightarrow> 'r world" where
  "mark_enqueue_failed i w =
     snd (swallow (update_notification i (\<lambda>n. n\<lparr>nt_status := ''failed'', nt_errorCode := Some ''ENQUEUE_FAILED''\<rparr>) w))"

definition queueProductionNotification ::
  "'r redis_api \<Rightarrow> (string \<Rightarrow> string) \<Rightarrow> ai_verdict option option \<Rightarrow> add_outcome \<Rightarrow> millis \<Rightarrow> string
     \<Rightarrow> notify_dto \<Rightarrow> auth_protocol \<Rightarrow> 'r world \<Rightarrow> (notify_response, 'r world) handled" where
  "queueProductionNotification R sha ai outcome now notificationId dto protocol w =
     and_then (claim_idempotency R now notificationId dto w) (\<lambda>duplicate w1.
       case duplicate of
         Some d \<Rightarrow> ok (production_response d ''duplicate'' None 0) w1
       | None \<Rightarrow>
           if template_pending dto protocol w1
           then ok (production_response notificationId ''blocked'' (Some ''TEMPLATE_PENDING_REVIEW'') 0) w1
           else let sc = scan (nd_subject dto) (nd_body dto) in
             if sn_verdict sc = Block
             then ok (production_response notificationId ''blocked'' (Some ''CONTENT_BLOCKED'') 0) w1
             else and_then (create_notification (production_row sha notificationId now dto protocol sc) w1) (\<lambda>_ w2.
               let w3 = (if sn_verdict sc = Review
                         then classifyAndFlag ai (ap_protocolId protocol) (sn_riskScore sc) (sn_triggeredRules sc) w2
                         else w2)
               in case enqueueNotification outcome (production_job sha notificationId dto protocol) w3 of
                    (Inr _, w4) \<Rightarrow> ok (production_response notificationId ''queued'' None 2500) w4
                  | (Inl _, w4) \<Rightarrow>
                      ok (production_response notificationId ''failed'' (Some ''ENQUEUE_FAILED'') 0)
                        (release_idempotency R dto (mark_enqueue_failed notificationId w4))))"

section \<open>Opt-in and masking\<close>

definition checkOptIn :: "identity \<Rightarrow> string \<Rightarrow> bool" where
  "checkOptIn idn category =
     (if \<not> id_optInAll idn then False
      else if category = ''defi'' then id_optInDefi idn
      else if category = ''governance'' then id_optInGovernance idn
      else if category = ''marketing'' then id_optInMarketing idn
      else if category = ''system'' then True
      else False)"

definition checkOptInFromPortalUser :: "portal_user \<Rightarrow> string \<Rightarrow> bool" where
  "checkOptInFromPortalUser user category =
     (if \<not> pu_optInAll user then False
      else if category = ''defi'' then pu_optInDefi user
      else if category = ''governance'' then pu_optInGovernance user
      else if category = ''marketing'' then pu_optInMarketing user
      else if category = ''system'' then True
      else False)"

text \<open>\<open>const [local, domain] = email.split('@')\<close>; a missing domain prints as \<open>undefined\<close>.\<close>

definition maskEmail :: "string \<Rightarrow> string" where
  "maskEmail email =
     (let parts = split_on (CHR ''@'') email;
          loc = hd parts;
          domain = (if length parts > 1 then parts ! 1 else ''undefined'')
      in slice_to loc 2 @ ''***@'' @ domain)"

definition maskPhone :: "string \<Rightarrow> string" where
  "maskPhone phone = slice_to phone 4 @ ''***'' @ slice_last phone 4"

section \<open>Devnet resolution\<close>

text \<open>
  \<open>fetchIdentity\<close> is the devnet client (\<open>None\<close> where it throws, \<open>Some None\<close> for an unregistered
  wallet), already mapped to an \<open>IdentityAccount\<close>; \<open>decrypt\<close> is \<open>EnclaveService.decryptAllChannels\<close>.
\<close>

record devnet_result =
  dv_resolved :: bool
  dv_channels :: channels
  dv_identity :: "identity option"

definition resolveDevnetWallet ::
  "bool \<Rightarrow> (string \<Rightarrow> identity option option) \<Rightarrow> (identity \<Rightarrow> channels option) \<Rightarrow> string \<Rightarrow> devnet_result" where
  "resolveDevnetWallet hasClient fetchIdentity decrypt wallet =
     (let unresolved = \<lparr>dv_resolved = False, dv_channels = no_channels, dv_identity = None\<rparr>
      in if \<not> hasClient then unresolved
         else case fetchIdentity wallet of
             None \<Rightarrow> unresolved
           | Some None \<Rightarrow> unresolved
           | Some (Some idn) \<Rightarrow>
               (case decrypt idn of
                  None \<Rightarrow> unresolved
                | Some cs \<Rightarrow>
                    if \<not> hasAnyChannel cs
                    then \<lparr>dv_resolved = False, dv_channels = cs, dv_identity = Some idn\<rparr>
                    else \<lparr>dv_resolved = True, dv_channels = cs, dv_identity = Some idn\<rparr>))"

definition addTestPrefix :: "string \<Rightarrow> string" where
  "addTestPrefix subject = ''[HERALD TEST] '' @ subject"

section \<open>The sandbox path\<close>

definition sandbox_row ::
  "(string \<Rightarrow> string) \<Rightarrow> string \<Rightarrow> millis \<Rightarrow> notify_dto \<Rightarrow> auth_protocol \<Rightarrow> string \<Rightarrow> string option \<Rightarrow> notification" where
  "sandbox_row sha i now dto p status code =
     (new_notification i (ap_protocolId p) (sha (nd_wallet dto)) (sha (nd_subject dto)) status
        (nullish (nd_category dto) ''defi'') now)
       \<lparr>nt_idempotencyKey := nd_idempotencyKey dto, nt_writeReceipt := False, nt_errorCode := code\<rparr>"

text \<open>The early returns persist a row with the final status first.\<close>

definition sandbox_stop ::
  "notification \<Rightarrow> string option \<Rightarrow> bool \<Rightarrow> 'r world \<Rightarrow> (notify_response, 'r world) handled" where
  "sandbox_stop row code registered w =
     and_then (create_notification row w)
       (\<lambda>_ w'. ok (sandbox_response (nt_id row) (nt_status row) code registered) w')"

definition sandbox_job ::
  "(string \<Rightarrow> string) \<Rightarrow> string \<Rightarrow> notify_dto \<Rightarrow> auth_protocol \<Rightarrow> channels \<Rightarrow> job_data" where
  "sandbox_job sha i dto p contact =
     (production_job sha i dto p)
       \<lparr>jd_subject := addTestPrefix (nd_subject dto), jd_writeReceipt := False,
        jd_isSandbox := Some True, jd_testContact := Some contact\<rparr>"

definition recent_duplicate :: "millis \<Rightarrow> notify_dto \<Rightarrow> 'r world \<Rightarrow> notification option" where
  "recent_duplicate now dto w =
     (if truthy (nd_idempotencyKey dto)
      then List.find (\<lambda>n. nt_idempotencyKey n = nd_idempotencyKey dto \<and> now - 60 * 60 * 1000 \<le> nt_queuedAt n)
             (w_notifications w)
      else None)"

definition sandbox_template_pending :: "notify_dto \<Rightarrow> 'r world \<Rightarrow> bool" where
  "sandbox_template_pending dto w =
     (truthy (nd_templateId dto) \<and>
      (case List.find (\<lambda>t. Some (tp_id t) = nd_templateId dto) (w_templates w) of
         None \<Rightarrow> False | Some t \<Rightarrow> tp_status t \<noteq> ''APPROVED''))"

definition test_contacts :: "protocol_settings option \<Rightarrow> channels" where
  "test_contacts settings =
     \<lparr>ch_email = Option.bind settings ps_testEmail, ch_telegramChatId = Option.bind settings ps_testTelegramId,
      ch_phone = Option.bind settings ps_testPhone\<rparr>"

definition masked_contact :: "channels \<Rightarrow> string option \<times> string option \<times> string option" where
  "masked_contact c =
     (if truthy (ch_email c) then Some (maskEmail (the (ch_email c))) else None,
      if truthy (ch_telegramChatId c) then Some ''configured'' else None,
      if truthy (ch_phone c) then Some (maskPhone (the (ch_phone c))) else None)"

text \<open>Steps 7 and 8: persist, enqueue, count the usage, answer.\<close>

definition sandbox_deliver ::
  "'r redis_api \<Rightarrow> (string \<Rightarrow> string) \<Rightarrow> add_outcome \<Rightarrow> millis \<Rightarrow> string \<Rightarrow> notify_dto \<Rightarrow> auth_protocol
     \<Rightarrow> devnet_result \<Rightarrow> channels \<Rightarrow> 'r world \<Rightarrow> (notify_response, 'r world) handled" where
  "sandbox_deliver R sha outcome now i dto p dv contact w =
     and_then (create_notification (sandbox_row sha i now dto p ''queued'' None) w) (\<lambda>_ w1.
       case enqueueNotification outcome (sandbox_job sha i dto p contact) w1 of
         (Inl _, w2) \<Rightarrow>
           ok (sandbox_response i ''failed'' (Some ''ENQUEUE_FAILED'') (dv_resolved dv))
             (release_idempotency R dto (mark_enqueue_failed i w2))
       | (Inr _, w2) \<Rightarrow>
           and_then (incrementUsage R now (ap_apiKeyId p) w2) (\<lambda>_ w3.
             ok ((sandbox_response i ''queued'' None (dv_resolved dv))
                   \<lparr>rs_estimated_delivery_ms := 2500,
                    rs_test_contact := Some (masked_contact
                      (if dv_resolved dv then dv_channels dv else test_contacts (settings_of (ap_protocolId p) w3)))\<rparr>) w3))"

text \<open>Steps 5 and 6: where to deliver.\<close>

definition sandbox_route ::
  "'r redis_api \<Rightarrow> (string \<Rightarrow> string) \<Rightarrow> add_outcome \<Rightarrow> millis \<Rightarrow> string \<Rightarrow> notify_dto \<Rightarrow> auth_protocol
     \<Rightarrow> devnet_result \<Rightarrow> 'r world \<Rightarrow> (notify_response, 'r world) handled" where
  "sandbox_route R sha outcome now i dto p dv w =
     (if dv_resolved dv then
        (case dv_identity dv of
           Some idn \<Rightarrow>
             (if \<not> checkOptIn idn (nullish (nd_category dto) ''defi'')
              then sandbox_stop (sandbox_row sha i now dto p ''opted_out'' None) None True w
              else sandbox_deliver R sha outcome now i dto p dv (dv_channels dv) w)
         | None \<Rightarrow> sandbox_deliver R sha outcome now i dto p dv (dv_channels dv) w)
      else let contact = test_contacts (settings_of (ap_protocolId p) w) in
        if \<not> hasAnyChannel contact
        then sandbox_stop (sandbox_row sha i now dto p ''failed'' (Some ''SANDBOX_NO_TEST_CONTACT''))
               (Some ''SANDBOX_NO_TEST_CONTACT'') False w
        else sandbox_deliver R sha outcome now i dto p dv contact w)"

definition queueSandboxNotification ::
  "'r redis_api \<Rightarrow> (string \<Rightarrow> string) \<Rightarrow> bool \<Rightarrow> (string \<Rightarrow> devnet_result) \<Rightarrow> add_outcome \<Rightarrow> millis \<Rightarrow> string
     \<Rightarrow> notify_dto \<Rightarrow> auth_protocol \<Rightarrow> 'r world \<Rightarrow> (notify_response, 'r world) handled" where
  "queueSandboxNotification R sha useDevnet resolve outcome now i dto p w =
     and_then (validateSandboxKey R now (ap_apiKeyId p) w) (\<lambda>quota w1.
       if \<not> sv_allowed quota
       then throw (HttpExn 429 (nullish (sv_errorCode quota) ''SANDBOX_LIMIT_EXCEEDED'')) w1
       else case recent_duplicate now dto w1 of
         Some n \<Rightarrow> ok (sandbox_response (nt_id n) ''duplicate'' None True) w1
       | None \<Rightarrow>
           if sandbox_template_pending dto w1
           then sandbox_stop (sandbox_row sha i now dto p ''blocked'' (Some ''TEMPLATE_PENDING_REVIEW''))
                  (Some ''TEMPLATE_PENDING_REVIEW'') False w1
           else let sc = scan (nd_subject dto) (nd_body dto) in
             if sn_verdict sc = Block
             then sandbox_stop ((sandbox_row sha i now dto p ''blocked'' (Some ''CONTENT_BLOCKED''))
                      \<lparr>nt_riskScore := sn_riskScore sc, nt_scanVerdict := Some (verdict_name (sn_verdict sc))\<rparr>)
                    (Some ''CONTENT_BLOCKED'') False w1
             else let dv = (if useDevnet then resolve (nd_wallet dto)
                            else \<lparr>dv_resolved = False, dv_channels = no_channels, dv_identity = None\<rparr>)
               in sandbox_route R sha outcome now i dto p dv w1)"

text \<open>The arguments of one call of \<open>queueNotification\<close> that stand for what lies outside the repository.\<close>

record 'r notify_env =
  ne_redis :: "'r redis_api"
  ne_sha :: "string \<Rightarrow> string"
  ne_ai :: "ai_verdict option option"
  ne_useDevnet :: bool
  ne_resolve :: "string \<Rightarrow> devnet_result"

definition queueNotification ::
  "'r notify_env \<Rightarrow> add_outcome \<Rightarrow> millis \<Rightarrow> string \<Rightarrow> notify_dto \<Rightarrow> auth_protocol
     \<Rightarrow> 'r world \<Rightarrow> (notify_response, 'r world) handled" where
  "queueNotification E outcome now i dto p w =
     (if ap_environment p = ''sandbox''
      then queueSandboxNotification (ne_redis E) (ne_sha E) (ne_useDevnet E) (ne_resolve E) outcome now i dto p w
      else queueProductionNotification (ne_redis E) (ne_sha E) (ne_ai E) outcome now i dto p w)"

section \<open>The batch endpoint\<close>

text \<open>
  \<open>Promise.allSettled\<close> on the list: the model runs the requests one after the other, each with its
  own id and outcome of adding; a rejected one becomes a failed entry.
\<close>

definition failed_entry :: notify_response where
  "failed_entry = \<lparr>rs_notification_id = '''', rs_status = ''failed'', rs_error_code = None,
     rs_recipient_registered = Some False, rs_estimated_delivery_ms = 0, rs_environment = None,
     rs_sandbox_mode = False, rs_test_contact = None\<rparr>"

definition merge_batch :: "channel list option \<Rightarrow> channel list option \<Rightarrow> notify_dto \<Rightarrow> notify_dto" where
  "merge_batch channels exclude n =
     n\<lparr>nd_batchChannels := (if channels \<noteq> None then channels else nd_batchChannels n),
       nd_batchExcludeChannels := (if exclude \<noteq> None then exclude else nd_batchExcludeChannels n)\<rparr>"

fun settle_all ::
  "(string \<Rightarrow> add_outcome \<Rightarrow> notify_dto \<Rightarrow> 'w \<Rightarrow> (notify_response, 'w) handled)
     \<Rightarrow> (notify_dto \<times> string \<times> add_outcome) list \<Rightarrow> 'w \<Rightarrow> notify_response list \<times> 'w" where
  "settle_all h [] w = ([], w)"
| "settle_all h ((n, i, o') # ns) w =
     (let (r, w1) = h i o' n w; (rs, w2) = settle_all h ns w1
      in ((case r of Inr v \<Rightarrow> v | Inl _ \<Rightarrow> failed_entry) # rs, w2))"

definition notifyBatch ::
  "'r notify_env \<Rightarrow> millis \<Rightarrow> channel list option \<Rightarrow> channel list option
     \<Rightarrow> (notify_dto \<times> string \<times> add_outcome) list \<Rightarrow> auth_protocol
     \<Rightarrow> 'r world \<Rightarrow> (notify_response list, 'r world) handled" where
  "notifyBatch E now channels exclude ns p w =
     (if channels \<noteq> None \<and> exclude \<noteq> None then throw (HttpExn 400 ''INVALID_BATCH_CHANNELS'') w
      else let (rs, w') = settle_all (\<lambda>i o' n. queueNotification E o' now i (merge_batch channels exclude n) p) ns w
        in ok rs w')"

section \<open>Status and list\<close>

definition receipt_status :: "notification \<Rightarrow> string" where
  "receipt_status n =
     (if \<not> nt_writeReceipt n then ''disabled''
      else if truthy (nt_receiptTx n) then ''confirmed''
      else if truthy (nt_receiptFailureReason n) then ''failed''
      else ''pending'')"

record notification_status =
  ns_notification_id :: string
  ns_status :: string
  ns_category :: string
  ns_created_at :: millis
  ns_delivered_at :: "millis option"
  ns_receipt_status :: string
  ns_receipt_tx :: "string option"
  ns_receipt_failure_reason :: "string option"
  ns_last_receipt_attempt_at :: "millis option"
  ns_write_receipt :: bool
  ns_delivery_channel :: "channel option"
  ns_email_provider :: "string option"
  ns_bounce :: bool

definition getNotificationStatus ::
  "string \<Rightarrow> string \<Rightarrow> 'r world \<Rightarrow> (notification_status, 'r world) handled" where
  "getNotificationStatus i protocolId w =
     (case List.find (\<lambda>n. nt_id n = i \<and> nt_protocolId n = protocolId) (w_notifications w) of
        None \<Rightarrow> throw (HttpExn 404 ''NOTIFICATION_NOT_FOUND'') w
      | Some n \<Rightarrow> ok
          \<lparr>ns_notification_id = nt_id n, ns_status = nt_status n, ns_category = nt_category n,
           ns_created_at = nt_queuedAt n, ns_delivered_at = nt_deliveredAt n,
           ns_receipt_status = receipt_status n, ns_receipt_tx = nt_receiptTx n,
           ns_receipt_failure_reason = nt_receiptFailureReason n,
           ns_last_receipt_attempt_at = nt_lastReceiptAttemptAt n, ns_write_receipt = nt_writeReceipt n,
           ns_delivery_channel = Option.bind
             (List.find (\<lambda>d. cd_notificationId d = nt_id n \<and> cd_success d) (w_channelDeliveries w)) cd_channel,
           ns_email_provider = nt_emailProvider n, ns_bounce = nt_bounce n\<rparr> w)"

record list_item =
  li_notification_id :: string
  li_status :: string
  li_category :: string
  li_created_at :: millis
  li_delivered_at :: "millis option"
  li_receipt_status :: string
  li_receipt_tx :: "string option"
  li_bounce :: bool

definition list_item_of :: "notification \<Rightarrow> list_item" where
  "list_item_of n = \<lparr>li_notification_id = nt_id n, li_status = nt_status n, li_category = nt_category n,
     li_created_at = nt_queuedAt n, li_delivered_at = nt_deliveredAt n, li_receipt_status = receipt_status n,
     li_receipt_tx = nt_receiptTx n, li_bounce = nt_bounce n\<rparr>"

text \<open>Pages are numbered from 1 (the DTO validates \<open>page >= 1\<close>); newest first.\<close>

definition listNotifications :: "string \<Rightarrow> nat \<Rightarrow> nat \<Rightarrow> 'r world \<Rightarrow> list_item list \<times> nat \<times> int" where
  "listNotifications protocolId page limit w =
     (let mine = filter (\<lambda>n. nt_protocolId n = protocolId) (w_notifications w);
          total = count_rows (\<lambda>n. nt_protocolId n = protocolId) (w_notifications w)
      in (map list_item_of (take limit (drop ((page - 1) * limit) (sort_key (\<lambda>n. - nt_queuedAt n) mine))),
          total, ceil_div (int total) (int limit)))"

section \<open>Broadcast\<close>

record broadcast_dto =
  bd_subject :: string
  bd_body :: string
  bd_category :: "string option"
  bd_templateId :: "string option"
  bd_receipt :: "bool option"

record broadcast_response =
  br_broadcast_id :: string
  br_queued_count :: nat
  br_total_subscribers :: nat
  br_skipped_count :: int
  br_estimated_delivery_s :: int

definition broadcast_row ::
  "(string \<Rightarrow> string) \<Rightarrow> millis \<Rightarrow> broadcast_dto \<Rightarrow> auth_protocol \<Rightarrow> broadcast_target \<times> string \<times> add_outcome \<Rightarrow> notification" where
  "broadcast_row sha now dto p = (\<lambda>(t, i, _).
     (new_notification i (ap_protocolId p) (bt_walletHash t) (sha (bd_subject dto)) ''queued''
        (nullish (bd_category dto) ''system'') now)\<lparr>nt_writeReceipt := nullish (bd_receipt dto) False\<rparr>)"

definition broadcast_job :: "broadcast_dto \<Rightarrow> auth_protocol \<Rightarrow> broadcast_target \<times> string \<times> add_outcome \<Rightarrow> job_data" where
  "broadcast_job dto p = (\<lambda>(t, i, _).
     \<lparr>jd_notificationId = i, jd_protocolId = ap_protocolId p, jd_protocolPubkey = ap_protocolPubkey p,
      jd_protocolName = nullish (ap_name p) ''Unknown Protocol'', jd_wallet = bt_walletPubkey t,
      jd_walletHash = Some (bt_walletHash t), jd_subject = bd_subject dto, jd_body = bd_body dto,
      jd_category = nullish (bd_category dto) ''system'', jd_writeReceipt = nullish (bd_receipt dto) False,
      jd_digestMode = False, jd_priority = Some Normal, jd_channels = None, jd_excludedChannels = None,
      jd_preferredChannel = None, jd_isSandbox = None, jd_testContact = None, jd_tier = Some (ap_tier p),
      jd_templateId = bd_templateId dto, jd_telegramTemplateId = None, jd_templateVariables = None\<rparr>)"

fun enqueue_all :: "(job_data \<times> add_outcome) list \<Rightarrow> 'r world \<Rightarrow> nat \<times> 'r world" where
  "enqueue_all [] w = (0, w)"
| "enqueue_all ((d, o') # ds) w =
     (let (r, w1) = enqueueNotification o' d w; (n, w2) = enqueue_all ds w1
      in ((case r of Inr _ \<Rightarrow> Suc n | Inl _ \<Rightarrow> n), w2))"

text \<open>\<open>ids\<close> are the UUIDs of the rows and the outcomes of adding their jobs, in the order of the targets.\<close>

definition queueBroadcast ::
  "(string \<Rightarrow> string) \<Rightarrow> millis \<Rightarrow> string \<Rightarrow> (string \<times> add_outcome) list \<Rightarrow> broadcast_dto \<Rightarrow> auth_protocol
     \<Rightarrow> 'r world \<Rightarrow> (broadcast_response, 'r world) handled" where
  "queueBroadcast sha now broadcastId ids dto p w =
     (let targets = getBroadcastTargets (ap_protocolId p) w;
          totalSubscribers = getSubscriberCount (ap_protocolId p) w;
          skippedCount = int totalSubscribers - int (length targets)
      in if targets = []
         then ok \<lparr>br_broadcast_id = broadcastId, br_queued_count = 0, br_total_subscribers = totalSubscribers,
                  br_skipped_count = skippedCount, br_estimated_delivery_s = 0\<rparr> w
         else let work = zip targets ids in
           and_then (create_notifications (map (broadcast_row sha now dto p) work) w) (\<lambda>_ w1.
             let (queued, w2) = enqueue_all (map (\<lambda>x. (broadcast_job dto p x, snd (snd x))) work) w1
             in ok \<lparr>br_broadcast_id = broadcastId, br_queued_count = queued, br_total_subscribers = totalSubscribers,
                    br_skipped_count = skippedCount, br_estimated_delivery_s = ceil_div (int queued) 10\<rparr> w2))"

end
