(* ===== verification/Notify_Facts.thy ===== *)
theory Notify_Facts
  imports Notify
begin

text \<open>
  What the synchronous part guarantees: every answer of the production and of the sandbox path
  against the rows and jobs it leaves, idempotency and its failures, the uniqueness invariant of
  the notification table, the status, the pages and the broadcast.
\<close>

section \<open>Frames\<close>

lemma claim_cases:
  assumes "claim_idempotency R now i dto w = (x, w1)"
  shows "w1 = w\<lparr>w_redis := w_redis w1\<rparr>
    \<and> (x = Inr None \<and> \<not> truthy (nd_idempotencyKey dto) \<and> w1 = w
      \<or> x = Inl redis_error \<and> w1 = w \<and> \<not> w_redisUp w
      \<or> w_redisUp w \<and> truthy (nd_idempotencyKey dto)
        \<and> w_redis w1 = snd (r_setnx R (w_redis w) now (idempotency_key (the (nd_idempotencyKey dto))) (RNotificationId i) 86400000)
        \<and> (x = Inr None) = fst (r_setnx R (w_redis w) now (idempotency_key (the (nd_idempotencyKey dto))) (RNotificationId i) 86400000)
        \<and> (\<exists>d. x = Inr d))"
  using assms by (auto simp: claim_idempotency_def flow_simps Let_def split_beta split: if_splits)

lemma claim_frame:
  assumes "claim_idempotency R now i dto w = (x, w1)"
  shows "w_notifications w1 = w_notifications w" "w_notificationJobs w1 = w_notificationJobs w"
    "w_redisUp w1 = w_redisUp w" "w_templates w1 = w_templates w"
  using assms by (auto simp: claim_idempotency_def flow_simps Let_def split_beta split: if_splits)

lemma classify_frame:
  "w_notifications (classifyAndFlag ai pid n rules w) = w_notifications w"
  "w_notificationJobs (classifyAndFlag ai pid n rules w) = w_notificationJobs w"
  "w_redis (classifyAndFlag ai pid n rules w) = w_redis w"
  "w_redisUp (classifyAndFlag ai pid n rules w) = w_redisUp w"
  "w_templates (classifyAndFlag ai pid n rules w) = w_templates w"
  by (auto simp: classifyAndFlag_def Let_def split: option.splits)

lemma mark_failed_world: "\<exists>ns. mark_enqueue_failed i w = w\<lparr>w_notifications := ns\<rparr>"
  using update_notification_frame by (simp add: mark_enqueue_failed_def swallow_def)

lemma mark_failed_frame:
  "w_notificationJobs (mark_enqueue_failed i w) = w_notificationJobs w"
  "w_redis (mark_enqueue_failed i w) = w_redis w"
  "w_redisUp (mark_enqueue_failed i w) = w_redisUp w"
  "w_templates (mark_enqueue_failed i w) = w_templates w"
  using mark_failed_world [of i w] by auto

lemma release_frame:
  "w_notifications (release_idempotency R dto w) = w_notifications w"
  "w_notificationJobs (release_idempotency R dto w) = w_notificationJobs w"
  "w_redisUp (release_idempotency R dto w) = w_redisUp w"
  "w_templates (release_idempotency R dto w) = w_templates w"
  by (simp_all add: release_idempotency_def)

lemma create_frame:
  assumes "create_notification n w = (x, w')"
  shows "w_notificationJobs w' = w_notificationJobs w" "w_redis w' = w_redis w"
    "w_redisUp w' = w_redisUp w" "w_templates w' = w_templates w"
  using create_notification_frame [of n w] assms by auto

lemmas notify_frames = classify_frame mark_failed_frame release_frame

lemma row_fields:
  "nt_id (production_row sha i now dto p sc) = i"
  "nt_status (production_row sha i now dto p sc) = ''queued''"
  "nt_protocolId (production_row sha i now dto p sc) = ap_protocolId p"
  "nt_idempotencyKey (production_row sha i now dto p sc) = nd_idempotencyKey dto"
  "nt_id (sandbox_row sha i now dto p st c) = i"
  "nt_status (sandbox_row sha i now dto p st c) = st"
  "nt_protocolId (sandbox_row sha i now dto p st c) = ap_protocolId p"
  "nt_errorCode (sandbox_row sha i now dto p st c) = c"
  "nt_writeReceipt (sandbox_row sha i now dto p st c) = False"
  by (simp_all add: production_row_def sandbox_row_def new_notification_def)

section \<open>The production path, case by case\<close>

definition enqueue_failed :: "notification \<Rightarrow> notification" where
  "enqueue_failed n = n\<lparr>nt_status := ''failed'', nt_errorCode := Some ''ENQUEUE_FAILED''\<rparr>"

lemma enqueue_failed_keeps: "keeps_keys enqueue_failed"
  by (simp add: enqueue_failed_def keeps_keys_def)

lemma mark_failed_look:
  assumes "notification_by_id w i = Some n"
  shows "notification_by_id (mark_enqueue_failed i w) k = (if k = i then Some (enqueue_failed n) else notification_by_id w k)"
  using nt.modify_look [OF assms enqueue_failed_keeps]
  by (simp add: mark_enqueue_failed_def swallow_def enqueue_failed_def [abs_def])

lemma production_cases:
  assumes "queueProductionNotification R sha ai outcome now i dto p w = (Inr r, w')"
  obtains (duplicate) d w1 where "claim_idempotency R now i dto w = (Inr (Some d), w1)"
      "r = production_response d ''duplicate'' None 0" "w' = w1"
  | (blocked) code where "claim_idempotency R now i dto w = (Inr None, w')"
      "r = production_response i ''blocked'' (Some code) 0"
      "template_pending dto p w' \<or> sn_verdict (scan (nd_subject dto) (nd_body dto)) = Block"
  | (created) w1 w2 w3 where "claim_idempotency R now i dto w = (Inr None, w1)"
      "\<not> template_pending dto p w1" "sn_verdict (scan (nd_subject dto) (nd_body dto)) \<noteq> Block"
      "create_notification (production_row sha i now dto p (scan (nd_subject dto) (nd_body dto))) w1 = (Inr (), w2)"
      "w_notifications w3 = w_notifications w2" "w_notificationJobs w3 = w_notificationJobs w2"
      "w_redis w3 = w_redis w2" "w_redisUp w3 = w_redisUp w2" "w_templates w3 = w_templates w2"
      "(outcome = Added \<and> r = production_response i ''queued'' None 2500
          \<and> w' = w3\<lparr>w_notificationJobs := w_notificationJobs w3 @ [(production_job sha i dto p, None)]\<rparr>)
       \<or> (outcome \<noteq> Added \<and> r = production_response i ''failed'' (Some ''ENQUEUE_FAILED'') 0
          \<and> w' = release_idempotency R dto (mark_enqueue_failed i
               (if reaches_queue outcome
                then w3\<lparr>w_notificationJobs := w_notificationJobs w3 @ [(production_job sha i dto p, None)]\<rparr> else w3)))"
proof -
  obtain x w1 where c: "claim_idempotency R now i dto w = (x, w1)" by force
  with assms obtain d where x: "x = Inr d" by (cases x) (auto simp: queueProductionNotification_def)
  let ?sc = "scan (nd_subject dto) (nd_body dto)"
  show ?thesis
  proof (cases d)
    case (Some j)
    with assms c x show ?thesis
      by (intro duplicate [of j w1]) (simp_all add: queueProductionNotification_def flow_simps)
  next
    case None
    note c' = c [unfolded x None]
    show ?thesis
    proof (cases "template_pending dto p w1 \<or> sn_verdict ?sc = Block")
      case True
      with assms c' show ?thesis
        by (intro blocked [of "if template_pending dto p w1 then ''TEMPLATE_PENDING_REVIEW'' else ''CONTENT_BLOCKED''"])
          (auto simp: queueProductionNotification_def flow_simps Let_def split: if_splits)
    next
      case False
      define row where "row = production_row sha i now dto p ?sc"
      obtain y w2 where cr: "create_notification row w1 = (y, w2)" by force
      with assms c' False have y: "y = Inr ()"
        by (cases y) (auto simp: queueProductionNotification_def Let_def row_def)
      define w3 where "w3 = (if sn_verdict ?sc = Review
          then classifyAndFlag ai (ap_protocolId p) (sn_riskScore ?sc) (sn_triggeredRules ?sc) w2 else w2)"
      have eq: "(Inr r, w') = (case enqueueNotification outcome (production_job sha i dto p) w3 of
          (Inr _, w4) \<Rightarrow> ok (production_response i ''queued'' None 2500) w4
        | (Inl _, w4) \<Rightarrow> ok (production_response i ''failed'' (Some ''ENQUEUE_FAILED'') 0)
            (release_idempotency R dto (mark_enqueue_failed i w4)))"
        using assms c' False cr y by (simp add: queueProductionNotification_def Let_def row_def w3_def)
      show ?thesis
      proof (rule created [of w1 w2 w3])
        show "create_notification (production_row sha i now dto p ?sc) w1 = (Inr (), w2)"
          using cr y by (simp add: row_def)
        show "(outcome = Added \<and> r = production_response i ''queued'' None 2500
            \<and> w' = w3\<lparr>w_notificationJobs := w_notificationJobs w3 @ [(production_job sha i dto p, None)]\<rparr>)
         \<or> (outcome \<noteq> Added \<and> r = production_response i ''failed'' (Some ''ENQUEUE_FAILED'') 0
            \<and> w' = release_idempotency R dto (mark_enqueue_failed i
               (if reaches_queue outcome
                then w3\<lparr>w_notificationJobs := w_notificationJobs w3 @ [(production_job sha i dto p, None)]\<rparr> else w3)))"
          using eq by (simp add: enqueueNotification_cases ok_def reaches_queue_def split: if_splits)
      qed (use c' False in \<open>simp_all add: w3_def classify_frame\<close>)
    qed
  qed
qed

section \<open>Properties of the production path\<close>

text \<open>C25: Every answer of the production path tells the truth about the state. \<open>queued\<close>: a new row
  of the caller's protocol with that id and exactly one new job, for that row; \<open>blocked\<close> and
  \<open>duplicate\<close>: no row and no job; \<open>failed\<close>: the new row is marked failed, and no job is left
  unless the \<open>add\<close> had only timed out. No other status is answered, and blocked content never
  reaches the queue.\<close>

theorem production_outcome:
  assumes "queueProductionNotification R sha ai outcome now i dto p w = (Inr r, w')"
  shows "rs_status r \<in> {''queued'', ''blocked'', ''duplicate'', ''failed''}
    \<and> (rs_status r = ''queued'' \<longrightarrow> rs_notification_id r = i \<and> notification_by_id w i = None
        \<and> (\<exists>n. notification_by_id w' i = Some n \<and> nt_status n = ''queued'' \<and> nt_protocolId n = ap_protocolId p)
        \<and> w_notificationJobs w' = w_notificationJobs w @ [(production_job sha i dto p, None)])
    \<and> (rs_status r \<in> {''blocked'', ''duplicate''} \<longrightarrow>
        w_notifications w' = w_notifications w \<and> w_notificationJobs w' = w_notificationJobs w)
    \<and> (rs_status r = ''failed'' \<longrightarrow> outcome \<noteq> Added \<and> notification_by_id w i = None
        \<and> (\<exists>n. notification_by_id w' i = Some n \<and> nt_status n = ''failed'' \<and> nt_protocolId n = ap_protocolId p)
        \<and> w_notificationJobs w' = w_notificationJobs w @
             (if outcome = TimedOut True then [(production_job sha i dto p, None)] else []))
    \<and> (sn_verdict (scan (nd_subject dto) (nd_body dto)) = Block \<longrightarrow> w_notificationJobs w' = w_notificationJobs w)"
  using assms
proof (cases rule: production_cases)
  case (duplicate d w1)
  then show ?thesis using claim_frame [OF duplicate(1)] by (simp add: production_response_def)
next
  case (blocked code)
  then show ?thesis using claim_frame [OF blocked(1)] by (simp add: production_response_def)
next
  case (created w1 w2 w3)
  let ?row = "production_row sha i now dto p (scan (nd_subject dto) (nd_body dto))"
  have look1: "notification_by_id w1 k = notification_by_id w k" for k
    using claim_frame [OF created(1)] by (simp add: notification_by_id_def)
  have jobs: "w_notificationJobs w3 = w_notificationJobs w"
    using create_frame [OF created(4)] created(6) claim_frame [OF created(1)] by simp
  have look: "notification_by_id w i = None" "notification_by_id w3 i = Some ?row"
    using create_notification_look [OF created(4)] created(5) look1
    by (simp_all add: row_fields notification_by_id_def)
  from created(10) show ?thesis
  proof
    assume "outcome = Added \<and> r = production_response i ''queued'' None 2500
        \<and> w' = w3\<lparr>w_notificationJobs := w_notificationJobs w3 @ [(production_job sha i dto p, None)]\<rparr>"
    then show ?thesis
      using look jobs created(3) by (simp add: production_response_def row_fields notification_by_id_def)
  next
    assume f: "outcome \<noteq> Added \<and> r = production_response i ''failed'' (Some ''ENQUEUE_FAILED'') 0
        \<and> w' = release_idempotency R dto (mark_enqueue_failed i (if reaches_queue outcome
             then w3\<lparr>w_notificationJobs := w_notificationJobs w3 @ [(production_job sha i dto p, None)]\<rparr> else w3))"
    let ?w4 = "if reaches_queue outcome
        then w3\<lparr>w_notificationJobs := w_notificationJobs w3 @ [(production_job sha i dto p, None)]\<rparr> else w3"
    have "notification_by_id ?w4 i = Some ?row" using look(2) by (simp add: notification_by_id_def)
    from mark_failed_look [OF this]
    have "notification_by_id w' i = Some (enqueue_failed ?row)"
      using f by (simp add: notification_by_id_def release_frame)
    moreover have "w_notificationJobs w' = w_notificationJobs w @
        (if outcome = TimedOut True then [(production_job sha i dto p, None)] else [])"
      using f jobs by (auto simp: notify_frames reaches_queue_def)
    ultimately show ?thesis
      using f look(1) created(3) by (simp add: production_response_def enqueue_failed_def row_fields)
  qed
qed

definition sample_auth :: auth_protocol where
  "sample_auth = sample_protocol\<lparr>ap_environment := ''production''\<rparr>"

definition sample_dto :: notify_dto where
  "sample_dto = \<lparr>nd_wallet = ''W'', nd_subject = ''Hi'', nd_body = ''ok'', nd_category = None,
     nd_preferred_channel = None, nd_priority = None, nd_receipt = None, nd_idempotencyKey = Some ''k'',
     nd_templateId = None, nd_telegramTemplateId = None, nd_batchChannels = None,
     nd_batchExcludeChannels = None, nd_variables = None\<rparr>"

lemma sample_scan: "scan ''Hi'' ''ok'' = \<lparr>sn_riskScore = 0, sn_verdict = Pass, sn_triggeredRules = []\<rparr>"
  by code_simp

lemma sample_send:
  "fst (queueProductionNotification mem_redis id None outcome 0 ''n1'' sample_dto sample_auth sample_world) =
     Inr (if outcome = Added then production_response ''n1'' ''queued'' None 2500
          else production_response ''n1'' ''failed'' (Some ''ENQUEUE_FAILED'') 0)"
  by (simp add: queueProductionNotification_def claim_idempotency_def sample_dto_def sample_defs mem_redis_def
      mem_setnx_def mem_get_def flow_simps template_pending_def sample_scan Let_def create_notification_def
      key_taken_def exists_row_def enqueueNotification_cases)

theorem production_outcome_witness:
  "\<exists>w'. queueProductionNotification mem_redis id None Added 0 ''n1'' sample_dto sample_auth sample_world =
         (Inr (production_response ''n1'' ''queued'' None 2500), w')
     \<and> w_notificationJobs w' = [(production_job id ''n1'' sample_dto sample_auth, None)]
     \<and> (\<exists>n. notification_by_id w' ''n1'' = Some n \<and> nt_status n = ''queued'')"
proof -
  let ?q = "queueProductionNotification mem_redis id None Added 0 ''n1'' sample_dto sample_auth sample_world"
  have q: "?q = (Inr (production_response ''n1'' ''queued'' None 2500), snd ?q)"
    by (rule pair_of_fst) (simp add: sample_send)
  have "w_notificationJobs (snd ?q) = [(production_job id ''n1'' sample_dto sample_auth, None)]
      \<and> (\<exists>n. notification_by_id (snd ?q) ''n1'' = Some n \<and> nt_status n = ''queued'')"
    using production_outcome [OF q] by (simp add: production_response_def sample_defs) blast
  with q show ?thesis by blast
qed

text \<open>Idempotency within its window. After a request with a fresh key has been answered anything
  but \<open>failed\<close>, every request with that key in the next 24 hours, of whatever protocol and content,
  changes nothing and is answered as the duplicate of the first one's id.\<close>

theorem duplicate_within_window:
  assumes "redis_service R" and "truthy (nd_idempotencyKey dto)"
    and "r_get R (w_redis w) t (idempotency_key (the (nd_idempotencyKey dto))) = None"
    and "queueProductionNotification R sha ai outcome t i dto p w = (Inr r, w1)" "rs_status r \<noteq> ''failed''"
    and "w_redis w2 = w_redis w1" "w_redisUp w2" "t \<le> t'" "t' < t + 86400000"
    and "nd_idempotencyKey dto' = nd_idempotencyKey dto"
  shows "queueProductionNotification R sha ai' outcome' t' j dto' q w2 =
    (Inr (production_response i ''duplicate'' None 0), w2)"
proof -
  let ?k = "idempotency_key (the (nd_idempotencyKey dto))"
  have stored: "w_redis v = r_setex R (w_redis w) t ?k (RNotificationId i) 86400000"
    if "claim_idempotency R t i dto w = (Inr None, v)" for v
    using claim_cases [OF that] assms(2,3) redis_service.setnx [OF assms(1)] by auto
  have w1: "w_redis w1 = r_setex R (w_redis w) t ?k (RNotificationId i) 86400000"
    using assms(4)
  proof (cases rule: production_cases)
    case (duplicate d v)
    then show ?thesis
      using claim_cases [OF duplicate(1)] assms(2,3) redis_service.setnx [OF assms(1)] by auto
  next
    case (blocked code)
    then show ?thesis using stored by blast
  next
    case (created v w2 w3)
    then show ?thesis
      using stored [OF created(1)] create_frame [OF created(4)] assms(5) by (auto simp: production_response_def)
  qed
  have held: "r_get R (w_redis w2) t' ?k = Some (RNotificationId i)"
    using assms(6,8,9) w1 redis_service.get_setex [OF assms(1,8)] by simp
  have "claim_idempotency R t' j dto' w2 = (Inr (Some i), w2)"
    using held assms(2,7,10) redis_service.setnx [OF assms(1)]
    by (simp add: claim_idempotency_def Let_def flow_simps)
  then show ?thesis by (simp add: queueProductionNotification_def flow_simps)
qed

theorem duplicate_within_window_witness:
  "\<exists>w1. queueProductionNotification mem_redis id None Added 86399999 ''n2'' (sample_dto\<lparr>nd_subject := ''Other''\<rparr>)
      (sample_auth\<lparr>ap_protocolId := ''p2''\<rparr>) w1 = (Inr (production_response ''n1'' ''duplicate'' None 0), w1)"
proof -
  let ?q = "queueProductionNotification mem_redis id None Added 0 ''n1'' sample_dto sample_auth sample_world"
  have q: "?q = (Inr (production_response ''n1'' ''queued'' None 2500), snd ?q)"
    by (rule pair_of_fst) (simp add: sample_send)
  have up: "w_redisUp ((snd ?q)\<lparr>w_redisUp := True\<rparr>)" by simp
  show ?thesis
    by (rule exI, rule duplicate_within_window [OF mem.redis_service_axioms _ _ q _ _ up])
      (simp_all add: sample_dto_def sample_defs mem_redis_def mem_get_def production_response_def)
qed

text \<open>A key that the table already holds but Redis does not: the request dies on the unique column.\<close>

lemma burnt_key:
  assumes "redis_service R" "w_redisUp w" "truthy (nd_idempotencyKey dto)"
    and "r_get R (w_redis w) t (idempotency_key (the (nd_idempotencyKey dto))) = None"
    and "exists_row (\<lambda>n. nt_idempotencyKey n = nd_idempotencyKey dto) (w_notifications w)"
    and "\<not> template_pending dto p w" "sn_verdict (scan (nd_subject dto) (nd_body dto)) \<noteq> Block"
  shows "queueProductionNotification R sha ai outcome t i dto p w = (Inl (PrismaExn ''P2002''),
    w\<lparr>w_redis := r_setex R (w_redis w) t (idempotency_key (the (nd_idempotencyKey dto))) (RNotificationId i) 86400000\<rparr>)"
proof -
  let ?k = "idempotency_key (the (nd_idempotencyKey dto))"
  let ?w = "w\<lparr>w_redis := r_setex R (w_redis w) t ?k (RNotificationId i) 86400000\<rparr>"
  have c: "claim_idempotency R t i dto w = (Inr None, ?w)"
    using assms(2-4) redis_service.setnx [OF assms(1)] by (simp add: claim_idempotency_def Let_def flow_simps)
  have t: "\<not> template_pending dto p ?w" using assms(6) by (simp add: template_pending_def)
  have k: "key_taken ?w (production_row sha i t dto p sc)" for sc
    using assms(3,5) by (cases "nd_idempotencyKey dto") (auto simp: key_taken_def row_fields)
  show ?thesis
    using c t k assms(7) by (simp add: queueProductionNotification_def create_notification_def flow_simps Let_def)
qed

lemma ghost_duplicate:
  assumes "redis_service R" "w_redisUp w" "truthy (nd_idempotencyKey dto)"
    and "w_redis w = r_setex R s t (idempotency_key (the (nd_idempotencyKey dto))) (RNotificationId i) 86400000"
    and "t \<le> t'" "t' < t + 86400000"
  shows "queueProductionNotification R sha ai outcome t' j dto p w =
    (Inr (production_response i ''duplicate'' None 0), w)"
proof -
  have "claim_idempotency R t' j dto w = (Inr (Some i), w)"
    using assms redis_service.setnx [OF assms(1)] redis_service.get_setex [OF assms(1,5)]
    by (simp add: claim_idempotency_def Let_def flow_simps)
  then show ?thesis by (simp add: queueProductionNotification_def flow_simps)
qed

text \<open>C28: A failed enqueue cannot be retried under its key. The failure path deletes the Redis key so
  that the caller may retry, but the failed row keeps the key in its unique column: the retry dies
  with a unique-constraint error, and the attempt after that is told \<open>duplicate\<close> of a notification
  that does not exist.\<close>

theorem failed_enqueue_burns_key:
  assumes "redis_service R" and "truthy (nd_idempotencyKey dto)"
    and "queueProductionNotification R sha ai outcome t i dto p w = (Inr r, w1)" "rs_status r = ''failed''"
    and "notification_by_id w1 j = None" "t \<le> t'" "t' \<le> t''" "t'' < t' + 86400000"
  shows "\<exists>w2. queueProductionNotification R sha ai' outcome' t' j dto p w1 = (Inl (PrismaExn ''P2002''), w2)
    \<and> queueProductionNotification R sha ai'' outcome'' t'' l dto p w2 =
        (Inr (production_response j ''duplicate'' None 0), w2)
    \<and> notification_by_id w2 j = None"
  using assms(3)
proof (cases rule: production_cases)
  case (created v w2 w3)
  let ?k = "idempotency_key (the (nd_idempotencyKey dto))"
  let ?row = "production_row sha i t dto p (scan (nd_subject dto) (nd_body dto))"
  have f: "w1 = release_idempotency R dto (mark_enqueue_failed i (if reaches_queue outcome
             then w3\<lparr>w_notificationJobs := w_notificationJobs w3 @ [(production_job sha i dto p, None)]\<rparr> else w3))"
    (is "w1 = release_idempotency R dto (mark_enqueue_failed i ?w4)")
    using created(10) assms(4) by (auto simp: production_response_def)
  have up: "w_redisUp v" using claim_cases [OF created(1)] claim_frame [OF created(1)] assms(2) by auto
  have up1: "w_redisUp w1"
    using up create_frame [OF created(4)] created(8) by (simp add: f notify_frames)
  have "w_redis w1 = r_del R (w_redis w3) ?k"
    using up create_frame [OF created(4)] created(7,8) assms(2) by (simp add: f release_idempotency_def notify_frames)
  then have free: "r_get R (w_redis w1) t' ?k = None"
    using redis_service.get_del [OF assms(1)] by simp
  have "notification_by_id ?w4 i = Some ?row"
    using create_notification_look [OF created(4)] created(5) by (simp add: row_fields notification_by_id_def)
  from mark_failed_look [OF this] have "notification_by_id w1 i = Some (enqueue_failed ?row)"
    by (simp add: f notification_by_id_def release_frame)
  then have taken: "exists_row (\<lambda>n. nt_idempotencyKey n = nd_idempotencyKey dto) (w_notifications w1)"
    unfolding exists_row_iff notification_by_id_def
    by (intro bexI [of _ "enqueue_failed ?row"]) (auto dest: find_Some_row simp: enqueue_failed_def row_fields)
  have "w_templates w1 = w_templates v"
    using create_frame [OF created(4)] created(9) by (simp add: f notify_frames)
  then have tp: "\<not> template_pending dto p w1" using created(2) by (simp add: template_pending_def)
  let ?w2 = "w1\<lparr>w_redis := r_setex R (w_redis w1) t' ?k (RNotificationId j) 86400000\<rparr>"
  have "queueProductionNotification R sha ai' outcome' t' j dto p w1 = (Inl (PrismaExn ''P2002''), ?w2)"
    by (rule burnt_key [OF assms(1) up1 assms(2) free taken tp created(3)])
  moreover have "queueProductionNotification R sha ai'' outcome'' t'' l dto p ?w2 =
        (Inr (production_response j ''duplicate'' None 0), ?w2)"
    by (rule ghost_duplicate [OF assms(1) _ assms(2) _ assms(7,8)]) (use up1 in simp_all)
  moreover have "notification_by_id ?w2 j = None" using assms(5) by (simp add: notification_by_id_def)
  ultimately show ?thesis by blast
qed (use assms(4) in \<open>auto simp: production_response_def\<close>)

theorem failed_enqueue_burns_key_witness:
  "\<exists>w1 w2. queueProductionNotification mem_redis id None Added 1000 ''n2'' sample_dto sample_auth w1 =
        (Inl (PrismaExn ''P2002''), w2)
     \<and> queueProductionNotification mem_redis id None Added 2000 ''n3'' sample_dto sample_auth w2 =
        (Inr (production_response ''n2'' ''duplicate'' None 0), w2)"
proof -
  let ?q = "queueProductionNotification mem_redis id None Rejected 0 ''n1'' sample_dto sample_auth sample_world"
  have q: "?q = (Inr (production_response ''n1'' ''failed'' (Some ''ENQUEUE_FAILED'') 0), snd ?q)"
    by (rule pair_of_fst) (simp add: sample_send)
  have ids: "map nt_id (w_notifications (snd ?q)) = [''n1'']"
    by (simp add: queueProductionNotification_def claim_idempotency_def sample_dto_def sample_defs mem_redis_def
      mem_setnx_def mem_get_def flow_simps template_pending_def sample_scan Let_def create_notification_def
      key_taken_def exists_row_def enqueueNotification_cases reaches_queue_def release_frame
      mark_enqueue_failed_def update_notification_def production_row_def new_notification_def)
  then have none: "notification_by_id (snd ?q) ''n2'' = None"
    by (auto simp: notification_by_id_def row_simps)
  have "\<exists>w2. queueProductionNotification mem_redis id None Added 1000 ''n2'' sample_dto sample_auth (snd ?q) =
        (Inl (PrismaExn ''P2002''), w2)
     \<and> queueProductionNotification mem_redis id None Added 2000 ''n3'' sample_dto sample_auth w2 =
        (Inr (production_response ''n2'' ''duplicate'' None 0), w2) \<and> notification_by_id w2 ''n2'' = None"
    by (rule failed_enqueue_burns_key [OF mem.redis_service_axioms _ q _ none])
      (simp_all add: sample_dto_def production_response_def)
  then show ?thesis by blast
qed

section \<open>The sandbox path\<close>

lemma validate_frame: "snd (validateSandboxKey R now i w) = w"
  by (auto simp: validateSandboxKey_def getTodayCount_def read_count_def flow_simps Let_def split: option.splits)

lemma increment_frame: "\<exists>s. snd (incrementUsage R now i w) = w\<lparr>w_redis := s\<rparr>"
  by (auto simp: incrementUsage_def bump_count_def flow_simps split: option.splits
      intro: exI [of _ "w_redis w"])

lemma increment_jobs:
  "w_notificationJobs (snd (incrementUsage R now i w)) = w_notificationJobs w"
  "w_notifications (snd (incrementUsage R now i w)) = w_notifications w"
  using increment_frame [of R now i w] by auto

definition sandboxed :: "job_data \<times> string option \<Rightarrow> bool" where
  "sandboxed = (\<lambda>(d, _). jd_isSandbox d = Some True \<and> \<not> jd_writeReceipt d
     \<and> startsWith (jd_subject d) ''[HERALD TEST] ''
     \<and> (case jd_testContact d of None \<Rightarrow> False | Some c \<Rightarrow> hasAnyChannel c))"

text \<open>One step of the path: no job, or one sandboxed job.\<close>

definition adds_sandboxed :: "'r world \<Rightarrow> 'r world \<Rightarrow> bool" where
  "adds_sandboxed w w' \<longleftrightarrow> (\<exists>js. w_notificationJobs w' = w_notificationJobs w @ js \<and> length js \<le> 1 \<and> list_all sandboxed js)"

lemma adds_none: "w_notificationJobs w' = w_notificationJobs w \<Longrightarrow> adds_sandboxed w w'"
  by (simp add: adds_sandboxed_def)

lemma sandbox_job_ok: "hasAnyChannel c \<Longrightarrow> sandboxed (sandbox_job sha i dto p c, k)"
  by (simp add: sandboxed_def sandbox_job_def production_job_def addTestPrefix_def startsWith_def)

lemma stop_jobs: "adds_sandboxed w (snd (sandbox_stop row c b w))"
  by (rule adds_none) (cases "create_notification row w"; cases "fst (create_notification row w)",
      auto simp: sandbox_stop_def flow_simps dest: create_frame)

lemma deliver_jobs:
  assumes "hasAnyChannel c"
  shows "adds_sandboxed w (snd (sandbox_deliver R sha outcome now i dto p dv c w))"
proof -
  obtain x w1 where cr: "create_notification (sandbox_row sha i now dto p ''queued'' None) w = (x, w1)" by force
  show ?thesis
  proof (cases x)
    case (Inl e)
    then show ?thesis using cr create_frame [OF cr] by (intro adds_none) (simp add: sandbox_deliver_def)
  next
    case (Inr u)
    let ?job = "(sandbox_job sha i dto p c, None :: string option)"
    have "\<exists>js. w_notificationJobs (snd (sandbox_deliver R sha outcome now i dto p dv c w)) = w_notificationJobs w @ js
        \<and> (js = [] \<or> js = [?job])"
      using cr Inr create_frame [OF cr]
      by (auto simp: sandbox_deliver_def enqueueNotification_cases ok_def and_then_ok_state increment_jobs notify_frames)
    then show ?thesis
      using sandbox_job_ok [OF assms] by (auto simp: adds_sandboxed_def)
  qed
qed

lemma resolved_has_channel:
  "dv_resolved (resolveDevnetWallet hc f d x) \<Longrightarrow> hasAnyChannel (dv_channels (resolveDevnetWallet hc f d x))"
  by (auto simp: resolveDevnetWallet_def Let_def split: if_splits option.splits)

lemma route_jobs:
  assumes "dv_resolved dv \<Longrightarrow> hasAnyChannel (dv_channels dv)"
  shows "adds_sandboxed w (snd (sandbox_route R sha outcome now i dto p dv w))"
  using assms by (auto simp: sandbox_route_def Let_def stop_jobs deliver_jobs split: option.splits)

lemma sandbox_elim:
  fixes P :: "(notify_response, 'r world) handled \<Rightarrow> bool"
  assumes "\<And>e. P (Inl e, w)" and "\<And>r. P (Inr r, w)"
    and "\<And>row c b. nt_writeReceipt row = False \<Longrightarrow> nt_id row = i \<Longrightarrow> P (sandbox_stop row c b w)"
    and "\<And>dv. (dv_resolved dv \<Longrightarrow> dv = resolve (nd_wallet dto)) \<Longrightarrow> P (sandbox_route R sha outcome now i dto p dv w)"
  shows "P (queueSandboxNotification R sha dev resolve outcome now i dto p w)"
proof -
  obtain x where v: "validateSandboxKey R now (ap_apiKeyId p) w = (x, w)"
    using validate_frame [of R now "ap_apiKeyId p" w] by (metis prod.collapse)
  have "P (sandbox_route R sha outcome now i dto p \<lparr>dv_resolved = False, dv_channels = no_channels, dv_identity = None\<rparr> w)"
    by (rule assms(4)) simp
  then show ?thesis
    using assms by (cases x)
      (auto simp: queueSandboxNotification_def v flow_simps Let_def row_fields split: option.splits)
qed

text \<open>C26: The sandbox stays in the sandbox. Whatever a sandbox request does, it adds at most one job,
  and that job is flagged as sandbox, asks for no receipt, has its subject prefixed with
  \<open>[HERALD TEST]\<close>, and carries a test contact with at least one channel.\<close>

theorem sandbox_contained:
  "\<exists>js. w_notificationJobs (snd (queueSandboxNotification R sha dev (resolveDevnetWallet hc f d) outcome now i dto p w)) =
      w_notificationJobs w @ js \<and> length js \<le> 1 \<and> list_all sandboxed js"
proof -
  have "adds_sandboxed w (snd (queueSandboxNotification R sha dev (resolveDevnetWallet hc f d) outcome now i dto p w))"
  proof (rule sandbox_elim)
    fix dv
    assume dv: "dv_resolved dv \<Longrightarrow> dv = resolveDevnetWallet hc f d (nd_wallet dto)"
    show "adds_sandboxed w (snd (sandbox_route R sha outcome now i dto p dv w))"
      by (rule route_jobs) (metis dv resolved_has_channel)
  qed (simp_all add: stop_jobs adds_none)
  then show ?thesis by (simp add: adds_sandboxed_def)
qed

section \<open>The uniqueness invariant\<close>

lemma unique_cong: "w_notifications w' = w_notifications w \<Longrightarrow> unique_notifications w' = unique_notifications w"
  by (simp add: unique_notifications_def)

lemma unique_create: "unique_notifications w \<Longrightarrow> create_notification n w = (x, w') \<Longrightarrow> unique_notifications w'"
  using nt.insert_wf [of w n] by simp

lemma unique_mark: "unique_notifications w \<Longrightarrow> unique_notifications (mark_enqueue_failed i w)"
  using nt.modify_wf [OF _ enqueue_failed_keeps]
  by (simp add: mark_enqueue_failed_def swallow_def enqueue_failed_def [abs_def])

lemma unique_enqueue_failure:
  "unique_notifications w \<Longrightarrow> w_notifications w' = w_notifications w \<Longrightarrow>
     unique_notifications (release_idempotency R dto (mark_enqueue_failed i w'))"
  using unique_cong [of "release_idempotency R dto (mark_enqueue_failed i w')" "mark_enqueue_failed i w'"]
    unique_mark [of w' i] unique_cong [of w' w]
  by (simp add: release_frame)

lemma unique_stop: "unique_notifications w \<Longrightarrow> unique_notifications (snd (sandbox_stop row c b w))"
  unfolding sandbox_stop_def
  by (rule and_then_keeps) (simp_all add: nt.insert_wf ok_def)

lemma unique_deliver:
  assumes "unique_notifications w"
  shows "unique_notifications (snd (sandbox_deliver R sha outcome now i dto p dv c w))"
  unfolding sandbox_deliver_def
proof (rule and_then_keeps)
  show "unique_notifications (snd (create_notification (sandbox_row sha i now dto p ''queued'' None) w))"
    using assms by (rule nt.insert_wf)
  fix u and w1 :: "'a world"
  assume u1: "unique_notifications w1"
  obtain x w2 where e: "enqueueNotification outcome (sandbox_job sha i dto p c) w1 = (x, w2)" by force
  then have n2: "w_notifications w2 = w_notifications w1"
    by (auto simp: enqueueNotification_cases)
  show "unique_notifications (snd (case enqueueNotification outcome (sandbox_job sha i dto p c) w1 of
         (Inl _, w2) \<Rightarrow>
           ok (sandbox_response i ''failed'' (Some ''ENQUEUE_FAILED'') (dv_resolved dv))
             (release_idempotency R dto (mark_enqueue_failed i w2))
       | (Inr _, w2) \<Rightarrow>
           and_then (incrementUsage R now (ap_apiKeyId p) w2) (\<lambda>_ w3.
             ok ((sandbox_response i ''queued'' None (dv_resolved dv))
                   \<lparr>rs_estimated_delivery_ms := 2500,
                    rs_test_contact := Some (masked_contact
                      (if dv_resolved dv then dv_channels dv else test_contacts (settings_of (ap_protocolId p) w3)))\<rparr>) w3)))"
  proof (cases x)
    case (Inl e')
    then show ?thesis using e n2 u1 by (simp add: ok_def unique_enqueue_failure)
  next
    case (Inr e')
    have "unique_notifications (snd (incrementUsage R now (ap_apiKeyId p) w2))"
      using unique_cong [OF increment_jobs(2)] unique_cong [OF n2] u1 by blast
    with Inr e show ?thesis
      by (simp add: and_then_keeps ok_def)
  qed
qed

lemma unique_production:
  assumes "unique_notifications w"
  shows "unique_notifications (snd (queueProductionNotification R sha ai outcome now i dto p w))"
proof -
  let ?sc = "scan (nd_subject dto) (nd_body dto)"
  obtain x w1 where c: "claim_idempotency R now i dto w = (x, w1)" by force
  have u1: "unique_notifications w1" using claim_frame [OF c] assms unique_cong by blast
  show ?thesis
  proof (cases "x = Inr None \<and> \<not> template_pending dto p w1 \<and> sn_verdict ?sc \<noteq> Block")
    case False
    with c u1 show ?thesis
      by (cases x) (auto simp: queueProductionNotification_def ok_def Let_def split: option.splits)
  next
    case True
    obtain y w2 where cr: "create_notification (production_row sha i now dto p ?sc) w1 = (y, w2)" by force
    have u2: "unique_notifications w2" by (rule unique_create [OF u1 cr])
    define w3 where "w3 = (if sn_verdict ?sc = Review
        then classifyAndFlag ai (ap_protocolId p) (sn_riskScore ?sc) (sn_triggeredRules ?sc) w2 else w2)"
    have n3: "w_notifications w3 = w_notifications w2" by (simp add: w3_def classify_frame)
    obtain z w4 where e: "enqueueNotification outcome (production_job sha i dto p) w3 = (z, w4)" by force
    have n4: "w_notifications w4 = w_notifications w2" using e n3 by (auto simp: enqueueNotification_cases)
    show ?thesis
      using c True cr u2 e unique_cong [OF n4] unique_enqueue_failure [OF u2 n4]
      by (cases y; cases z) (auto simp: queueProductionNotification_def ok_def Let_def w3_def)
  qed
qed

lemma unique_sandbox:
  assumes "unique_notifications w"
  shows "unique_notifications (snd (queueSandboxNotification R sha dev resolve outcome now i dto p w))"
  by (rule sandbox_elim)
    (auto simp: assms unique_stop unique_deliver sandbox_route_def Let_def split: option.splits)

lemma unique_queue:
  "unique_notifications w \<Longrightarrow> unique_notifications (snd (queueNotification E o' now i dto p w))"
  by (simp add: queueNotification_def unique_sandbox unique_production)

lemma unique_settle:
  assumes "\<And>i o' n w. unique_notifications w \<Longrightarrow> unique_notifications (snd (h i o' n w))"
  shows "unique_notifications w \<Longrightarrow> unique_notifications (snd (settle_all h ns w))"
proof (induction ns arbitrary: w)
  case (Cons x ns)
  then show ?case by (cases x) (simp add: split_beta Let_def assms)
qed simp

lemma unique_create_many:
  assumes "unique_notifications w"
  shows "unique_notifications (snd (create_notifications ns w))"
proof -
  have "create_notifications ns w = (x, w') \<Longrightarrow> unique_notifications w \<Longrightarrow> unique_notifications w'" for x w'
  proof (induction ns w arbitrary: x w' rule: create_notifications.induct)
    case (2 n ns w)
    obtain y w1 where cr: "create_notification n w = (y, w1)" by force
    have u1: "unique_notifications w1" by (rule unique_create [OF 2(3) cr])
    with 2 cr show ?case
      by (auto simp: ok_def throw_def split: sum.splits prod.splits)
  qed (simp add: ok_def)
  with assms show ?thesis by (metis prod.collapse)
qed

lemma enqueue_all_result:
  "enqueue_all ds w = (length (filter (\<lambda>(_, o'). o' = Added) ds),
     w\<lparr>w_notificationJobs := w_notificationJobs w @ map (\<lambda>(d, _). (d, None)) (filter (\<lambda>(_, o'). reaches_queue o') ds)\<rparr>)"
  by (induction ds w rule: enqueue_all.induct) (auto simp: enqueueNotification_cases split_beta Let_def)



section \<open>Pages and broadcast\<close>

lemma chunks: "concat (map (\<lambda>i. take k (drop (i * k) xs)) [0..<n]) = take (n * k) xs"
proof (induction n)
  case (Suc n)
  then show ?case by (simp add: take_add [symmetric] add.commute)
qed simp

lemma ceil_pages:
  assumes "0 < limit"
  shows "n \<le> nat (ceil_div (int n) (int limit)) * limit"
proof -
  have "int n \<le> ceil_div (int n) (int limit) * int limit" and "0 \<le> ceil_div (int n) (int limit)"
    using assms ceil_div_bounds(1) [of "int limit" "int n"] ceil_div_nonneg [of "int limit" "int n"] by simp_all
  then show ?thesis by (metis nat_0_le of_nat_le_iff of_nat_mult)
qed

text \<open>Paging loses nothing and repeats nothing. The pages 1 to \<open>totalPages\<close>, one after the other,
  are exactly the protocol's notifications, newest first; \<open>total\<close> is their number, and no page holds
  a notification of another protocol.\<close>

theorem pages_partition:
  assumes "0 < limit"
  shows "concat (map (\<lambda>page. fst (listNotifications pid page limit w))
        [1..<Suc (nat (snd (snd (listNotifications pid 1 limit w))))]) =
      map list_item_of (sort_key (\<lambda>n. - nt_queuedAt n) (filter (\<lambda>n. nt_protocolId n = pid) (w_notifications w)))
    \<and> fst (snd (listNotifications pid 1 limit w)) =
      length (filter (\<lambda>n. nt_protocolId n = pid) (w_notifications w))"
proof -
  let ?rows = "sort_key (\<lambda>n. - nt_queuedAt n) (filter (\<lambda>n. nt_protocolId n = pid) (w_notifications w))"
  let ?n = "nat (ceil_div (int (length ?rows)) (int limit))"
  have total: "snd (snd (listNotifications pid 1 limit w)) = ceil_div (int (length ?rows)) (int limit)"
    by (simp add: listNotifications_def Let_def count_rows_def)
  have "concat (map (\<lambda>page. fst (listNotifications pid page limit w)) [1..<Suc ?n]) =
      concat (map (\<lambda>i. take limit (drop (i * limit) (map list_item_of ?rows))) [0..<?n])"
    unfolding map_Suc_upt [of 0 ?n, symmetric, unfolded One_nat_def [symmetric]] map_map
    by (intro arg_cong [of _ _ concat] map_cong)
      (simp_all add: listNotifications_def Let_def take_map drop_map)
  also have "\<dots> = take (?n * limit) (map list_item_of ?rows)" by (rule chunks)
  also have "\<dots> = map list_item_of ?rows" using ceil_pages [OF assms, of "length ?rows"] by simp
  finally show ?thesis
    unfolding total by (simp add: listNotifications_def Let_def count_rows_def)
qed

definition three_rows :: "unit world" where
  "three_rows = (empty_world ())\<lparr>w_notifications :=
     map (\<lambda>i. new_notification (show_nat i) ''p1'' ''h'' ''s'' ''queued'' ''defi'' (int i)) [0..<3]\<rparr>"

theorem pages_partition_witness:
  "map li_notification_id (fst (listNotifications ''p1'' 1 2 three_rows) @ fst (listNotifications ''p1'' 2 2 three_rows)) =
     map show_nat [2, 1, 0]"
proof -
  have rows: "filter (\<lambda>n. nt_protocolId n = ''p1'') (w_notifications three_rows) = w_notifications three_rows"
    by (simp add: three_rows_def new_notification_def upt_rec)
  have pages: "nat (snd (snd (listNotifications ''p1'' 1 2 three_rows))) = 2"
    by (simp add: listNotifications_def count_rows_def rows) (simp add: three_rows_def ceil_div_def)
  have "map li_notification_id (concat (map (\<lambda>page. fst (listNotifications ''p1'' page 2 three_rows)) [1..<Suc 2])) =
      map nt_id (sort_key (\<lambda>n. - nt_queuedAt n) (w_notifications three_rows))"
    using pages_partition [of 2 "''p1''" three_rows] by (simp only: pages rows) (simp add: list_item_of_def comp_def)
  moreover have "[1..<Suc 2] = [1, 2]" by (simp add: upt_rec)
  moreover have "map nt_id (sort_key (\<lambda>n. - nt_queuedAt n) (w_notifications three_rows)) = map show_nat [2, 1, 0]"
    by (simp add: upt_rec three_rows_def new_notification_def numeral_2_eq_2)
  ultimately show ?thesis by simp
qed

lemma create_many_ok:
  assumes "create_notifications ns w = (Inr u, w')"
  shows "w' = w\<lparr>w_notifications := w_notifications w @ ns\<rparr>"
  using assms
proof (induction ns w arbitrary: u w' rule: create_notifications.induct)
  case (2 n ns w)
  obtain y w1 where cr: "create_notification n w = (y, w1)" by force
  obtain z w2 where rest: "create_notifications ns w1 = (z, w2)" by force
  have y: "y = Inr ()" "z = Inr ()" "w' = w2"
    using 2(2) cr rest by (cases y; cases z; auto simp: ok_def throw_def)+
  have "w1 = w\<lparr>w_notifications := w_notifications w @ [n]\<rparr>"
    using cr y by (simp add: create_notification_def flow_simps split: if_splits)
  moreover have "w2 = w1\<lparr>w_notifications := w_notifications w1 @ ns\<rparr>"
    using 2(1) [of "Inr ()" w1 "()"] cr rest y by simp
  ultimately show ?case using y by simp
qed (simp add: ok_def)

text \<open>C29: A broadcast reaches each reachable subscriber once. When it succeeds, it has created one
  queued row per broadcast target, for pairwise different wallets that are exactly the targets;
  \<open>queued_count\<close> is the number of jobs whose \<open>add\<close> was confirmed, and total = targets + skipped. A
  row whose job could not be added stays \<open>queued\<close> like the others, with no job behind it.\<close>

theorem broadcast_once_each:
  assumes "queueBroadcast sha now b ids dto p w = (Inr r, w')"
    and "unique_members w" and "length ids = length (getBroadcastTargets (ap_protocolId p) w)"
  shows "\<exists>rows. w_notifications w' = w_notifications w @ rows
    \<and> distinct (map nt_walletHash rows)
    \<and> map nt_walletHash rows = map bt_walletHash (getBroadcastTargets (ap_protocolId p) w)
    \<and> list_all (\<lambda>n. nt_status n = ''queued'' \<and> nt_protocolId n = ap_protocolId p) rows
    \<and> w_notificationJobs w' = w_notificationJobs w @
        map (\<lambda>x. (broadcast_job dto p x, None))
          (filter (\<lambda>x. reaches_queue (snd (snd x))) (zip (getBroadcastTargets (ap_protocolId p) w) ids))
    \<and> br_queued_count r = length (filter (\<lambda>x. snd x = Added) ids)
    \<and> int (br_total_subscribers r) = int (length rows) + br_skipped_count r \<and> 0 \<le> br_skipped_count r"
proof (cases "getBroadcastTargets (ap_protocolId p) w = []")
  case True
  with assms targets_le [of "ap_protocolId p" w] show ?thesis
    by (intro exI [of _ "[]"]) (auto simp: queueBroadcast_def ok_def Let_def)
next
  case False
  let ?ts = "getBroadcastTargets (ap_protocolId p) w"
  let ?work = "zip ?ts ids"
  let ?rows = "map (broadcast_row sha now dto p) ?work"
  obtain x w1 where cr: "create_notifications ?rows w = (x, w1)" by force
  with assms(1) False have x: "x = Inr ()" by (cases x) (auto simp: queueBroadcast_def Let_def)
  have w1: "w1 = w\<lparr>w_notifications := w_notifications w @ ?rows\<rparr>"
    using create_many_ok cr x by blast
  have hashes: "map nt_walletHash ?rows = map bt_walletHash ?ts"
    by (rule nth_equalityI) (simp_all add: assms(3) broadcast_row_def split_beta new_notification_def)
  have added: "length (filter (\<lambda>y. snd (snd y) = Added) (zip as bs)) = length (filter (\<lambda>y. snd y = Added) bs)"
    if "length bs = length as" for as :: "broadcast_target list" and bs :: "(string \<times> add_outcome) list"
    using that by (induction bs as rule: list_induct2) auto
  have rw: "(Inr r, w') = (Inr \<lparr>br_broadcast_id = b, br_queued_count = length (filter (\<lambda>y. snd (snd y) = Added) ?work),
        br_total_subscribers = getSubscriberCount (ap_protocolId p) w,
        br_skipped_count = int (getSubscriberCount (ap_protocolId p) w) - int (length ?ts),
        br_estimated_delivery_s = ceil_div (int (length (filter (\<lambda>y. snd (snd y) = Added) ?work))) 10\<rparr>,
      w1\<lparr>w_notificationJobs := w_notificationJobs w1 @ map (\<lambda>x. (broadcast_job dto p x, None))
          (filter (\<lambda>x. reaches_queue (snd (snd x))) ?work)\<rparr>)"
    using assms(1) False cr x
    by (simp add: queueBroadcast_def ok_def Let_def split_beta enqueue_all_result filter_map comp_def)
  show ?thesis
  proof (rule exI [of _ ?rows], intro conjI)
    show "distinct (map nt_walletHash ?rows)" unfolding hashes by (rule targets_distinct [OF assms(2)])
    show "map nt_walletHash ?rows = map bt_walletHash ?ts" by (rule hashes)
    show "br_queued_count r = length (filter (\<lambda>x. snd x = Added) ids)" using rw added [OF assms(3)] by simp
    show "list_all (\<lambda>n. nt_status n = ''queued'' \<and> nt_protocolId n = ap_protocolId p) ?rows"
      by (auto simp: list_all_iff broadcast_row_def new_notification_def)
    show "int (br_total_subscribers r) = int (length ?rows) + br_skipped_count r" using rw assms(3) by simp
    show "0 \<le> br_skipped_count r" using rw targets_le [of "ap_protocolId p" w] by simp
  qed (use rw w1 in simp_all)
qed

definition audience_world :: "unit world" where
  "audience_world = snd (subscribe id 0 ''W'' ''p1'' [''email''] ''sdk'' (empty_world ()))"

definition sample_broadcast :: broadcast_dto where
  "sample_broadcast = \<lparr>bd_subject = ''S'', bd_body = ''B'', bd_category = None, bd_templateId = None, bd_receipt = None\<rparr>"

theorem broadcast_once_each_witness:
  "\<exists>r w' n. queueBroadcast id 7 ''b'' [(''n1'', Rejected)] sample_broadcast sample_auth audience_world = (Inr r, w')
     \<and> br_queued_count r = 0 \<and> w_notificationJobs w' = []
     \<and> w_notifications w' = [n] \<and> nt_status n = ''queued''"
proof -
  let ?q = "queueBroadcast id 7 ''b'' [(''n1'', Rejected)] sample_broadcast sample_auth audience_world"
  have aw: "w_audience audience_world = [\<lparr>su_walletPubkey = Some ''W'', su_walletHash = ''W'', su_protocolId = ''p1'',
      su_channels = [''email''], su_status = ''active'', su_source = ''sdk'', su_subscribedAt = 0, su_updatedAt = 0\<rparr>]"
    and nw: "w_notifications audience_world = []" "w_notificationJobs audience_world = []"
    by (simp_all add: audience_world_def subscribe_def empty_world_def exists_row_def flow_simps Let_def)
  have ts: "getBroadcastTargets (ap_protocolId sample_auth) audience_world =
      [\<lparr>bt_walletPubkey = ''W'', bt_walletHash = ''W'', bt_channels = [''email'']\<rparr>]"
    by (simp add: getBroadcastTargets_def aw is_active_in_def sample_auth_def sample_protocol_def)
  have "\<exists>r. fst ?q = Inr r"
    unfolding queueBroadcast_def Let_def ts
    by (simp add: create_notification_def key_taken_def exists_row_def nw broadcast_row_def flow_simps split_beta)
  then obtain r w' where q: "?q = (Inr r, w')" by (cases ?q) auto
  have uq: "unique_members audience_world" by (simp add: unique_members_def aw)
  from broadcast_once_each [OF q uq] ts nw obtain rows where
    "w_notifications w' = rows" "map nt_walletHash rows = [''W'']" "list_all (\<lambda>n. nt_status n = ''queued'') rows"
    "w_notificationJobs w' = []" "br_queued_count r = 0"
    by (auto simp: list_all_iff)
  with q show ?thesis by (cases rows) auto
qed

end
