(* ===== verification/Rpc_Manager.thy ===== *)
theory Rpc_Manager
  imports Gateway_Types
begin

text \<open>
  The circuit breaker in front of the Solana RPC endpoints (\<open>solana/rpc-manager.service.ts\<close>).
  A connection is represented by the endpoint it was created for.
\<close>

record rpc_config =
  rc_primaryUrl :: string
  rc_fallbackUrl :: "string option"

record rpc_manager =
  rm_activeConnection :: string
  rm_circuitBreakerOpen :: bool
  rm_failureCount :: nat
  rm_lastFailureAt :: "millis option"

definition new_rpc_manager :: "rpc_config \<Rightarrow> rpc_manager" where
  "new_rpc_manager cfg = \<lparr>rm_activeConnection = rc_primaryUrl cfg, rm_circuitBreakerOpen = False,
     rm_failureCount = 0, rm_lastFailureAt = None\<rparr>"

definition getConnection :: "rpc_config \<Rightarrow> millis \<Rightarrow> rpc_manager \<Rightarrow> string \<times> rpc_manager" where
  "getConnection cfg now m =
     (if \<not> rm_circuitBreakerOpen m then (rm_activeConnection m, m)
      else let m' = (if (case rm_lastFailureAt m of None \<Rightarrow> False | Some l \<Rightarrow> now - l > 30000)
          then m\<lparr>rm_circuitBreakerOpen := False, rm_failureCount := 0, rm_activeConnection := rc_primaryUrl cfg\<rparr>
          else m)
        in (rm_activeConnection m', m'))"

definition recordFailure :: "rpc_config \<Rightarrow> millis \<Rightarrow> rpc_manager \<Rightarrow> rpc_manager" where
  "recordFailure cfg now m =
     (let m1 = m\<lparr>rm_failureCount := rm_failureCount m + 1, rm_lastFailureAt := Some now\<rparr>
      in if rm_failureCount m1 > 5 \<and> truthy (rc_fallbackUrl cfg)
         then m1\<lparr>rm_circuitBreakerOpen := True, rm_activeConnection := the (rc_fallbackUrl cfg), rm_failureCount := 0\<rparr>
         else m1)"

definition recordSuccess :: "rpc_manager \<Rightarrow> rpc_manager" where
  "recordSuccess m = (if rm_failureCount m > 0 then m\<lparr>rm_failureCount := rm_failureCount m - 1\<rparr> else m)"

section \<open>The state machine\<close>

text \<open>Calls happen at non-decreasing times; the state is paired with the time of the last call.\<close>

inductive rpc_step :: "rpc_config \<Rightarrow> rpc_manager \<times> millis \<Rightarrow> rpc_manager \<times> millis \<Rightarrow> bool" for cfg where
  get: "t \<le> t' \<Longrightarrow> rpc_step cfg (m, t) (snd (getConnection cfg t' m), t')"
| failure: "t \<le> t' \<Longrightarrow> rpc_step cfg (m, t) (recordFailure cfg t' m, t')"
| success: "t \<le> t' \<Longrightarrow> rpc_step cfg (m, t) (recordSuccess m, t')"

inductive_cases rpc_stepE: "rpc_step cfg s s'"

inductive rpc_reachable :: "rpc_config \<Rightarrow> rpc_manager \<times> millis \<Rightarrow> bool" for cfg where
  init: "rpc_reachable cfg (new_rpc_manager cfg, t)"
| step: "rpc_reachable cfg s \<Longrightarrow> rpc_step cfg s s' \<Longrightarrow> rpc_reachable cfg s'"

definition breaker_inv :: "rpc_config \<Rightarrow> rpc_manager \<times> millis \<Rightarrow> bool" where
  "breaker_inv cfg = (\<lambda>(m, t).
     rm_activeConnection m = (if rm_circuitBreakerOpen m then the (rc_fallbackUrl cfg) else rc_primaryUrl cfg)
     \<and> (rm_circuitBreakerOpen m \<longrightarrow> truthy (rc_fallbackUrl cfg) \<and> rm_lastFailureAt m \<noteq> None)
     \<and> (truthy (rc_fallbackUrl cfg) \<longrightarrow> rm_failureCount m \<le> 5)
     \<and> (\<forall>l. rm_lastFailureAt m = Some l \<longrightarrow> l \<le> t))"

lemma breaker_get: "breaker_inv cfg (m, t) \<Longrightarrow> t \<le> t' \<Longrightarrow> breaker_inv cfg (snd (getConnection cfg t' m), t')"
  by (auto simp: breaker_inv_def getConnection_def Let_def split: option.splits)

lemma breaker_failure: "breaker_inv cfg (m, t) \<Longrightarrow> t \<le> t' \<Longrightarrow> breaker_inv cfg (recordFailure cfg t' m, t')"
  by (auto simp: breaker_inv_def recordFailure_def Let_def)

lemma breaker_success: "breaker_inv cfg (m, t) \<Longrightarrow> t \<le> t' \<Longrightarrow> breaker_inv cfg (recordSuccess m, t')"
  by (auto simp: breaker_inv_def recordSuccess_def)

lemma breaker_step: "rpc_step cfg s s' \<Longrightarrow> breaker_inv cfg s \<Longrightarrow> breaker_inv cfg s'"
  by (auto elim!: rpc_stepE intro: breaker_get breaker_failure breaker_success)

lemma breaker_reachable: "rpc_reachable cfg s \<Longrightarrow> breaker_inv cfg s"
proof (induction rule: rpc_reachable.induct)
  case (init t)
  show ?case by (simp add: breaker_inv_def new_rpc_manager_def)
qed (rule breaker_step)

text \<open>Failures without a success between them.\<close>

lemma failures_closed:
  assumes "\<not> rm_circuitBreakerOpen m" "rm_failureCount m + length ts \<le> 5" "truthy (rc_fallbackUrl cfg)"
  shows "\<not> rm_circuitBreakerOpen (fold (recordFailure cfg) ts m)
    \<and> rm_failureCount (fold (recordFailure cfg) ts m) = rm_failureCount m + length ts"
  using assms by (induction ts arbitrary: m) (auto simp: recordFailure_def Let_def)

section \<open>Properties\<close>

text \<open>C36: The breaker's invariant. In every state the gateway can reach, whatever the order of calls,
  an open breaker means that the configured fallback endpoint is in use and a closed one means the
  primary; it never opens without a fallback, and \<open>getConnection\<close> goes back to the primary once more
  than 30 seconds have passed since the last failure.\<close>

theorem breaker_safe:
  assumes "rpc_reachable cfg (m, t)" "t \<le> t'"
  shows "rm_activeConnection m = (if rm_circuitBreakerOpen m then the (rc_fallbackUrl cfg) else rc_primaryUrl cfg)
    \<and> (rm_circuitBreakerOpen m \<longrightarrow> truthy (rc_fallbackUrl cfg))
    \<and> fst (getConnection cfg t' m) =
        (if rm_circuitBreakerOpen m \<and> t' \<le> the (rm_lastFailureAt m) + 30000
         then the (rc_fallbackUrl cfg) else rc_primaryUrl cfg)"
  using breaker_reachable [OF assms(1)]
  by (auto simp: breaker_inv_def getConnection_def Let_def split: option.splits)

definition sample_rpc :: rpc_config where
  "sample_rpc = \<lparr>rc_primaryUrl = ''P'', rc_fallbackUrl = Some ''F''\<rparr>"

lemma six_failures: "rpc_reachable sample_rpc (fold (recordFailure sample_rpc) [1, 2, 3, 4, 5, 6] (new_rpc_manager sample_rpc), 6)"
proof -
  have "rpc_reachable sample_rpc (m, t) \<Longrightarrow> sorted (t # ts) \<Longrightarrow>
      rpc_reachable sample_rpc (fold (recordFailure sample_rpc) ts m, last (t # ts))" for m t ts
  proof (induction ts arbitrary: m t)
    case (Cons a ts)
    then have "rpc_reachable sample_rpc (recordFailure sample_rpc a m, a)"
      by (auto intro: rpc_reachable.step rpc_step.failure)
    from Cons.IH [OF this] Cons.prems show ?case by simp
  qed simp
  from this [OF rpc_reachable.init, of 0 "[1, 2, 3, 4, 5, 6]"] show ?thesis by simp
qed

theorem breaker_safe_witness:
  "fst (getConnection sample_rpc 30007 (fold (recordFailure sample_rpc) [1, 2, 3, 4, 5, 6] (new_rpc_manager sample_rpc))) = ''P''
   \<and> rm_circuitBreakerOpen (fold (recordFailure sample_rpc) [1, 2, 3, 4, 5, 6] (new_rpc_manager sample_rpc))"
proof -
  have "rm_circuitBreakerOpen (fold (recordFailure sample_rpc) [1, 2, 3, 4, 5, 6] (new_rpc_manager sample_rpc))
      \<and> rm_lastFailureAt (fold (recordFailure sample_rpc) [1, 2, 3, 4, 5, 6] (new_rpc_manager sample_rpc)) = Some 6"
    by (simp add: recordFailure_def new_rpc_manager_def sample_rpc_def Let_def)
  then show ?thesis using breaker_safe [OF six_failures, of 30007] by (auto simp: sample_rpc_def)
qed

text \<open>The sixth failure trips it. From a fresh manager with a fallback, five failures in a row leave
  the primary in use and the sixth switches to the fallback (the header says after five or more).\<close>

theorem sixth_failure_trips:
  assumes "truthy (rc_fallbackUrl cfg)" "length ts = 6"
  shows "\<not> rm_circuitBreakerOpen (fold (recordFailure cfg) (take 5 ts) (new_rpc_manager cfg))
    \<and> rm_circuitBreakerOpen (fold (recordFailure cfg) ts (new_rpc_manager cfg))
    \<and> rm_activeConnection (fold (recordFailure cfg) ts (new_rpc_manager cfg)) = the (rc_fallbackUrl cfg)"
proof -
  let ?m = "fold (recordFailure cfg) (take 5 ts) (new_rpc_manager cfg)"
  have five: "\<not> rm_circuitBreakerOpen ?m" "rm_failureCount ?m = 5"
    using failures_closed [of "new_rpc_manager cfg" "take 5 ts" cfg] assms by (auto simp: new_rpc_manager_def)
  have "ts = take 5 ts @ [ts ! 5]"
    using take_Suc_conv_app_nth [of 5 ts] assms(2) by simp
  then have "fold (recordFailure cfg) ts (new_rpc_manager cfg) = recordFailure cfg (ts ! 5) ?m"
    by (metis fold_append fold_simps comp_apply)
  then show ?thesis using five assms(1) by (simp add: recordFailure_def Let_def)
qed

theorem sixth_failure_trips_witness:
  "rm_circuitBreakerOpen (fold (recordFailure sample_rpc) [0, 0, 0, 0, 0, 0] (new_rpc_manager sample_rpc))"
  using sixth_failure_trips [of sample_rpc "[0, 0, 0, 0, 0, 0]"] by (simp add: sample_rpc_def)

end
