(* ===== verification/Base64.thy ===== *)
theory Base64
  imports Gateway_Types
begin

text \<open>
  \<open>Buffer.from(..).toString('base64' | 'base64url')\<close> and \<open>Buffer.from(s, 'base64')\<close>, which
  the identity cache, the tracking links and the unsubscribe tokens rely on. The decoder is
  Node's lenient one: it reads both alphabets, stops at the padding and skips other characters.
\<close>

section \<open>Sextets\<close>

fun sextets :: "nat list \<Rightarrow> nat list" where
  "sextets (a # b # c # r) =
     (a div 4) # ((a mod 4) * 16 + b div 16) # ((b mod 16) * 4 + c div 64) # (c mod 64) # sextets r"
| "sextets [a, b] = [a div 4, (a mod 4) * 16 + b div 16, (b mod 16) * 4]"
| "sextets [a] = [a div 4, (a mod 4) * 16]"
| "sextets [] = []"

fun octets :: "nat list \<Rightarrow> nat list" where
  "octets (u # v # x # y # r) =
     (u * 4 + v div 16) # ((v mod 16) * 16 + x div 4) # ((x mod 4) * 64 + y) # octets r"
| "octets [u, v, x] = [u * 4 + v div 16, (v mod 16) * 16 + x div 4]"
| "octets [u, v] = [u * 4 + v div 16]"
| "octets _ = []"

lemma div_pack: "(x :: nat) < k \<Longrightarrow> (q * k + x) div k = q"
  by simp

lemma pack_less: "q < p \<Longrightarrow> x < k \<Longrightarrow> q * k + x < p * (k :: nat)"
  using mult_le_mono1 [of "Suc q" p k] by simp

lemmas sextet_bounds = less_mult_imp_div_less [of _ 16 16] less_mult_imp_div_less [of _ 4 64]
  less_mult_imp_div_less [of _ 64 4]

lemma octets_sextets: "list_all (\<lambda>b. b < 256) bs \<Longrightarrow> octets (sextets bs) = bs"
proof (induction bs rule: sextets.induct)
  case (1 a b c r)
  then have b: "b div 16 < 16" "c div 64 < 4" using sextet_bounds [of b] sextet_bounds [of c] by simp_all
  then show ?case using 1 div_pack [OF b(1), of "a mod 4"] div_pack [OF b(2), of "b mod 16"] by simp
next
  case (2 a b)
  then have b: "b div 16 < 16" using sextet_bounds [of b] by simp
  then show ?case using 2 div_pack [OF b, of "a mod 4"] by simp
qed simp_all

lemma sextets_bound: "list_all (\<lambda>b. b < 256) bs \<Longrightarrow> list_all (\<lambda>s. s < 64) (sextets bs)"
proof (induction bs rule: sextets.induct)
  case (1 a b c r)
  then have "a div 4 < 64" "b div 16 < 16" "c div 64 < 4" using sextet_bounds by simp_all
  then show ?case
    using 1 pack_less [of "a mod 4" 4 "b div 16" 16] pack_less [of "b mod 16" 16 "c div 64" 4] by simp
next
  case (2 a b)
  then have "a div 4 < 64" "b div 16 < 16" using sextet_bounds by simp_all
  then show ?case
    using pack_less [of "a mod 4" 4 "b div 16" 16] pack_less [of "b mod 16" 16 0 4] by simp
next
  case (3 a)
  then have "a div 4 < 64" using sextet_bounds by simp
  then show ?case using pack_less [of "a mod 4" 4 0 16] by simp
qed simp

section \<open>The two alphabets\<close>

definition b64_char :: "bool \<Rightarrow> nat \<Rightarrow> char" where
  "b64_char url s =
     (if s < 26 then char_of (s + 65)
      else if s < 52 then char_of (s + 71)
      else if s < 62 then char_of (s - 4)
      else if s = 62 then (if url then CHR ''-'' else CHR ''+'')
      else (if url then CHR ''_'' else CHR ''/''))"

definition b64_value :: "char \<Rightarrow> nat option" where
  "b64_value c = (let n = (of_char c :: nat) in
     if 65 \<le> n \<and> n \<le> 90 then Some (n - 65)
     else if 97 \<le> n \<and> n \<le> 122 then Some (n - 71)
     else if 48 \<le> n \<and> n \<le> 57 then Some (n + 4)
     else if n = 43 \<or> n = 45 then Some 62
     else if n = 47 \<or> n = 95 then Some 63
     else None)"

lemma b64_value_char: "s < 64 \<Longrightarrow> b64_value (b64_char url s) = Some s"
  by (auto simp: b64_value_def b64_char_def Let_def)

lemma b64_value_pad: "b64_value (CHR ''='') = None"
  by code_simp

section \<open>Encoding and decoding\<close>

definition base64url :: "bytes \<Rightarrow> string" where
  "base64url bs = map (b64_char True) (sextets (map unat bs))"

definition base64 :: "bytes \<Rightarrow> string" where
  "base64 bs = map (b64_char False) (sextets (map unat bs)) @ replicate ((3 - length bs mod 3) mod 3) CHR ''=''"

definition from_base64 :: "string \<Rightarrow> bytes" where
  "from_base64 s = map of_nat (octets (List.map_filter b64_value (takeWhile (\<lambda>c. c \<noteq> CHR ''='') s)))"

lemma b64_char_not_pad: "s < 64 \<Longrightarrow> b64_char url s \<noteq> CHR ''=''"
  using b64_value_char [of s url] b64_value_pad by auto

lemma map_filter_chars:
  "list_all (\<lambda>s. s < 64) ss \<Longrightarrow> List.map_filter b64_value (map (b64_char url) ss) = ss"
  by (induction ss) (simp_all add: b64_value_char List.map_filter_def)

lemma takeWhile_chars:
  "list_all (\<lambda>s. s < 64) ss \<Longrightarrow>
     takeWhile (\<lambda>c. c \<noteq> CHR ''='') (map (b64_char url) ss @ replicate n CHR ''='') = map (b64_char url) ss"
proof (induction ss)
  case Nil
  then show ?case by (cases n) simp_all
qed (simp add: b64_char_not_pad)

lemma octets_bytes: "map of_nat (octets (sextets (map unat bs))) = (bs :: bytes)"
proof -
  have "list_all (\<lambda>b. b < 256) (map unat bs)"
    using unsigned_less [where 'b = 8] by (auto simp: list_all_iff)
  then show ?thesis by (simp add: octets_sextets comp_def)
qed

lemma sextets_bytes: "list_all (\<lambda>s. s < 64) (sextets (map unat (bs :: bytes)))"
  by (rule sextets_bound) (use unsigned_less [where 'b = 8] in \<open>auto simp: list_all_iff\<close>)

text \<open>Decoding an encoding, with any padding.\<close>

lemma from_base64_chars:
  "from_base64 (map (b64_char url) (sextets (map unat bs)) @ replicate n CHR ''='') = bs"
  by (simp only: from_base64_def takeWhile_chars [OF sextets_bytes] map_filter_chars [OF sextets_bytes] octets_bytes)

theorem from_base64_base64: "from_base64 (base64 bs) = bs"
  by (simp only: base64_def from_base64_chars)

theorem from_base64_base64url: "from_base64 (base64url bs) = bs"
  using from_base64_chars [of True bs 0] by (simp add: base64url_def)

end
