(* ===== verification/Routing.thy ===== *)
theory Routing
  imports Base64 Gateway_World Js_Regex
begin

unbundle bit_operations_syntax

text \<open>
  From a wallet to its channels: the identity cache (\<open>routing/routing.service.ts\<close>) and the
  decryption of the channels (\<open>routing/enclave.service.ts\<close>), in the in-process mode with its two
  blob formats and through the socket of the enclave. The Solana client, NaCl's \<open>box.open\<close> with
  \<open>encodeUTF8\<close>, \<open>nacl.box\<close> and the enclave at the other end of the socket are parameters.
\<close>

section \<open>The identity cache\<close>

definition PDA_CACHE_TTL_SECONDS :: int where "PDA_CACHE_TTL_SECONDS = 600"

definition pda_key :: "string \<Rightarrow> string" where "pda_key wallet = ''pda:identity:'' @ wallet"

text \<open>\<open>JSON.stringify\<close> of the spread field that is not named.\<close>

definition json_key :: "key_value \<Rightarrow> key_value" where
  "json_key k = (case k of U8 b \<Rightarrow> PlainObject b | PlainObject b \<Rightarrow> PlainObject b)"

definition serializeForCache :: "identity \<Rightarrow> cached_identity" where
  "serializeForCache idn =
     \<lparr>ci_owner = id_owner idn, ci_encryptedEmail = base64 (id_encryptedEmail idn),
      ci_emailHash = base64 (id_emailHash idn), ci_nonce = base64 (id_nonce idn),
      ci_registeredAt = id_registeredAt idn, ci_optInAll = id_optInAll idn, ci_optInDefi = id_optInDefi idn,
      ci_optInGovernance = id_optInGovernance idn, ci_optInMarketing = id_optInMarketing idn,
      ci_digestMode = id_digestMode idn, ci_channelEmail = id_channelEmail idn,
      ci_channelTelegram = id_channelTelegram idn, ci_channelSms = id_channelSms idn,
      ci_encryptedTelegramId = base64 (id_encryptedTelegramId idn),
      ci_telegramIdHash = base64 (id_telegramIdHash idn), ci_nonceTelegram = base64 (id_nonceTelegram idn),
      ci_encryptedPhone = base64 (id_encryptedPhone idn), ci_phoneHash = base64 (id_phoneHash idn),
      ci_nonceSms = base64 (id_nonceSms idn),
      ci_senderX25519Pubkey = map_option json_key (id_senderX25519Pubkey idn)\<rparr>"

definition deserializeCached :: "cached_identity \<Rightarrow> identity" where
  "deserializeCached p =
     \<lparr>id_owner = ci_owner p, id_encryptedEmail = from_base64 (ci_encryptedEmail p),
      id_emailHash = from_base64 (ci_emailHash p), id_nonce = from_base64 (ci_nonce p),
      id_registeredAt = ci_registeredAt p, id_optInAll = ci_optInAll p, id_optInDefi = ci_optInDefi p,
      id_optInGovernance = ci_optInGovernance p, id_optInMarketing = ci_optInMarketing p,
      id_digestMode = ci_digestMode p, id_channelEmail = ci_channelEmail p,
      id_channelTelegram = ci_channelTelegram p, id_channelSms = ci_channelSms p,
      id_encryptedTelegramId = from_base64 (ci_encryptedTelegramId p),
      id_telegramIdHash = from_base64 (ci_telegramIdHash p), id_nonceTelegram = from_base64 (ci_nonceTelegram p),
      id_encryptedPhone = from_base64 (ci_encryptedPhone p), id_phoneHash = from_base64 (ci_phoneHash p),
      id_nonceSms = from_base64 (ci_nonceSms p), id_senderX25519Pubkey = ci_senderX25519Pubkey p\<rparr>"

text \<open>
  \<open>fetch\<close> is \<open>SolanaService.fetchIdentityAccount\<close>: \<open>None\<close> where it throws
  \<open>RegistryUnavailableException\<close>, \<open>Some None\<close> for an unregistered wallet.
\<close>

definition resolveIdentity ::
  "'r redis_api \<Rightarrow> (string \<Rightarrow> identity option option) \<Rightarrow> millis \<Rightarrow> string \<Rightarrow> 'r world
     \<Rightarrow> (identity option, 'r world) handled" where
  "resolveIdentity R fetch now wallet w =
     (let cacheKey = pda_key wallet;
          store = (\<lambda>v ttl. if w_redisUp w then w\<lparr>w_redis := r_setex R (w_redis w) now cacheKey v (ttl * 1000)\<rparr> else w)
      in case (if w_redisUp w then r_get R (w_redis w) now cacheKey else None) of
           Some (RText _) \<Rightarrow> ok None w
         | Some (RIdentity c) \<Rightarrow> ok (Some (deserializeCached c)) w
         | _ \<Rightarrow>
             (case fetch wallet of
                None \<Rightarrow> throw (HttpExn 503 ''REGISTRY_UNAVAILABLE'') w
              | Some None \<Rightarrow> ok None (store (RText ''NOT_REGISTERED'') 120)
              | Some (Some idn) \<Rightarrow>
                  ok (Some idn) (store (RIdentity (serializeForCache idn)) PDA_CACHE_TTL_SECONDS)))"

definition resolveIdentityFromCache :: "'r redis_api \<Rightarrow> millis \<Rightarrow> string \<Rightarrow> 'r world \<Rightarrow> identity option" where
  "resolveIdentityFromCache R now wallet w =
     (case (if w_redisUp w then r_get R (w_redis w) now (pda_key wallet) else None) of
        Some (RIdentity c) \<Rightarrow> Some (deserializeCached c)
      | _ \<Rightarrow> None)"

section \<open>In-process decryption\<close>

text \<open>\<open>box_open ciphertext nonce pubkey privkey\<close> is \<open>nacl.box.open\<close> followed by \<open>encodeUTF8\<close>.\<close>

type_synonym box_open = "bytes \<Rightarrow> bytes \<Rightarrow> bytes \<Rightarrow> bytes \<Rightarrow> string option"

definition slice :: "bytes \<Rightarrow> nat \<Rightarrow> nat \<Rightarrow> bytes" where
  "slice b from to = take (to - from) (drop from b)"

text \<open>An element beyond the end is \<open>undefined\<close>, which \<open><<\<close> and \<open>|\<close> read as 0.\<close>

definition byte_at :: "bytes \<Rightarrow> nat \<Rightarrow> 32 word" where
  "byte_at b i = (if i < length b then ucast (b ! i) else 0)"

definition directNaclBoxDecrypt :: "box_open \<Rightarrow> bytes option \<Rightarrow> bytes \<Rightarrow> bytes \<Rightarrow> exn + string" where
  "directNaclBoxDecrypt box_open privKey blob nonce =
     (case privKey of
        None \<Rightarrow> Inl (HttpExn 503 ''ROUTING_UNAVAILABLE'')
      | Some priv \<Rightarrow>
          if length blob \<ge> 2 \<and> blob ! 0 = 0xAA \<and> blob ! 1 = 0xBB
          then let eph = slice blob 2 34;
                   len = push_bit 8 (byte_at blob 34) OR byte_at blob 35;
                   ct = slice blob 36 (36 + unat len)
            in (case box_open ct nonce eph priv of
                  Some s \<Rightarrow> Inr s
                | None \<Rightarrow> Inl (HttpExn 503 ''ROUTING_UNAVAILABLE''))
          else (case (if length blob \<ge> 33 then box_open (drop 32 blob) nonce (take 32 blob) priv else None) of
                  Some s \<Rightarrow> Inr s
                | None \<Rightarrow> Inl (HttpExn 503 ''ROUTING_UNAVAILABLE'')))"

definition directDecryptAll :: "box_open \<Rightarrow> bytes option \<Rightarrow> identity \<Rightarrow> channels" where
  "directDecryptAll box_open privKey idn =
     (let one = (\<lambda>active blob nonce. if active \<and> length blob > 0
            then (case directNaclBoxDecrypt box_open privKey blob nonce of Inr s \<Rightarrow> Some s | Inl _ \<Rightarrow> None)
            else None)
      in \<lparr>ch_email = one (id_channelEmail idn) (id_encryptedEmail idn) (id_nonce idn),
          ch_telegramChatId = one (id_channelTelegram idn) (id_encryptedTelegramId idn) (id_nonceTelegram idn),
          ch_phone = one (id_channelSms idn) (id_encryptedPhone idn) (id_nonceSms idn)\<rparr>)"

section \<open>The enclave\<close>

definition not_space_at :: "char \<Rightarrow> bool" where
  "not_space_at c = (\<not> is_space c \<and> c \<noteq> CHR ''@'')"

definition isValidEmail :: "string \<Rightarrow> bool" where
  "isValidEmail s = (full_match (seqs [plus (Cls not_space_at), lit ''@'', plus (Cls not_space_at), lit ''.'',
       plus (Cls not_space_at)]) s \<and> length s \<le> 254)"

record enclave_request =
  en_ownerPubkey :: string
  en_email :: "(bytes \<times> bytes) option"
  en_telegram :: "(bytes \<times> bytes) option"
  en_phone :: "(bytes \<times> bytes) option"

record enclave_response =
  er_error :: bool
  er_email :: "string option"
  er_telegram_chat_id :: "string option"
  er_phone :: "string option"

definition parseEnclaveResponse :: "enclave_response \<Rightarrow> channels" where
  "parseEnclaveResponse r =
     \<lparr>ch_email = (if truthy (er_email r) \<and> isValidEmail (the (er_email r)) then er_email r else None),
      ch_telegramChatId = (if truthy (er_telegram_chat_id r) then er_telegram_chat_id r else None),
      ch_phone = (if truthy (er_phone r) then er_phone r else None)\<rparr>"

definition enclave_payload :: "identity \<Rightarrow> enclave_request" where
  "enclave_payload idn =
     (let part = (\<lambda>active blob nonce. if active \<and> length blob > 0 then Some (blob, nonce) else None)
      in \<lparr>en_ownerPubkey = id_owner idn,
          en_email = part (id_channelEmail idn) (id_encryptedEmail idn) (id_nonce idn),
          en_telegram = part (id_channelTelegram idn) (id_encryptedTelegramId idn) (id_nonceTelegram idn),
          en_phone = part (id_channelSms idn) (id_encryptedPhone idn) (id_nonceSms idn)\<rparr>)"

text \<open>\<open>enclave\<close> is the answer on the socket, \<open>None\<close> for a timeout, a socket error or no JSON.\<close>

definition enclaveDecryptAll :: "(enclave_request \<Rightarrow> enclave_response option) \<Rightarrow> identity \<Rightarrow> exn + channels" where
  "enclaveDecryptAll enclave idn =
     (case enclave (enclave_payload idn) of
        None \<Rightarrow> Inl (HttpExn 503 ''ROUTING_UNAVAILABLE'')
      | Some r \<Rightarrow> if er_error r then Inl (HttpExn 503 ''ROUTING_UNAVAILABLE'') else Inr (parseEnclaveResponse r))"

definition decryptAllChannels ::
  "box_open \<Rightarrow> bytes option \<Rightarrow> (enclave_request \<Rightarrow> enclave_response option) \<Rightarrow> identity \<Rightarrow> exn + channels" where
  "decryptAllChannels box_open privKey enclave idn =
     (if privKey \<noteq> None then Inr (directDecryptAll box_open privKey idn) else enclaveDecryptAll enclave idn)"

text \<open>
  \<open>encryptForUser\<close>, with the guard of its caller in \<open>mail.worker.ts\<close>: the copy for the portal
  exists only for a key of 32 bytes. \<open>seal pubkey body\<close> is \<open>nacl.box\<close> under a fresh nonce.
\<close>

definition key_length :: "key_value \<Rightarrow> nat option" where
  "key_length k = (case k of U8 b \<Rightarrow> Some (length b) | PlainObject _ \<Rightarrow> None)"

definition encryptForUser ::
  "(bytes \<Rightarrow> string \<Rightarrow> (string \<times> string) option) \<Rightarrow> bytes option \<Rightarrow> bytes \<Rightarrow> string \<Rightarrow> (string \<times> string) option" where
  "encryptForUser seal privKey userPubkey body =
     (if privKey = None then None
      else if length userPubkey \<noteq> 32 then None
      else seal userPubkey body)"

definition portal_copy ::
  "(bytes \<Rightarrow> string \<Rightarrow> (string \<times> string) option) \<Rightarrow> bytes option \<Rightarrow> identity \<Rightarrow> string \<Rightarrow> (string \<times> string) option" where
  "portal_copy seal privKey idn body =
     (case id_senderX25519Pubkey idn of
        Some k \<Rightarrow> (if key_length k = Some 32
            then (case k of U8 b \<Rightarrow> encryptForUser seal privKey b body | PlainObject _ \<Rightarrow> None) else None)
      | None \<Rightarrow> None)"

section \<open>Facts\<close>

lemma deserialize_serialize:
  "deserializeCached (serializeForCache idn) =
     idn\<lparr>id_senderX25519Pubkey := map_option json_key (id_senderX25519Pubkey idn)\<rparr>"
  by (simp add: deserializeCached_def serializeForCache_def from_base64_base64)

lemma portal_copy_json: "portal_copy seal pk (idn\<lparr>id_senderX25519Pubkey := map_option json_key k\<rparr>) body = None"
  by (cases k) (simp_all add: portal_copy_def json_key_def key_length_def split: key_value.splits)

lemma decrypt_ignores_key: "decryptAllChannels bo pk e (idn\<lparr>id_senderX25519Pubkey := k\<rparr>) = decryptAllChannels bo pk e idn"
  by (simp add: decryptAllChannels_def directDecryptAll_def enclaveDecryptAll_def enclave_payload_def)

text \<open>The length field of the dual format, as a number.\<close>

lemma unat_byte32: "unat (ucast (h :: 8 word) :: 32 word) = unat h"
proof -
  have "unat h < 2 ^ 32" using unsigned_less [of h] by (rule less_le_trans) simp
  then show ?thesis by (simp add: unsigned_ucast_eq take_bit_nat_eq_self)
qed

lemma be16: "unat (push_bit 8 (ucast (h :: 8 word)) OR ucast (l :: 8 word) :: 32 word) = unat h * 256 + unat l"
proof -
  have bounds: "unat h < 256" "unat l < 256" using unsigned_less [of h] unsigned_less [of l] by simp_all
  have disj: "push_bit 8 (ucast h :: 32 word) AND ucast l = 0"
  proof (rule bit_eqI)
    fix n
    show "bit (push_bit 8 (ucast h :: 32 word) AND ucast l) n = bit 0 n"
      by (auto simp: bit_simps dest: bit_imp_le_length)
  qed
  have "push_bit 8 (ucast h) OR ucast l = push_bit 8 (ucast h :: 32 word) + ucast l"
    using disj by (simp add: disjunctive_add_eq_or)
  also have "unat \<dots> = unat h * 256 + unat l"
    using bounds by (simp add: push_bit_eq_mult unat_word_ariths unat_byte32)
  finally show ?thesis .
qed

text \<open>The blob as the client writes it, and what each mode reads back.\<close>

definition dual_blob :: "bytes \<Rightarrow> bytes \<Rightarrow> bytes \<Rightarrow> bytes \<Rightarrow> bytes" where
  "dual_blob eph ct eph2 ct2 =
     [0xAA, 0xBB] @ eph @ [word_of_nat (length ct div 256), word_of_nat (length ct mod 256)] @ ct @ eph2 @ ct2"

lemma slice_mid: "length a = n \<Longrightarrow> length b = k \<Longrightarrow> slice (a @ b @ c) n (n + k) = b"
  by (simp add: slice_def)

section \<open>Properties\<close>

text \<open>C34: Both blob formats are read back. A dual-format blob (marker, ephemeral key, two-byte length,
  gateway ciphertext, user block) of up to 65535 bytes of ciphertext is decrypted from exactly its
  gateway block; a legacy blob (ephemeral key, ciphertext) is decrypted from its two parts unless its
  key happens to start with the marker bytes AA BB.\<close>

theorem blob_formats:
  assumes "length eph = 32" "length ct < 65536"
  shows "directNaclBoxDecrypt bo (Some priv) (dual_blob eph ct eph2 ct2) nonce =
      (case bo ct nonce eph priv of Some s \<Rightarrow> Inr s | None \<Rightarrow> Inl (HttpExn 503 ''ROUTING_UNAVAILABLE''))
    \<and> (ct \<noteq> [] \<longrightarrow> \<not> (eph ! 0 = 0xAA \<and> eph ! 1 = 0xBB) \<longrightarrow>
        directNaclBoxDecrypt bo (Some priv) (eph @ ct) nonce =
        (case bo ct nonce eph priv of Some s \<Rightarrow> Inr s | None \<Rightarrow> Inl (HttpExn 503 ''ROUTING_UNAVAILABLE'')))"
proof
  let ?h = "word_of_nat (length ct div 256) :: 8 word"
  let ?l = "word_of_nat (length ct mod 256) :: 8 word"
  let ?b = "dual_blob eph ct eph2 ct2"
  have len: "unat ?h * 256 + unat ?l = length ct"
    using assms(2) by (simp add: unat_of_nat less_mult_imp_div_less)
  have b34: "byte_at ?b 34 = ucast ?h" "byte_at ?b 35 = ucast ?l"
    using assms(1) by (simp_all add: byte_at_def dual_blob_def nth_append)
  have unat: "unat (push_bit 8 (byte_at ?b 34) OR byte_at ?b 35) = length ct"
    unfolding b34 be16 by (rule len)
  have eph: "slice ?b 2 34 = eph"
    using slice_mid [of "[0xAA, 0xBB]" 2 eph 32] assms(1) by (simp add: dual_blob_def)
  have ct: "slice ?b 36 (36 + length ct) = ct"
    using slice_mid [of "[0xAA, 0xBB] @ eph @ [?h, ?l]" 36 ct "length ct" "eph2 @ ct2"] assms(1)
    by (simp add: dual_blob_def)
  have mark: "length ?b \<ge> 2" "?b ! 0 = 0xAA" "?b ! 1 = 0xBB" by (simp_all add: dual_blob_def)
  show "directNaclBoxDecrypt bo (Some priv) ?b nonce =
      (case bo ct nonce eph priv of Some s \<Rightarrow> Inr s | None \<Rightarrow> Inl (HttpExn 503 ''ROUTING_UNAVAILABLE''))"
    using mark by (simp add: directNaclBoxDecrypt_def Let_def unat eph ct)
  show "ct \<noteq> [] \<longrightarrow> \<not> (eph ! 0 = 0xAA \<and> eph ! 1 = 0xBB) \<longrightarrow>
        directNaclBoxDecrypt bo (Some priv) (eph @ ct) nonce =
        (case bo ct nonce eph priv of Some s \<Rightarrow> Inr s | None \<Rightarrow> Inl (HttpExn 503 ''ROUTING_UNAVAILABLE''))"
    using assms(1) by (cases ct) (auto simp: directNaclBoxDecrypt_def Let_def nth_append)
qed

theorem blob_formats_witness:
  "directNaclBoxDecrypt (\<lambda>c n e k. Some (map (\<lambda>b. char_of (unat b)) c)) (Some [])
     (dual_blob (replicate 32 7) [104, 105] (replicate 32 9) [1, 2]) [] = Inr ''hi''"
proof -
  have "directNaclBoxDecrypt (\<lambda>c n e k. Some (map (\<lambda>b. char_of (unat b)) c)) (Some [])
      (dual_blob (replicate 32 7) [104, 105] (replicate 32 9) [1, 2]) [] = Inr (map (\<lambda>b. char_of (unat b)) [104, 105 :: 8 word])"
    using blob_formats [of "replicate 32 7" "[104, 105]" "\<lambda>c n e k. Some (map (\<lambda>b. char_of (unat b)) c)" "[]"] by simp
  then show ?thesis by (simp add: char_of_def bit_simps)
qed

text \<open>C35: The identity cache answers faithfully, except for the notification key. For ten minutes after
  a wallet has been resolved on-chain, resolving it again asks nobody and yields an identity that
  decrypts to the same channels; but the cached copy's X25519 key has lost its byte-array form, so no
  encrypted copy for the portal is ever made from it, where the first resolution made one.\<close>

theorem cached_identity_loses_key:
  assumes "redis_service R" "w_redisUp w" "r_get R (w_redis w) t (pda_key wallet) = None"
    and "fetch wallet = Some (Some idn)" "resolveIdentity R fetch t wallet w = (Inr (Some idn1), w1)"
    and "w_redis w2 = w_redis w1" "w_redisUp w2" "t \<le> t'" "t' < t + 600000"
  shows "idn1 = idn \<and> (\<exists>idn2. resolveIdentity R fetch' t' wallet w2 = (Inr (Some idn2), w2)
    \<and> idn2 = idn\<lparr>id_senderX25519Pubkey := id_senderX25519Pubkey idn2\<rparr>
    \<and> decryptAllChannels bo pk e idn2 = decryptAllChannels bo pk e idn
    \<and> portal_copy seal pk idn2 body = None)"
proof -
  have w1: "idn1 = idn" "w_redis w1 = r_setex R (w_redis w) t (pda_key wallet) (RIdentity (serializeForCache idn)) 600000"
    using assms(2-5) by (auto simp: resolveIdentity_def flow_simps PDA_CACHE_TTL_SECONDS_def)
  have "r_get R (w_redis w2) t' (pda_key wallet) = Some (RIdentity (serializeForCache idn))"
    using assms(6,9) w1 redis_service.get_setex [OF assms(1,8)] by simp
  then have "resolveIdentity R fetch' t' wallet w2 = (Inr (Some (deserializeCached (serializeForCache idn))), w2)"
    using assms(7) by (simp add: resolveIdentity_def flow_simps)
  then show ?thesis
    using w1 by (simp add: deserialize_serialize decrypt_ignores_key portal_copy_json)
qed

definition sample_identity :: identity where
  "sample_identity = \<lparr>id_owner = ''W'', id_encryptedEmail = [], id_emailHash = [], id_nonce = [],
     id_registeredAt = 0, id_optInAll = True, id_optInDefi = True, id_optInGovernance = True,
     id_optInMarketing = True, id_digestMode = False, id_channelEmail = True, id_channelTelegram = False,
     id_channelSms = False, id_encryptedTelegramId = [], id_telegramIdHash = [], id_nonceTelegram = [],
     id_encryptedPhone = [], id_phoneHash = [], id_nonceSms = [],
     id_senderX25519Pubkey = Some (U8 (replicate 32 1))\<rparr>"

theorem cached_identity_loses_key_witness:
  "\<exists>w1 idn2. resolveIdentity mem_redis (\<lambda>_. Some (Some sample_identity)) 0 ''W'' (empty_world (\<lambda>_. None)) =
        (Inr (Some sample_identity), w1)
     \<and> resolveIdentity mem_redis (\<lambda>_. None) 599999 ''W'' w1 = (Inr (Some idn2), w1)
     \<and> portal_copy (\<lambda>_ b. Some (b, ''n'')) (Some []) sample_identity ''hello'' = Some (''hello'', ''n'')
     \<and> portal_copy (\<lambda>_ b. Some (b, ''n'')) (Some []) idn2 ''hello'' = None"
proof -
  let ?r = "resolveIdentity mem_redis (\<lambda>_. Some (Some sample_identity)) 0 ''W'' (empty_world (\<lambda>_. None))"
  have r: "?r = (Inr (Some sample_identity), snd ?r)"
    by (rule pair_of_fst) (simp add: resolveIdentity_def empty_world_def mem_redis_def mem_get_def flow_simps)
  have up: "w_redisUp (snd ?r)"
    by (simp add: resolveIdentity_def empty_world_def mem_redis_def mem_get_def flow_simps)
  have first: "portal_copy (\<lambda>_ b. Some (b, ''n'')) (Some []) sample_identity ''hello'' = Some (''hello'', ''n'')"
    by (simp add: portal_copy_def sample_identity_def key_length_def encryptForUser_def)
  have "sample_identity = sample_identity \<and> (\<exists>idn2. resolveIdentity mem_redis (\<lambda>_. None) 599999 ''W'' (snd ?r) = (Inr (Some idn2), snd ?r)
    \<and> idn2 = sample_identity\<lparr>id_senderX25519Pubkey := id_senderX25519Pubkey idn2\<rparr>
    \<and> decryptAllChannels (\<lambda>_ _ _ _. None) (Some []) (\<lambda>_. None) idn2 = decryptAllChannels (\<lambda>_ _ _ _. None) (Some []) (\<lambda>_. None) sample_identity
    \<and> portal_copy (\<lambda>_ b. Some (b, ''n'')) (Some []) idn2 ''hello'' = None)"
    by (rule cached_identity_loses_key [OF mem.redis_service_axioms _ _ _ r _ up])
      (simp_all add: empty_world_def mem_redis_def mem_get_def)
  with r first show ?thesis by blast
qed

end
