(* ===== verification/Webhook.thy ===== *)
theory Webhook
  imports Base64 Gateway_World Job_Queue
begin

text \<open>
  Webhooks: the secrets at rest (\<open>common/crypto/webhook-crypto.ts\<close>), the endpoints
  (\<open>webhook/webhook.controller.ts\<close>), the fan-out of an event
  (\<open>webhook/webhook.service.ts\<close>) and one delivery attempt (\<open>webhook/webhook.worker.ts\<close>).
  AES-256-GCM, HMAC, base58, URL parsing, DNS with the address classification of \<open>ipaddr.js\<close>,
  \<open>JSON.stringify\<close> and the HTTP client are parameters.
\<close>

section \<open>Hexadecimal\<close>

definition hex_char :: "nat \<Rightarrow> char" where
  "hex_char n = (if n < 10 then char_of (n + 48) else char_of (n + 87))"

definition hex_value :: "char \<Rightarrow> nat option" where
  "hex_value c = (let n = (of_char c :: nat) in
     if 48 \<le> n \<and> n \<le> 57 then Some (n - 48)
     else if 97 \<le> n \<and> n \<le> 102 then Some (n - 87)
     else if 65 \<le> n \<and> n \<le> 70 then Some (n - 55)
     else None)"

fun to_hex :: "bytes \<Rightarrow> string" where
  "to_hex [] = []"
| "to_hex (b # bs) = hex_char (unat b div 16) # hex_char (unat b mod 16) # to_hex bs"

text \<open>\<open>Buffer.from(s, 'hex')\<close> stops at the first pair that is not hexadecimal.\<close>

fun from_hex :: "string \<Rightarrow> bytes" where
  "from_hex (c # d # r) = (case (hex_value c, hex_value d) of
       (Some x, Some y) \<Rightarrow> of_nat (16 * x + y) # from_hex r
     | _ \<Rightarrow> [])"
| "from_hex _ = []"

lemma hex_value_char: "n < 16 \<Longrightarrow> hex_value (hex_char n) = Some n"
  by (auto simp: hex_value_def hex_char_def Let_def)

lemma hex_char_no_dot: "n < 16 \<Longrightarrow> hex_char n \<noteq> CHR ''.''"
  using hex_value_char [of n] by (auto simp: hex_value_def)

lemma from_hex_to_hex: "from_hex (to_hex bs) = bs"
proof (induction bs)
  case (Cons b bs)
  have "unat b < 256" using unsigned_less [of b] by simp
  then show ?case using Cons by (simp add: hex_value_char less_mult_imp_div_less)
qed simp

lemma to_hex_no_dot: "CHR ''.'' \<notin> set (to_hex bs)"
proof (induction bs)
  case (Cons b bs)
  have "unat b < 256" using unsigned_less [of b] by simp
  then show ?case using Cons hex_char_no_dot [of "unat b div 16"] hex_char_no_dot [of "unat b mod 16"]
    by (simp add: less_mult_imp_div_less)
qed simp

lemma length_to_hex: "length (to_hex bs) = 2 * length bs"
  by (induction bs) auto

section \<open>Secrets at rest\<close>

text \<open>
  \<open>enc key iv plain\<close> gives ciphertext and tag, \<open>dec key iv ciphertext tag\<close> the plaintext unless
  authentication fails. The key is \<open>None\<close> where \<open>getKey\<close> throws.
\<close>

record aes_gcm =
  ae_encrypt :: "bytes \<Rightarrow> bytes \<Rightarrow> string \<Rightarrow> bytes \<times> bytes"
  ae_decrypt :: "bytes \<Rightarrow> bytes \<Rightarrow> bytes \<Rightarrow> bytes \<Rightarrow> string option"

definition getKey :: "string option \<Rightarrow> bool \<Rightarrow> exn + bytes" where
  "getKey keyHex production =
     (if \<not> truthy keyHex
      then (if production then Inl (JsError ''WEBHOOK_ENCRYPTION_KEY must be set in production'')
            else Inr (replicate 32 0))
      else let key = from_hex (the keyHex) in
        if length key \<noteq> 32 then Inl (JsError ''WEBHOOK_ENCRYPTION_KEY must be a 64-char hex string (32 bytes)'')
        else Inr key)"

definition encryptWebhookSecret :: "aes_gcm \<Rightarrow> bytes \<Rightarrow> bytes \<Rightarrow> string \<Rightarrow> string" where
  "encryptWebhookSecret A key iv plaintext =
     (let (encrypted, tag) = ae_encrypt A key iv plaintext
      in to_hex iv @ ''.'' @ to_hex encrypted @ ''.'' @ to_hex tag)"

definition decryptWebhookSecret :: "aes_gcm \<Rightarrow> bytes \<Rightarrow> string \<Rightarrow> exn + string" where
  "decryptWebhookSecret A key ciphertext =
     (case split_on (CHR ''.'') ciphertext of
        [ivHex, encHex, tagHex] \<Rightarrow>
          (case ae_decrypt A key (from_hex ivHex) (from_hex encHex) (from_hex tagHex) of
             Some s \<Rightarrow> Inr s
           | None \<Rightarrow> Inl (JsError ''Unsupported state or unable to authenticate data''))
      | _ \<Rightarrow> Inl (JsError ''Invalid webhook secret ciphertext format''))"

definition isEncrypted :: "string \<Rightarrow> bool" where
  "isEncrypted value = (let parts = split_on (CHR ''.'') value in length parts = 3 \<and> length (parts ! 0) = 24)"

section \<open>The endpoints\<close>

definition webhook_by_id :: "string \<Rightarrow> 'r world \<Rightarrow> webhook option" where
  "webhook_by_id i w = List.find (\<lambda>h. wh_id h = i) (w_webhooks w)"

text \<open>The column \<open>secret_hash\<close> is a \<open>VARCHAR(64)\<close>: a longer value is refused (P2000).\<close>

definition insert_webhook :: "webhook \<Rightarrow> 'r world \<Rightarrow> (unit, 'r world) handled" where
  "insert_webhook h w =
     (if length (wh_secretHash h) > 64 then throw (PrismaExn ''P2000'') w
      else ok () (w\<lparr>w_webhooks := w_webhooks w @ [h]\<rparr>))"

text \<open>\<open>secret\<close> is the base58 text of 32 random bytes, \<open>iv\<close> the 12 random bytes of the cipher.\<close>

definition createWebhook ::
  "aes_gcm \<Rightarrow> exn + bytes \<Rightarrow> string \<Rightarrow> bytes \<Rightarrow> string \<Rightarrow> string \<Rightarrow> string list option \<Rightarrow> auth_protocol
     \<Rightarrow> 'r world \<Rightarrow> (webhook \<times> string, 'r world) handled" where
  "createWebhook A key secret iv newId url events p w =
     (case key of
        Inl e \<Rightarrow> throw e w
      | Inr k \<Rightarrow>
          let h = \<lparr>wh_id = newId, wh_protocolId = ap_protocolId p, wh_url = url,
                   wh_events = nullish events [''notification.delivered''],
                   wh_secretHash = encryptWebhookSecret A k iv secret, wh_isActive = True,
                   wh_failureCount = 0, wh_lastSuccessAt = None, wh_lastFailureAt = None\<rparr>
          in and_then (insert_webhook h w) (\<lambda>_. ok (h, secret)))"

definition listWebhooks :: "auth_protocol \<Rightarrow> 'r world \<Rightarrow> webhook list" where
  "listWebhooks p w = rev (filter (\<lambda>h. wh_protocolId h = ap_protocolId p) (w_webhooks w))"

record update_webhook_dto =
  uw_url :: "string option"
  uw_events :: "string list option"
  uw_isActive :: "bool option"

definition updateWebhook ::
  "string \<Rightarrow> update_webhook_dto \<Rightarrow> auth_protocol \<Rightarrow> 'r world \<Rightarrow> (bool, 'r world) handled" where
  "updateWebhook i dto p w =
     (let mine = (\<lambda>h. wh_id h = i \<and> wh_protocolId h = ap_protocolId p);
          patch = (\<lambda>h. h\<lparr>wh_url := (if truthy (uw_url dto) then the (uw_url dto) else wh_url h),
                         wh_events := nullish (uw_events dto) (wh_events h),
                         wh_isActive := nullish (uw_isActive dto) (wh_isActive h)\<rparr>)
      in ok (count_rows mine (w_webhooks w) > 0) (w\<lparr>w_webhooks := updateMany mine patch (w_webhooks w)\<rparr>))"

definition removeWebhook :: "string \<Rightarrow> auth_protocol \<Rightarrow> 'r world \<Rightarrow> (unit, 'r world) handled" where
  "removeWebhook i p w =
     ok () (w\<lparr>w_webhooks := deleteMany (\<lambda>h. wh_id h = i \<and> wh_protocolId h = ap_protocolId p) (w_webhooks w)\<rparr>)"

section \<open>Fan-out\<close>

text \<open>\<open>outcome\<close> is how each \<open>add\<close> ends; the first failing one ends the loop.\<close>

fun add_webhook_jobs ::
  "(webhook \<Rightarrow> add_outcome) \<Rightarrow> webhook_payload \<Rightarrow> webhook list \<Rightarrow> 'r world \<Rightarrow> (unit, 'r world) handled" where
  "add_webhook_jobs outcome payload [] w = ok () w"
| "add_webhook_jobs outcome payload (h # hs) w =
     and_then (add_job (outcome h) (\<lambda>w. w\<lparr>w_webhookJobs := w_webhookJobs w @
         [\<lparr>wj_webhookId = wh_id h, wj_url = wh_url h, wj_secret = wh_secretHash h, wj_payload = payload\<rparr>]\<rparr>) w)
       (\<lambda>_. add_webhook_jobs outcome payload hs)"

definition dispatchEvent ::
  "(webhook \<Rightarrow> add_outcome) \<Rightarrow> string \<Rightarrow> millis \<Rightarrow> string \<Rightarrow> string \<Rightarrow> string option \<Rightarrow> string option
     \<Rightarrow> 'r world \<Rightarrow> (unit, 'r world) handled" where
  "dispatchEvent outcome eventId now protocolId eventType notificationId status w =
     (let webhooks = filter (\<lambda>h. wh_protocolId h = protocolId \<and> wh_isActive h \<and> eventType \<in> set (wh_events h))
            (w_webhooks w)
      in if webhooks = [] then ok () w
         else add_webhook_jobs outcome
           \<lparr>wp_eventId = eventId, wp_eventType = eventType, wp_timestamp = now,
            wp_notificationId = notificationId, wp_status = status\<rparr> webhooks w)"

definition testWebhook ::
  "(webhook \<Rightarrow> add_outcome) \<Rightarrow> string \<Rightarrow> millis \<Rightarrow> string \<Rightarrow> auth_protocol \<Rightarrow> 'r world
     \<Rightarrow> (webhook option, 'r world) handled" where
  "testWebhook outcome eventId now i p w =
     (case List.find (\<lambda>h. wh_id h = i \<and> wh_protocolId h = ap_protocolId p) (w_webhooks w) of
        None \<Rightarrow> ok None w
      | Some h \<Rightarrow> and_then (dispatchEvent outcome eventId now (ap_protocolId p) ''ping'' None None w)
          (\<lambda>_. ok (Some h)))"

section \<open>One delivery attempt\<close>

text \<open>
  The outside of the worker. \<open>wv_post\<close>: \<open>Inr\<close> the status of a response that axios resolves, \<open>Inl\<close> of
  a rejection with the status of its response, if any, and its message. \<open>wv_range\<close> is the range of
  the looked-up address after unwrapping an IPv4-mapped one (\<open>None\<close> where the lookup or the parsing throws).
\<close>

record webhook_env =
  wv_aes :: aes_gcm
  wv_key :: "exn + bytes"
  wv_hostname :: "string \<Rightarrow> string option"
  wv_range :: "string \<Rightarrow> string option"
  wv_allowLocal :: bool
  wv_stringify :: "webhook_payload \<Rightarrow> string"
  wv_hmac :: "string \<Rightarrow> string \<Rightarrow> string"
  wv_post :: "string \<Rightarrow> string \<Rightarrow> (int option \<times> string) + int"
  wv_latency :: int
  wv_threshold :: int

definition webhook_headers :: "webhook_env \<Rightarrow> string \<Rightarrow> string \<Rightarrow> webhook_payload \<Rightarrow> (string \<times> string) list" where
  "webhook_headers V secret timestamp payload =
     [(''Content-Type'', ''application/json''),
      (''X-Herald-Signature'', wv_hmac V secret (timestamp @ ''.'' @ wv_stringify V payload)),
      (''X-Herald-Timestamp'', timestamp),
      (''X-Herald-Event'', wp_eventType payload),
      (''X-Herald-Delivery'', wp_eventId payload)]"

definition ssrf_allows :: "webhook_env \<Rightarrow> string \<Rightarrow> bool" where
  "ssrf_allows V host = (wv_allowLocal V \<or> wv_range V host = Some ''unicast'')"

text \<open>The \<open>finally\<close> block: record the attempt, update the counters.\<close>

definition record_attempt ::
  "webhook_env \<Rightarrow> millis \<Rightarrow> nat \<Rightarrow> webhook_job \<Rightarrow> int option \<Rightarrow> bool \<Rightarrow> string option \<Rightarrow> 'r world
     \<Rightarrow> (unit, 'r world) handled" where
  "record_attempt V now attemptsMade job status success err w =
     (let w1 = w\<lparr>w_webhookDeliveries := w_webhookDeliveries w @
            [\<lparr>wd_webhookId = wj_webhookId job, wd_event = wp_eventType (wj_payload job), wd_httpStatus = status,
              wd_latencyMs = wv_latency V, wd_attempt = attemptsMade + 1, wd_success = success, wd_error = err\<rparr>]\<rparr>;
          this = (\<lambda>h. wh_id h = wj_webhookId job)
      in if \<not> exists_row this (w_webhooks w1) then throw (PrismaExn ''P2025'') w1
         else ok () (w1\<lparr>w_webhooks := updateMany this
           (if success then (\<lambda>h. h\<lparr>wh_failureCount := 0, wh_lastSuccessAt := Some now\<rparr>)
            else (\<lambda>h. h\<lparr>wh_failureCount := wh_failureCount h + 1, wh_lastFailureAt := Some now\<rparr>))
           (w_webhooks w1)\<rparr>))"

definition post_webhook ::
  "webhook_env \<Rightarrow> millis \<Rightarrow> nat \<Rightarrow> webhook_job \<Rightarrow> string \<Rightarrow> 'r world \<Rightarrow> (unit, 'r world) handled" where
  "post_webhook V now attemptsMade job secret w =
     (let body = wv_stringify V (wj_payload job);
          headers = webhook_headers V secret (show_int (now div 1000)) (wj_payload job);
          w1 = w\<lparr>w_sent := w_sent w @ [SentPost (wj_url job) headers body]\<rparr>
      in case wv_post V (wj_url job) body of
           Inr status \<Rightarrow>
             if 200 \<le> status \<and> status < 300
             then record_attempt V now attemptsMade job (Some status) True None w1
             else and_then (record_attempt V now attemptsMade job None False (Some (''HTTP '' @ show_int status)) w1)
               (\<lambda>_. throw (JsError (''HTTP '' @ show_int status)))
         | Inl (status, msg) \<Rightarrow>
             and_then (record_attempt V now attemptsMade job status False (Some msg) w1) (\<lambda>_. throw (JsError msg)))"

definition process_webhook ::
  "webhook_env \<Rightarrow> millis \<Rightarrow> nat \<Rightarrow> webhook_job \<Rightarrow> 'r world \<Rightarrow> (unit, 'r world) handled" where
  "process_webhook V now attemptsMade job w =
     (case webhook_by_id (wj_webhookId job) w of
        None \<Rightarrow> ok () w
      | Some h \<Rightarrow>
          if \<not> wh_isActive h then ok () w
          else if wh_failureCount h \<ge> wv_threshold V
          then ok () (w\<lparr>w_webhooks := updateMany (\<lambda>h. wh_id h = wj_webhookId job) (\<lambda>h. h\<lparr>wh_isActive := False\<rparr>) (w_webhooks w)\<rparr>)
          else case (if isEncrypted (wj_secret job)
                     then (case wv_key V of Inl e \<Rightarrow> Inl e | Inr k \<Rightarrow> decryptWebhookSecret (wv_aes V) k (wj_secret job))
                     else Inr (wj_secret job)) of
              Inl e \<Rightarrow> throw e w
            | Inr secret \<Rightarrow>
                (case wv_hostname V (wj_url job) of
                   None \<Rightarrow> ok () w
                 | Some host \<Rightarrow>
                     if \<not> ssrf_allows V host then throw (JsError ''SSRF_BLOCKED'') w
                     else post_webhook V now attemptsMade job secret w))"

section \<open>Facts\<close>

lemma split_secret:
  "split_on (CHR ''.'') (to_hex a @ ''.'' @ to_hex b @ ''.'' @ to_hex c) = [to_hex a, to_hex b, to_hex c]"
  by (simp add: split_on_sep to_hex_no_dot)

lemma encrypt_eq:
  "encryptWebhookSecret A key iv s =
     to_hex iv @ ''.'' @ to_hex (fst (ae_encrypt A key iv s)) @ ''.'' @ to_hex (snd (ae_encrypt A key iv s))"
  by (simp add: encryptWebhookSecret_def split_beta)

lemma encrypted_length:
  "length (encryptWebhookSecret A key iv s) = 2 * length iv + 2 * length (fst (ae_encrypt A key iv s))
     + 2 * length (snd (ae_encrypt A key iv s)) + 2"
  by (simp add: encrypt_eq length_to_hex)

lemma add_webhook_jobs_all:
  "\<forall>h \<in> set hs. outcome h = Added \<Longrightarrow> add_webhook_jobs outcome pl hs w = (Inr (), w\<lparr>w_webhookJobs := w_webhookJobs w @
     map (\<lambda>h. \<lparr>wj_webhookId = wh_id h, wj_url = wh_url h, wj_secret = wh_secretHash h, wj_payload = pl\<rparr>) hs\<rparr>)"
  by (induction hs arbitrary: w) (simp_all add: add_job_def flow_simps)

lemma dispatch_all:
  assumes "\<forall>h. outcome h = Added"
  shows "dispatchEvent outcome ev now pid ty nid st w = (Inr (), w\<lparr>w_webhookJobs := w_webhookJobs w @
     map (\<lambda>h. \<lparr>wj_webhookId = wh_id h, wj_url = wh_url h, wj_secret = wh_secretHash h,
         wj_payload = \<lparr>wp_eventId = ev, wp_eventType = ty, wp_timestamp = now, wp_notificationId = nid, wp_status = st\<rparr>\<rparr>)
       (filter (\<lambda>h. wh_protocolId h = pid \<and> wh_isActive h \<and> ty \<in> set (wh_events h)) (w_webhooks w))\<rparr>)"
  using assms by (simp add: dispatchEvent_def Let_def add_webhook_jobs_all flow_simps)

lemma record_attempt_sent: "w_sent (snd (record_attempt V now n job st ok' e w)) = w_sent w"
  by (simp add: record_attempt_def Let_def flow_simps)

lemma and_then_throw_state: "snd (and_then r (\<lambda>_. throw e)) = snd r"
  by (cases r; cases "fst r") (auto simp: and_then_def throw_def)

text \<open>What one attempt does: nothing, disabling, or a POST with its bookkeeping.\<close>

lemma post_sent:
  "w_sent (snd (post_webhook V now n job sec w)) =
     w_sent w @ [SentPost (wj_url job) (webhook_headers V sec (show_int (now div 1000)) (wj_payload job))
                   (wv_stringify V (wj_payload job))]"
  by (simp add: post_webhook_def Let_def record_attempt_sent and_then_throw_state split: sum.splits prod.splits)

lemma webhook_after_update:
  assumes "webhook_by_id i w = Some h" "\<And>h. wh_id (f h) = wh_id h"
  shows "webhook_by_id i (w\<lparr>w_webhooks := updateMany (\<lambda>h. wh_id h = i) f (w_webhooks w)\<rparr>) = Some (f h)"
  using assms find_key_update [of wh_id f i i "w_webhooks w"] by (simp add: webhook_by_id_def)

lemma post_failure:
  assumes "webhook_by_id (wj_webhookId job) w = Some h" "wv_post V (wj_url job) (wv_stringify V (wj_payload job)) = Inl r"
  shows "webhook_by_id (wj_webhookId job) (snd (post_webhook V now n job sec w)) =
    Some (h\<lparr>wh_failureCount := wh_failureCount h + 1, wh_lastFailureAt := Some now\<rparr>)"
proof -
  have "exists_row (\<lambda>h. wh_id h = wj_webhookId job) (w_webhooks w)"
    using assms(1) by (auto simp: webhook_by_id_def exists_row_def)
  then show ?thesis
    using assms find_key_update [of wh_id "\<lambda>h. h\<lparr>wh_failureCount := wh_failureCount h + 1, wh_lastFailureAt := Some now\<rparr>"
        "wj_webhookId job" "wj_webhookId job" "w_webhooks w"]
    by (cases r) (simp add: post_webhook_def Let_def record_attempt_def webhook_by_id_def flow_simps)
qed

lemma post_success:
  assumes "webhook_by_id (wj_webhookId job) w = Some h" "wv_post V (wj_url job) (wv_stringify V (wj_payload job)) = Inr st"
    "200 \<le> st" "st < 300"
  shows "fst (post_webhook V now n job sec w) = Inr ()
    \<and> webhook_by_id (wj_webhookId job) (snd (post_webhook V now n job sec w)) =
      Some (h\<lparr>wh_failureCount := 0, wh_lastSuccessAt := Some now\<rparr>)"
proof -
  have "exists_row (\<lambda>h. wh_id h = wj_webhookId job) (w_webhooks w)"
    using assms(1) by (auto simp: webhook_by_id_def exists_row_def)
  then show ?thesis
    using assms find_key_update [of wh_id "\<lambda>h. h\<lparr>wh_failureCount := 0, wh_lastSuccessAt := Some now\<rparr>"
        "wj_webhookId job" "wj_webhookId job" "w_webhooks w"]
    by (simp add: post_webhook_def Let_def record_attempt_def webhook_by_id_def flow_simps)
qed

text \<open>A run of attempts on one webhook.\<close>

fun attempt_run :: "webhook_env \<Rightarrow> webhook_job \<Rightarrow> (millis \<times> nat) list \<Rightarrow> 'r world \<Rightarrow> 'r world" where
  "attempt_run V job [] w = w"
| "attempt_run V job ((t, n) # r) w = attempt_run V job r (snd (process_webhook V t n job w))"

lemma attempt_run_inactive:
  "webhook_by_id (wj_webhookId job) w = Some h \<Longrightarrow> \<not> wh_isActive h \<Longrightarrow> attempt_run V job ts w = w"
  by (induction ts) (auto simp: process_webhook_def flow_simps)

lemma process_ready:
  assumes "webhook_by_id (wj_webhookId job) w = Some h" "wh_isActive h" "wh_failureCount h < wv_threshold V"
    "\<not> isEncrypted (wj_secret job)" "wv_hostname V (wj_url job) = Some host" "ssrf_allows V host"
  shows "process_webhook V t n job w = post_webhook V t n job (wj_secret job) w"
  using assms by (simp add: process_webhook_def)

lemma process_over:
  assumes "webhook_by_id (wj_webhookId job) w = Some h" "wh_isActive h" "wv_threshold V \<le> wh_failureCount h"
  shows "process_webhook V t n job w = (Inr (), w\<lparr>w_webhooks :=
      updateMany (\<lambda>h. wh_id h = wj_webhookId job) (\<lambda>h. h\<lparr>wh_isActive := False\<rparr>) (w_webhooks w)\<rparr>)"
  using assms by (simp add: process_webhook_def flow_simps)

lemma failing_run:
  assumes "webhook_by_id (wj_webhookId job) w = Some h" "wh_isActive h"
    "\<not> isEncrypted (wj_secret job)" "wv_hostname V (wj_url job) = Some host" "ssrf_allows V host"
    "wv_post V (wj_url job) (wv_stringify V (wj_payload job)) = Inl r"
    "wh_failureCount h \<le> wv_threshold V"
  shows "length (w_sent (attempt_run V job ts w)) =
    length (w_sent w) + min (length ts) (nat (wv_threshold V - wh_failureCount h))"
  using assms(1,2,7)
proof (induction ts arbitrary: w h)
  case (Cons x ts)
  obtain t n where x: "x = (t, n)" by (cases x)
  show ?case
  proof (cases "wh_failureCount h < wv_threshold V")
    case True
    let ?w = "snd (post_webhook V t n job (wj_secret job) w)"
    have step: "process_webhook V t n job w = post_webhook V t n job (wj_secret job) w"
      by (rule process_ready [OF Cons.prems(1,2) True assms(3-5)])
    have "length (w_sent (attempt_run V job ts ?w)) = length (w_sent ?w) +
        min (length ts) (nat (wv_threshold V - (wh_failureCount h + 1)))"
      using Cons.IH [OF post_failure [OF Cons.prems(1) assms(6)]] Cons.prems(2) True by simp
    then show ?thesis using True by (simp add: x step post_sent nat_diff_distrib')
  next
    case False
    let ?w = "w\<lparr>w_webhooks := updateMany (\<lambda>h. wh_id h = wj_webhookId job) (\<lambda>h. h\<lparr>wh_isActive := False\<rparr>) (w_webhooks w)\<rparr>"
    have "attempt_run V job ts ?w = ?w"
      by (rule attempt_run_inactive [OF webhook_after_update [OF Cons.prems(1)]]) simp_all
    then show ?thesis
      using False process_over [OF Cons.prems(1,2), of V t n] by (simp add: x)
  qed
qed simp

section \<open>Properties\<close>

text \<open>Secrets round-trip. Whatever key, nonce of twelve bytes and secret: if AES-GCM inverts itself
  there, then what \<open>encryptWebhookSecret\<close> stores is recognised as encrypted and decrypts to the
  secret; and a secret without a dot (base58 has none) is never mistaken for an encrypted one.\<close>

theorem webhook_secret_roundtrip:
  assumes "length iv = 12"
    and "ae_decrypt A key iv (fst (ae_encrypt A key iv s)) (snd (ae_encrypt A key iv s)) = Some s"
    and "CHR ''.'' \<notin> set t"
  shows "isEncrypted (encryptWebhookSecret A key iv s)
    \<and> decryptWebhookSecret A key (encryptWebhookSecret A key iv s) = Inr s
    \<and> \<not> isEncrypted t"
  using assms
  unfolding isEncrypted_def decryptWebhookSecret_def Let_def encrypt_eq split_secret
  by (simp add: from_hex_to_hex length_to_hex)

definition toy_aes :: aes_gcm where
  "toy_aes = \<lparr>ae_encrypt = (\<lambda>k iv s. (map (\<lambda>c. word_of_nat (of_char c)) s, replicate 16 0)),
     ae_decrypt = (\<lambda>k iv c t. Some (map (\<lambda>b. char_of (unat b)) c))\<rparr>"

lemma toy_aes_inverts: "map (\<lambda>b. char_of (unat b)) (map (\<lambda>c. word_of_nat (of_char c) :: 8 word) s) = s"
  by (induction s) (simp_all add: unat_of_nat)

theorem webhook_secret_roundtrip_witness:
  "decryptWebhookSecret toy_aes [] (encryptWebhookSecret toy_aes [] (replicate 12 5) ''secret'') = Inr ''secret''"
proof -
  have "ae_decrypt toy_aes [] (replicate 12 5) (fst (ae_encrypt toy_aes [] (replicate 12 5) ''secret''))
      (snd (ae_encrypt toy_aes [] (replicate 12 5) ''secret'')) = Some ''secret''"
    using toy_aes_inverts [of "''secret''"] by (simp add: toy_aes_def)
  from webhook_secret_roundtrip [OF _ this, of "''abc''"] show ?thesis by simp
qed

text \<open>No webhook can be registered. AES-GCM keeps the length of the secret and adds a tag of sixteen
  bytes, so the stored form of any secret of four characters or more is longer than the 64 characters
  of the \<open>secret_hash\<close> column: \<open>create\<close> fails for every 32-byte base58 secret and stores nothing.\<close>

theorem webhook_creation_fails:
  assumes "length (fst (ae_encrypt A k iv secret)) = length secret" "length (snd (ae_encrypt A k iv secret)) = 16"
    and "length iv = 12" "32 \<le> length secret"
  shows "createWebhook A (Inr k) secret iv i url events p w = (Inl (PrismaExn ''P2000''), w)"
proof -
  have "64 < length (encryptWebhookSecret A k iv secret)" using assms by (simp add: encrypted_length)
  then show ?thesis by (simp add: createWebhook_def insert_webhook_def flow_simps Let_def)
qed

theorem webhook_creation_fails_witness:
  "fst (createWebhook toy_aes (Inr (replicate 32 0)) (replicate 43 CHR ''a'') (replicate 12 5) ''w1'' ''https://x.io''
     None undefined (empty_world ())) = Inl (PrismaExn ''P2000'')"
  by (subst webhook_creation_fails) (simp_all add: toy_aes_def)

text \<open>What the worker sends. One attempt makes at most one request; it makes one only for an active
  webhook below the failure threshold whose host resolves to a public unicast address (or local
  targets are allowed), to the job's URL, and signed with HMAC over timestamp, dot and body under the
  decrypted secret.\<close>

theorem webhook_request_guarded:
  assumes "w_sent (snd (process_webhook V now n job w)) \<noteq> w_sent w"
  shows "\<exists>h host secret. webhook_by_id (wj_webhookId job) w = Some h \<and> wh_isActive h
    \<and> wh_failureCount h < wv_threshold V
    \<and> wv_hostname V (wj_url job) = Some host \<and> (wv_allowLocal V \<or> wv_range V host = Some ''unicast'')
    \<and> (if isEncrypted (wj_secret job)
       then \<exists>k. wv_key V = Inr k \<and> decryptWebhookSecret (wv_aes V) k (wj_secret job) = Inr secret
       else secret = wj_secret job)
    \<and> w_sent (snd (process_webhook V now n job w)) = w_sent w @ [SentPost (wj_url job)
        (webhook_headers V secret (show_int (now div 1000)) (wj_payload job)) (wv_stringify V (wj_payload job))]"
proof -
  obtain h where h: "webhook_by_id (wj_webhookId job) w = Some h" "wh_isActive h" "wh_failureCount h < wv_threshold V"
    using assms by (auto simp: process_webhook_def flow_simps split: option.splits if_splits)
  define dec where "dec = (if isEncrypted (wj_secret job)
      then (case wv_key V of Inl e \<Rightarrow> Inl e | Inr k \<Rightarrow> decryptWebhookSecret (wv_aes V) k (wj_secret job))
      else Inr (wj_secret job))"
  have step: "process_webhook V now n job w = (case dec of Inl e \<Rightarrow> throw e w | Inr secret \<Rightarrow>
      (case wv_hostname V (wj_url job) of None \<Rightarrow> ok () w | Some host \<Rightarrow>
         if \<not> ssrf_allows V host then throw (JsError ''SSRF_BLOCKED'') w else post_webhook V now n job secret w))"
    using h by (simp add: process_webhook_def dec_def)
  obtain secret host where s: "dec = Inr secret" "wv_hostname V (wj_url job) = Some host" "ssrf_allows V host"
    using assms unfolding step by (auto simp: flow_simps split: sum.splits option.splits if_splits)
  then have "process_webhook V now n job w = post_webhook V now n job secret w" by (simp add: step)
  moreover have "if isEncrypted (wj_secret job)
       then \<exists>k. wv_key V = Inr k \<and> decryptWebhookSecret (wv_aes V) k (wj_secret job) = Inr secret
       else secret = wj_secret job"
    using s(1) by (auto simp: dec_def split: if_splits sum.splits)
  ultimately show ?thesis
    using h s by (intro exI [of _ h] exI [of _ host] exI [of _ secret]) (simp add: post_sent ssrf_allows_def)
qed

definition sample_webhook :: webhook where
  "sample_webhook = \<lparr>wh_id = ''h1'', wh_protocolId = ''p1'', wh_url = ''https://x.io'', wh_events = [''notification.delivered''],
     wh_secretHash = ''s'', wh_isActive = True, wh_failureCount = 0, wh_lastSuccessAt = None, wh_lastFailureAt = None\<rparr>"

definition sample_payload :: webhook_payload where
  "sample_payload = \<lparr>wp_eventId = ''e'', wp_eventType = ''notification.delivered'', wp_timestamp = 0,
     wp_notificationId = None, wp_status = None\<rparr>"

definition sample_whjob :: webhook_job where
  "sample_whjob = \<lparr>wj_webhookId = ''h1'', wj_url = ''https://x.io'', wj_secret = ''s'', wj_payload = sample_payload\<rparr>"

definition failing_env :: webhook_env where
  "failing_env = \<lparr>wv_aes = toy_aes, wv_key = Inr [], wv_hostname = (\<lambda>_. Some ''x.io''), wv_range = (\<lambda>_. Some ''unicast''),
     wv_allowLocal = False, wv_stringify = wp_eventType, wv_hmac = (\<lambda>k m. k @ m),
     wv_post = (\<lambda>_ _. Inl (Some 500, ''Request failed'')), wv_latency = 1, wv_threshold = 10\<rparr>"

definition webhook_world :: "unit world" where
  "webhook_world = (empty_world ())\<lparr>w_webhooks := [sample_webhook]\<rparr>"

lemma webhook_world_row: "webhook_by_id (wj_webhookId sample_whjob) webhook_world = Some sample_webhook"
  by (simp add: webhook_by_id_def webhook_world_def sample_webhook_def sample_whjob_def)

theorem webhook_request_guarded_witness:
  "\<exists>secret. w_sent (snd (process_webhook failing_env 5000 0 sample_whjob webhook_world)) =
     [SentPost ''https://x.io'' (webhook_headers failing_env secret (show_int 5) sample_payload) ''notification.delivered'']"
proof -
  have "w_sent (snd (process_webhook failing_env 5000 0 sample_whjob webhook_world)) \<noteq> w_sent webhook_world"
    using process_ready [OF webhook_world_row, of failing_env "''x.io''" 5000 0]
    by (simp add: sample_webhook_def failing_env_def sample_whjob_def isEncrypted_def ssrf_allows_def post_sent)
  from webhook_request_guarded [OF this] show ?thesis
    by (auto simp: webhook_world_def empty_world_def sample_whjob_def failing_env_def sample_payload_def)
qed



text \<open>An auto-disabled webhook cannot be revived. The owner's \<open>PATCH isActive = true\<close> leaves the
  failure count where it was, so the very next job of the webhook sends nothing and disables it again.\<close>

theorem reenabling_is_futile:
  assumes "webhook_by_id (wj_webhookId job) w = Some h" "wv_threshold V \<le> wh_failureCount h"
    and "wh_protocolId h = ap_protocolId p"
    and "w1 = snd (updateWebhook (wj_webhookId job) \<lparr>uw_url = None, uw_events = None, uw_isActive = Some True\<rparr> p w)"
  shows "(\<exists>h1. webhook_by_id (wj_webhookId job) w1 = Some h1 \<and> wh_isActive h1)
    \<and> w_sent (snd (process_webhook V t n job w1)) = w_sent w1
    \<and> (\<exists>h2. webhook_by_id (wj_webhookId job) (snd (process_webhook V t n job w1)) = Some h2 \<and> \<not> wh_isActive h2)"
proof -
  let ?mine = "\<lambda>h. wh_id h = wj_webhookId job \<and> wh_protocolId h = ap_protocolId p"
  have hid: "wh_id h = wj_webhookId job" using find_Some_row [OF assms(1) [unfolded webhook_by_id_def]] by simp
  have find: "List.find (\<lambda>x. wh_id x = wj_webhookId job) (updateMany ?mine (wh_isActive_update (\<lambda>_. True)) rows) =
      map_option (\<lambda>r. if ?mine r then r\<lparr>wh_isActive := True\<rparr> else r)
        (List.find (\<lambda>x. wh_id x = wj_webhookId job) rows)" for rows :: "webhook list"
    by (rule find_updateMany_other) simp
  have row: "webhook_by_id (wj_webhookId job) w1 = Some (h\<lparr>wh_isActive := True\<rparr>)"
    using assms(1,3) hid by (simp add: assms(4) updateWebhook_def Let_def flow_simps webhook_by_id_def js_simps find)
  have step: "process_webhook V t n job w1 = (Inr (), w1\<lparr>w_webhooks :=
      updateMany (\<lambda>h. wh_id h = wj_webhookId job) (\<lambda>h. h\<lparr>wh_isActive := False\<rparr>) (w_webhooks w1)\<rparr>)"
    by (rule process_over [OF row]) (use assms(2) in simp_all)
  show ?thesis
    unfolding step using row webhook_after_update [OF row, of "\<lambda>h. h\<lparr>wh_isActive := False\<rparr>"] by simp
qed

definition sample_owner :: auth_protocol where
  "sample_owner = \<lparr>ap_protocolId = ''p1'', ap_protocolPubkey = '''', ap_apiKeyId = '''', ap_tier = 1, ap_scopes = [],
     ap_environment = '''', ap_isActive = True, ap_sendsThisPeriod = None, ap_name = None,
     ap_overageEnabled = None, ap_isTestKey = None, ap_testKeyType = None, ap_verificationStatus = None\<rparr>"

definition disabled_world :: "unit world" where
  "disabled_world = webhook_world\<lparr>w_webhooks := [sample_webhook\<lparr>wh_isActive := False, wh_failureCount := 10\<rparr>]\<rparr>"

theorem reenabling_is_futile_witness:
  "\<exists>h2. webhook_by_id (wj_webhookId sample_whjob) (snd (process_webhook failing_env 9 0 sample_whjob
      (snd (updateWebhook (wj_webhookId sample_whjob)
         \<lparr>uw_url = None, uw_events = None, uw_isActive = Some True\<rparr> sample_owner disabled_world)))) = Some h2
     \<and> \<not> wh_isActive h2"
proof -
  have row: "webhook_by_id (wj_webhookId sample_whjob) disabled_world =
      Some (sample_webhook\<lparr>wh_isActive := False, wh_failureCount := 10\<rparr>)"
    by (simp add: webhook_by_id_def disabled_world_def sample_webhook_def sample_whjob_def)
  show ?thesis
    using reenabling_is_futile [OF row _ _ refl, of failing_env sample_owner 9 0]
    by (simp add: failing_env_def sample_owner_def sample_webhook_def)
qed

text \<open>Fan-out. An event puts exactly one job in the queue for each active webhook of the protocol
  that is subscribed to its type, in order and with its URL and secret; the test endpoint, whose event
  type is \<open>ping\<close>, therefore reaches the webhook it names only if that is subscribed to \<open>ping\<close>.\<close>

theorem webhook_fan_out:
  assumes "\<forall>h. outcome h = Added"
  shows "map (\<lambda>j. (wj_webhookId j, wj_url j, wj_secret j)) (w_webhookJobs (snd (dispatchEvent outcome ev now pid ty nid st w))) =
      map (\<lambda>j. (wj_webhookId j, wj_url j, wj_secret j)) (w_webhookJobs w) @
      map (\<lambda>h. (wh_id h, wh_url h, wh_secretHash h))
        (filter (\<lambda>h. wh_protocolId h = pid \<and> wh_isActive h \<and> ty \<in> set (wh_events h)) (w_webhooks w))
    \<and> (testWebhook outcome ev now i p w = (Inr (Some h), w') \<longrightarrow>
        (\<exists>j \<in> set (drop (length (w_webhookJobs w)) (w_webhookJobs w')). wj_webhookId j = i) \<longrightarrow>
        (\<exists>h' \<in> set (w_webhooks w). wh_id h' = i \<and> wh_isActive h' \<and> ''ping'' \<in> set (wh_events h')))"
proof
  show "map (\<lambda>j. (wj_webhookId j, wj_url j, wj_secret j)) (w_webhookJobs (snd (dispatchEvent outcome ev now pid ty nid st w))) =
      map (\<lambda>j. (wj_webhookId j, wj_url j, wj_secret j)) (w_webhookJobs w) @
      map (\<lambda>h. (wh_id h, wh_url h, wh_secretHash h))
        (filter (\<lambda>h. wh_protocolId h = pid \<and> wh_isActive h \<and> ty \<in> set (wh_events h)) (w_webhooks w))"
    by (simp add: dispatch_all [OF assms] comp_def)
  show "testWebhook outcome ev now i p w = (Inr (Some h), w') \<longrightarrow>
        (\<exists>j \<in> set (drop (length (w_webhookJobs w)) (w_webhookJobs w')). wj_webhookId j = i) \<longrightarrow>
        (\<exists>h' \<in> set (w_webhooks w). wh_id h' = i \<and> wh_isActive h' \<and> ''ping'' \<in> set (wh_events h'))"
    by (auto simp: testWebhook_def dispatch_all [OF assms] flow_simps split: option.splits) blast
qed

theorem webhook_fan_out_witness:
  "map wj_webhookId (w_webhookJobs (snd (dispatchEvent (\<lambda>_. Added) ''e'' 0 ''p1'' ''notification.delivered'' None None webhook_world))) = [''h1'']"
proof -
  have "map fst (map (\<lambda>j. (wj_webhookId j, wj_url j, wj_secret j)) (w_webhookJobs
      (snd (dispatchEvent (\<lambda>_. Added) ''e'' 0 ''p1'' ''notification.delivered'' None None webhook_world)))) = [''h1'']"
    using webhook_fan_out [of "\<lambda>_. Added" "''e''" 0 "''p1''" "''notification.delivered''" None None webhook_world]
    by (simp add: webhook_world_def sample_webhook_def empty_world_def)
  then show ?thesis by (simp add: comp_def)
qed

end
