(* ===== verification/Unsubscribe.thy ===== *)
theory Unsubscribe
  imports Base64 Gateway_World
begin

text \<open>
  Unsubscribe tokens and opt-outs: \<open>notify/unsubscribe.service.ts\<close> and the generator that
  \<open>channel/channel-dispatch.service.ts\<close> has of its own. HMAC-SHA256 (as bytes), its hexadecimal
  form for the token table and \<open>JSON.stringify\<close>/\<open>JSON.parse\<close> on payloads are parameters.
\<close>

record unsubscribe_payload =
  up_walletHash :: string
  up_category :: "string option"
  up_protocolId :: "string option"
  up_expiresAt :: int

record unsubscribe_env =
  ue_hmac :: "string \<Rightarrow> bytes"
  ue_tokenHash :: "string \<Rightarrow> string"
  ue_stringify :: "unsubscribe_payload \<Rightarrow> bytes"
  ue_parse :: "bytes \<Rightarrow> unsubscribe_payload option"
  ue_baseUrl :: string

definition tokenTtlSeconds :: int where "tokenTtlSeconds = 7 * 24 * 60 * 60"

definition sign :: "unsubscribe_env \<Rightarrow> string \<Rightarrow> string" where
  "sign U data = base64url (ue_hmac U data)"

definition signed :: "unsubscribe_env \<Rightarrow> unsubscribe_payload \<Rightarrow> string" where
  "signed U payload = (let p = base64url (ue_stringify U payload) in p @ ''.'' @ sign U p)"

definition generateToken ::
  "unsubscribe_env \<Rightarrow> millis \<Rightarrow> string \<Rightarrow> string option \<Rightarrow> string option \<Rightarrow> 'r world \<Rightarrow> string \<times> 'r world" where
  "generateToken U now walletHash category protocolId w =
     (let expiresAt = now div 1000 + tokenTtlSeconds;
          token = signed U \<lparr>up_walletHash = walletHash, up_category = category, up_protocolId = protocolId,
                            up_expiresAt = expiresAt\<rparr>;
          row = \<lparr>ut_tokenHash = ue_tokenHash U token, ut_walletHash = walletHash, ut_category = category,
                 ut_usedAt = None, ut_expiresAt = expiresAt * 1000\<rparr>
      in (token, w\<lparr>w_unsubTokens := w_unsubTokens w @ [row]\<rparr>))"

definition generateUnsubscribeUrl ::
  "unsubscribe_env \<Rightarrow> millis \<Rightarrow> string \<Rightarrow> string option \<Rightarrow> string option \<Rightarrow> 'r world \<Rightarrow> string \<times> 'r world" where
  "generateUnsubscribeUrl U now walletHash category protocolId w =
     (let (token, w') = generateToken U now walletHash category protocolId w
      in (ue_baseUrl U @ ''/unsubscribe/'' @ token, w'))"

text \<open>The generator of the dispatcher: the same format, no protocol, nothing stored.\<close>

definition dispatch_token :: "unsubscribe_env \<Rightarrow> millis \<Rightarrow> string \<Rightarrow> string option \<Rightarrow> string" where
  "dispatch_token U now walletHash category =
     signed U \<lparr>up_walletHash = walletHash, up_category = truthy_or_none category, up_protocolId = None,
               up_expiresAt = now div 1000 + 7 * 24 * 60 * 60\<rparr>"

definition generateSignedUnsubscribeUrl :: "unsubscribe_env \<Rightarrow> millis \<Rightarrow> string \<Rightarrow> string option \<Rightarrow> string" where
  "generateSignedUnsubscribeUrl U now walletHash category =
     ue_baseUrl U @ ''/unsubscribe/'' @ dispatch_token U now walletHash category"

definition portal_user_by_hash :: "string \<Rightarrow> 'r world \<Rightarrow> portal_user option" where
  "portal_user_by_hash h w = List.find (\<lambda>u. pu_walletHash u = h) (w_portalUsers w)"

definition opt_out :: "millis \<Rightarrow> string option \<Rightarrow> portal_user \<Rightarrow> portal_user option" where
  "opt_out now category u =
     (if \<not> truthy category \<or> category = Some ''all'' then Some (u\<lparr>pu_optInAll := False, pu_updatedAt := now\<rparr>)
      else if category = Some ''defi'' then Some (u\<lparr>pu_optInDefi := False, pu_updatedAt := now\<rparr>)
      else if category = Some ''governance'' then Some (u\<lparr>pu_optInGovernance := False, pu_updatedAt := now\<rparr>)
      else if category = Some ''marketing'' then Some (u\<lparr>pu_optInMarketing := False, pu_updatedAt := now\<rparr>)
      else None)"

definition executeUnsubscribe :: "millis \<Rightarrow> unsubscribe_payload \<Rightarrow> 'r world \<Rightarrow> 'r world" where
  "executeUnsubscribe now payload w =
     (case portal_user_by_hash (up_walletHash payload) w of
        None \<Rightarrow> w
      | Some u \<Rightarrow> (case opt_out now (up_category payload) u of
            None \<Rightarrow> w
          | Some _ \<Rightarrow> w\<lparr>w_portalUsers := updateMany (\<lambda>v. pu_walletHash v = up_walletHash payload)
                       (\<lambda>v. the (opt_out now (up_category payload) v)) (w_portalUsers w)\<rparr>))"

text \<open>\<open>timingSafeEqual\<close> on the decoded signatures.\<close>

definition signature_ok :: "unsubscribe_env \<Rightarrow> string \<Rightarrow> string \<Rightarrow> bool" where
  "signature_ok U payloadStr signature = (from_base64 signature = from_base64 (sign U payloadStr))"

definition decodeToken :: "unsubscribe_env \<Rightarrow> millis \<Rightarrow> string \<Rightarrow> unsubscribe_payload option" where
  "decodeToken U now token =
     (case split_on (CHR ''.'') token of
        [payloadStr, signature] \<Rightarrow>
          if \<not> signature_ok U payloadStr signature then None
          else (case ue_parse U (from_base64 payloadStr) of
                  None \<Rightarrow> None
                | Some p \<Rightarrow> if up_expiresAt p < now div 1000 then None else Some p)
      | _ \<Rightarrow> None)"

datatype unsubscribe_result = Unsubscribed unsubscribe_payload | Refused string

definition validateAndExecute ::
  "unsubscribe_env \<Rightarrow> millis \<Rightarrow> string \<Rightarrow> 'r world \<Rightarrow> unsubscribe_result \<times> 'r world" where
  "validateAndExecute U now token w =
     (case split_on (CHR ''.'') token of
        [payloadStr, signature] \<Rightarrow>
          if \<not> signature_ok U payloadStr signature then (Refused ''Invalid signature'', w)
          else (case ue_parse U (from_base64 payloadStr) of
              None \<Rightarrow> (Refused ''Invalid payload'', w)
            | Some payload \<Rightarrow>
                if up_expiresAt payload < now div 1000 then (Refused ''Token expired'', w)
                else let tokenHash = ue_tokenHash U token;
                         existing = List.find (\<lambda>t. ut_tokenHash t = tokenHash) (w_unsubTokens w)
                  in if (case existing of None \<Rightarrow> False | Some t \<Rightarrow> ut_usedAt t \<noteq> None)
                     then (Refused ''Token already used'', w)
                     else let w1 = executeUnsubscribe now payload w
                       in (Unsubscribed payload,
                           if existing = None then w1
                           else w1\<lparr>w_unsubTokens := updateMany (\<lambda>t. ut_tokenHash t = tokenHash)
                                  (\<lambda>t. t\<lparr>ut_usedAt := Some now\<rparr>) (w_unsubTokens w1)\<rparr>))
      | _ \<Rightarrow> (Refused ''Invalid token format'', w))"

section \<open>Facts\<close>

lemma b64_char_no_dot: "b64_char url s \<noteq> CHR ''.''" if "s < 64"
  using b64_value_char [OF that, of url] by (auto simp: b64_value_def)

lemma base64url_no_dot: "CHR ''.'' \<notin> set (base64url bs)"
proof -
  have "\<forall>s \<in> set (sextets (map unat bs)). b64_char True s \<noteq> CHR ''.''"
    using sextets_bytes [of bs] b64_char_no_dot by (auto simp: list_all_iff)
  then show ?thesis by (auto simp: base64url_def)
qed

lemma split_signed:
  "split_on (CHR ''.'') (signed U p) =
     [base64url (ue_stringify U p), sign U (base64url (ue_stringify U p))]"
  by (simp add: signed_def Let_def split_on_sep base64url_no_dot sign_def)

lemma signed_accepted:
  assumes "ue_parse U (ue_stringify U p) = Some p" "now div 1000 \<le> up_expiresAt p"
  shows "decodeToken U now (signed U p) = Some p"
    and "validateAndExecute U now (signed U p) w =
      (let existing = List.find (\<lambda>t. ut_tokenHash t = ue_tokenHash U (signed U p)) (w_unsubTokens w)
       in if (case existing of None \<Rightarrow> False | Some t \<Rightarrow> ut_usedAt t \<noteq> None) then (Refused ''Token already used'', w)
          else let w1 = executeUnsubscribe now p w
            in (Unsubscribed p, if existing = None then w1
                else w1\<lparr>w_unsubTokens := updateMany (\<lambda>t. ut_tokenHash t = ue_tokenHash U (signed U p))
                       (\<lambda>t. t\<lparr>ut_usedAt := Some now\<rparr>) (w_unsubTokens w1)\<rparr>))"
  using assms by (simp_all add: decodeToken_def validateAndExecute_def split_signed signature_ok_def
      from_base64_base64url Let_def)

lemma opt_out_effect:
  assumes "portal_user_by_hash (up_walletHash p) w = Some u" "opt_out now (up_category p) u = Some v"
  shows "portal_user_by_hash (up_walletHash p) (executeUnsubscribe now p w) = Some v"
proof -
  let ?f = "\<lambda>v. the (opt_out now (up_category p) v)"
  have hash: "pu_walletHash (?f x) = pu_walletHash x" for x
    using assms(2) by (auto simp: opt_out_def split: if_splits)
  have "List.find (\<lambda>v. pu_walletHash v = up_walletHash p) (updateMany (\<lambda>v. pu_walletHash v = up_walletHash p) ?f (w_portalUsers w)) =
      map_option ?f (List.find (\<lambda>v. pu_walletHash v = up_walletHash p) (w_portalUsers w))"
    using find_key_update [of pu_walletHash ?f "up_walletHash p" "up_walletHash p" "w_portalUsers w"] hash by simp
  then show ?thesis
    using assms by (simp add: portal_user_by_hash_def executeUnsubscribe_def)
qed

text \<open>A concrete environment: signatures and token hashes are the identity, and payloads are serialised
  with their category as the text.\<close>

definition sample_unsub_payload :: "string option \<Rightarrow> string option \<Rightarrow> unsubscribe_payload" where
  "sample_unsub_payload c pid = \<lparr>up_walletHash = ''w'', up_category = c, up_protocolId = pid, up_expiresAt = tokenTtlSeconds\<rparr>"

definition sample_unsub_env :: "unsubscribe_payload \<Rightarrow> unsubscribe_env" where
  "sample_unsub_env p = \<lparr>ue_hmac = map (word_of_int \<circ> of_char), ue_tokenHash = id, ue_stringify = (\<lambda>_. [1, 2]),
     ue_parse = (\<lambda>_. Some p), ue_baseUrl = ''https://g''\<rparr>"

definition sample_user :: portal_user where
  "sample_user = \<lparr>pu_walletHash = ''w'', pu_emailHash = None, pu_optInAll = True, pu_optInDefi = True,
     pu_optInGovernance = True, pu_optInMarketing = True, pu_updatedAt = 0\<rparr>"

lemma sample_user_hash: "pu_walletHash sample_user = ''w''"
  by (simp add: sample_user_def)

definition user_world :: "unit world" where
  "user_world = (empty_world ())\<lparr>w_portalUsers := [sample_user]\<rparr>"

section \<open>Properties\<close>



text \<open>The links in real emails can be replayed. The dispatcher signs its own tokens without storing
  them, so the used-once check never sees them: such a link is accepted every time for seven days, and
  a category without an opt-in flag (\<open>system\<close>, \<open>security\<close>) is reported as unsubscribed with no effect.\<close>

theorem dispatched_links_replay:
  fixes w :: "'r world"
  assumes "token = dispatch_token U now h c"
    and "p = \<lparr>up_walletHash = h, up_category = truthy_or_none c, up_protocolId = None,
              up_expiresAt = now div 1000 + 7 * 24 * 60 * 60\<rparr>"
    and "ue_parse U (ue_stringify U p) = Some p"
    and "\<forall>t \<in> set (w_unsubTokens w). ut_tokenHash t \<noteq> ue_tokenHash U token"
    and "t \<le> now + 7 * 24 * 60 * 60 * 1000" "t' \<le> now + 7 * 24 * 60 * 60 * 1000"
  shows "\<exists>w1 w2. validateAndExecute U t token w = (Unsubscribed p, w1)
    \<and> validateAndExecute U t' token w1 = (Unsubscribed p, w2)
    \<and> (c \<in> {Some ''system'', Some ''security''} \<longrightarrow> w1 = w)"
proof -
  have token: "token = signed U p" by (simp add: assms(1,2) dispatch_token_def)
  have live: "s div 1000 \<le> up_expiresAt p" if "s \<le> now + 7 * 24 * 60 * 60 * 1000" for s
  proof -
    have "s div 1000 \<le> (now + 7 * 24 * 60 * 60 * 1000) div 1000" by (rule zdiv_mono1) (use that in simp_all)
    then show ?thesis by (simp add: assms(2))
  qed
  have none: "List.find (\<lambda>t. ut_tokenHash t = ue_tokenHash U token) (w_unsubTokens v) = None"
    if "w_unsubTokens v = w_unsubTokens w" for v :: "'r world"
    using assms(4) that by (simp add: find_None_row)
  have toks: "w_unsubTokens (executeUnsubscribe s p v) = w_unsubTokens v" for s and v :: "'r world"
    by (simp add: executeUnsubscribe_def split: option.splits)
  have step: "validateAndExecute U s token v = (Unsubscribed p, executeUnsubscribe s p v)"
    if "s \<le> now + 7 * 24 * 60 * 60 * 1000" "w_unsubTokens v = w_unsubTokens w" for s and v :: "'r world"
    using signed_accepted(2) [OF assms(3) live [OF that(1)], of v] none [OF that(2)]
    by (simp add: token [symmetric])
  have "c \<in> {Some ''system'', Some ''security''} \<longrightarrow> executeUnsubscribe t p w = w"
    by (auto simp: executeUnsubscribe_def assms(2) opt_out_def truthy_or_none_def split: option.splits)
  with step [OF assms(5) refl] step [OF assms(6) toks] show ?thesis by blast
qed

theorem dispatched_links_replay_witness:
  "\<exists>token p w1 w2. token = dispatch_token (sample_unsub_env p) 0 ''w'' (Some ''system'')
    \<and> validateAndExecute (sample_unsub_env p) 5000 token user_world = (Unsubscribed p, w1)
    \<and> validateAndExecute (sample_unsub_env p) 6000 token w1 = (Unsubscribed p, w2) \<and> w1 = user_world"
proof -
  let ?p = "sample_unsub_payload (Some ''system'') None"
  let ?t = "dispatch_token (sample_unsub_env ?p) 0 ''w'' (Some ''system'')"
  have "\<exists>w1 w2. validateAndExecute (sample_unsub_env ?p) 5000 ?t user_world = (Unsubscribed ?p, w1)
    \<and> validateAndExecute (sample_unsub_env ?p) 6000 ?t w1 = (Unsubscribed ?p, w2)
    \<and> (Some ''system'' \<in> {Some ''system'', Some ''security''} \<longrightarrow> w1 = user_world)"
    by (rule dispatched_links_replay [OF refl])
       (simp_all add: sample_unsub_payload_def sample_unsub_env_def user_world_def empty_world_def
          truthy_or_none_def tokenTtlSeconds_def)
  then show ?thesis by blast
qed

end
