(* ===== verification/Markdown.thy ===== *)
theory Markdown
  imports Js_Regex "HOL-Library.Multiset" "HOL-Library.Word"
begin

text \<open>
  \<open>common/utils/link-parser.ts\<close>: markdown links, their HTML, escaping, and the plain text for SMS.
  A text is a list of code units below 256 (\<open>char\<close>); every regular expression of the file is
  written out below and run by the matcher of \<open>Js_Regex\<close>.
\<close>

text \<open>Where the code writes characters above 255 itself, the text is a list of UTF-16 code units.\<close>

type_synonym units = "16 word list"

definition units :: "string \<Rightarrow> units" where "units s = map of_char s"

lemma length_units [simp]: "length (units s) = length s"
  by (simp add: units_def)

section \<open>Links\<close>

datatype link_type = ImageLink | VideoLink | UrlLink

record parsed_link =
  ln_label :: string
  ln_url :: string
  ln_startIndex :: nat
  ln_endIndex :: nat
  ln_linkType :: link_type

definition not_char :: "'c \<Rightarrow> 'c rex" where "not_char c = Cls (\<lambda>x. x \<noteq> c)"

definition chr :: "'c \<Rightarrow> 'c rex" where "chr c = Cls (\<lambda>x. x = c)"

text \<open>\<open>/\[([^\]]+)\]\(([^)]+)\)/\<close>, and its two groups in a match.\<close>

definition MARKDOWN_LINK_REGEX :: re where
  "MARKDOWN_LINK_REGEX = seqs [chr CHR ''['', plus (not_char CHR '']''), chr CHR '']'', chr CHR ''('',
     plus (not_char CHR '')''), chr CHR '')'']"

definition link_label :: "string \<Rightarrow> string" where
  "link_label u = takeWhile (\<lambda>x. x \<noteq> CHR '']'') (drop 1 u)"

definition link_url :: "string \<Rightarrow> string" where
  "link_url u = takeWhile (\<lambda>x. x \<noteq> CHR '')'') (drop (length (link_label u) + 3) u)"

text \<open>\<open>post\<close> stands for what follows the part of the expression that consumes text, here \<open>(?:[?#]|$)\<close>.\<close>

fun search :: "re \<Rightarrow> (string \<Rightarrow> bool) \<Rightarrow> string \<Rightarrow> bool" where
  "search r post [] = (List.find post (matches r []) \<noteq> None)"
| "search r post (c # s) = (List.find post (matches r (c # s)) \<noteq> None \<or> search r post s)"

definition query_or_end :: "string \<Rightarrow> bool" where
  "query_or_end t = (case t of [] \<Rightarrow> True | c # _ \<Rightarrow> c = CHR ''?'' \<or> c = CHR ''#'')"

definition has_extension :: "string list \<Rightarrow> string \<Rightarrow> bool" where
  "has_extension exts url = search (Seq (chr CHR ''.'') (alts (map lit_i exts))) query_or_end url"

text \<open>The first alternative of the domain expressions is anchored, the others are not.\<close>

definition scheme_opt :: re where
  "scheme_opt = opt (seqs [lit_i ''http'', opt (lit_i ''s''), lit_i ''://''])"

definition image_domain :: "string \<Rightarrow> bool" where
  "image_domain url = (matches (seqs [scheme_opt, opt (lit_i ''i.''), lit_i ''imgur.com'']) url \<noteq> []
     \<or> test (alts (map lit_i [''cdn.dialect.so'', ''images.unsplash.com'', ''media.giphy.com''])) url)"

definition video_domain :: "string \<Rightarrow> bool" where
  "video_domain url = (matches (seqs [scheme_opt, opt (lit_i ''player.''), lit_i ''youtube.com'']) url \<noteq> []
     \<or> test (alts (map lit_i [''cdn.dialect.so'', ''v.imeo.com'', ''media.giphy.com''])) url)"

definition detectLinkType :: "string \<Rightarrow> link_type" where
  "detectLinkType url = (let lowerUrl = map lower url in
     if has_extension [''jpg'', ''jpeg'', ''png'', ''gif'', ''webp'', ''svg'', ''ico'', ''bmp''] lowerUrl
        \<or> image_domain lowerUrl then ImageLink
     else if has_extension [''mp4'', ''webm'', ''mov'', ''avi'', ''mkv'', ''flv''] lowerUrl
        \<or> video_domain lowerUrl then VideoLink
     else UrlLink)"

definition link_of :: "nat \<Rightarrow> string \<Rightarrow> parsed_link" where
  "link_of pos u = \<lparr>ln_label = link_label u, ln_url = link_url u, ln_startIndex = pos,
     ln_endIndex = pos + length u, ln_linkType = detectLinkType (link_url u)\<rparr>"

text \<open>The \<open>exec\<close> loop.\<close>

function scan_links :: "nat \<Rightarrow> string \<Rightarrow> parsed_link list" where
  "scan_links pos s =
     (case first_match MARKDOWN_LINK_REGEX (\<lambda>_. True) s of
        Some t \<Rightarrow> (let u = take (length s - length t) s in link_of pos u # scan_links (pos + length u) t)
      | None \<Rightarrow> (case s of [] \<Rightarrow> [] | c # s' \<Rightarrow> scan_links (Suc pos) s'))"
  by pat_completeness auto
termination
  by (relation "measure (length \<circ> snd)") (auto dest: first_match_shorter)

declare scan_links.simps [simp del]

definition parseMarkdownLinks :: "string \<Rightarrow> string \<times> parsed_link list" where
  "parseMarkdownLinks text = (replace_all MARKDOWN_LINK_REGEX link_label text, scan_links 0 text)"

section \<open>HTML\<close>

fun replace_char :: "'c \<Rightarrow> 'c list \<Rightarrow> 'c list \<Rightarrow> 'c list" where
  "replace_char c r [] = []"
| "replace_char c r (x # xs) = (if x = c then r else [x]) @ replace_char c r xs"

definition escapeHtml :: "string \<Rightarrow> string" where
  "escapeHtml text =
     replace_char (CHR 0x27) ''&#039;'' (replace_char (CHR 0x22) ''&quot;''
       (replace_char CHR ''>'' ''&gt;'' (replace_char CHR ''<'' ''&lt;'' (replace_char CHR ''&'' ''&amp;'' text))))"

definition unescapeHtml :: "string \<Rightarrow> string" where
  "unescapeHtml text =
     replace_all (lit ''&#039;'') (\<lambda>_. [CHR 0x27]) (replace_all (lit ''&quot;'') (\<lambda>_. [CHR 0x22])
       (replace_all (lit ''&gt;'') (\<lambda>_. ''>'') (replace_all (lit ''&lt;'') (\<lambda>_. ''<'')
         (replace_all (lit ''&amp;'') (\<lambda>_. ''&'') text))))"

definition quoted :: "string \<Rightarrow> string" where "quoted s = CHR 0x22 # s @ [CHR 0x22]"

definition renderHtmlElement :: "parsed_link \<Rightarrow> string" where
  "renderHtmlElement l =
     (let safeUrl = escapeHtml (ln_url l); safeLabel = escapeHtml (ln_label l)
      in case ln_linkType l of
           ImageLink \<Rightarrow> ''<a href='' @ quoted safeUrl @ ''><img src='' @ quoted safeUrl @ '' alt='' @ quoted safeLabel
             @ '' style='' @ quoted ''max-width:100%;height:auto;'' @ '' /></a>''
         | _ \<Rightarrow> ''<a href='' @ quoted safeUrl @ ''>'' @ safeLabel @ ''</a>'')"

definition splice :: "parsed_link \<Rightarrow> string \<Rightarrow> string" where
  "splice l result = take (ln_startIndex l) result @ renderHtmlElement l @ drop (ln_endIndex l) result"

text \<open>The links are spliced in by descending start index (the sort is stable).\<close>

definition convertLinksToHtml :: "string \<Rightarrow> parsed_link list \<Rightarrow> string" where
  "convertLinksToHtml text links =
     (if links = [] then text else fold splice (sort_key (\<lambda>l. - int (ln_startIndex l)) links) text)"

fun extractMediaLinks :: "parsed_link list \<Rightarrow> string list \<times> string list \<times> parsed_link list" where
  "extractMediaLinks [] = ([], [], [])"
| "extractMediaLinks (l # ls) =
     (let (images, videos, normalLinks) = extractMediaLinks ls
      in case ln_linkType l of
           ImageLink \<Rightarrow> (ln_url l # images, videos, normalLinks)
         | VideoLink \<Rightarrow> (images, ln_url l # videos, normalLinks)
         | UrlLink \<Rightarrow> (images, videos, l # normalLinks))"

text \<open>
  \<open>injectVariables\<close>, for keys that are identifiers (a key becomes part of a regular expression in the
  code). The values are replacement strings, so \<open>$&\<close> and its like are patterns in them.
\<close>

fun injectVariables :: "string \<Rightarrow> (string \<times> string) list \<Rightarrow> string" where
  "injectVariables result [] = result"
| "injectVariables result ((k, v) # vars) = injectVariables (replace_str_all result (''{{'' @ k @ ''}}'') v) vars"

section \<open>Plain text\<close>

definition trim :: "string \<Rightarrow> string" where
  "trim s = rev (dropWhile is_space (rev (dropWhile is_space s)))"

definition blanks :: re where "blanks = Star (Cls (\<lambda>x. x = CHR '' '' \<or> x = CHR 0x09))"

text \<open>\<open>$1\<close> of an expression with \<open>n\<close> delimiter characters on each side of its group.\<close>

definition inside :: "nat \<Rightarrow> 'c list \<Rightarrow> 'c list" where
  "inside n u = take (length u - 2 * n) (drop n u)"

definition delimited :: "'c list \<Rightarrow> ('c \<Rightarrow> bool) \<Rightarrow> 'c rex" where
  "delimited d P = seqs [lit d, plus (Cls P), lit d]"

definition no_delim :: "char \<Rightarrow> char \<Rightarrow> bool" where
  "no_delim c x = (x \<noteq> c \<and> x \<noteq> CHR 0x0A)"

definition table_separator :: re where
  "table_separator = seqs [chr CHR ''|'', plus (Cls (\<lambda>x. x = CHR ''-'' \<or> x = CHR '':'' \<or> x = CHR ''|'' \<or> x = CHR '' '')),
     chr CHR ''|'', blanks]"

definition table_row :: re where
  "table_row = seqs [chr CHR ''|'', plus (Cls not_newline), chr CHR ''|'', blanks]"

definition row_cells :: "string \<Rightarrow> string" where
  "row_cells u =
     (let inner = butlast (rev (dropWhile (\<lambda>x. x = CHR '' '' \<or> x = CHR 0x09) (rev (drop 1 u))))
      in join_with '' | '' (filter (\<lambda>c. c \<noteq> []) (map trim (split_on CHR ''|'' inner))))"

definition three_or_more :: "'c \<Rightarrow> 'c rex" where
  "three_or_more c = seqs [chr c, chr c, plus (chr c)]"

definition stripMarkdown :: "string \<Rightarrow> string" where
  "stripMarkdown text =
     (let r1 = replace_all (seqs [lit ''```'', Lazy (Cls (\<lambda>_. True)), lit ''```'']) (\<lambda>_. ''[code]'') text;
          r2 = replace_all (delimited ''`'' (\<lambda>x. x \<noteq> CHR ''`'')) (inside 1) r1;
          r3 = replace_all MARKDOWN_LINK_REGEX link_label r2;
          r4 = replace_lines table_separator line_end (\<lambda>_. []) r3;
          r5 = replace_lines table_row line_end row_cells r4;
          r6 = replace_all (delimited ''**'' (no_delim CHR ''*'')) (inside 2) r5;
          r7 = replace_all (delimited ''__'' (no_delim CHR ''_'')) (inside 2) r6;
          r8 = replace_all (delimited ''*'' (no_delim CHR ''*'')) (inside 1) r7;
          r9 = replace_all (delimited ''_'' (no_delim CHR ''_'')) (inside 1) r8;
          r10 = replace_all (delimited ''~~'' (no_delim CHR ''~'')) (inside 2) r9;
          r11 = replace_lines (Seq (repeat_between 1 6 (chr CHR ''#'')) spaces1) (\<lambda>_. True) (\<lambda>_. []) r10;
          r12 = replace_lines (Seq (alts [three_or_more CHR ''*'', three_or_more CHR ''-'', three_or_more CHR ''_'']) blanks)
                  line_end (\<lambda>_. []) r11;
          r13 = replace_lines (Seq (chr CHR ''>'') (Star (Cls is_space))) (\<lambda>_. True) (\<lambda>_. []) r12;
          r14 = replace_all (three_or_more CHR 0x0A) (\<lambda>_. [CHR 0x0A, CHR 0x0A]) r13
      in trim r14)"

section \<open>Facts\<close>

lemma scan_links_none:
  assumes "first_match MARKDOWN_LINK_REGEX (\<lambda>_. True) s = None"
  shows "scan_links pos s = (case s of [] \<Rightarrow> [] | c # s' \<Rightarrow> scan_links (Suc pos) s')"
  using assms by (simp add: scan_links.simps [of pos s])

lemma scan_links_some:
  assumes "first_match MARKDOWN_LINK_REGEX (\<lambda>_. True) s = Some t"
  shows "scan_links pos s = link_of pos (take (length s - length t) s) # scan_links (pos + (length s - length t)) t"
  using assms by (simp add: scan_links.simps [of pos s] Let_def)

text \<open>Induction along the scan: the end, a character that starts no link, a link.\<close>

lemma scan_induct [case_names Nil Skip Link]:
  assumes "\<And>pos. P pos []"
    and "\<And>pos c s. first_match MARKDOWN_LINK_REGEX (\<lambda>_. True) (c # s) = None \<Longrightarrow> P (Suc pos) s \<Longrightarrow> P pos (c # s)"
    and "\<And>pos u t. first_match MARKDOWN_LINK_REGEX (\<lambda>_. True) (u @ t) = Some t \<Longrightarrow> u \<noteq> [] \<Longrightarrow>
      P (pos + length u) t \<Longrightarrow> P pos (u @ t)"
  shows "P pos s"
proof (induction s arbitrary: pos rule: length_induct)
  case (1 s)
  show ?case
  proof (cases "first_match MARKDOWN_LINK_REGEX (\<lambda>_. True) s")
    case None
    then show ?thesis using 1 assms(1,2) by (cases s) auto
  next
    case (Some t)
    then have "t \<in> set (matches MARKDOWN_LINK_REGEX s)" by (auto simp: first_match_def find_Some_iff)
    then obtain u where s: "s = u @ t" by (auto simp: matches_iff)
    with first_match_shorter [OF Some] have "u \<noteq> []" by auto
    with Some s 1 show ?thesis by (auto intro!: assms(3))
  qed
qed

lemma scan_links_Nil [simp]: "scan_links pos [] = []"
  by (simp add: scan_links_none)

lemma scan_links_bounds:
  "l \<in> set (scan_links pos s) \<Longrightarrow> pos \<le> ln_startIndex l \<and> ln_endIndex l \<le> pos + length s"
proof (induction pos s rule: scan_induct)
  case (Skip pos c s)
  then show ?case by (fastforce simp: scan_links_none)
next
  case (Link pos u t)
  then show ?case by (fastforce simp: scan_links_some link_of_def)
qed simp

lemma scan_links_increasing: "sorted_wrt (<) (map ln_startIndex (scan_links pos s))"
proof (induction pos s rule: scan_induct)
  case (Skip pos c s)
  then show ?case by (simp add: scan_links_none)
next
  case (Link pos u t)
  have "pos < ln_startIndex l" if "l \<in> set (scan_links (pos + length u) t)" for l
    using scan_links_bounds [OF that] Link(2) by (cases u) auto
  with Link show ?case by (auto simp: scan_links_some link_of_def)
qed simp

lemma splice_all:
  "length p = pos \<Longrightarrow> foldr splice (scan_links pos s) (p @ s) =
     p @ replace_from (\<lambda>_. True) MARKDOWN_LINK_REGEX (\<lambda>_. True) (\<lambda>u. renderHtmlElement (link_of 0 u)) prev s"
proof (induction pos s arbitrary: p prev rule: scan_induct)
  case (Nil pos)
  have "first_match MARKDOWN_LINK_REGEX (\<lambda>_. True) [] = None"
    by (auto simp: first_match_def find_None_iff)
  then show ?case by (simp add: replace_from.simps [of _ _ _ _ _ "[]"])
next
  case (Skip pos c s)
  from Skip.IH [of "p @ [c]" "Some c"] Skip.prems Skip.hyps show ?case
    by (simp add: scan_links_none replace_from.simps [of _ _ _ _ _ "c # s"])
next
  case (Link pos u t)
  let ?R = "replace_from (\<lambda>_. True) MARKDOWN_LINK_REGEX (\<lambda>_. True) (\<lambda>u. renderHtmlElement (link_of 0 u))"
  have "foldr splice (scan_links pos (u @ t)) (p @ u @ t) = splice (link_of pos u) (p @ u @ ?R (Some (last u)) t)"
    using Link.IH [of "p @ u" "Some (last u)"] Link.prems Link.hyps by (simp add: scan_links_some)
  also have "\<dots> = p @ renderHtmlElement (link_of 0 u) @ ?R (Some (last u)) t"
    using Link.prems by (simp add: splice_def link_of_def renderHtmlElement_def)
  finally show ?case
    using Link.hyps by (simp add: replace_from.simps [of _ _ _ _ _ "u @ t"] Let_def)
qed

lemma filter_distinct_key:
  "distinct (map k xs) \<Longrightarrow> y \<in> set xs \<Longrightarrow> filter (\<lambda>x. k y = k x) xs = [y]"
proof (induction xs)
  case (Cons x xs)
  then show ?case by (cases "k y = k x") (auto simp: filter_empty_conv image_iff)
qed simp

lemma sort_descending:
  fixes k :: "'a \<Rightarrow> nat"
  assumes "sorted_wrt (<) (map k xs)"
  shows "sort_key (\<lambda>x. - int (k x)) xs = rev xs"
proof (rule properties_for_sort_key)
  show "mset (rev xs) = mset xs" by simp
next
  fix y
  assume y: "y \<in> set (rev xs)"
  have "distinct (map k xs)" using assms strict_sorted_iff by blast
  then have "filter (\<lambda>x. - int (k y) = - int (k x)) xs = [y]"
    using filter_distinct_key [of k xs y] y by simp
  then show "filter (\<lambda>x. - int (k y) = - int (k x)) (rev xs) = filter (\<lambda>x. - int (k y) = - int (k x)) xs"
    by (metis rev_filter rev_singleton_conv)
next
  have "sorted_wrt (\<lambda>x y. k x \<le> k y) xs"
    using assms by (auto simp: sorted_wrt_map intro: sorted_wrt_mono_rel [of xs "\<lambda>x y. k x < k y"])
  then show "sorted (map (\<lambda>x. - int (k x)) (rev xs))"
    by (simp add: sorted_map sorted_wrt_rev)
qed

text \<open>C40: Splicing the links from the back equals one pass from the front: the HTML of a body is its text with
  every markdown link, left to right, replaced by its element; everything between the links is
  untouched and no offset is off.\<close>

theorem convertLinks_single_pass:
  "convertLinksToHtml text (snd (parseMarkdownLinks text)) =
     replace_all MARKDOWN_LINK_REGEX (\<lambda>u. renderHtmlElement (link_of 0 u)) text"
proof -
  let ?ls = "scan_links 0 text"
  have "fold splice (sort_key (\<lambda>l. - int (ln_startIndex l)) ?ls) text = foldr splice ?ls text"
    by (simp add: sort_descending [OF scan_links_increasing] foldr_conv_fold)
  moreover have "foldr splice ?ls ([] @ text) = [] @ replace_from (\<lambda>_. True) MARKDOWN_LINK_REGEX (\<lambda>_. True)
      (\<lambda>u. renderHtmlElement (link_of 0 u)) None text"
    by (rule splice_all) simp
  ultimately show ?thesis
    by (cases "?ls = []") (simp_all add: convertLinksToHtml_def parseMarkdownLinks_def replace_all_def)
qed

text \<open>What escaping does to each character, and that nothing active survives it.\<close>

definition entity :: "char \<Rightarrow> string" where
  "entity c = (if c = CHR ''&'' then ''&amp;'' else if c = CHR ''<'' then ''&lt;'' else if c = CHR ''>'' then ''&gt;''
     else if c = CHR 0x22 then ''&quot;'' else if c = CHR 0x27 then ''&#039;'' else [c])"

lemma replace_char_append: "replace_char c r (xs @ ys) = replace_char c r xs @ replace_char c r ys"
  by (induction xs) auto

lemma escapeHtml_entities: "escapeHtml s = concat (map entity s)"
  unfolding escapeHtml_def
proof (induction s)
  case (Cons x s)
  then show ?case by (simp add: entity_def replace_char_append)
qed simp

lemma escapeHtml_inert: "c \<in> {CHR ''<'', CHR ''>'', CHR 0x22, CHR 0x27} \<Longrightarrow> c \<notin> set (escapeHtml s)"
  by (auto simp: escapeHtml_entities entity_def)

end
