(* ===== verification/Sms.thy ===== *)
theory Sms
  imports Markdown
begin

text \<open>
  The SMS text (\<open>channel/providers/sns.provider.ts\<close>): plain text, encoding, truncation and the segment
  count. Lengths count UTF-16 code units and the ellipsis is U+2026, so the text is a list of 16-bit
  words here; the inputs are code units below 256.
\<close>

definition ellipsis :: "16 word" where "ellipsis = 0x2026"

datatype encoding = GSM7 | UCS2

record sms_result =
  sm_body :: units
  sm_segments :: int
  sm_encoding :: encoding

definition GSM_7_MAX_LENGTH :: nat where "GSM_7_MAX_LENGTH = 160"
definition GSM_7_MULTI_MAX_LENGTH :: nat where "GSM_7_MULTI_MAX_LENGTH = 153"
definition UCS_2_MAX_LENGTH :: nat where "UCS_2_MAX_LENGTH = 70"
definition UCS_2_MULTI_MAX_LENGTH :: nat where "UCS_2_MULTI_MAX_LENGTH = 67"

definition isGsm7Encoding :: "units \<Rightarrow> bool" where
  "isGsm7Encoding text = (text \<noteq> [] \<and> list_all (\<lambda>u. u \<le> 0x7F) text)"

text \<open>\<open>lastIndexOf\<close>, one more than the index, 0 where it is absent.\<close>

fun after_last :: "('a \<Rightarrow> bool) \<Rightarrow> 'a list \<Rightarrow> nat" where
  "after_last p [] = 0"
| "after_last p (x # xs) = (let n = after_last p xs in if n > 0 then Suc n else if p x then 1 else 0)"

definition truncateToCharLimit :: "units \<Rightarrow> nat \<Rightarrow> units" where
  "truncateToCharLimit text maxLength =
     (if length text \<le> maxLength then text else take (maxLength - 1) text @ [ellipsis])"

text \<open>\<open>lastIndexOf(..) > maxLength * 0.5\<close>, on one more than the index.\<close>

definition past_half :: "nat \<Rightarrow> nat \<Rightarrow> bool" where
  "past_half n maxLength = (0 < n \<and> 2 * (n - 1) > maxLength)"

definition truncateToWordBoundary :: "units \<Rightarrow> nat \<Rightarrow> units" where
  "truncateToWordBoundary text maxLength =
     (if length text \<le> maxLength then text
      else let truncated = take maxLength text;
               lastSpace = after_last (\<lambda>u. u = of_char CHR '' '') truncated;
               lastPunctuation = after_last (\<lambda>u. u = of_char CHR ''.'' \<or> u = of_char CHR ''!'' \<or> u = of_char CHR ''?'') truncated
        in if past_half lastSpace maxLength then take (lastSpace - 1) truncated
           else if past_half lastPunctuation maxLength then take lastPunctuation truncated
           else truncateToCharLimit text maxLength)"

definition calculateSegments :: "units \<Rightarrow> bool \<Rightarrow> int" where
  "calculateSegments message isGsm7 =
     ceil_div (int (length message)) (int (if isGsm7 then GSM_7_MULTI_MAX_LENGTH else UCS_2_MULTI_MAX_LENGTH))"

definition buildSmsBody :: "string \<Rightarrow> string \<Rightarrow> string \<Rightarrow> sms_result" where
  "buildSmsBody protocolName subject rawBody =
     (let cleanText = units (stripMarkdown rawBody);
          isGsm7 = isGsm7Encoding cleanText;
          maxSingle = (if isGsm7 then GSM_7_MAX_LENGTH else UCS_2_MAX_LENGTH);
          prefix = units (''['' @ protocolName @ ''] '');
          subjectLine = units (subject @ '': '');
          suffix = units '' (via Herald)'';
          overhead = length prefix + length subjectLine + length suffix;
          bodyBudget = maxSingle - overhead;
          cut = truncateToWordBoundary cleanText bodyBudget;
          truncatedBody = (if cut = [] then truncateToCharLimit cleanText bodyBudget else cut);
          body = prefix @ subjectLine @ truncatedBody @ suffix
      in \<lparr>sm_body = body, sm_segments = calculateSegments body isGsm7,
          sm_encoding = (if isGsm7 then GSM7 else UCS2)\<rparr>)"

definition formatSms :: "string \<Rightarrow> string \<Rightarrow> string \<Rightarrow> nat \<Rightarrow> units" where
  "formatSms protocolName subject rawBody maxChars = sm_body (buildSmsBody protocolName subject rawBody)"

section \<open>Facts\<close>

lemma after_last_le: "after_last p xs \<le> length xs"
  by (induction xs) (auto simp: Let_def)

lemma truncateToCharLimit_length: "length (truncateToCharLimit text n) \<le> max 1 n"
  by (auto simp: truncateToCharLimit_def)

lemma truncateToWordBoundary_length: "length (truncateToWordBoundary text n) \<le> max 1 n"
  using truncateToCharLimit_length [of "text" n] by (auto simp: truncateToWordBoundary_def Let_def)

lemma truncateToCharLimit_prefix: "\<exists>k. truncateToCharLimit s n \<in> {take k s, take k s @ [ellipsis]}"
proof (cases "length s \<le> n")
  case True
  then show ?thesis by (intro exI [of _ "length s"]) (simp add: truncateToCharLimit_def)
next
  case False
  then show ?thesis by (intro exI [of _ "n - 1"]) (simp add: truncateToCharLimit_def)
qed

lemma truncateToWordBoundary_prefix: "\<exists>k. truncateToWordBoundary s n \<in> {take k s, take k s @ [ellipsis]}"
proof -
  let ?a = "after_last (\<lambda>u. u = of_char CHR '' '') (take n s)"
  let ?b = "after_last (\<lambda>u. u = of_char CHR ''.'' \<or> u = of_char CHR ''!'' \<or> u = of_char CHR ''?'') (take n s)"
  consider "length s \<le> n" | "\<not> length s \<le> n" "past_half ?a n" | "\<not> length s \<le> n" "\<not> past_half ?a n" "past_half ?b n"
    | "\<not> length s \<le> n" "\<not> past_half ?a n" "\<not> past_half ?b n" by blast
  then show ?thesis
  proof cases
    case 1
    then show ?thesis by (intro exI [of _ "length s"]) (simp add: truncateToWordBoundary_def)
  next
    case 2
    then show ?thesis by (intro exI [of _ "min (?a - 1) n"]) (simp add: truncateToWordBoundary_def Let_def min.commute)
  next
    case 3
    then show ?thesis by (intro exI [of _ "min ?b n"]) (simp add: truncateToWordBoundary_def Let_def min.commute)
  next
    case 4
    then have "truncateToWordBoundary s n = truncateToCharLimit s n"
      by (simp add: truncateToWordBoundary_def Let_def)
    then show ?thesis using truncateToCharLimit_prefix [of s n] by simp
  qed
qed

text \<open>Everything around the body.\<close>

definition sms_overhead :: "string \<Rightarrow> string \<Rightarrow> nat" where
  "sms_overhead protocolName subject = length protocolName + length subject + 18"

lemma buildSmsBody_form:
  obtains t where "sm_body (buildSmsBody p s b) = units (''['' @ p @ ''] '') @ units (s @ '': '') @ t @ units '' (via Herald)''"
    "length t \<le> max 1 ((if sm_encoding (buildSmsBody p s b) = GSM7 then 160 else 70) - sms_overhead p s)"
    "\<exists>k. t \<in> {take k (units (stripMarkdown b)), take k (units (stripMarkdown b)) @ [ellipsis]}"
proof -
  let ?c = "units (stripMarkdown b)"
  let ?n = "(if isGsm7Encoding ?c then 160 else 70) - sms_overhead p s"
  define t where "t = (if truncateToWordBoundary ?c ?n = [] then truncateToCharLimit ?c ?n else truncateToWordBoundary ?c ?n)"
  have body: "sm_body (buildSmsBody p s b) = units (''['' @ p @ ''] '') @ units (s @ '': '') @ t @ units '' (via Herald)''"
    by (simp add: buildSmsBody_def Let_def t_def sms_overhead_def GSM_7_MAX_LENGTH_def UCS_2_MAX_LENGTH_def)
  have enc: "sm_encoding (buildSmsBody p s b) = (if isGsm7Encoding ?c then GSM7 else UCS2)"
    by (simp add: buildSmsBody_def Let_def)
  have "length t \<le> max 1 ?n"
    using truncateToCharLimit_length [of ?c ?n] truncateToWordBoundary_length [of ?c ?n] by (simp add: t_def)
  moreover have "\<exists>k. t \<in> {take k ?c, take k ?c @ [ellipsis]}"
    using truncateToWordBoundary_prefix [of ?c ?n] truncateToCharLimit_prefix [of ?c ?n] by (simp add: t_def)
  moreover have "(if sm_encoding (buildSmsBody p s b) = GSM7 then 160 else 70) - sms_overhead p s = ?n"
    by (simp add: enc)
  ultimately show ?thesis using that [OF body] by simp
qed

text \<open>ASCII with nothing to break at.\<close>

definition plain_unbroken :: "char \<Rightarrow> bool" where
  "plain_unbroken c = (of_char c < (128 :: nat) \<and> c \<notin> {CHR '' '', CHR ''.'', CHR ''!'', CHR ''?''})"

lemma after_last_none: "list_all (\<lambda>x. \<not> p x) xs \<Longrightarrow> after_last p xs = 0"
  by (induction xs) auto

lemma unit_code: "unat (of_char c :: 16 word) = of_char c"
proof -
  have "(of_char c :: 16 word) = of_nat (of_char c)" by (simp add: of_nat_of_char)
  moreover have "(of_char c :: nat) < 2 ^ LENGTH(16)"
    by (rule less_trans [OF nat_of_char_less_256]) simp
  ultimately show ?thesis by (simp only: unat_of_nat mod_less)
qed

lemma of_char_unit: "(of_char c :: 16 word) = of_char d \<longleftrightarrow> c = d"
  by (metis unit_code of_char_eq_iff)

lemma plain_unit:
  "plain_unbroken c \<Longrightarrow> (of_char c :: 16 word) \<le> 0x7F
     \<and> (of_char c :: 16 word) \<notin> {of_char CHR '' '', of_char CHR ''.'', of_char CHR ''!'', of_char CHR ''?''}"
  by (simp only: insert_iff of_char_unit empty_iff plain_unbroken_def word_le_nat_alt unit_code) simp

lemma unbroken_text:
  assumes "160 < length (stripMarkdown b) \<and> list_all plain_unbroken (stripMarkdown b)" "sms_overhead p s < 70"
  shows "sm_encoding (buildSmsBody p s b) = GSM7 \<and> ellipsis \<in> set (sm_body (buildSmsBody p s b))"
proof -
  let ?c = "units (stripMarkdown b)"
  let ?n = "160 - sms_overhead p s"
  have units: "list_all (\<lambda>u. u \<le> 0x7F \<and> u \<notin> {of_char CHR '' '', of_char CHR ''.'', of_char CHR ''!'', of_char CHR ''?''}) ?c"
    using assms(1) plain_unit by (auto simp: units_def list_all_iff simp del: of_char_Char)
  then have gsm: "isGsm7Encoding ?c"
    using assms(1) by (auto simp: isGsm7Encoding_def list_all_iff units_def)
  have none: "after_last q (take n ?c) = 0" if "\<And>u. q u \<Longrightarrow> u \<in> {of_char CHR '' '', of_char CHR ''.'', of_char CHR ''!'', of_char CHR ''?''}" for q n
    using units that by (intro after_last_none) (auto simp: list_all_iff simp del: of_char_Char dest!: in_set_takeD)
  have "truncateToWordBoundary ?c ?n = truncateToCharLimit ?c ?n"
    by (simp add: truncateToWordBoundary_def truncateToCharLimit_def Let_def none past_half_def del: of_char_Char)
  moreover have "\<not> length ?c \<le> ?n" using assms(1) by (simp add: not_le) linarith
  ultimately show ?thesis using assms gsm
    by (simp add: buildSmsBody_def Let_def GSM_7_MAX_LENGTH_def truncateToCharLimit_def sms_overhead_def)
qed

text \<open>The SMS budget. A text whose protocol name and subject leave room for at least one character never
  exceeds the single-message limit of the encoding chosen (160 or 70), and its body is a prefix of the
  stripped text, possibly with an ellipsis; but the encoding is decided before the ellipsis is added,
  so a long unbroken ASCII text is announced as GSM-7 and contains a character outside it.\<close>

theorem sms_budget:
  assumes "sms_overhead p s < 70"
  shows "length (sm_body (buildSmsBody p s b)) \<le> (if sm_encoding (buildSmsBody p s b) = GSM7 then 160 else 70)
    \<and> (\<exists>k t. t \<in> {take k (units (stripMarkdown b)), take k (units (stripMarkdown b)) @ [ellipsis]}
        \<and> sm_body (buildSmsBody p s b) = units (''['' @ p @ ''] '') @ units (s @ '': '') @ t @ units '' (via Herald)'')
    \<and> (160 < length (stripMarkdown b) \<and> list_all plain_unbroken (stripMarkdown b)
       \<longrightarrow> sm_encoding (buildSmsBody p s b) = GSM7 \<and> ellipsis \<in> set (sm_body (buildSmsBody p s b)))"
proof (intro conjI impI)
  let ?r = "buildSmsBody p s b"
  let ?max = "if sm_encoding ?r = GSM7 then 160 else 70 :: nat"
  obtain t where t: "sm_body ?r = units (''['' @ p @ ''] '') @ units (s @ '': '') @ t @ units '' (via Herald)''"
      "length t \<le> max 1 (?max - sms_overhead p s)"
      "\<exists>k. t \<in> {take k (units (stripMarkdown b)), take k (units (stripMarkdown b)) @ [ellipsis]}"
    by (rule buildSmsBody_form)
  show "length (sm_body ?r) \<le> ?max"
    using assms t(2) by (simp add: t(1) sms_overhead_def split: if_splits)
  show "\<exists>k t. t \<in> {take k (units (stripMarkdown b)), take k (units (stripMarkdown b)) @ [ellipsis]}
      \<and> sm_body ?r = units (''['' @ p @ ''] '') @ units (s @ '': '') @ t @ units '' (via Herald)''"
    using t(1,3) by blast
next
  assume long: "160 < length (stripMarkdown b) \<and> list_all plain_unbroken (stripMarkdown b)"
  then show "sm_encoding (buildSmsBody p s b) = GSM7" and "ellipsis \<in> set (sm_body (buildSmsBody p s b))"
    using unbroken_text [of b p s] assms by simp_all
qed

theorem sms_budget_witness:
  "length (sm_body (buildSmsBody ''Dex'' ''Alert'' ''Health factor is 1.1'')) \<le> 160
    \<and> sms_overhead ''Dex'' ''Alert'' = 26"
proof -
  have "sms_overhead ''Dex'' ''Alert'' < 70" by (simp add: sms_overhead_def)
  from sms_budget [OF this, of "''Health factor is 1.1''"] show ?thesis
    by (simp add: sms_overhead_def split: if_splits)
qed

end
