(* ===== verification/Template.thy ===== *)
theory Template
  imports Markdown Rate_Limit Gateway_World
begin

text \<open>
  \<open>modules/template/template.service.ts\<close> and \<open>template.controller.ts\<close>: which template an e-mail is
  rendered from, the cache of compiled templates, the preheader and the Herald footer, and the
  protocol's own templates (create, update with versions, preview, soft delete). Handlebars, juice,
  DOMPurify and the template files are arguments (\<open>template_env\<close>); so is the stylesheet literal of
  the footer, which holds a character above 255 and is only concatenated.
\<close>

section \<open>Variables and environment\<close>

datatype variable = NullVar | TextVar string

type_synonym variables = "string \<rightharpoonup> variable"

fun text_of :: "variable option \<Rightarrow> string option" where
  "text_of (Some (TextVar s)) = Some s"
| "text_of _ = None"

text \<open>\<open>(variables.k as string) || d\<close>.\<close>

definition var_or :: "variables \<Rightarrow> string \<Rightarrow> string \<Rightarrow> string" where
  "var_or vars k d = js_or (text_of (vars k)) d"

text \<open>\<open>`${vars.k}`\<close>.\<close>

fun show_var :: "variable option \<Rightarrow> string" where
  "show_var None = ''undefined''"
| "show_var (Some NullVar) = ''null''"
| "show_var (Some (TextVar s)) = s"

record purify_options =
  po_allowedTags :: "string list"
  po_allowedAttr :: "string list"
  po_forbidTags :: "string list"
  po_forbidAttr :: "string list"

text \<open>
  \<open>te_apply\<close> runs the delegate of a source on variables (Handlebars parses on the first run, so a syntax
  error is thrown there); \<open>te_compileError\<close> is what \<open>Handlebars.compile\<close> itself throws.
\<close>

record template_env =
  te_apply :: "string \<Rightarrow> variables \<Rightarrow> exn + string"
  te_compileError :: "string \<Rightarrow> string option"
  te_juice :: "string \<Rightarrow> string"
  te_purify :: "purify_options \<Rightarrow> string \<Rightarrow> string"
  te_file :: "string \<Rightarrow> string option"
  te_dbUp :: bool
  te_footerStyles :: string
  te_placeholderWallet :: string
  te_placeholderBody :: string

record render_params =
  rp_template :: string
  rp_variables :: variables
  rp_protocolId :: "string option"
  rp_templateId :: "string option"
  rp_tier :: int

record rendered_email =
  rm_html :: string
  rm_text :: units
  rm_subject :: string

section \<open>Loading\<close>

text \<open>The row itself stands for the selected columns; without an HTML source it counts as absent.\<close>

definition usable :: "template option \<Rightarrow> template option" where
  "usable t = (case t of None \<Rightarrow> None | Some r \<Rightarrow> if truthy (tp_htmlSource r) then Some r else None)"

definition loadCustomTemplate :: "template_env \<Rightarrow> string \<Rightarrow> string \<Rightarrow> 'r world \<Rightarrow> template option" where
  "loadCustomTemplate env templateId protocolId w =
     (if te_dbUp env
      then usable (List.find (\<lambda>t. tp_id t = templateId \<and> tp_protocolId t = protocolId \<and> tp_isActive t) (w_templates w))
      else None)"

definition loadProtocolDefaultTemplate :: "template_env \<Rightarrow> string \<Rightarrow> string \<Rightarrow> 'r world \<Rightarrow> template option" where
  "loadProtocolDefaultTemplate env protocolId category w =
     (if te_dbUp env
      then usable (List.find (\<lambda>t. tp_protocolId t = protocolId \<and> tp_category t = category
              \<and> tp_isDefault t \<and> tp_isActive t) (w_templates w))
      else None)"

definition getMinimalFallbackTemplate :: string where
  \<open>getMinimalFallbackTemplate =
     CHR 0x0A # ''      <html><body style="font-family:Arial,sans-serif;background:#040C18;color:#F0F6FF;padding:32px;">''
     @ CHR 0x0A # ''        <h2 style="color:#00C896;">{{protocolName}}</h2>''
     @ CHR 0x0A # ''        <h3>{{subject}}</h3>''
     @ CHR 0x0A # ''        <p>{{body}}</p>''
     @ CHR 0x0A # ''      </body></html>''\<close>

definition loadSystemTemplate :: "template_env \<Rightarrow> string \<Rightarrow> string" where
  "loadSystemTemplate env name =
     (case te_file env name of
        Some s \<Rightarrow> s
      | None \<Rightarrow> (case te_file env ''defi-alert'' of Some s \<Rightarrow> s | None \<Rightarrow> getMinimalFallbackTemplate))"

section \<open>The cache of compiled templates\<close>

text \<open>\<open>h = (Math.imul(31, h) + charCode) | 0\<close>; \<open>toString(36)\<close> tells all 32-bit values apart.\<close>

definition sha :: "string \<Rightarrow> 32 word" where
  "sha s = fold (\<lambda>c h. 31 * h + of_char c) s 0"

text \<open>A delegate is represented by the source it was compiled from.\<close>

definition getCompiledTemplate :: "string \<Rightarrow> 'r world \<Rightarrow> string \<times> 'r world" where
  "getCompiledTemplate source w =
     (case w_templateCache w (sha source) of
        Some t \<Rightarrow> (t, w)
      | None \<Rightarrow> (source, w\<lparr>w_templateCache := (w_templateCache w)(sha source \<mapsto> source)\<rparr>))"

section \<open>Rendering\<close>

definition tierToFooterKey :: "int \<Rightarrow> string" where
  "tierToFooterKey tier =
     (if tier = 0 then ''full'' else if tier = 1 then ''small'' else if tier = 2 then ''minimal''
      else if tier = 3 then ''enterprise'' else ''none'')"

text \<open>\<open>/<Unsubscribe\s*\/?>/gi\<close>.\<close>

definition unsubscribe_tag :: re where
  "unsubscribe_tag = seqs [lit_i ''<Unsubscribe'', Star (Cls is_space), opt (chr CHR ''/''), chr CHR ''>'']"

definition unsubscribe_anchor :: string where
  \<open>unsubscribe_anchor =
     ''<a href="{{unsubscribeUrl}}" style="color:#64748B;text-decoration:none;">Unsubscribe</a>''\<close>

definition expand_unsubscribe :: "string \<Rightarrow> string" where
  "expand_unsubscribe s = replace_all unsubscribe_tag (\<lambda>_. unsubscribe_anchor) s"

definition processBodyLinks :: "variables \<Rightarrow> variables" where
  "processBodyLinks vars =
     (case vars ''body'' of
        Some (TextVar b) \<Rightarrow>
          if b = [] then vars
          else vars(''body'' \<mapsto> TextVar (convertLinksToHtml b (snd (parseMarkdownLinks b))))
      | _ \<Rightarrow> vars)"

text \<open>\<open>/<body[^>]*>/\<close>.\<close>

definition body_tag :: re where
  "body_tag = seqs [lit ''<body'', Star (not_char CHR ''>''), chr CHR ''>'']"

definition preheader_span :: "string \<Rightarrow> string" where
  \<open>preheader_span previewText =
     (let escaped = replace_char CHR ''>'' ''&gt;'' (replace_char CHR ''<'' ''&lt;''
            (replace_char CHR ''&'' ''&amp;'' previewText))
      in ''<span class="preheader" style="display:none;visibility:hidden;opacity:0;''
         @ ''height:0;max-height:0;overflow:hidden;font-size:1px;line-height:1px;''
         @ ''color:transparent;mso-hide:all;">'' @ escaped @ ''</span>'')\<close>

definition injectPreheader :: "string \<Rightarrow> string \<Rightarrow> string" where
  \<open>injectPreheader html previewText =
     (if previewText = [] \<or> str_includes html ''class="preheader"'' then html
      else let span = preheader_span previewText
           in if str_includes html ''<body'' then replace_first body_tag (\<lambda>tag. tag @ span) html
              else span @ html)\<close>

section \<open>The Herald footer\<close>

definition HERALD_LOGO_URL :: string where
  "HERALD_LOGO_URL = ''https://herald-storage-bucket.s3.eu-north-1.amazonaws.com/herald-logo.svg''"

definition HRL_SENTINEL :: string where
  \<open>HRL_SENTINEL = ''data-hrl-footer="1"''\<close>

definition fontStack :: string where
  \<open>fontStack = '''Plus Jakarta Sans',-apple-system,BlinkMacSystemFont,'Segoe UI',Helvetica,Arial,sans-serif''\<close>

definition monoStack :: string where
  \<open>monoStack = '''JetBrains Mono',ui-monospace,'SF Mono',Menlo,monospace''\<close>

definition hrl_deliveredTo :: "string \<Rightarrow> string" where
  \<open>hrl_deliveredTo walletAddress =
     (if walletAddress = [] then []
      else ''<p class="hrl-meta" style="font-size:12.5px;line-height:1.65;color:#64748B;margin:0;">''
        @ ''<span class="hrl-delivered-lbl" style="display:block;font-size:11px;text-transform:uppercase;letter-spacing:0.12em;font-weight:600;color:#64748B;margin-bottom:6px;">Delivered to</span>''
        @ ''<span class="hrl-wallet" style="font-family:'' @ monoStack
        @ '';font-size:12px;color:#475569;word-break:break-all;">'' @ walletAddress @ ''</span>''
        @ ''</p>'')\<close>

definition hrl_protocolRef :: "string \<Rightarrow> string \<Rightarrow> string" where
  \<open>hrl_protocolRef websiteUrl protocolName =
     (if websiteUrl \<noteq> []
      then ''<a href="'' @ websiteUrl @ ''" style="color:#475569;font-weight:600;text-decoration:none;">''
        @ protocolName @ ''</a>''
      else ''<strong style="color:#475569;font-weight:600;">''
        @ (if protocolName = [] then ''The sending protocol'' else protocolName) @ ''</strong>'')\<close>

definition hrl_privacyNote :: "string \<Rightarrow> string \<Rightarrow> string \<Rightarrow> string" where
  \<open>hrl_privacyNote walletAddress websiteUrl protocolName =
     ''<p class="hrl-meta" style="font-size:12.5px;line-height:1.65;color:#64748B;margin:''
     @ (if walletAddress = [] then ''0'' else ''14px'') @ '' 0 0;">''
     @ ''Delivered securely by Herald Protocol. '' @ hrl_protocolRef websiteUrl protocolName
     @ '' does not have access to your email address.'' @ ''</p>''\<close>

definition hrl_divider :: string where
  \<open>hrl_divider = ''<hr class="hrl-divider" style="height:1px;background:#E2E8F0;margin:20px 0 18px;border:0;">''\<close>

definition hrl_logoTd :: string where
  \<open>hrl_logoTd = ''<td class="hrl-logo-td" style="vertical-align:middle;padding-right:6px;line-height:0;" valign="middle">''
     @ ''<img src="'' @ HERALD_LOGO_URL @ ''" width="20" height="20" alt="" style="display:block;border-radius:5px;">''
     @ ''</td>''\<close>

definition hrl_nameTd :: string where
  \<open>hrl_nameTd = ''<td class="hrl-name-td" style="vertical-align:middle;font-family:'Syne',sans-serif;font-weight:700;font-size:12px;color:#475569;letter-spacing:-0.01em;padding-right:2px;" valign="middle">Herald</td>''\<close>

definition hrl_pipeTd :: string where
  \<open>hrl_pipeTd = ''<td class="hrl-pipe-td" style="vertical-align:middle;color:#CBD5E1;padding:0 4px;" valign="middle">|</td>''\<close>

definition hrl_unsubTd :: "string \<Rightarrow> string" where
  \<open>hrl_unsubTd unsub = ''<td class="hrl-link-td" style="vertical-align:middle;" valign="middle">''
     @ ''<a href="'' @ unsub @ ''" style="color:#64748B;text-decoration:none;">Unsubscribe</a>''
     @ ''</td>''\<close>

definition hrl_siteTd :: string where
  \<open>hrl_siteTd = ''<td class="hrl-link-td" style="vertical-align:middle;" valign="middle">''
     @ ''<a href="https://useherald.xyz" style="color:#64748B;text-decoration:none;">useherald.xyz</a>''
     @ ''</td>''\<close>

definition hrl_mkTable :: "string \<Rightarrow> string" where
  \<open>hrl_mkTable cells = ''<table class="hrl-brand-tbl" cellpadding="0" cellspacing="0" style="font-size:12px;color:#64748B;">''
     @ ''<tr>'' @ cells @ ''</tr>'' @ ''</table>''\<close>

definition hrl_wrap :: "string \<Rightarrow> string \<Rightarrow> string" where
  \<open>hrl_wrap inner extraStyle = ''<div class="hrl-footer" '' @ HRL_SENTINEL
     @ '' style="padding:28px 8px 8px;font-family:'' @ fontStack @ '';'' @ extraStyle @ ''">'' @ inner @ ''</div>''\<close>

definition hrl_plainLink :: "string \<Rightarrow> string" where
  \<open>hrl_plainLink unsub =
     ''<a href="'' @ unsub @ ''" style="font-size:12px;color:#64748B;text-decoration:none;">Unsubscribe</a>''\<close>

text \<open>The variant of each key; an unknown key gets \<open>full\<close>.\<close>

definition hrl_footer :: "variables \<Rightarrow> string \<Rightarrow> string" where
  \<open>hrl_footer vars footerKey =
     (let unsub = var_or vars ''unsubscribeUrl'' ''#''; protocolName = var_or vars ''protocolName'' [];
          walletAddress = var_or vars ''walletAddress'' []; websiteUrl = var_or vars ''websiteUrl'' [];
          deliveredTo = hrl_deliveredTo walletAddress;
          privacyNote = hrl_privacyNote walletAddress websiteUrl protocolName;
          fullBrandRow = hrl_mkTable (hrl_logoTd @ hrl_nameTd @ hrl_pipeTd @ hrl_unsubTd unsub @ hrl_pipeTd @ hrl_siteTd);
          shortBrandRow = hrl_mkTable (hrl_logoTd @ hrl_nameTd @ hrl_pipeTd @ hrl_unsubTd unsub)
      in if footerKey = ''small'' then hrl_wrap (deliveredTo @ hrl_divider @ fullBrandRow) []
         else if footerKey = ''minimal'' then hrl_wrap (deliveredTo @ hrl_divider @ shortBrandRow) []
         else if footerKey = ''enterprise'' then hrl_wrap (deliveredTo @ hrl_divider @ shortBrandRow) []
         else if footerKey = ''none'' then
           hrl_wrap (hrl_plainLink unsub) ''text-align:center;padding:12px 8px 8px;''
         else hrl_wrap (deliveredTo @ privacyNote @ hrl_divider @ fullBrandRow) [])\<close>

definition containedFooter :: "variables \<Rightarrow> string \<Rightarrow> string" where
  \<open>containedFooter vars footerKey = ''<div style="width:100%;background:#F8FAFC;">''
     @ ''<div style="max-width:600px;margin:0 auto;padding:0 16px 32px;box-sizing:border-box;">''
     @ hrl_footer vars footerKey @ ''</div>'' @ ''</div>''\<close>

text \<open>Nothing is injected for a system template (no key), nor where the page holds one of the two markers.\<close>

definition injectHeraldFooter :: "template_env \<Rightarrow> string \<Rightarrow> variables \<Rightarrow> string option \<Rightarrow> string" where
  \<open>injectHeraldFooter env html vars footerKey =
     (case footerKey of
        None \<Rightarrow> html
      | Some key \<Rightarrow>
          if str_includes html ''class="footer-brand"'' then html
          else if str_includes html HRL_SENTINEL then html
          else
            let styles = te_footerStyles env;
                footer = containedFooter vars key;
                result =
                  (if str_includes html ''data-hrl-footer'' then html
                   else if str_includes html ''</head>'' then replace_str html ''</head>'' (styles @ CHR 0x0A # ''</head>'')
                   else styles @ html)
            in if str_includes result ''</body>'' then replace_str result ''</body>'' (footer @ CHR 0x0A # ''</body>'')
               else result @ footer)\<close>

section \<open>Plain text and the whole message\<close>

definition em_dash :: "16 word" where "em_dash = 0x2014"
definition rule_line :: units where "rule_line = replicate 40 0x2500"

fun join_lines :: "units list \<Rightarrow> units" where
  "join_lines [] = []"
| "join_lines [l] = l"
| "join_lines (l # m # ls) = l @ 0x0A # join_lines (m # ls)"

definition renderPlainTextFallback :: "variables \<Rightarrow> units" where
  "renderPlainTextFallback vars =
     (let protocol = units (var_or vars ''protocolName'' ''Herald'');
          subject = units (var_or vars ''subject'' ''Notification'');
          body = units (var_or vars ''body'' [])
      in join_lines
          [protocol @ 0x20 # em_dash # 0x20 # subject, [], rule_line, [], body, [], rule_line, [],
           units (''Unsubscribe: '' @ show_var (vars ''unsubscribeUrl'')),
           units ''Delivered by Herald | https://useherald.xyz''])"

text \<open>The waterfall: the source, the footer key and the stored text and preview text.\<close>

definition choose_source ::
  "template_env \<Rightarrow> render_params \<Rightarrow> 'r world \<Rightarrow> string \<times> string option \<times> string option \<times> string option" where
  "choose_source env p w =
     (let footerKey = tierToFooterKey (rp_tier p);
          chosen = (\<lambda>t. (the (tp_htmlSource t), Some footerKey, tp_textSource t, tp_previewText t));
          specific = (if truthy (rp_templateId p) \<and> truthy (rp_protocolId p)
                      then loadCustomTemplate env (the (rp_templateId p)) (the (rp_protocolId p)) w else None);
          default = (if truthy (rp_protocolId p)
                     then loadProtocolDefaultTemplate env (the (rp_protocolId p)) (rp_template p) w else None)
      in case specific of
           Some t \<Rightarrow> chosen t
         | None \<Rightarrow> (case default of
             Some t \<Rightarrow> chosen t
           | None \<Rightarrow> (loadSystemTemplate env (rp_template p), None, None, None)))"

definition lift_result :: "exn + 'a \<Rightarrow> 'w \<Rightarrow> ('a, 'w) handled" where
  [flow_simps]: "lift_result r w = (r, w)"

definition render :: "template_env \<Rightarrow> render_params \<Rightarrow> 'r world \<Rightarrow> (rendered_email, 'r world) handled" where
  "render env p w =
     (let (hbsSource, footerKey, storedTextSource, storedPreviewText) = choose_source env p w;
          vars = rp_variables p;
          (compiled, w1) = getCompiledTemplate (expand_unsubscribe hbsSource) w;
          processedVars = processBodyLinks vars
      in and_then (lift_result (te_apply env compiled processedVars) w1) (\<lambda>htmlWithVars w2.
         let inlinedHtml = te_juice env htmlWithVars;
             previewTextValue = js_or storedPreviewText (var_or vars ''previewText'' []);
             htmlWithPreheader = injectPreheader inlinedHtml previewTextValue;
             htmlWithFooter = injectHeraldFooter env htmlWithPreheader vars footerKey
         in and_then
              (if truthy storedTextSource
               then lift_result (map_sum id units (te_apply env (the storedTextSource) processedVars)) w2
               else ok (renderPlainTextFallback vars) w2) (\<lambda>plainText.
            ok \<lparr>rm_html = htmlWithFooter, rm_text = plainText,
                rm_subject = var_or vars ''subject'' ''Notification from Herald''\<rparr>)))"

text \<open>\<open>variables.k ?? d\<close>, overwritten by the spread of \<open>variables\<close>: a key that is present keeps its value, \<open>null\<close> too.\<close>

definition previewVars :: "template_env \<Rightarrow> string \<Rightarrow> variables \<Rightarrow> variables" where
  "previewVars env protocolName vars =
     [''protocolName'' \<mapsto> TextVar protocolName,
      ''subject'' \<mapsto> TextVar (protocolName @ '' Notification''),
      ''body'' \<mapsto> TextVar (te_placeholderBody env),
      ''category'' \<mapsto> TextVar ''defi'',
      ''walletAddress'' \<mapsto> TextVar (te_placeholderWallet env),
      ''unsubscribeUrl'' \<mapsto> TextVar ''https://notify.useherald.xyz/unsubscribe/preview'',
      ''logoUrl'' \<mapsto> NullVar, ''websiteUrl'' \<mapsto> NullVar, ''bannerUrl'' \<mapsto> NullVar] ++ vars"

definition renderPreview ::
  "template_env \<Rightarrow> string \<Rightarrow> string \<Rightarrow> string \<Rightarrow> int \<Rightarrow> variables \<Rightarrow> 'r world \<Rightarrow> (rendered_email, 'r world) handled" where
  "renderPreview env templateId protocolId protocolName tier vars w =
     (let pv = previewVars env protocolName vars;
          category = (case pv ''category'' of Some (TextVar c) \<Rightarrow> c | _ \<Rightarrow> ''defi'');
          templateName = (if category = ''defi'' then ''defi-alert'' else category)
      in render env \<lparr>rp_template = templateName, rp_variables = pv, rp_protocolId = Some protocolId,
           rp_templateId = Some templateId, rp_tier = tier\<rparr> w)"

section \<open>Validation\<close>

definition TEMPLATE_ALLOWED_TAGS :: "string list" where
  "TEMPLATE_ALLOWED_TAGS = [''html'', ''head'', ''body'', ''title'', ''style'', ''meta'', ''link'', ''div'', ''span'',
     ''section'', ''article'', ''header'', ''footer'', ''main'', ''nav'', ''aside'', ''figure'', ''figcaption'',
     ''center'', ''table'', ''thead'', ''tbody'', ''tfoot'', ''tr'', ''th'', ''td'', ''colgroup'', ''col'',
     ''caption'', ''p'', ''br'', ''hr'', ''pre'', ''code'', ''blockquote'', ''h1'', ''h2'', ''h3'', ''h4'', ''h5'',
     ''h6'', ''strong'', ''b'', ''em'', ''i'', ''u'', ''s'', ''del'', ''ins'', ''mark'', ''small'', ''big'', ''sub'',
     ''sup'', ''abbr'', ''cite'', ''q'', ''dfn'', ''ul'', ''ol'', ''li'', ''dl'', ''dt'', ''dd'', ''a'', ''img'',
     ''font'']"

definition TEMPLATE_ALLOWED_ATTRS :: "string list" where
  "TEMPLATE_ALLOWED_ATTRS = [''style'', ''class'', ''id'', ''dir'', ''lang'', ''title'', ''width'', ''height'',
     ''align'', ''valign'', ''bgcolor'', ''border'', ''cellpadding'', ''cellspacing'', ''colspan'', ''rowspan'',
     ''scope'', ''summary'', ''span'', ''color'', ''face'', ''size'', ''href'', ''src'', ''alt'', ''target'',
     ''rel'', ''charset'', ''http-equiv'', ''content'', ''name'', ''media'', ''role'', ''aria-label'',
     ''aria-hidden'', ''aria-describedby'']"

definition template_policy :: purify_options where
  "template_policy = \<lparr>po_allowedTags = TEMPLATE_ALLOWED_TAGS, po_allowedAttr = TEMPLATE_ALLOWED_ATTRS,
     po_forbidTags = [''script'', ''noscript'', ''object'', ''embed'', ''applet'', ''form'', ''input'', ''button'',
       ''select'', ''textarea'', ''iframe''],
     po_forbidAttr = [''onerror'', ''onload'', ''onclick'', ''onmouseover'', ''onfocus'', ''onblur'', ''onchange'',
       ''onsubmit'', ''onkeydown'', ''onkeyup'', ''onkeypress'']\<rparr>"

text \<open>\<open>/\s*on\w+\s*=\s*(['"])[^'"]*\1/gi\<close>; the back reference makes two alternatives.\<close>

definition is_word :: "char \<Rightarrow> bool" where
  "is_word c = (let n = (of_char c :: nat) in
     (48 \<le> n \<and> n \<le> 57) \<or> (65 \<le> n \<and> n \<le> 90) \<or> n = 95 \<or> (97 \<le> n \<and> n \<le> 122))"

definition quoted_value :: "char \<Rightarrow> re" where
  "quoted_value q = seqs [chr q, Star (Cls (\<lambda>x. x \<noteq> CHR 0x27 \<and> x \<noteq> CHR 0x22)), chr q]"

definition event_handler :: re where
  "event_handler = seqs [Star (Cls is_space), lit_i ''on'', plus (Cls is_word), Star (Cls is_space), chr CHR ''='',
     Star (Cls is_space), alts [quoted_value (CHR 0x27), quoted_value (CHR 0x22)]]"

definition sanitizeHtml :: "template_env \<Rightarrow> string \<Rightarrow> string" where
  "sanitizeHtml env html = te_purify env template_policy (replace_all event_handler (\<lambda>_. []) html)"

text \<open>\<open>Inl\<close> is \<open>{ valid: false, error }\<close>.\<close>

definition validateCustomTemplate :: "template_env \<Rightarrow> string \<Rightarrow> int \<Rightarrow> string + string" where
  "validateCustomTemplate env source tier =
     (if tl_customTemplates (getTierLimits tier) = 0
      then Inl ''Custom templates require the Growth plan or higher.''
      else let source' = expand_unsubscribe source
           in case te_compileError env source' of
                Some message \<Rightarrow> Inl (''Template syntax error: '' @ message)
              | None \<Rightarrow> Inr (sanitizeHtml env source'))"

section \<open>The protocol's templates\<close>

record template_body =
  tb_name :: "string option"
  tb_category :: string
  tb_subjectTemplate :: "string option"
  tb_htmlSource :: "string option"
  tb_textSource :: "string option"
  tb_previewText :: "string option"
  tb_isDefault :: "bool option"

text \<open>The column widths of \<open>prisma/schema.prisma\<close>; a longer text is refused with P2000.\<close>

definition template_fits :: "template \<Rightarrow> bool" where
  "template_fits t = (length (tp_name t) \<le> 100 \<and> length (tp_category t) \<le> 20
     \<and> (case tp_previewText t of None \<Rightarrow> True | Some s \<Rightarrow> length s \<le> 200))"

definition own_template :: "string \<Rightarrow> string \<Rightarrow> template \<Rightarrow> bool" where
  "own_template protocolId i t = (tp_id t = i \<and> tp_protocolId t = protocolId \<and> tp_isActive t)"

definition unset_defaults :: "string \<Rightarrow> string \<Rightarrow> 'r world \<Rightarrow> 'r world" where
  "unset_defaults protocolId category w = w\<lparr>w_templates :=
     updateMany (\<lambda>t. tp_protocolId t = protocolId \<and> tp_category t = category) (\<lambda>t. t\<lparr>tp_isDefault := False\<rparr>)
       (w_templates w)\<rparr>"

definition new_template :: "string \<Rightarrow> auth_protocol \<Rightarrow> template_body \<Rightarrow> string \<Rightarrow> string \<Rightarrow> template" where
  "new_template uuid p b name compiledHtml = \<lparr>tp_id = uuid, tp_protocolId = ap_protocolId p, tp_name = name,
     tp_subjectTemplate = tb_subjectTemplate b, tp_status = ''DRAFT'', tp_category = tb_category b,
     tp_htmlSource = Some compiledHtml, tp_textSource = tb_textSource b, tp_previewText = tb_previewText b,
     tp_isActive = True, tp_isDefault = nullish (tb_isDefault b) False, tp_version = 1\<rparr>"

definition createEmailTemplate ::
  "template_env \<Rightarrow> string \<Rightarrow> auth_protocol \<Rightarrow> template_body \<Rightarrow> 'r world \<Rightarrow> (string, 'r world) handled" where
  "createEmailTemplate env uuid p b w =
     (if ap_tier p < 1 then throw (HttpExn 403 ''Custom email templates require Growth tier or higher'') w
      else case validateCustomTemplate env (nullish (tb_htmlSource b) []) (ap_tier p) of
        Inl error \<Rightarrow> throw (HttpExn 400 error) w
      | Inr compiledHtml \<Rightarrow>
          let w1 = (if nullish (tb_isDefault b) False then unset_defaults (ap_protocolId p) (tb_category b) w else w)
          in case tb_name b of
               None \<Rightarrow> throw (JsError ''PrismaClientValidationError'') w1
             | Some name \<Rightarrow>
                 let t = new_template uuid p b name compiledHtml
                 in if exists_row (\<lambda>r. tp_id r = uuid) (w_templates w1) then throw (PrismaExn ''P2002'') w1
                    else if \<not> template_fits t then throw (PrismaExn ''P2000'') w1
                    else ok uuid (w1\<lparr>w_templates := w_templates w1 @ [t]\<rparr>))"

definition listEmailTemplates :: "auth_protocol \<Rightarrow> 'r world \<Rightarrow> template list" where
  "listEmailTemplates p w =
     rev (filter (\<lambda>t. tp_protocolId t = ap_protocolId p \<and> tp_isActive t) (w_templates w))"

definition getEmailTemplate :: "auth_protocol \<Rightarrow> string \<Rightarrow> 'r world \<Rightarrow> (template, 'r world) handled" where
  "getEmailTemplate p i w =
     (case List.find (own_template (ap_protocolId p) i) (w_templates w) of
        None \<Rightarrow> throw (HttpExn 404 ''Template not found'') w
      | Some t \<Rightarrow> ok t w)"

text \<open>The version row, and the oldest rows past ten removed.\<close>

definition record_version ::
  "string \<Rightarrow> template \<Rightarrow> string \<Rightarrow> string option \<Rightarrow> 'r world \<Rightarrow> (unit, 'r world) handled" where
  "record_version uuid existing sanitizedHtml subjectTemplate w =
     (let v = \<lparr>tv_id = uuid, tv_templateId = tp_id existing, tv_version = tp_version existing + 1,
            tv_htmlSource = sanitizedHtml,
            tv_subjectTemplate = (if subjectTemplate = None then tp_subjectTemplate existing else subjectTemplate)\<rparr>
      in if exists_row (\<lambda>r. tv_id r = uuid
             \<or> (tv_templateId r = tp_id existing \<and> tv_version r = tp_version existing + 1)) (w_templateVersions w)
         then throw (PrismaExn ''P2002'') w
         else
           let versions = w_templateVersions w @ [v];
               mine = filter (\<lambda>r. tv_templateId r = tp_id existing) versions;
               oldest = take (length mine - 10) (sort_key tv_version mine)
           in ok () (w\<lparr>w_templateVersions := deleteMany (\<lambda>r. tv_id r \<in> set (map tv_id oldest)) versions\<rparr>))"

text \<open>\<open>body.k !== undefined\<close> writes the column; an absent key leaves it.\<close>

definition apply_updates :: "template_body \<Rightarrow> string option \<Rightarrow> template \<Rightarrow> template" where
  "apply_updates b html t = t\<lparr>
     tp_name := nullish (tb_name b) (tp_name t),
     tp_subjectTemplate := (if tb_subjectTemplate b = None then tp_subjectTemplate t else tb_subjectTemplate b),
     tp_previewText := (if tb_previewText b = None then tp_previewText t else tb_previewText b),
     tp_isDefault := nullish (tb_isDefault b) (tp_isDefault t),
     tp_htmlSource := (if html = None then tp_htmlSource t else html),
     tp_version := (if html = None then tp_version t else tp_version t + 1)\<rparr>"

definition updateEmailTemplate ::
  "template_env \<Rightarrow> string \<Rightarrow> auth_protocol \<Rightarrow> string \<Rightarrow> template_body \<Rightarrow> 'r world \<Rightarrow> (unit, 'r world) handled" where
  "updateEmailTemplate env uuid p i b w =
     (if ap_tier p < 1 then throw (HttpExn 403 ''Custom email templates require Growth tier or higher'') w
      else case List.find (own_template (ap_protocolId p) i) (w_templates w) of
        None \<Rightarrow> throw (HttpExn 404 ''Template not found'') w
      | Some existing \<Rightarrow>
          let w1 = (if tb_isDefault b = Some True then unset_defaults (ap_protocolId p) (tp_category existing) w else w)
          in and_then
               (if truthy (tb_htmlSource b)
                then case validateCustomTemplate env (the (tb_htmlSource b)) (ap_tier p) of
                       Inl error \<Rightarrow> throw (HttpExn 400 error) w1
                     | Inr html \<Rightarrow> and_then (record_version uuid existing html (tb_subjectTemplate b) w1) (\<lambda>_. ok (Some html))
                else ok None w1) (\<lambda>html w2.
             if template_fits (apply_updates b html existing)
             then ok () (w2\<lparr>w_templates := updateMany (\<lambda>t. tp_id t = i) (apply_updates b html) (w_templates w2)\<rparr>)
             else throw (PrismaExn ''P2000'') w2))"

definition previewTemplate ::
  "template_env \<Rightarrow> auth_protocol \<Rightarrow> string \<Rightarrow> variables \<Rightarrow> 'r world \<Rightarrow> (rendered_email, 'r world) handled" where
  "previewTemplate env p templateId vars w =
     (if exists_row (own_template (ap_protocolId p) templateId) (w_templates w)
      then renderPreview env templateId (ap_protocolId p) (nullish (ap_name p) ''Protocol'') (ap_tier p) vars w
      else throw (HttpExn 404 ''Template not found'') w)"

definition deleteEmailTemplate :: "auth_protocol \<Rightarrow> string \<Rightarrow> 'r world \<Rightarrow> (unit, 'r world) handled" where
  "deleteEmailTemplate p i w =
     (if exists_row (own_template (ap_protocolId p) i) (w_templates w)
      then ok () (w\<lparr>w_templates := updateMany (\<lambda>t. tp_id t = i) (\<lambda>t. t\<lparr>tp_isActive := False\<rparr>) (w_templates w)\<rparr>)
      else throw (HttpExn 404 ''Template not found'') w)"

section \<open>Handlebars helpers\<close>

text \<open>
  An argument that is not a string is \<open>None\<close>. \<open>formatDate\<close>, \<open>money\<close> and the date branch of \<open>timeAgo\<close>
  depend on the locale, \<open>markdown\<close> on the library \<open>marked\<close>, \<open>categoryEmoji\<close> prints emoji only: they
  are left out, \<open>timeAgo\<close> takes the date text as an argument.
\<close>

definition truncate_helper :: "string option \<Rightarrow> nat \<Rightarrow> string option" where
  "truncate_helper str len =
     (case str of None \<Rightarrow> None | Some s \<Rightarrow> Some (if len < length s then slice_to s len @ ''...'' else s))"

definition lookup_or :: "(string \<times> string) list \<Rightarrow> string \<Rightarrow> string \<Rightarrow> string" where
  "lookup_or table k d = nullish (map_of table k) d"

definition categoryColor :: "string \<Rightarrow> string" where
  "categoryColor category = lookup_or [(''defi'', ''#EF4444''), (''governance'', ''#8B5CF6''), (''system'', ''#F59E0B''),
     (''marketing'', ''#10B981''), (''security'', ''#EF4444''), (''yield'', ''#06B6D4''), (''staking'', ''#3B82F6'')]
     category ''#00C896''"

definition categoryLabel :: "string \<Rightarrow> string" where
  "categoryLabel category = lookup_or [(''defi'', ''DeFi Alert''), (''governance'', ''Governance''),
     (''system'', ''System''), (''marketing'', ''Update''), (''security'', ''Security''), (''yield'', ''Yield''),
     (''staking'', ''Staking'')] category ''Notification''"

text \<open>\<open>slice(-0)\<close> is the whole string.\<close>

definition truncateAddress :: "string option \<Rightarrow> nat \<Rightarrow> string" where
  "truncateAddress address chars =
     (if \<not> truthy address then []
      else let a = the address in
        if length a \<le> chars * 2 + 3 then a
        else slice_to a (chars + 2) @ ''...'' @ (if chars = 0 then a else slice_last a chars))"

definition timeAgo :: "(int \<Rightarrow> string) \<Rightarrow> millis \<Rightarrow> int \<Rightarrow> string" where
  "timeAgo localeDate now timestamp =
     (if timestamp = 0 then []
      else let seconds = now div 1000 - timestamp in
        if seconds < 60 then ''just now''
        else if seconds < 3600 then show_int (seconds div 60) @ ''m ago''
        else if seconds < 86400 then show_int (seconds div 3600) @ ''h ago''
        else if seconds < 604800 then show_int (seconds div 86400) @ ''d ago''
        else if seconds < 2592000 then show_int (seconds div 604800) @ ''w ago''
        else localeDate (timestamp * 1000))"

definition convertLinks :: "string option \<Rightarrow> string" where
  "convertLinks body =
     (if truthy body then convertLinksToHtml (the body) (snd (parseMarkdownLinks (the body))) else [])"

text \<open>A shortened address is shorter than the address, by at least the ellipsis.\<close>

lemma truncateAddress_length:
  "0 < chars \<Longrightarrow> length (truncateAddress (Some a) chars) \<le> max (length a) (chars * 2 + 5)"
  by (auto simp: truncateAddress_def js_simps)

section \<open>Facts: the cache\<close>

text \<open>The templates of a sequence of sources, asked for in this order.\<close>

fun compile_all :: "string list \<Rightarrow> 'r world \<Rightarrow> string list \<times> 'r world" where
  "compile_all [] w = ([], w)"
| "compile_all (s # ss) w =
     (let (t, w1) = getCompiledTemplate s w; (ts, w2) = compile_all ss w1 in (t # ts, w2))"

definition cache_ok :: "'r world \<Rightarrow> bool" where
  "cache_ok w \<longleftrightarrow> (\<forall>k s. w_templateCache w k = Some s \<longrightarrow> sha s = k)"

lemma getCompiledTemplate_ok: "cache_ok w \<Longrightarrow> cache_ok (snd (getCompiledTemplate s w))"
  by (auto simp: getCompiledTemplate_def cache_ok_def split: option.splits)

lemma getCompiledTemplate_sha: "cache_ok w \<Longrightarrow> sha (fst (getCompiledTemplate s w)) = sha s"
  by (auto simp: getCompiledTemplate_def cache_ok_def split: option.splits)

lemma getCompiledTemplate_same:
  "fst (getCompiledTemplate s w) = s \<longleftrightarrow> (\<forall>t. w_templateCache w (sha s) = Some t \<longrightarrow> t = s)"
  by (auto simp: getCompiledTemplate_def split: option.splits)

lemma getCompiledTemplate_cache:
  "ran (w_templateCache (snd (getCompiledTemplate s w))) \<subseteq> insert s (ran (w_templateCache w))
   \<and> w_templateCache (snd (getCompiledTemplate s w)) (sha s) = Some (fst (getCompiledTemplate s w))"
  by (auto simp: getCompiledTemplate_def ran_def split: option.splits if_splits)

lemma getCompiledTemplate_stays:
  "w_templateCache w k = Some t \<Longrightarrow> w_templateCache (snd (getCompiledTemplate s w)) k = Some t"
  by (auto simp: getCompiledTemplate_def split: option.splits)

lemma compile_all_first:
  "w_templateCache w (sha s) = Some t \<Longrightarrow> s \<in> set ss \<Longrightarrow> fst (compile_all ss w) = ss \<Longrightarrow> t = s"
proof (induction ss arbitrary: w)
  case (Cons r ss)
  let ?w = "snd (getCompiledTemplate r w)"
  have parts: "fst (getCompiledTemplate r w) = r" "fst (compile_all ss ?w) = ss"
    using Cons.prems(3) by (auto simp: Let_def split: prod.splits)
  show ?case
  proof (cases "s = r")
    case True
    then show ?thesis using parts(1) Cons.prems(1) by (simp add: getCompiledTemplate_same)
  next
    case False
    then show ?thesis
      using Cons.IH [OF getCompiledTemplate_stays [OF Cons.prems(1)]] Cons.prems(2) parts(2) by simp
  qed
qed simp

lemma compile_all_transparent:
  assumes "cache_ok w" and "inj_on sha (set ss \<union> ran (w_templateCache w))"
  shows "fst (compile_all ss w) = ss"
  using assms
proof (induction ss arbitrary: w)
  case (Cons r ss)
  let ?w = "snd (getCompiledTemplate r w)"
  have r: "fst (getCompiledTemplate r w) = r"
  proof (unfold getCompiledTemplate_same, intro allI impI)
    fix t assume t: "w_templateCache w (sha r) = Some t"
    with Cons.prems(1) have "sha t = sha r" by (simp add: cache_ok_def)
    then show "t = r" using Cons.prems(2) t by (auto simp: inj_on_def ran_def)
  qed
  have "set ss \<union> ran (w_templateCache ?w) \<subseteq> set (r # ss) \<union> ran (w_templateCache w)"
    using getCompiledTemplate_cache [of r w] by auto
  then have "fst (compile_all ss ?w) = ss"
    by (rule Cons.IH [OF getCompiledTemplate_ok [OF Cons.prems(1)] inj_on_subset [OF Cons.prems(2)]])
  with r show ?case by (auto simp: Let_def split: prod.splits)
qed simp

lemma compile_all_collision:
  assumes "w_templateCache w = Map.empty" "fst (compile_all ss w) = ss"
  shows "inj_on sha (set ss)"
  using assms(2)
proof (induction ss arbitrary: w)
  case (Cons r ss)
  let ?w = "snd (getCompiledTemplate r w)"
  have parts: "fst (getCompiledTemplate r w) = r" "fst (compile_all ss ?w) = ss"
    using Cons.prems by (auto simp: Let_def split: prod.splits)
  have "inj_on sha (set ss)" by (rule Cons.IH [OF parts(2)])
  moreover have "s = r" if "s \<in> set ss" "sha s = sha r" for s
  proof -
    have "w_templateCache ?w (sha s) = Some r" using getCompiledTemplate_cache [of r w] that(2) parts(1) by simp
    then show ?thesis using compile_all_first [OF _ that(1) parts(2)] by simp
  qed
  ultimately show ?case by (auto simp: inj_on_def)
qed simp

text \<open>From an empty cache, every request for a compiled template gets the one of its own source, whatever
  the order of the requests, exactly when the 32-bit hash tells the sources apart: with no collision
  the cache is a refinement of compiling each time, and with one a mail is rendered from another
  protocol's template.\<close>

theorem template_cache_transparent:
  "fst (compile_all sources (w\<lparr>w_templateCache := Map.empty\<rparr>)) = sources \<longleftrightarrow> inj_on sha (set sources)"
proof
  assume "fst (compile_all sources (w\<lparr>w_templateCache := Map.empty\<rparr>)) = sources"
  then show "inj_on sha (set sources)" by (rule compile_all_collision [rotated]) simp
next
  assume "inj_on sha (set sources)"
  then show "fst (compile_all sources (w\<lparr>w_templateCache := Map.empty\<rparr>)) = sources"
    by (intro compile_all_transparent) (simp_all add: cache_ok_def)
qed

text \<open>Two short sources with one hash: the second request is answered with the first one's template.\<close>

lemma sha_collision: "sha ''Aa'' = sha ''BB''"
  by (simp add: sha_def)

lemma cache_collision:
  "fst (compile_all [''Aa'', ''BB''] (empty_world r)) = [''Aa'', ''Aa'']"
  by (simp add: getCompiledTemplate_def empty_world_def sha_collision Let_def)

section \<open>Facts: the footer\<close>

lemma str_includes_iff: "str_includes s p \<longleftrightarrow> (\<exists>a b. s = a @ p @ b)"
proof (induction s)
  case (Cons c s)
  have "take (length p) (c # s) = p \<longleftrightarrow> (\<exists>b. c # s = p @ b)" by (metis append_eq_conv_conj append_take_drop_id)
  moreover have "(\<exists>a b. c # s = a @ p @ b) \<longleftrightarrow> (\<exists>b. c # s = p @ b) \<or> (\<exists>a b. s = a @ p @ b)"
  proof
    assume "\<exists>a b. c # s = a @ p @ b"
    then obtain a b where "c # s = a @ p @ b" by blast
    then show "(\<exists>b. c # s = p @ b) \<or> (\<exists>a b. s = a @ p @ b)" by (cases a) auto
  next
    assume "(\<exists>b. c # s = p @ b) \<or> (\<exists>a b. s = a @ p @ b)"
    then show "\<exists>a b. c # s = a @ p @ b" by (metis append_Nil append_Cons)
  qed
  ultimately show ?case using Cons by simp
qed auto

lemma str_includes_infix: "str_includes (a @ p @ b) p"
  by (auto simp: str_includes_iff)

lemma str_includes_mid: "str_includes s p \<Longrightarrow> str_includes (a @ s @ b) p"
  unfolding str_includes_iff by (metis append.assoc)

lemma find_sub_none: "find_sub p s = None \<longleftrightarrow> \<not> str_includes s p"
  by (induction s) auto

lemma expand_dollars_prefix:
  "CHR ''$'' \<notin> set u \<Longrightarrow> expand_dollars b m a (u @ r) = u @ expand_dollars b m a r"
proof (induction u)
  case (Cons c u)
  show ?case
  proof (cases "u @ r")
    case (Cons d q)
    with Cons.IH Cons.prems \<open>CHR ''$'' \<notin> set (c # u)\<close> show ?thesis by auto
  qed simp
qed simp

lemma expand_dollars_id: "CHR ''$'' \<notin> set u \<Longrightarrow> expand_dollars b m a u = u"
  using expand_dollars_prefix [of u b m a "[]"] by simp

text \<open>Every variant starts with the same markup, which holds the sentinel.\<close>

definition footer_opening :: string where
  \<open>footer_opening = ''<div style="width:100%;background:#F8FAFC;">''
     @ ''<div style="max-width:600px;margin:0 auto;padding:0 16px 32px;box-sizing:border-box;">''
     @ ''<div class="hrl-footer" '' @ HRL_SENTINEL\<close>

lemma containedFooter_opening: "\<exists>rest. containedFooter vars key = footer_opening @ rest"
  by (simp add: containedFooter_def hrl_footer_def hrl_wrap_def footer_opening_def Let_def)

lemma footer_opening_plain: "CHR ''$'' \<notin> set footer_opening"
  by (simp add: footer_opening_def HRL_SENTINEL_def)

lemma footer_opening_sentinel: "str_includes (footer_opening @ rest) HRL_SENTINEL"
proof -
  have "\<exists>p. footer_opening = p @ HRL_SENTINEL" unfolding footer_opening_def by (metis append.assoc)
  then show ?thesis unfolding str_includes_iff by (metis append.assoc)
qed

text \<open>The last step: before \<open></body>\<close>, or at the end.\<close>

definition place_footer :: "string \<Rightarrow> string \<Rightarrow> string" where
  "place_footer result footer =
     (if str_includes result ''</body>'' then replace_str result ''</body>'' (footer @ CHR 0x0A # ''</body>'')
      else result @ footer)"

lemma place_footer_cases:
  obtains a b m x where "place_footer result footer = a @ expand_dollars b m x footer @ CHR 0x0A # ''</body>'' @ x"
  | "place_footer result footer = result @ footer"
  | a b m x where "CHR ''$'' \<in> set footer" "place_footer result footer = a @ expand_dollars b m x (footer @ CHR 0x0A # ''</body>'') @ x"
proof (cases "find_sub ''</body>'' result")
  case None
  then have "place_footer result footer = result @ footer" by (simp add: place_footer_def find_sub_none)
  then show ?thesis by (rule that(2))
next
  case (Some i)
  then have inc: "str_includes result ''</body>''" using find_sub_none [of "''</body>''" result] by auto
  let ?b = "take i result" and ?x = "drop (i + length ''</body>'') result"
  have eq: "place_footer result footer = ?b @ expand_dollars ?b ''</body>'' ?x (footer @ CHR 0x0A # ''</body>'') @ ?x"
    using inc Some by (simp add: place_footer_def replace_str_def Let_def)
  show ?thesis
  proof (cases "CHR ''$'' \<in> set footer")
    case True
    then show ?thesis using eq by (rule that(3))
  next
    case False
    have "expand_dollars ?b ''</body>'' ?x (CHR 0x0A # ''</body>'') = CHR 0x0A # ''</body>''"
      by (rule expand_dollars_id) simp
    then have "place_footer result footer = ?b @ expand_dollars ?b ''</body>'' ?x footer @ CHR 0x0A # ''</body>'' @ ?x"
      using eq False by (simp add: expand_dollars_prefix expand_dollars_id)
    then show ?thesis by (rule that(1))
  qed
qed

lemma place_footer_sentinel:
  assumes "footer = footer_opening @ rest"
  shows "str_includes (place_footer result footer) HRL_SENTINEL"
proof -
  have mid: "str_includes (a @ (footer_opening @ r) @ b) HRL_SENTINEL" for a r b
    by (rule str_includes_mid [OF footer_opening_sentinel])
  have expand: "expand_dollars b m x (footer @ q) = footer_opening @ expand_dollars b m x (rest @ q)" for b m x q
    by (simp add: assms expand_dollars_prefix [OF footer_opening_plain])
  from place_footer_cases [of result footer] show ?thesis
  proof cases
    case (1 a b m x)
    then show ?thesis using expand [of b m x "[]"] mid by simp
  next
    case 2
    then show ?thesis using mid [of result rest "[]"] assms by simp
  next
    case (3 a b m x)
    then show ?thesis using expand mid by simp
  qed
qed

definition footer_brand :: string where
  \<open>footer_brand = ''class="footer-brand"''\<close>

lemma injectHeraldFooter_place:
  assumes "\<not> str_includes html footer_brand" "\<not> str_includes html HRL_SENTINEL"
  shows "\<exists>result. injectHeraldFooter env html vars (Some key) = place_footer result (containedFooter vars key)"
  using assms by (auto simp: injectHeraldFooter_def place_footer_def footer_brand_def Let_def)

lemma footer_markers:
  "str_includes (injectHeraldFooter env html vars (Some key)) HRL_SENTINEL
   \<or> injectHeraldFooter env html vars (Some key) = html \<and> str_includes html footer_brand"
proof (cases "str_includes html footer_brand \<or> str_includes html HRL_SENTINEL")
  case True
  then show ?thesis by (auto simp: injectHeraldFooter_def footer_brand_def)
next
  case False
  then obtain result where "injectHeraldFooter env html vars (Some key) = place_footer result (containedFooter vars key)"
    using injectHeraldFooter_place by blast
  moreover obtain rest where "containedFooter vars key = footer_opening @ rest" using containedFooter_opening by blast
  ultimately show ?thesis using place_footer_sentinel by metis
qed

text \<open>A second injection changes nothing, whatever its variables and key.\<close>

lemma injectHeraldFooter_idem:
  "injectHeraldFooter env (injectHeraldFooter env html vars (Some key)) vars' (Some key') =
     injectHeraldFooter env html vars (Some key)"
proof -
  have skip: "injectHeraldFooter env h v (Some k) = h" if "str_includes h HRL_SENTINEL \<or> str_includes h footer_brand" for h v k
    using that by (auto simp: injectHeraldFooter_def footer_brand_def)
  show ?thesis using footer_markers [of env html vars key] skip by metis
qed

text \<open>The unsubscribe link of a footer whose variables hold no \<open>$\<close>.\<close>

definition unsubscribe_link :: "variables \<Rightarrow> string" where
  \<open>unsubscribe_link vars = ''<a href="'' @ var_or vars ''unsubscribeUrl'' ''#'' @ ''"''\<close>

definition no_dollar :: "variables \<Rightarrow> bool" where
  "no_dollar vars = (\<forall>k \<in> {''unsubscribeUrl'', ''protocolName'', ''walletAddress'', ''websiteUrl''}.
     CHR ''$'' \<notin> set (nullish (text_of (vars k)) []))"

lemma no_dollar_var:
  assumes "no_dollar vars" "k \<in> {''unsubscribeUrl'', ''protocolName'', ''walletAddress'', ''websiteUrl''}" "CHR ''$'' \<notin> set d"
  shows "CHR ''$'' \<notin> set (var_or vars k d)"
proof (cases "text_of (vars k)")
  case None
  then show ?thesis using assms(3) by (simp add: var_or_def js_simps)
next
  case (Some s)
  then have "CHR ''$'' \<notin> set s" using assms(1,2) by (auto simp: no_dollar_def js_simps)
  then show ?thesis using assms(3) Some by (simp add: var_or_def js_simps)
qed

lemmas footer_parts = hrl_deliveredTo_def hrl_protocolRef_def hrl_privacyNote_def hrl_divider_def hrl_logoTd_def
  hrl_nameTd_def hrl_pipeTd_def hrl_unsubTd_def hrl_siteTd_def hrl_mkTable_def hrl_plainLink_def hrl_wrap_def HRL_SENTINEL_def
  fontStack_def monoStack_def HERALD_LOGO_URL_def

lemma hrl_unsubTd_link: "\<exists>a b. hrl_unsubTd (var_or vars ''unsubscribeUrl'' ''#'') = a @ unsubscribe_link vars @ b"
proof -
  have "\<exists>a b. hrl_unsubTd u = a @ (''<a href='' @ CHR 0x22 # u @ [CHR 0x22]) @ b" for u
    unfolding hrl_unsubTd_def
    by (rule exI [of _ \<open>''<td class="hrl-link-td" style="vertical-align:middle;" valign="middle">''\<close>]) simp
  then show ?thesis by (simp add: unsubscribe_link_def)
qed

definition table_link :: "variables \<Rightarrow> string \<Rightarrow> string" where
  "table_link vars r = hrl_mkTable (hrl_logoTd @ hrl_nameTd @ hrl_pipeTd
     @ hrl_unsubTd (var_or vars ''unsubscribeUrl'' ''#'') @ r)"

lemma table_link: "str_includes (table_link vars r) (unsubscribe_link vars)"
proof -
  obtain a b where "hrl_unsubTd (var_or vars ''unsubscribeUrl'' ''#'') = a @ unsubscribe_link vars @ b"
    using hrl_unsubTd_link by blast
  then show ?thesis unfolding hrl_mkTable_def table_link_def by (metis append.assoc str_includes_infix)
qed

lemma hrl_wrap_link: "str_includes inner l \<Longrightarrow> str_includes (hrl_wrap inner x) l"
  unfolding hrl_wrap_def by (metis append.assoc str_includes_mid)

lemma str_includes_after: "str_includes s p \<Longrightarrow> str_includes (a @ s) p"
  using str_includes_mid [of s p a "[]"] by simp

lemma plain_link: "str_includes (hrl_plainLink (var_or vars ''unsubscribeUrl'' ''#'')) (unsubscribe_link vars)"
  unfolding str_includes_iff hrl_plainLink_def unsubscribe_link_def
  by (rule exI [of _ "[]"], rule exI [of _ \<open>'' style="font-size:12px;color:#64748B;text-decoration:none;">Unsubscribe</a>''\<close>])
    simp

lemma hrl_footer_link: "str_includes (hrl_footer vars key) (unsubscribe_link vars)"
proof -
  let ?U = "hrl_unsubTd (var_or vars ''unsubscribeUrl'' ''#'')"
  have long: "hrl_mkTable (hrl_logoTd @ hrl_nameTd @ hrl_pipeTd @ ?U @ hrl_pipeTd @ hrl_siteTd) =
      table_link vars (hrl_pipeTd @ hrl_siteTd)"
    and short: "hrl_mkTable (hrl_logoTd @ hrl_nameTd @ hrl_pipeTd @ ?U) = table_link vars []"
    by (simp_all only: table_link_def append_Nil2)
  have row: "str_includes (hrl_wrap (a @ b @ table_link vars r) x) (unsubscribe_link vars)"
    and row2: "str_includes (hrl_wrap (a @ b @ c @ table_link vars r) x) (unsubscribe_link vars)" for a b c r x
    by (rule hrl_wrap_link, intro str_includes_after table_link)+
  show ?thesis
    unfolding hrl_footer_def Let_def long short by (simp only: row row2 hrl_wrap_link [OF plain_link] if_cancel split: if_split) simp
qed

lemma containedFooter_link: "str_includes (containedFooter vars key) (unsubscribe_link vars)"
  unfolding containedFooter_def
  by (intro str_includes_after str_includes_mid [OF hrl_footer_link, of "[]", unfolded append_Nil])

lemma footer_parts_plain:
  "CHR ''$'' \<notin> set hrl_divider" "CHR ''$'' \<notin> set hrl_logoTd" "CHR ''$'' \<notin> set hrl_nameTd"
  "CHR ''$'' \<notin> set hrl_pipeTd" "CHR ''$'' \<notin> set hrl_siteTd"
  "CHR ''$'' \<notin> set u \<Longrightarrow> CHR ''$'' \<notin> set (hrl_unsubTd u)"
  "CHR ''$'' \<notin> set u \<Longrightarrow> CHR ''$'' \<notin> set (hrl_plainLink u)"
  "CHR ''$'' \<notin> set u \<Longrightarrow> CHR ''$'' \<notin> set (hrl_deliveredTo u)"
  "CHR ''$'' \<notin> set u \<Longrightarrow> CHR ''$'' \<notin> set (hrl_mkTable u)"
  "CHR ''$'' \<notin> set u \<Longrightarrow> CHR ''$'' \<notin> set v \<Longrightarrow> CHR ''$'' \<notin> set (hrl_wrap u v)"
  "CHR ''$'' \<notin> set u \<Longrightarrow> CHR ''$'' \<notin> set v \<Longrightarrow> CHR ''$'' \<notin> set (hrl_protocolRef u v)"
  unfolding footer_parts by simp_all

lemma hrl_privacyNote_plain:
  "CHR ''$'' \<notin> set (hrl_protocolRef v p) \<Longrightarrow> CHR ''$'' \<notin> set (hrl_privacyNote u v p)"
  unfolding hrl_privacyNote_def by simp

lemma set_append_plain: "c \<notin> set a \<Longrightarrow> c \<notin> set b \<Longrightarrow> c \<notin> set (a @ b)"
  by simp

lemma if_plain: "c \<notin> set x \<Longrightarrow> c \<notin> set y \<Longrightarrow> c \<notin> set (if b then x else y)"
  by simp

lemma hrl_footer_plain: "no_dollar vars \<Longrightarrow> CHR ''$'' \<notin> set (hrl_footer vars key)"
  unfolding hrl_footer_def Let_def
  by (intro if_plain footer_parts_plain hrl_privacyNote_plain set_append_plain no_dollar_var)
    simp_all

lemma containedFooter_plain: "no_dollar vars \<Longrightarrow> CHR ''$'' \<notin> set (containedFooter vars key)"
  unfolding containedFooter_def by (intro set_append_plain hrl_footer_plain) simp_all

text \<open>Where no variable can act as a replacement pattern, the footer lands in the page as it was built.\<close>

lemma place_footer_plain:
  assumes "CHR ''$'' \<notin> set footer"
  shows "str_includes (place_footer result footer) footer"
  using place_footer_cases [of result footer]
proof cases
  case (1 a b m x)
  then show ?thesis using str_includes_infix [of a footer] assms by (simp add: expand_dollars_id)
next
  case 2
  then show ?thesis using str_includes_infix [of result footer "[]"] by simp
next
  case (3 a b m x)
  then show ?thesis using assms by simp
qed

lemma str_includes_trans: "str_includes s t \<Longrightarrow> str_includes t u \<Longrightarrow> str_includes s u"
  unfolding str_includes_iff by (metis append.assoc)

lemma footer_link:
  assumes "no_dollar vars" "\<not> str_includes html footer_brand" "\<not> str_includes html HRL_SENTINEL"
  shows "str_includes (injectHeraldFooter env html vars (Some key)) (unsubscribe_link vars)"
  using injectHeraldFooter_place [OF assms(2,3)] place_footer_plain [OF containedFooter_plain [OF assms(1)]]
    containedFooter_link str_includes_trans by metis

text \<open>The source a mail is rendered from is an active template of its own protocol, or a system template.\<close>

lemma usable_Some: "usable t = Some r \<longleftrightarrow> t = Some r \<and> truthy (tp_htmlSource r)"
  by (auto simp: usable_def split: option.splits)

lemma choose_source_cases:
  obtains (own) t where "t \<in> set (w_templates w)" "rp_protocolId p = Some (tp_protocolId t)" "tp_isActive t"
      "choose_source env p w = (the (tp_htmlSource t), Some (tierToFooterKey (rp_tier p)), tp_textSource t, tp_previewText t)"
  | (system) "choose_source env p w = (loadSystemTemplate env (rp_template p), None, None, None)"
proof -
  let ?specific = "if truthy (rp_templateId p) \<and> truthy (rp_protocolId p)
      then loadCustomTemplate env (the (rp_templateId p)) (the (rp_protocolId p)) w else None"
  let ?default = "if truthy (rp_protocolId p)
      then loadProtocolDefaultTemplate env (the (rp_protocolId p)) (rp_template p) w else None"
  have own: "t \<in> set (w_templates w) \<and> rp_protocolId p = Some (tp_protocolId t) \<and> tp_isActive t"
    if "?specific = Some t \<or> ?default = Some t" for t
    using that by (cases "rp_protocolId p")
      (auto simp: loadCustomTemplate_def loadProtocolDefaultTemplate_def usable_Some split: if_splits dest!: find_Some_row)
  consider t where "?specific = Some t" | t where "?specific = None" "?default = Some t" | "?specific = None" "?default = None"
    by blast
  then show ?thesis
  proof cases
    case (1 t)
    then have "choose_source env p w = (the (tp_htmlSource t), Some (tierToFooterKey (rp_tier p)), tp_textSource t, tp_previewText t)"
      by (simp add: choose_source_def)
    with own 1 show ?thesis by (intro that(1) [of t]) simp_all
  next
    case (2 t)
    then have "choose_source env p w = (the (tp_htmlSource t), Some (tierToFooterKey (rp_tier p)), tp_textSource t, tp_previewText t)"
      by (simp only: choose_source_def Let_def option.case)
    with own 2 show ?thesis by (intro that(1) [of t]) simp_all
  next
    case 3
    then have "choose_source env p w = (loadSystemTemplate env (rp_template p), None, None, None)"
      by (simp only: choose_source_def Let_def option.case)
    then show ?thesis by (rule that(2))
  qed
qed


section \<open>Facts: defaults\<close>

text \<open>At most one default template per protocol and category.\<close>

definition rivals :: "template \<Rightarrow> template \<Rightarrow> bool" where
  "rivals s t \<longleftrightarrow> tp_isDefault s \<and> tp_isDefault t \<and> tp_protocolId s = tp_protocolId t \<and> tp_category s = tp_category t"

definition one_default_rows :: "template list \<Rightarrow> bool" where
  "one_default_rows ts \<longleftrightarrow> distinct (map tp_id ts) \<and> (\<forall>s \<in> set ts. \<forall>t \<in> set ts. rivals s t \<longrightarrow> s = t)"

definition one_default :: "'r world \<Rightarrow> bool" where
  "one_default w \<longleftrightarrow> one_default_rows (w_templates w)"

lemma one_default_rowsD: "one_default_rows ts \<Longrightarrow> s \<in> set ts \<Longrightarrow> t \<in> set ts \<Longrightarrow> rivals s t \<Longrightarrow> s = t"
  by (simp add: one_default_rows_def)

lemma rows_same_id:
  "one_default_rows ts \<Longrightarrow> s \<in> set ts \<Longrightarrow> t \<in> set ts \<Longrightarrow> tp_id s = tp_id t \<Longrightarrow> s = t"
  using distinct_key_unique [of tp_id ts s t] by (simp add: one_default_rows_def)

text \<open>An update that makes rivals of rows only that were rivals before keeps the invariant.\<close>

lemma one_default_rows_map:
  assumes ts: "one_default_rows ts" and f: "\<And>t. tp_id (f t) = tp_id t"
    and r: "\<And>s t. s \<in> set ts \<Longrightarrow> t \<in> set ts \<Longrightarrow> rivals (f s) (f t) \<Longrightarrow> s = t"
  shows "one_default_rows (map f ts)"
proof -
  have "map tp_id (map f ts) = map tp_id ts" by (simp add: f)
  then have "distinct (map tp_id (map f ts))" using ts unfolding one_default_rows_def by metis
  then show ?thesis using r by (auto simp: one_default_rows_def)
qed

lemma one_default_rows_weaken:
  assumes "one_default_rows ts" and "\<And>t. tp_id (f t) = tp_id t" "\<And>t. tp_protocolId (f t) = tp_protocolId t"
    "\<And>t. tp_category (f t) = tp_category t" "\<And>t. tp_isDefault (f t) \<Longrightarrow> tp_isDefault t"
  shows "one_default_rows (updateMany q f ts)"
  unfolding updateMany_def
proof (rule one_default_rows_map [OF assms(1)])
  let ?g = "\<lambda>t. if q t then f t else t"
  have key: "tp_protocolId (?g t) = tp_protocolId t" "tp_category (?g t) = tp_category t"
    "tp_isDefault (?g t) \<Longrightarrow> tp_isDefault t" "tp_id (?g t) = tp_id t" for t
    using assms(2-4) assms(5) [of t] by (cases "q t"; simp)+
  show "tp_id (?g t) = tp_id t" for t by (rule key)
  fix s t assume st: "s \<in> set ts" "t \<in> set ts" "rivals (?g s) (?g t)"
  then have "rivals s t" using key(3) [of s] key(3) [of t] unfolding rivals_def key(1,2) by blast
  then show "s = t" by (rule one_default_rowsD [OF assms(1) st(1,2)])
qed

lemma one_default_rows_append:
  assumes "one_default_rows ts" "\<forall>s \<in> set ts. tp_id s \<noteq> tp_id t" "\<forall>s \<in> set ts. \<not> rivals s t"
  shows "one_default_rows (ts @ [t])"
proof -
  have "\<forall>s \<in> set ts. \<not> rivals t s" using assms(3) unfolding rivals_def by metis
  moreover have "distinct (map tp_id (ts @ [t]))"
    using assms(1,2) by (simp add: one_default_rows_def image_iff) metis
  ultimately show ?thesis
    using assms(1,3) unfolding one_default_rows_def set_append ball_Un by simp
qed

text \<open>Making the one row with id \<open>i\<close> a default, where its category has none.\<close>

lemma one_default_rows_set:
  assumes ts: "one_default_rows ts" and e: "e \<in> set ts" "tp_id e = i"
    and none: "\<forall>s \<in> set ts. tp_protocolId s = tp_protocolId e \<and> tp_category s = tp_category e \<longrightarrow> \<not> tp_isDefault s"
    and f: "\<And>t. tp_id (f t) = tp_id t" "\<And>t. tp_protocolId (f t) = tp_protocolId t" "\<And>t. tp_category (f t) = tp_category t"
  shows "one_default_rows (updateMany (\<lambda>t. tp_id t = i) f ts)"
  unfolding updateMany_def
proof (rule one_default_rows_map [OF ts])
  show "tp_id (if tp_id t = i then f t else t) = tp_id t" for t by (simp add: f)
  fix s t assume st: "s \<in> set ts" "t \<in> set ts"
    and r: "rivals (if tp_id s = i then f s else s) (if tp_id t = i then f t else t)"
  have e_only: "u = e" if "u \<in> set ts" "tp_id u = i" for u using rows_same_id [OF ts that(1) e(1)] that e(2) by simp
  have keys: "tp_protocolId s = tp_protocolId t" "tp_category s = tp_category t"
    using r by (auto simp: rivals_def f split: if_splits)
  consider "tp_id s = i" "tp_id t = i" | "tp_id s \<noteq> i" "tp_id t = i" | "tp_id s = i" "tp_id t \<noteq> i"
    | "tp_id s \<noteq> i" "tp_id t \<noteq> i" by blast
  then show "s = t"
  proof cases
    case 1
    then show ?thesis using e_only [OF st(1)] e_only [OF st(2)] by simp
  next
    case 2
    then have "t = e" "tp_isDefault s" using e_only st r by (simp_all add: rivals_def)
    then show ?thesis using none st(1) keys by simp
  next
    case 3
    then have "s = e" "tp_isDefault t" using e_only st r by (simp_all add: rivals_def)
    then show ?thesis using none st(2) keys by simp
  next
    case 4
    then show ?thesis using one_default_rowsD [OF ts st] r by simp
  qed
qed

lemma unset_defaults_rows:
  "one_default w \<Longrightarrow> one_default (unset_defaults p c w)"
  unfolding one_default_def unset_defaults_def by (simp, rule one_default_rows_weaken) simp_all

lemma unset_defaults_templates [simp]: "w_templates (unset_defaults p c w) =
    updateMany (\<lambda>t. tp_protocolId t = p \<and> tp_category t = c) (\<lambda>t. t\<lparr>tp_isDefault := False\<rparr>) (w_templates w)"
  by (simp add: unset_defaults_def)

lemma unset_defaults_none:
  "t \<in> set (w_templates (unset_defaults p c w)) \<Longrightarrow> tp_protocolId t = p \<Longrightarrow> tp_category t = c \<Longrightarrow> \<not> tp_isDefault t"
proof -
  assume t: "t \<in> set (w_templates (unset_defaults p c w))" and k: "tp_protocolId t = p" "tp_category t = c"
  obtain t0 where "t = (if tp_protocolId t0 = p \<and> tp_category t0 = c then t0\<lparr>tp_isDefault := False\<rparr> else t0)"
    using t unfolding unset_defaults_templates set_updateMany by (rule imageE)
  with k show ?thesis by (cases "tp_protocolId t0 = p \<and> tp_category t0 = c") auto
qed

lemma apply_updates_key [simp]:
  "tp_id (apply_updates b html t) = tp_id t" "tp_protocolId (apply_updates b html t) = tp_protocolId t"
  "tp_category (apply_updates b html t) = tp_category t" "tp_status (apply_updates b html t) = tp_status t"
  "tp_isDefault (apply_updates b html t) = nullish (tb_isDefault b) (tp_isDefault t)"
  by (simp_all add: apply_updates_def)

lemma record_version_templates: "record_version uuid t html s w = (r, w') \<Longrightarrow> w_templates w' = w_templates w"
  by (auto simp: record_version_def flow_simps Let_def split: if_splits)

text \<open>The table after each handler, without the handlers' other effects.\<close>

lemma createEmailTemplate_rows:
  obtains "w_templates (snd (createEmailTemplate env uuid p b w)) = w_templates w"
  | "w_templates (snd (createEmailTemplate env uuid p b w)) = w_templates (unset_defaults (ap_protocolId p) (tb_category b) w)"
  | t v where "v = (if nullish (tb_isDefault b) False then unset_defaults (ap_protocolId p) (tb_category b) w else w)"
      "w_templates (snd (createEmailTemplate env uuid p b w)) = w_templates v @ [t]"
      "\<forall>s \<in> set (w_templates v). tp_id s \<noteq> tp_id t" "tp_isDefault t = nullish (tb_isDefault b) False"
      "tp_protocolId t = ap_protocolId p" "tp_category t = tb_category b"
proof -
  define v where "v = (if nullish (tb_isDefault b) False then unset_defaults (ap_protocolId p) (tb_category b) w else w)"
  have "snd (createEmailTemplate env uuid p b w) = w \<or> snd (createEmailTemplate env uuid p b w) = v
    \<or> (\<exists>name html. snd (createEmailTemplate env uuid p b w) = v\<lparr>w_templates := w_templates v @ [new_template uuid p b name html]\<rparr>
         \<and> \<not> exists_row (\<lambda>r. tp_id r = uuid) (w_templates v))"
    unfolding createEmailTemplate_def Let_def v_def [symmetric] throw_def ok_def
    by (simp split: sum.split option.split, blast)
  then consider "snd (createEmailTemplate env uuid p b w) = w" | "snd (createEmailTemplate env uuid p b w) = v"
    | name html where "snd (createEmailTemplate env uuid p b w) = v\<lparr>w_templates := w_templates v @ [new_template uuid p b name html]\<rparr>"
        "\<not> exists_row (\<lambda>r. tp_id r = uuid) (w_templates v)"
    by blast
  then show ?thesis
  proof cases
    case 1
    then show ?thesis by (intro that(1)) simp
  next
    case 2
    then show ?thesis using that(1,2) by (cases "nullish (tb_isDefault b) False") (simp_all add: v_def)
  next
    case (3 name html)
    then show ?thesis by (intro that(3) [OF v_def, of "new_template uuid p b name html"]) (simp_all add: row_simps new_template_def)
  qed
qed

lemma one_default_create: "one_default w \<Longrightarrow> one_default (snd (createEmailTemplate env uuid p b w))"
proof (cases rule: createEmailTemplate_rows [of env uuid p b w])
  case (3 t v)
  assume w: "one_default w"
  have v: "one_default_rows (w_templates v)"
    using w unset_defaults_rows [OF w] by (simp add: 3(1) one_default_def)
  have "\<not> rivals s t" if "s \<in> set (w_templates v)" for s
    using that unset_defaults_none [of s "ap_protocolId p" "tb_category b" w]
    unfolding rivals_def 3(1,4,5,6) by (cases "nullish (tb_isDefault b) False") (auto simp del: unset_defaults_templates)
  with v show ?thesis by (simp add: one_default_def 3(2) one_default_rows_append 3(3))
qed (use unset_defaults_rows [of w] in \<open>simp_all add: one_default_def del: unset_defaults_templates\<close>)

text \<open>\<open>updateEmailTemplate\<close>: a failed one leaves the table or has unset the defaults, a successful one applies the
  updates to the row with the id.\<close>

lemma updateEmailTemplate_rows:
  fixes w :: "'r world" and b :: template_body
  assumes "List.find (own_template (ap_protocolId p) i) (w_templates w) = Some e"
  defines "v \<equiv> if tb_isDefault b = Some True then unset_defaults (ap_protocolId p) (tp_category e) w else w"
  obtains "w_templates (snd (updateEmailTemplate env uuid p i b w)) = w_templates w"
  | "w_templates (snd (updateEmailTemplate env uuid p i b w)) = w_templates v"
  | html where "w_templates (snd (updateEmailTemplate env uuid p i b w)) =
      updateMany (\<lambda>t. tp_id t = i) (apply_updates b html) (w_templates v)"
proof -
  define versioned where "versioned =
    (if truthy (tb_htmlSource b)
     then case validateCustomTemplate env (the (tb_htmlSource b)) (ap_tier p) of
            Inl error \<Rightarrow> throw (HttpExn 400 error) v
          | Inr html \<Rightarrow> and_then (record_version uuid e html (tb_subjectTemplate b) v) (\<lambda>_. ok (Some html))
     else ok None v)"
  obtain r v' where v': "versioned = (r, v')" by fastforce
  have rows: "w_templates v' = w_templates v"
  proof (cases "truthy (tb_htmlSource b)")
    case True
    show ?thesis
    proof (cases "validateCustomTemplate env (the (tb_htmlSource b)) (ap_tier p)")
      case (Inr html)
      obtain q u where u: "record_version uuid e html (tb_subjectTemplate b) v = (q, u)" by fastforce
      show ?thesis using record_version_templates [OF u] v' True Inr by (cases q) (auto simp: versioned_def u flow_simps)
    qed (use v' True in \<open>auto simp: versioned_def flow_simps\<close>)
  qed (use v' in \<open>auto simp: versioned_def flow_simps\<close>)
  have "updateEmailTemplate env uuid p i b w =
      (if ap_tier p < 1 then throw (HttpExn 403 ''Custom email templates require Growth tier or higher'') w
       else and_then versioned (\<lambda>html u.
           if template_fits (apply_updates b html e)
           then ok () (u\<lparr>w_templates := updateMany (\<lambda>t. tp_id t = i) (apply_updates b html) (w_templates u)\<rparr>)
           else throw (PrismaExn ''P2000'') u))"
    by (simp only: updateEmailTemplate_def assms(1) option.case Let_def versioned_def v_def)
  then show ?thesis using rows that by (cases r) (auto simp: v' flow_simps split: if_splits)
qed

lemma one_default_update: "one_default w \<Longrightarrow> one_default (snd (updateEmailTemplate env uuid p i b w))"
proof (cases "List.find (own_template (ap_protocolId p) i) (w_templates w)")
  case None
  moreover assume "one_default w"
  ultimately show ?thesis by (simp add: updateEmailTemplate_def flow_simps)
next
  case (Some e)
  assume w: "one_default w"
  have e: "e \<in> set (w_templates w)" "tp_id e = i" "tp_protocolId e = ap_protocolId p"
    using find_Some_row [OF Some] by (simp_all add: own_template_def)
  let ?u = "unset_defaults (ap_protocolId p) (tp_category e) w"
  have applied: "one_default_rows (updateMany (\<lambda>t. tp_id t = i) (apply_updates b html)
      (w_templates (if tb_isDefault b = Some True then ?u else w)))" for html
  proof (cases "tb_isDefault b = Some True")
    case True
    let ?e = "e\<lparr>tp_isDefault := False\<rparr>"
    have "?e \<in> set (w_templates ?u)" using e by (auto simp: set_updateMany image_iff intro!: bexI [of _ e])
    then have "one_default_rows (updateMany (\<lambda>t. tp_id t = i) (apply_updates b html) (w_templates ?u))"
      using unset_defaults_rows [OF w] e unset_defaults_none [of _ "ap_protocolId p" "tp_category e" w]
      by (intro one_default_rows_set [of _ ?e]) (auto simp: one_default_def simp del: unset_defaults_templates)
    then show ?thesis using True by simp
  next
    case False
    then have "tp_isDefault (apply_updates b html t) \<Longrightarrow> tp_isDefault t" for t
      by (auto simp: nullish_def split: option.splits)
    then show ?thesis using w False
      by (simp add: one_default_def del: apply_updates_key(5)) (rule one_default_rows_weaken; simp)
  qed
  show ?thesis
    by (rule updateEmailTemplate_rows [OF Some, of env uuid b])
      (use w unset_defaults_rows [OF w] applied in \<open>auto simp: one_default_def simp del: unset_defaults_templates split: if_splits\<close>)
qed

lemma one_default_delete: "one_default w \<Longrightarrow> one_default (snd (deleteEmailTemplate p i w))"
  by (auto simp: deleteEmailTemplate_def flow_simps one_default_def intro!: one_default_rows_weaken)

text \<open>The protocols' template handlers keep the templates in order: from a table with distinct ids and
  at most one default per protocol and category, every create, update and soft delete, successful or
  refused, leads to such a table again, so the default the renderer takes is never a choice.\<close>

theorem template_handlers_keep_one_default:
  assumes "one_default w"
  shows "one_default (snd (createEmailTemplate env uuid p b w))
    \<and> one_default (snd (updateEmailTemplate env uuid p i b w))
    \<and> one_default (snd (deleteEmailTemplate p i w))"
  using assms by (simp add: one_default_create one_default_update one_default_delete)

section \<open>Witnesses\<close>

definition sample_template_env :: template_env where
  "sample_template_env = \<lparr>te_apply = (\<lambda>s _. Inr s), te_compileError = (\<lambda>_. None), te_juice = (\<lambda>h. h),
     te_purify = (\<lambda>_ h. h), te_file = (\<lambda>_. None), te_dbUp = True, te_footerStyles = ''<style></style>'',
     te_placeholderWallet = ''0x0'', te_placeholderBody = ''body''\<rparr>"

definition sample_template :: template where
  "sample_template = \<lparr>tp_id = ''t1'', tp_protocolId = ''p1'', tp_name = ''n'', tp_subjectTemplate = None,
     tp_status = ''APPROVED'', tp_category = ''defi'', tp_htmlSource = Some ''<p>hi</p>'', tp_textSource = None,
     tp_previewText = None, tp_isActive = True, tp_isDefault = True, tp_version = 1\<rparr>"

definition sample_template_world :: "unit world" where
  "sample_template_world = (empty_world ())\<lparr>w_templates := [sample_template]\<rparr>"

definition sample_render_params :: render_params where
  "sample_render_params = \<lparr>rp_template = ''defi'', rp_variables = [''unsubscribeUrl'' \<mapsto> TextVar ''https://u''],
     rp_protocolId = Some ''p1'', rp_templateId = Some ''t1'', rp_tier = 1\<rparr>"

lemma sample_choice:
  "choose_source sample_template_env sample_render_params sample_template_world =
     (''<p>hi</p>'', Some ''small'', None, None)"
  by (simp add: choose_source_def loadCustomTemplate_def usable_def sample_template_env_def sample_render_params_def
      sample_template_world_def sample_template_def tierToFooterKey_def Let_def)

lemma sample_render: "\<exists>m. fst (render sample_template_env sample_render_params sample_template_world) = Inr m"
proof -
  have "te_apply sample_template_env = (\<lambda>s _. Inr s)" by (simp add: sample_template_env_def)
  then show ?thesis by (simp add: render_def sample_choice Let_def flow_simps split: prod.split)
qed


theorem template_handlers_keep_one_default_witness:
  "one_default (snd (updateEmailTemplate sample_template_env ''u'' (sample_protocol\<lparr>ap_tier := 1\<rparr>) ''t1''
     \<lparr>tb_name = Some ''m'', tb_category = [], tb_subjectTemplate = None, tb_htmlSource = None, tb_textSource = None,
      tb_previewText = None, tb_isDefault = Some True\<rparr> sample_template_world))"
proof -
  have "one_default sample_template_world"
    by (simp add: one_default_def one_default_rows_def sample_template_world_def)
  from template_handlers_keep_one_default [OF this] show ?thesis by blast
qed

end
