(* ===== verification/Telegram.thy ===== *)
theory Telegram
  imports Markdown Gateway_World "HOL-Library.AList"
begin

text \<open>
  \<open>channel/providers/telegram.provider.ts\<close>: the text of a Telegram message (markdown to Telegram's HTML,
  templates, the limits of 1024 and 4096), its parts and buttons, and sending it: blocked chats, the
  per-chat rate, photo and video captions, the parts in sequence, and what a refusal leaves behind.
  The texts hold characters above 255, so they are lists of UTF-16 code units. The Bot API is an
  argument: its answer may depend on the request and on how many requests went out before.
\<close>

section \<open>Characters\<close>

abbreviation u_char :: "char \<Rightarrow> 16 word" where "u_char c \<equiv> of_char c"

definition u_newline :: "16 word \<Rightarrow> bool" where "u_newline x \<longleftrightarrow> x = 10 \<or> x = 13"

text \<open>Of the characters above 255 only those the formatter writes itself occur; none is a space or a line end.\<close>

definition u_space :: "16 word \<Rightarrow> bool" where "u_space x \<longleftrightarrow> x = 32 \<or> x = 160 \<or> (9 \<le> x \<and> x \<le> 13)"

definition u_word :: "16 word \<Rightarrow> bool" where
  "u_word x \<longleftrightarrow> (48 \<le> x \<and> x \<le> 57) \<or> (65 \<le> x \<and> x \<le> 90) \<or> x = 95 \<or> (97 \<le> x \<and> x \<le> 122)"

definition u_blank :: "16 word \<Rightarrow> bool" where "u_blank x \<longleftrightarrow> x = 32 \<or> x = 9"

definition u_trim :: "units \<Rightarrow> units" where
  "u_trim s = rev (dropWhile u_space (rev (dropWhile u_space s)))"

definition u_line_start :: "16 word option \<Rightarrow> bool" where
  "u_line_start prev = (case prev of None \<Rightarrow> True | Some c \<Rightarrow> u_newline c)"

definition u_line_end :: "units \<Rightarrow> bool" where
  "u_line_end t = (case t of [] \<Rightarrow> True | c # _ \<Rightarrow> u_newline c)"

definition u_replace_lines :: "16 word rex \<Rightarrow> (units \<Rightarrow> units) \<Rightarrow> units \<Rightarrow> units" where
  "u_replace_lines r f s = replace_from u_line_start r u_line_end f None s"

section \<open>Markdown to Telegram's HTML\<close>

definition escapeHtmlForTelegram :: "units \<Rightarrow> units" where
  "escapeHtmlForTelegram t =
     replace_char (u_char CHR 0x22) (units ''&quot;'') (replace_char (u_char CHR ''>'') (units ''&gt;'')
       (replace_char (u_char CHR ''<'') (units ''&lt;'') (replace_char (u_char CHR ''&'') (units ''&amp;'') t)))"

definition in_tag :: "string \<Rightarrow> units \<Rightarrow> units" where
  "in_tag tag t = units (''<'' @ tag @ ''>'') @ escapeHtmlForTelegram t @ units (''</'' @ tag @ ''>'')"

text \<open>\<open>/```(\w+)?\n([\s\S]*?)```/\<close> and its second group.\<close>

definition fenced :: "16 word rex" where
  "fenced = seqs [lit (units ''```''), opt (plus (Cls u_word)), chr 10, Lazy (Cls (\<lambda>_. True)), lit (units ''```'')]"

definition fenced_code :: "units \<Rightarrow> units" where
  "fenced_code u = (let r = dropWhile u_word (drop 3 u) in take (length r - 4) (drop 1 r))"

definition u_table_separator :: "16 word rex" where
  "u_table_separator = seqs [chr (u_char CHR ''|''), plus (Cls (\<lambda>x. x \<in> set (units ''-:| ''))),
     chr (u_char CHR ''|''), Star (Cls u_blank)]"

definition u_table_row :: "16 word rex" where
  "u_table_row = seqs [chr (u_char CHR ''|''), plus (Cls (\<lambda>x. \<not> u_newline x)), chr (u_char CHR ''|''), Star (Cls u_blank)]"

definition u_row_cells :: "units \<Rightarrow> units" where
  "u_row_cells u =
     (let inner = butlast (rev (dropWhile u_blank (rev (drop 1 u))))
      in join_with [32, 0x2502, 32] (filter (\<lambda>c. c \<noteq> []) (map u_trim (split_on (u_char CHR ''|'') inner))))"

definition u_rule :: "16 word rex" where
  "u_rule = Seq (alts (map (three_or_more \<circ> u_char) ''-*_'')) (Star (Cls u_blank))"

definition u_marked :: "string \<Rightarrow> bool \<Rightarrow> 16 word rex" where
  "u_marked d one_line = delimited (units d) (\<lambda>x. x \<noteq> u_char (hd d) \<and> \<not> (one_line \<and> x = 10))"

text \<open>\<open>/^#{1,6}\s+(.+)$/gm\<close>; over blanks only, backtracking leaves the last one to the group.\<close>

definition u_header :: "16 word rex" where
  "u_header = seqs [repeat_between 1 6 (chr (u_char CHR ''#'')), plus (Cls u_space), plus (Cls (\<lambda>x. \<not> u_newline x))]"

definition header_title :: "units \<Rightarrow> units" where
  "header_title u = (let t = dropWhile u_space (dropWhile (\<lambda>x. x = u_char CHR ''#'') u) in if t = [] then [last u] else t)"

definition parseMarkdownToTelegramHtml :: "units \<Rightarrow> units" where
  "parseMarkdownToTelegramHtml t =
     (let r1 = replace_all fenced (\<lambda>u. in_tag ''pre'' (u_trim (fenced_code u))) t;
          r2 = replace_all (u_marked ''`'' False) (\<lambda>u. in_tag ''code'' (inside 1 u)) r1;
          r3 = u_replace_lines u_table_separator (\<lambda>_. []) r2;
          r4 = u_replace_lines u_table_row u_row_cells r3;
          r5 = u_replace_lines u_rule (\<lambda>_. replicate 10 0x2500) r4;
          r6 = replace_all (u_marked ''***'' False)
                 (\<lambda>u. units ''<b><i>'' @ escapeHtmlForTelegram (inside 3 u) @ units ''</i></b>'') r5;
          r7 = replace_all (u_marked ''**'' True) (\<lambda>u. in_tag ''b'' (inside 2 u)) r6;
          r8 = replace_all (u_marked ''*'' True) (\<lambda>u. in_tag ''i'' (inside 1 u)) r7;
          r9 = replace_all (u_marked ''__'' True) (\<lambda>u. in_tag ''u'' (inside 2 u)) r8;
          r10 = replace_all (u_marked ''~~'' True) (\<lambda>u. in_tag ''s'' (inside 2 u)) r9
      in u_replace_lines u_header (\<lambda>u. in_tag ''b'' (header_title u)) r10)"

section \<open>The text\<close>

definition TELEGRAM_MAX_MESSAGE_LENGTH :: nat where "TELEGRAM_MAX_MESSAGE_LENGTH = 4096"
definition TELEGRAM_MAX_CAPTION_LENGTH :: nat where "TELEGRAM_MAX_CAPTION_LENGTH = 1024"

definition cut_with_ellipsis :: "nat \<Rightarrow> units \<Rightarrow> units" where
  "cut_with_ellipsis n t = (if n < length t then take (n - 1) t @ [0x2026] else t)"

definition getCategoryEmoji :: "string \<Rightarrow> units" where
  "getCategoryEmoji category =
     (if category = ''defi'' then [0xD83D, 0xDCB0] else if category = ''governance'' then [0xD83D, 0xDDF3, 0xFE0F]
      else if category = ''system'' then [0x2699, 0xFE0F] else if category = ''marketing'' then [0xD83D, 0xDCE2]
      else [0xD83D, 0xDD14])"

text \<open>\<open>charAt(0).toUpperCase() + slice(1)\<close> for the categories, which are ASCII.\<close>

definition upper :: "char \<Rightarrow> char" where
  "upper c = (let n = (of_char c :: nat) in if 97 \<le> n \<and> n \<le> 122 then char_of (n - 32) else c)"

definition capitalised :: "string \<Rightarrow> string" where
  "capitalised s = (case s of [] \<Rightarrow> [] | c # r \<Rightarrow> upper c # r)"

definition via_herald :: "string \<Rightarrow> units" where
  "via_herald category = units ''<i>via Herald '' @ 0x2022 # units ('' '' @ capitalised category @ ''</i>'')"

definition formatText :: "string \<Rightarrow> string \<Rightarrow> string \<Rightarrow> string \<Rightarrow> int option \<Rightarrow> units \<Rightarrow> units" where
  "formatText protocolName subject body category tier emoji =
     (let bodyText = cut_with_ellipsis TELEGRAM_MAX_CAPTION_LENGTH (parseMarkdownToTelegramHtml (units body));
          lines = [emoji @ 32 # in_tag ''b'' (units protocolName), [], in_tag ''b'' (units subject), [], bodyText]
            @ (if nullish tier 0 < 3 then [[], via_herald category] else [])
      in cut_with_ellipsis TELEGRAM_MAX_MESSAGE_LENGTH (join_with [10] (filter (\<lambda>l. l \<noteq> []) lines)))"

text \<open>\<open>{ ...base, ...more }\<close>: a key of both keeps its place and takes the later value.\<close>

definition spread :: "(string \<times> string) list \<Rightarrow> (string \<times> string) list \<Rightarrow> (string \<times> string) list" where
  "spread base extra = fold (\<lambda>(k, v). AList.update k v) extra base"

definition formatCustomMessage ::
  "string \<Rightarrow> (string \<times> string) list \<Rightarrow> (string \<times> string) list \<Rightarrow> string \<Rightarrow> int option \<Rightarrow> units" where
  "formatCustomMessage templateStr base templateVariables category tier =
     (let result = units (injectVariables templateStr (spread base templateVariables))
            @ (if nullish tier 0 < 3 then [10, 10] @ via_herald category else [])
      in cut_with_ellipsis TELEGRAM_MAX_MESSAGE_LENGTH result)"

section \<open>Parts\<close>

text \<open>A split on a separator of two newlines: \<open>t.split('\n\n')\<close>.\<close>

function split_paragraphs :: "units \<Rightarrow> units list" where
  "split_paragraphs t =
     (case t of
        [] \<Rightarrow> [[]]
      | c # r \<Rightarrow>
          if c = 10 \<and> r \<noteq> [] \<and> hd r = 10 then [] # split_paragraphs (tl r)
          else (case split_paragraphs r of [] \<Rightarrow> [[c]] | p # ps \<Rightarrow> (c # p) # ps))"
  by pat_completeness auto
termination
  by (relation "measure length") (auto simp: neq_Nil_conv)

declare split_paragraphs.simps [simp del]

definition addChunk :: "units \<Rightarrow> units list \<Rightarrow> units list" where
  "addChunk s chunks = (if s = [] then chunks else chunks @ [s])"

definition sep_join :: "units \<Rightarrow> units \<Rightarrow> units \<Rightarrow> units" where
  "sep_join sep current s = (if current = [] then s else current @ sep @ s)"

text \<open>The \<open>while\<close> loop over one long line: whole slices become chunks, the rest becomes \<open>current\<close>.\<close>

function hard_cut :: "nat \<Rightarrow> units \<Rightarrow> units list \<Rightarrow> units list \<times> units" where
  "hard_cut m line chunks =
     (if 0 < m \<and> m < length line then hard_cut m (drop m line) (addChunk (take m line) chunks)
      else (chunks, line))"
  by pat_completeness auto
termination
  by (relation "measure (\<lambda>(m, line, _). length line)") auto

declare hard_cut.simps [simp del]

definition line_step :: "nat \<Rightarrow> units \<Rightarrow> units list \<times> units \<Rightarrow> units list \<times> units" where
  "line_step m line st =
     (let (chunks, current) = st
      in if length (sep_join [10] current line) \<le> m then (chunks, sep_join [10] current line)
         else if length line \<le> m then (addChunk current chunks, line)
         else hard_cut m line (addChunk current chunks))"

definition para_step :: "nat \<Rightarrow> units \<Rightarrow> units list \<times> units \<Rightarrow> units list \<times> units" where
  "para_step m para st =
     (let (chunks, current) = st
      in if length (sep_join [10, 10] current para) \<le> m then (chunks, sep_join [10, 10] current para)
         else if length para \<le> m then (addChunk current chunks, para)
         else fold (line_step m) (split_on 10 para) (addChunk current chunks, []))"

definition splitIntoChunks :: "units \<Rightarrow> nat \<Rightarrow> units list" where
  "splitIntoChunks t maxLength =
     (let effectiveMax = maxLength - 15
      in if length t \<le> effectiveMax then [t]
         else let (chunks, current) = fold (para_step effectiveMax) (split_paragraphs t) ([], [])
              in addChunk current chunks)"

definition part_text :: "units list \<Rightarrow> nat \<Rightarrow> units" where
  "part_text chunks i =
     (if 1 < length chunks
      then chunks ! i @ units ([CHR 0x0A, CHR 0x0A] @ ''<i>('' @ show_nat (i + 1) @ ''/'' @ show_nat (length chunks) @ '')</i>'')
      else chunks ! i)"

section \<open>Facts: the parts\<close>

text \<open>A chunk is never empty nor longer than the limit; the invariant of both loops.\<close>

definition chunk_ok :: "nat \<Rightarrow> units \<Rightarrow> bool" where
  "chunk_ok m c \<longleftrightarrow> c \<noteq> [] \<and> length c \<le> m"

definition chunks_ok :: "nat \<Rightarrow> units list \<times> units \<Rightarrow> bool" where
  "chunks_ok m st \<longleftrightarrow> list_all (chunk_ok m) (fst st) \<and> length (snd st) \<le> m"

lemma hard_cut_step:
  "0 < m \<Longrightarrow> m < length line \<Longrightarrow> hard_cut m line chunks = hard_cut m (drop m line) (addChunk (take m line) chunks)"
  by (simp add: hard_cut.simps [of m line])

lemma hard_cut_stop: "m = 0 \<or> length line \<le> m \<Longrightarrow> hard_cut m line chunks = (chunks, line)"
  by (auto simp: hard_cut.simps [of m line])

lemma hard_cut_induct [consumes 1, case_names Step Stop]:
  assumes "0 < m"
    and "\<And>line chunks. m < length line \<Longrightarrow> P (drop m line) (addChunk (take m line) chunks) \<Longrightarrow> P line chunks"
    and "\<And>line chunks. length line \<le> m \<Longrightarrow> P line chunks"
  shows "P line chunks"
proof (induction line arbitrary: chunks rule: length_induct)
  case (1 line)
  then show ?case using assms by (cases "m < length line") auto
qed

lemma addChunk_ok: "list_all (chunk_ok m) chunks \<Longrightarrow> length s \<le> m \<Longrightarrow> list_all (chunk_ok m) (addChunk s chunks)"
  by (simp add: addChunk_def chunk_ok_def)

lemma hard_cut_ok:
  assumes "0 < m"
  shows "list_all (chunk_ok m) chunks \<Longrightarrow> chunks_ok m (hard_cut m line chunks)"
using assms proof (induction line chunks rule: hard_cut_induct)
  case (Step line chunks)
  then show ?case by (simp add: hard_cut_step [OF assms(1)] addChunk_ok)
next
  case (Stop line chunks)
  then show ?case by (simp add: hard_cut_stop chunks_ok_def)
qed

lemma line_step_ok:
  assumes "0 < m" "chunks_ok m st"
  shows "chunks_ok m (line_step m line st)"
proof (cases st)
  case (Pair chunks current)
  have ok: "list_all (chunk_ok m) chunks" "length current \<le> m" using assms(2) by (simp_all add: Pair chunks_ok_def)
  have add: "list_all (chunk_ok m) (addChunk current chunks)" by (rule addChunk_ok [OF ok])
  show ?thesis
    unfolding Pair line_step_def Let_def prod.case
    using ok(1) add hard_cut_ok [OF assms(1) add, of line] by (auto simp: chunks_ok_def)
qed

lemma fold_keeps: "(\<And>x st. P st \<Longrightarrow> P (f x st)) \<Longrightarrow> P st \<Longrightarrow> P (fold f xs st)"
  by (induction xs arbitrary: st) auto

lemma para_step_ok:
  assumes "0 < m" "chunks_ok m st"
  shows "chunks_ok m (para_step m para st)"
proof (cases st)
  case (Pair chunks current)
  have ok: "list_all (chunk_ok m) chunks" "length current \<le> m" using assms(2) by (simp_all add: Pair chunks_ok_def)
  have add: "list_all (chunk_ok m) (addChunk current chunks)" by (rule addChunk_ok [OF ok])
  have lines: "chunks_ok m (fold (line_step m) (split_on 10 para) (addChunk current chunks, []))"
    by (rule fold_keeps [where P = "chunks_ok m"], rule line_step_ok [OF assms(1)]) (simp_all add: chunks_ok_def add)
  show ?thesis
    unfolding Pair para_step_def Let_def prod.case
    using ok(1) add lines by (auto simp: chunks_ok_def)
qed

lemma splitIntoChunks_ok:
  assumes "15 < n"
  shows "list_all (\<lambda>c. length c \<le> n - 15) (splitIntoChunks t n)"
proof (cases "length t \<le> n - 15")
  case True
  then show ?thesis by (simp add: splitIntoChunks_def)
next
  case False
  obtain chunks current where st: "fold (para_step (n - 15)) (split_paragraphs t) ([], []) = (chunks, current)"
    by fastforce
  have "chunks_ok (n - 15) (fold (para_step (n - 15)) (split_paragraphs t) ([], []))"
    by (rule fold_keeps [where P = "chunks_ok (n - 15)"], rule para_step_ok) (use assms in \<open>simp_all add: chunks_ok_def\<close>)
  then have "list_all (chunk_ok (n - 15)) (addChunk current chunks)" by (simp add: st chunks_ok_def addChunk_ok)
  then have "list_all (\<lambda>c. length c \<le> n - 15) (addChunk current chunks)"
    by (rule list.pred_mono_strong) (simp add: chunk_ok_def)
  then show ?thesis using False by (simp add: splitIntoChunks_def Let_def st)
qed

text \<open>Nothing but line ends is lost or moved.\<close>

definition solid :: "units \<Rightarrow> units" where "solid t = filter (\<lambda>x. x \<noteq> 10) t"

lemma solid_append [simp]: "solid (a @ b) = solid a @ solid b"
  and solid_Nil [simp]: "solid [] = []"
  and solid_Cons [simp]: "solid (x # a) = (if x = 10 then solid a else x # solid a)"
  by (simp_all add: solid_def)

definition kept :: "units list \<times> units \<Rightarrow> units" where
  "kept st = concat (map solid (fst st)) @ solid (snd st)"

lemma kept_addChunk [simp]: "concat (map solid (addChunk s chunks)) = concat (map solid chunks) @ solid s"
  by (simp add: addChunk_def)

lemma solid_sep_join: "solid sep = [] \<Longrightarrow> solid (sep_join sep a b) = solid a @ solid b"
  by (simp add: sep_join_def)

lemma kept_hard_cut: "kept (hard_cut m line chunks) = concat (map solid chunks) @ solid line"
proof (cases "m = 0")
  case False
  then have "0 < m" by simp
  then show ?thesis
  proof (induction line chunks rule: hard_cut_induct)
    case (Step line chunks)
    have "solid line = solid (take m line) @ solid (drop m line)" by (simp flip: solid_append)
    with Step show ?case by (simp add: hard_cut_step \<open>0 < m\<close>)
  qed (simp add: hard_cut_stop kept_def)
qed (simp add: hard_cut_stop kept_def)

lemma kept_line_step: "kept (line_step m line st) = kept st @ solid line"
  by (cases st) (simp add: line_step_def kept_hard_cut, simp add: kept_def solid_sep_join)

lemma kept_fold: "(\<And>x st. kept (f x st) = kept st @ solid x) \<Longrightarrow> kept (fold f xs st) = kept st @ concat (map solid xs)"
  by (induction xs arbitrary: st) auto

lemma solid_split_on: "concat (map solid (split_on 10 s)) = solid s"
  by (induction s) (auto split: list.splits)

lemma kept_para_step: "kept (para_step m para st) = kept st @ solid para"
  by (cases st)
    (simp add: para_step_def kept_fold [OF kept_line_step] solid_split_on, simp add: kept_def solid_sep_join)

lemma solid_split_paragraphs: "concat (map solid (split_paragraphs t)) = solid t"
proof (induction t rule: split_paragraphs.induct)
  case (1 t)
  show ?case
  proof (cases t)
    case Nil
    then show ?thesis by (simp add: split_paragraphs.simps [of "[]"])
  next
    case (Cons c r)
    show ?thesis
    proof (cases "c = 10 \<and> r \<noteq> [] \<and> hd r = 10")
      case True
      then obtain r' where "r = 10 # r'" by (cases r) auto
      with 1 Cons True show ?thesis by (simp add: split_paragraphs.simps [of "10 # 10 # r'"])
    next
      case False
      with 1 Cons have "concat (map solid (split_paragraphs r)) = solid r" by blast
      moreover have "split_paragraphs t = (case split_paragraphs r of [] \<Rightarrow> [[c]] | p # ps \<Rightarrow> (c # p) # ps)"
        using False Cons by (auto simp: split_paragraphs.simps [of "c # r"])
      ultimately show ?thesis using Cons by (auto split: list.splits)
    qed
  qed
qed

lemma splitIntoChunks_solid: "concat (map solid (splitIntoChunks t n)) = solid t"
proof (cases "length t \<le> n - 15")
  case False
  have "kept (fold (para_step (n - 15)) (split_paragraphs t) ([], [])) = solid t"
    by (simp add: kept_fold [OF kept_para_step] solid_split_paragraphs) (simp add: kept_def)
  then show ?thesis using False by (auto simp: splitIntoChunks_def Let_def kept_def split: prod.splits)
qed (simp add: splitIntoChunks_def)

text \<open>
  How many chunks a text can make: every finished chunk is paid for by its own text and twice by the
  text that pushed it out.
\<close>

definition cost :: "nat \<Rightarrow> units list \<times> units \<Rightarrow> nat" where
  "cost m st = m * length (fst st) + length (snd st)"

lemma length_addChunk: "length (addChunk s chunks) = length chunks + (if s = [] then 0 else 1)"
  by (simp add: addChunk_def)

lemma hard_cut_cost:
  assumes "0 < m"
  shows "cost m (hard_cut m line chunks) = m * length chunks + length line"
  using assms
proof (induction line chunks rule: hard_cut_induct)
  case (Step line chunks)
  have "take m line \<noteq> []" using Step.hyps assms by auto
  then have "cost m (hard_cut m (drop m line) (addChunk (take m line) chunks)) =
      m * (length chunks + 1) + (length line - m)" using Step.IH by (simp add: length_addChunk)
  then show ?case using Step.hyps by (simp add: hard_cut_step [OF assms])
qed (simp add: hard_cut_stop cost_def)

lemma line_step_cost:
  assumes "0 < m"
  shows "cost m (line_step m line st) \<le> cost m st + 2 * (length line + 1)"
proof (cases st)
  case (Pair chunks current)
  consider "length (sep_join [10] current line) \<le> m"
    | "m < length (sep_join [10] current line)" "length line \<le> m" | "m < length line"
    by linarith
  then show ?thesis
  proof cases
    case 1
    then show ?thesis by (simp add: Pair line_step_def cost_def sep_join_def)
  next
    case 2
    then have "current \<noteq> []" "m \<le> length current + length line" by (auto simp: sep_join_def split: if_splits)
    then show ?thesis using 2 by (simp add: Pair line_step_def cost_def length_addChunk)
  next
    case 3
    then have "m < length (sep_join [10] current line)" by (simp add: sep_join_def)
    then show ?thesis using 3
      by (simp add: Pair line_step_def hard_cut_cost [OF assms] length_addChunk) (simp add: cost_def)
  qed
qed

lemma fold_cost:
  assumes "\<And>x st. cost m (f x st) \<le> cost m st + k * (length x + d)"
  shows "cost m (fold f xs st) \<le> cost m st + k * sum_list (map (\<lambda>x. length x + d) xs)"
proof (induction xs arbitrary: st)
  case (Cons x xs)
  have "cost m (fold f xs (f x st)) \<le> cost m (f x st) + k * sum_list (map (\<lambda>x. length x + d) xs)" by (rule Cons)
  also have "\<dots> \<le> cost m st + k * (length x + d) + k * sum_list (map (\<lambda>x. length x + d) xs)" using assms by simp
  finally show ?case by (simp add: distrib_left)
qed simp

lemma split_on_total: "sum_list (map (\<lambda>x. length x + 1) (split_on c s)) = length s + 1"
  by (induction s) (auto split: list.splits)

lemma split_paragraphs_total: "sum_list (map (\<lambda>x. length x + 2) (split_paragraphs t)) = length t + 2"
proof (induction t rule: split_paragraphs.induct)
  case (1 t)
  show ?case
  proof (cases t)
    case Nil
    then show ?thesis by (simp add: split_paragraphs.simps [of "[]"])
  next
    case (Cons c r)
    show ?thesis
    proof (cases "c = 10 \<and> r \<noteq> [] \<and> hd r = 10")
      case True
      then obtain r' where "r = 10 # r'" by (cases r) auto
      with 1 Cons True show ?thesis by (simp add: split_paragraphs.simps [of "10 # 10 # r'"])
    next
      case False
      with 1 Cons have "sum_list (map (\<lambda>x. length x + 2) (split_paragraphs r)) = length r + 2" by blast
      moreover have "split_paragraphs t = (case split_paragraphs r of [] \<Rightarrow> [[c]] | p # ps \<Rightarrow> (c # p) # ps)"
        using False Cons by (auto simp: split_paragraphs.simps [of "c # r"])
      ultimately show ?thesis using Cons by (auto split: list.splits)
    qed
  qed
qed

lemma para_step_cost:
  assumes "1 < m"
  shows "cost m (para_step m para st) \<le> cost m st + 3 * (length para + 2)"
proof (cases st)
  case (Pair chunks current)
  consider "length (sep_join [10, 10] current para) \<le> m"
    | "m < length (sep_join [10, 10] current para)" "length para \<le> m" | "m < length para"
    by linarith
  then show ?thesis
  proof cases
    case 1
    then show ?thesis by (simp add: Pair para_step_def cost_def sep_join_def)
  next
    case 2
    then have "current \<noteq> []" "m \<le> length current + 1 + length para" by (auto simp: sep_join_def split: if_splits)
    then show ?thesis using 2 by (simp add: Pair para_step_def cost_def length_addChunk)
  next
    case 3
    have long: "m < length (sep_join [10, 10] current para)" using 3 by (simp add: sep_join_def)
    have "cost m (fold (line_step m) (split_on 10 para) (addChunk current chunks, [])) \<le>
        cost m (addChunk current chunks, []) + 2 * (length para + 1)"
      using fold_cost [of m "line_step m" 2 1 "split_on 10 para" "(addChunk current chunks, [])", OF line_step_cost]
        split_on_total [of 10 para] assms by simp
    also have "\<dots> \<le> cost m st + 3 * (length para + 2)"
      using 3 by (simp add: Pair cost_def length_addChunk)
    finally show ?thesis using 3 long by (simp add: Pair para_step_def)
  qed
qed

lemma splitIntoChunks_count:
  assumes "16 < n"
  shows "(n - 15) * length (splitIntoChunks t n) \<le> 3 * (length t + 2) + (n - 15)"
proof (cases "length t \<le> n - 15")
  case False
  let ?m = "n - 15"
  obtain chunks current where st: "fold (para_step ?m) (split_paragraphs t) ([], []) = (chunks, current)" by fastforce
  have "cost ?m (fold (para_step ?m) (split_paragraphs t) ([], [])) \<le> 3 * (length t + 2)"
    using fold_cost [of ?m "para_step ?m" 3 2 "split_paragraphs t" "([], [])", OF para_step_cost]
      split_paragraphs_total [of t] assms by (simp add: cost_def)
  then have "?m * length chunks \<le> 3 * (length t + 2)" by (simp add: st cost_def)
  moreover have "splitIntoChunks t n = addChunk current chunks" using False by (simp add: splitIntoChunks_def st)
  moreover have "?m * length (addChunk current chunks) \<le> ?m * length chunks + ?m"
    by (simp add: length_addChunk distrib_left)
  ultimately show ?thesis by (simp only: add_mono le_trans [OF _ add_right_mono])
qed (simp add: splitIntoChunks_def)

section \<open>Sending\<close>

text \<open>
  \<open>tg_api n m\<close> is the answer to the request \<open>m\<close> when \<open>n\<close> requests went out before it; a failure carries
  the code, the description and the message of the error.
\<close>

datatype telegram_reply = TgSent string | TgFailed "int option" "string option" "string option"

record telegram_env =
  tg_enabled :: bool
  tg_maxButtons :: nat
  tg_api :: "nat \<Rightarrow> telegram_message \<Rightarrow> telegram_reply"
  tg_encodeURIComponent :: "string \<Rightarrow> string"
  tg_base64url :: "string \<Rightarrow> string"

record telegram_params =
  tq_chatId :: string
  tq_protocolName :: string
  tq_protocolId :: "string option"
  tq_subject :: string
  tq_body :: string
  tq_category :: string
  tq_notificationId :: string
  tq_tier :: "int option"
  tq_templateId :: "string option"
  tq_templateVariables :: "(string \<times> string) list option"
  tq_bannerUrl :: "string option"
  tq_videoUrl :: "string option"
  tq_customBotToken :: "string option"
  tq_messageThreadId :: "string option"
  tq_priority :: "priority option"
  tq_trackEngagement :: bool
  tq_trackingBaseUrl :: string

definition blocked_key :: "string \<Rightarrow> string" where "blocked_key chat = ''tg:blocked:'' @ chat"

definition mute_label :: units where "mute_label = [0xD83D, 0xDD07] @ units '' Mute this protocol''"

definition buildInlineKeyboard ::
  "nat \<Rightarrow> (units \<times> units) list \<Rightarrow> (units \<times> units) list \<Rightarrow> string \<Rightarrow> telegram_button list list" where
  "buildInlineKeyboard buttonLimit bodyLinks customButtons notificationId =
     (let urls = take buttonLimit (bodyLinks @ customButtons)
      in map (\<lambda>(t, url). [UrlButton t url]) urls
         @ (if notificationId \<noteq> [] \<and> length urls < buttonLimit
            then [[CallbackButton mute_label (''mute_'' @ notificationId)]] else []))"

definition buildMedia :: "string option \<Rightarrow> string option \<Rightarrow> telegram_media" where
  "buildMedia bannerUrl videoUrl =
     (if truthy videoUrl then Video (the videoUrl) else if truthy bannerUrl then Photo (the bannerUrl) else NoMedia)"

definition loadTelegramTemplate :: "string \<Rightarrow> string \<Rightarrow> string option \<Rightarrow> 'r world \<Rightarrow> telegram_template option" where
  "loadTelegramTemplate protocolId category templateId w =
     (if truthy templateId
      then List.find (\<lambda>t. tt_id t = the templateId \<and> tt_protocolId t = protocolId \<and> tt_isActive t) (w_telegramTemplates w)
      else List.find (\<lambda>t. tt_protocolId t = protocolId \<and> tt_category t = category \<and> tt_isActive t) (w_telegramTemplates w))"

text \<open>One request, whatever comes back.\<close>

definition tg_request :: "telegram_env \<Rightarrow> telegram_message \<Rightarrow> 'r world \<Rightarrow> telegram_reply \<times> 'r world" where
  "tg_request env m w = (tg_api env (length (w_sent w)) m, w\<lparr>w_sent := w_sent w @ [SentTelegram m]\<rparr>)"

text \<open>The rate limiter counts the chat's messages of this second; the wait it may add changes no state.\<close>

definition rateLimit :: "'r redis_api \<Rightarrow> millis \<Rightarrow> string \<Rightarrow> 'r world \<Rightarrow> 'r world" where
  "rateLimit R now chatId w =
     (if \<not> w_redisUp w then w
      else let key = ''tg:rate:'' @ chatId @ '':'' @ show_int (now div 1000); (count, r1) = r_incr R (w_redis w) now key
           in w\<lparr>w_redis := (if count = 1 then r_pexpire R r1 now key 2000 else r1)\<rparr>)"

definition isForbidden :: "int option \<Rightarrow> string option \<Rightarrow> string option \<Rightarrow> bool" where
  "isForbidden code description message =
     (code = Some 403
      \<or> (case description of None \<Rightarrow> False | Some d \<Rightarrow> str_includes (map lower d) ''forbidden'')
      \<or> (case message of None \<Rightarrow> False | Some m \<Rightarrow> str_includes (map lower m) ''forbidden''))"

text \<open>The parts from index \<open>i\<close> on, of which \<open>n\<close> are left; the answer is the first message's id.\<close>

fun send_parts ::
  "'r redis_api \<Rightarrow> millis \<Rightarrow> telegram_env \<Rightarrow> telegram_message \<Rightarrow> units list \<Rightarrow> nat \<Rightarrow> nat \<Rightarrow> string \<Rightarrow> 'r world
   \<Rightarrow> telegram_reply \<times> 'r world" where
  "send_parts R now env m chunks i 0 firstId w = (TgSent firstId, w)"
| "send_parts R now env m chunks i (Suc n) firstId w =
     (let part = m\<lparr>tm_text := part_text chunks i, tm_buttons := (if n = 0 then tm_buttons m else [])\<rparr>
      in case tg_request env part (rateLimit R now (tm_chat m) w) of
           (TgSent x, w1) \<Rightarrow> send_parts R now env m chunks (i + 1) n (if i = 0 then x else firstId) w1
         | (TgFailed c d e, w1) \<Rightarrow> (TgFailed c d e, w1))"

definition deliver_message ::
  "'r redis_api \<Rightarrow> millis \<Rightarrow> telegram_env \<Rightarrow> telegram_message \<Rightarrow> units \<Rightarrow> 'r world \<Rightarrow> telegram_reply \<times> 'r world" where
  "deliver_message R now env m messageText w =
     (let w1 = rateLimit R now (tm_chat m) w
      in if tm_media m \<noteq> NoMedia
         then tg_request env (m\<lparr>tm_text := cut_with_ellipsis TELEGRAM_MAX_CAPTION_LENGTH messageText\<rparr>) w1
         else let chunks = splitIntoChunks messageText TELEGRAM_MAX_MESSAGE_LENGTH
              in send_parts R now env m chunks 0 (length chunks) [] w1)"

definition base_variables :: "telegram_params \<Rightarrow> string \<Rightarrow> (string \<times> string) list" where
  "base_variables p cleanText =
     [(''protocolName'', tq_protocolName p), (''subject'', tq_subject p), (''body'', cleanText), (''category'', tq_category p)]"

definition chosen_template :: "telegram_params \<Rightarrow> 'r world \<Rightarrow> telegram_template option" where
  "chosen_template p w =
     (if nullish (tq_tier p) 0 \<ge> 2 \<and> truthy (tq_protocolId p)
      then loadTelegramTemplate (the (tq_protocolId p)) (tq_category p) (tq_templateId p) w else None)"

text \<open>An empty custom text is falsy, too.\<close>

definition message_text :: "telegram_params \<Rightarrow> string \<Rightarrow> telegram_template option \<Rightarrow> units" where
  "message_text p cleanText template =
     (let custom = (case template of None \<Rightarrow> []
            | Some t \<Rightarrow> formatCustomMessage (tt_textTemplate t) (base_variables p cleanText)
                         (nullish (tq_templateVariables p) []) (tq_category p) (tq_tier p))
      in if custom \<noteq> [] then custom
         else formatText (tq_protocolName p) (tq_subject p) cleanText (tq_category p) (tq_tier p)
                (getCategoryEmoji (tq_category p)))"

definition custom_buttons :: "telegram_params \<Rightarrow> string \<Rightarrow> telegram_template option \<Rightarrow> (units \<times> units) list" where
  "custom_buttons p cleanText template =
     (let vars = spread (nullish (tq_templateVariables p) []) (base_variables p cleanText)
      in case template of None \<Rightarrow> []
         | Some t \<Rightarrow> map (\<lambda>(label, url). (units (injectVariables (nullish label []) vars), units (injectVariables (nullish url []) vars)))
                      (nullish (tt_buttons t) []))"

definition inline_links :: "telegram_env \<Rightarrow> telegram_params \<Rightarrow> parsed_link list \<Rightarrow> (units \<times> units) list" where
  "inline_links env p links =
     map (\<lambda>l. (units (ln_label l),
               units (if tq_trackEngagement p \<and> tq_trackingBaseUrl p \<noteq> [] \<and> tq_notificationId p \<noteq> []
                      then tq_trackingBaseUrl p @ ''/v1/tg/c/'' @ tg_encodeURIComponent env (tq_notificationId p)
                           @ ''?url='' @ tg_base64url env (ln_url l)
                      else ln_url l))) links"

definition message_of :: "telegram_env \<Rightarrow> telegram_params \<Rightarrow> 'r world \<Rightarrow> units \<times> telegram_message" where
  "message_of env p w =
     (let (cleanText, links) = parseMarkdownLinks (tq_body p); template = chosen_template p w
      in (message_text p cleanText template,
          \<lparr>tm_chat = tq_chatId p, tm_token = truthy_or_none (tq_customBotToken p),
           tm_media = buildMedia (tq_bannerUrl p) (tq_videoUrl p), tm_text = [],
           tm_buttons = buildInlineKeyboard (tg_maxButtons env) (inline_links env p links)
             (custom_buttons p cleanText template) (tq_notificationId p),
           tm_silent = (tq_category p = ''marketing'' \<or> tq_priority p = Some Normal),
           tm_thread = truthy_or_none (tq_messageThreadId p)\<rparr>))"

definition is_blocked :: "'r redis_api \<Rightarrow> millis \<Rightarrow> string \<Rightarrow> 'r world \<Rightarrow> bool" where
  "is_blocked R now chat w = (w_redisUp w \<and> r_get R (w_redis w) now (blocked_key chat) \<noteq> None)"

definition sendNotification ::
  "'r redis_api \<Rightarrow> millis \<Rightarrow> telegram_env \<Rightarrow> telegram_params \<Rightarrow> 'r world \<Rightarrow> (string, 'r world) handled" where
  "sendNotification R now env p w =
     (if is_blocked R now (tq_chatId p) w then throw (JsError ''BOT_BLOCKED'') w
      else if \<not> truthy (tq_customBotToken p) \<and> \<not> tg_enabled env
      then throw (JsError ''Telegram service not initialized'') w
      else let (messageText, m) = message_of env p w
        in case deliver_message R now env m messageText w of
             (TgSent i, w1) \<Rightarrow> ok i w1
           | (TgFailed code description message, w1) \<Rightarrow>
               if isForbidden code description message
               then throw (JsError ''BOT_BLOCKED'')
                 (if w_redisUp w1
                  then w1\<lparr>w_redis := r_setex R (w_redis w1) now (blocked_key (tq_chatId p)) (RText ''1'') (7 * 24 * 60 * 60 * 1000)\<rparr>
                  else w1)
               else throw (JsError (nullish message [])) w1)"

definition pinGroupMessage ::
  "telegram_env \<Rightarrow> string \<Rightarrow> string \<Rightarrow> string option \<Rightarrow> 'r world \<Rightarrow> 'r world" where
  "pinGroupMessage env chatId messageId customBotToken w =
     (if \<not> truthy customBotToken \<and> \<not> tg_enabled env then w
      else w\<lparr>w_sent := w_sent w @ [SentPin chatId messageId (truthy_or_none customBotToken)]\<rparr>)"

section \<open>Facts: limits\<close>

lemma cut_with_ellipsis_length: "0 < n \<Longrightarrow> length (cut_with_ellipsis n t) \<le> n"
  by (auto simp: cut_with_ellipsis_def)

lemma message_text_length: "length (fst (message_of env p w)) \<le> TELEGRAM_MAX_MESSAGE_LENGTH"
proof -
  have "length (formatText a b c d t e) \<le> TELEGRAM_MAX_MESSAGE_LENGTH" for a b c d t e
    by (simp add: formatText_def Let_def cut_with_ellipsis_length TELEGRAM_MAX_MESSAGE_LENGTH_def)
  moreover have "length (formatCustomMessage a b c d t) \<le> TELEGRAM_MAX_MESSAGE_LENGTH" for a b c d t
    by (simp add: formatCustomMessage_def Let_def cut_with_ellipsis_length TELEGRAM_MAX_MESSAGE_LENGTH_def)
  ultimately have "length (message_text p c t) \<le> TELEGRAM_MAX_MESSAGE_LENGTH" for c t
    by (simp add: message_text_def Let_def split: option.split)
  then show ?thesis by (simp add: message_of_def Let_def split: prod.split)
qed

lemma show_nat_short: "n < 10 \<Longrightarrow> length (show_nat n) = 1"
  by (simp add: show_nat.simps [of n])

lemma part_text_length:
  assumes "length chunks < 10" "i < length chunks" "length (chunks ! i) \<le> 4081"
  shows "length (part_text chunks i) \<le> 4096"
  using assms by (simp add: part_text_def show_nat_short)

lemma splitIntoChunks_few:
  assumes "length t \<le> 4096"
  shows "length (splitIntoChunks t 4096) \<le> 4"
proof -
  have "4081 * length (splitIntoChunks t 4096) \<le> 3 * (length t + 2) + 4081"
    using splitIntoChunks_count [of 4096 t] by simp
  then show ?thesis using assms by simp
qed

text \<open>Every Telegram message fits: whatever the template, the variables and the body, the text of a
  notification goes out in at most four parts, each with its part number within Telegram's 4096 code
  units, and the parts put together are the text without its line ends, in order and complete.\<close>

theorem telegram_parts_fit:
  "let chunks = splitIntoChunks (fst (message_of env p w)) TELEGRAM_MAX_MESSAGE_LENGTH
   in length chunks \<le> 4
     \<and> list_all (\<lambda>t. length t \<le> TELEGRAM_MAX_MESSAGE_LENGTH) (map (part_text chunks) [0..<length chunks])
     \<and> concat (map solid chunks) = solid (fst (message_of env p w))"
proof -
  define t where "t = fst (message_of env p w)"
  define chunks where "chunks = splitIntoChunks t 4096"
  have few: "length chunks \<le> 4"
    using splitIntoChunks_few [of t] message_text_length [of env p w]
    by (simp add: chunks_def t_def TELEGRAM_MAX_MESSAGE_LENGTH_def)
  have ok: "length c \<le> 4081" if "c \<in> set chunks" for c
    using splitIntoChunks_ok [of 4096 t] that by (simp add: chunks_def list_all_iff)
  have "length (part_text chunks i) \<le> 4096" if "i < length chunks" for i
    using few that ok [OF nth_mem [OF that]] by (intro part_text_length) simp_all
  then have "list_all (\<lambda>t. length t \<le> 4096) (map (part_text chunks) [0..<length chunks])"
    by (auto simp: list_all_iff)
  moreover have "concat (map solid chunks) = solid t" by (simp add: chunks_def splitIntoChunks_solid)
  ultimately show ?thesis
    using few by (simp add: Let_def TELEGRAM_MAX_MESSAGE_LENGTH_def chunks_def t_def)
qed

section \<open>Facts: blocked chats\<close>

lemma tg_request_redis [simp]: "w_redis (snd (tg_request env m w)) = w_redis w" "w_redisUp (snd (tg_request env m w)) = w_redisUp w"
  by (simp_all add: tg_request_def)

lemma rateLimit_up [simp]: "w_redisUp (rateLimit R now chat w) = w_redisUp w"
  by (simp add: rateLimit_def Let_def split: prod.split)

lemma send_parts_up: "w_redisUp (snd (send_parts R now env m chunks i n x w)) = w_redisUp w"
proof (induction n arbitrary: i x w)
  case (Suc n)
  let ?part = "m\<lparr>tm_text := part_text chunks i, tm_buttons := (if n = 0 then tm_buttons m else [])\<rparr>"
  obtain r w1 where r: "tg_request env ?part (rateLimit R now (tm_chat m) w) = (r, w1)" by fastforce
  then have "w_redisUp w1 = w_redisUp w" using tg_request_redis(2) [of env ?part "rateLimit R now (tm_chat m) w"] by simp
  then show ?case using Suc r by (cases r) simp_all
qed simp

lemma deliver_message_up: "w_redisUp (snd (deliver_message R now env m t w)) = w_redisUp w"
  by (simp add: deliver_message_def Let_def send_parts_up)

text \<open>A chat that has refused the bot is asked for nothing in the next seven days.\<close>

lemma sendNotification_blocked:
  "is_blocked R now (tq_chatId p) w \<Longrightarrow> sendNotification R now env p w = (Inl (JsError ''BOT_BLOCKED''), w)"
  by (simp add: sendNotification_def flow_simps)

theorem blocked_chat_left_alone:
  assumes "redis_service R" "w_redisUp w" "\<not> is_blocked R t (tq_chatId p) w"
    and "sendNotification R t env p w = (Inl (JsError ''BOT_BLOCKED''), w1)"
    and "w_redis w2 = w_redis w1" "w_redisUp w2" "t \<le> t'" "t' < t + 604800000" "tq_chatId q = tq_chatId p"
    and "isForbidden c d e" "fst (deliver_message R t env (snd (message_of env p w)) (fst (message_of env p w)) w) = TgFailed c d e"
  shows "sendNotification R t' env' q w2 = (Inl (JsError ''BOT_BLOCKED''), w2)"
proof -
  obtain wd where d: "deliver_message R t env (snd (message_of env p w)) (fst (message_of env p w)) w = (TgFailed c d e, wd)"
    using assms(11) by (cases "deliver_message R t env (snd (message_of env p w)) (fst (message_of env p w)) w") simp
  have up: "w_redisUp wd" using deliver_message_up [of R t env "snd (message_of env p w)" "fst (message_of env p w)" w] assms(2) d by simp
  have "w_redis w1 = r_setex R (w_redis wd) t (blocked_key (tq_chatId p)) (RText ''1'') 604800000"
    using assms(3,4,10) d up
    by (cases "message_of env p w") (auto simp: sendNotification_def flow_simps split: if_splits)
  then have "is_blocked R t' (tq_chatId q) w2"
    using assms(5-9) redis_service.get_setex [OF assms(1,7)] by (simp add: is_blocked_def)
  then show ?thesis by (rule sendNotification_blocked)
qed

end
