(* ===== verification/Telegram_Migration.thy ===== *)
theory Telegram_Migration
  imports Telegram
begin

text \<open>
  \<open>telegram/telegram-migration.service.ts\<close>, the migration state: which chats have started a protocol's
  own bot (30 days), and the prompt that asks them to, at most once in three days per chat and
  protocol.
\<close>

definition migrated_key :: "string \<Rightarrow> string \<Rightarrow> string" where
  "migrated_key chatId protocolId = ''tg:migrated:'' @ chatId @ '':'' @ protocolId"

definition prompt_key :: "string \<Rightarrow> string \<Rightarrow> string" where
  "prompt_key chatId protocolId = ''tg:migrate_prompt:'' @ chatId @ '':'' @ protocolId"

text \<open>\<open>redis.setex(..).catch(..)\<close> and \<open>redis.get(..).catch(() => null)\<close>.\<close>

definition setex_quiet :: "'r redis_api \<Rightarrow> millis \<Rightarrow> string \<Rightarrow> string \<Rightarrow> int \<Rightarrow> 'r world \<Rightarrow> 'r world" where
  "setex_quiet R now key value seconds w =
     (if w_redisUp w then w\<lparr>w_redis := r_setex R (w_redis w) now key (RText value) (seconds * 1000)\<rparr> else w)"

definition get_quiet :: "'r redis_api \<Rightarrow> millis \<Rightarrow> string \<Rightarrow> 'r world \<Rightarrow> redis_value option" where
  "get_quiet R now key w = (if w_redisUp w then r_get R (w_redis w) now key else None)"

definition markMigrated :: "'r redis_api \<Rightarrow> millis \<Rightarrow> string \<Rightarrow> string \<Rightarrow> 'r world \<Rightarrow> 'r world" where
  "markMigrated R now chatId protocolId w = setex_quiet R now (migrated_key chatId protocolId) ''1'' (30 * 24 * 60 * 60) w"

definition isMigrated :: "'r redis_api \<Rightarrow> millis \<Rightarrow> string \<Rightarrow> string \<Rightarrow> 'r world \<Rightarrow> bool" where
  "isMigrated R now chatId protocolId w = (get_quiet R now (migrated_key chatId protocolId) w \<noteq> None)"

definition hasBeenPrompted :: "'r redis_api \<Rightarrow> millis \<Rightarrow> string \<Rightarrow> string \<Rightarrow> 'r world \<Rightarrow> bool" where
  "hasBeenPrompted R now chatId protocolId w = (get_quiet R now (prompt_key chatId protocolId) w \<noteq> None)"

definition markPrompted :: "'r redis_api \<Rightarrow> millis \<Rightarrow> string \<Rightarrow> string \<Rightarrow> 'r world \<Rightarrow> 'r world" where
  "markPrompted R now chatId protocolId w = setex_quiet R now (prompt_key chatId protocolId) ''1'' (3 * 24 * 60 * 60) w"

definition escapeHtml3 :: "string \<Rightarrow> string" where
  "escapeHtml3 t = replace_char CHR ''>'' ''&gt;'' (replace_char CHR ''<'' ''&lt;'' (replace_char CHR ''&'' ''&amp;'' t))"

definition prompt_message :: "string \<Rightarrow> string \<Rightarrow> string \<Rightarrow> string \<Rightarrow> telegram_message" where
  "prompt_message chatId protocolId customBotUsername protocolName = \<lparr>tm_chat = chatId, tm_token = None, tm_media = NoMedia,
     tm_text = [0xD83D, 0xDCE3] @ units ('' <b>'' @ escapeHtml3 protocolName @ ''</b> now sends notifications via ''
       @ ''<b>@'' @ escapeHtml3 customBotUsername @ ''</b>.'' @ [CHR 0x0A, CHR 0x0A]
       @ ''Tap the button below to receive their alerts directly from their bot.''),
     tm_buttons = [[UrlButton ([0x25B6, 0xFE0F] @ units ('' Start @'' @ customBotUsername))
       (units (''https://t.me/'' @ customBotUsername @ ''?start=hrld_'' @ protocolId))]],
     tm_silent = False, tm_thread = None\<rparr>"

text \<open>A failed send leaves the chat unprompted.\<close>

definition sendSinglePrompt ::
  "'r redis_api \<Rightarrow> millis \<Rightarrow> telegram_env \<Rightarrow> string \<Rightarrow> string \<Rightarrow> string \<Rightarrow> string \<Rightarrow> 'r world \<Rightarrow> 'r world" where
  "sendSinglePrompt R now env chatId protocolId customBotUsername protocolName w =
     (if hasBeenPrompted R now chatId protocolId w \<or> \<not> tg_enabled env then w
      else case tg_request env (prompt_message chatId protocolId customBotUsername protocolName) w of
             (TgSent _, w1) \<Rightarrow> markPrompted R now chatId protocolId w1
           | (TgFailed _ _ _, w1) \<Rightarrow> w1)"

section \<open>Facts\<close>

lemma get_setex_quiet:
  assumes "redis_service R" "w_redisUp w" "t \<le> t'"
  shows "get_quiet R t' k' (setex_quiet R t k v n w) =
    (if k' = k then if t' < t + n * 1000 then Some (RText v) else None else get_quiet R t' k' w)"
  using redis_service.get_setex [OF assms(1,3)] assms(2) by (simp add: get_quiet_def setex_quiet_def)

lemma markMigrated_isMigrated:
  assumes "redis_service R" "w_redisUp w" "t \<le> t'" "t' < t + 2592000000"
  shows "isMigrated R t' chat pid (markMigrated R t chat pid w)"
  using assms by (simp add: isMigrated_def markMigrated_def get_setex_quiet)

text \<open>A prompt that went out is not repeated for three days.\<close>

lemma prompt_once:
  assumes "redis_service R" "w_redisUp w" "t \<le> t'" "t' < t + 259200000" "tg_enabled env"
    and "\<not> hasBeenPrompted R t chat pid w" "fst (tg_request env (prompt_message chat pid u n) w) = TgSent x"
    and "w_redis w2 = w_redis (sendSinglePrompt R t env chat pid u n w)" "w_redisUp w2"
  shows "sendSinglePrompt R t' env' chat pid u' n' w2 = w2"
proof -
  obtain w1 where w1: "tg_request env (prompt_message chat pid u n) w = (TgSent x, w1)"
    using assms(7) by (cases "tg_request env (prompt_message chat pid u n) w") simp
  then have up: "w_redisUp w1" using assms(2) tg_request_redis(2) [of env "prompt_message chat pid u n" w] by simp
  have "get_quiet R t' (prompt_key chat pid) w2 = get_quiet R t' (prompt_key chat pid) (markPrompted R t chat pid w1)"
    using assms(5,6,8,9) w1 up by (simp add: sendSinglePrompt_def get_quiet_def markPrompted_def setex_quiet_def)
  then have "hasBeenPrompted R t' chat pid w2"
    using assms(1-4) up by (simp add: hasBeenPrompted_def markPrompted_def get_setex_quiet)
  then show ?thesis by (simp add: sendSinglePrompt_def)
qed

end
