(* ===== verification/Dispatch.thy ===== *)
theory Dispatch
  imports Template Telegram_Migration Sms Unsubscribe
begin

text \<open>
  \<open>channel/channel-dispatch.service.ts\<close>: which channels a notification may use, its delivery by e-mail,
  Telegram and SMS, and the record of the outcomes. The three deliveries run one after the other here
  (the code starts them together and waits for all; they share no state but the log of requests), and
  the migration prompt, which the code does not wait for, runs to its end where it is started. The
  registration of the address with SES (\<open>ensureVerified\<close>) is left out. \<open>mail_api\<close>, \<open>sms_api\<close>
  and the Bot API answer a request as a function of it and of how many requests went out before.
\<close>

section \<open>Environment\<close>

record dispatch_env =
  de_template :: template_env
  de_telegram :: telegram_env
  de_unsub :: unsubscribe_env
  de_mail_api :: "nat \<Rightarrow> email_message \<Rightarrow> exn + (string option \<times> string)"
  de_sms_api :: "(nat \<Rightarrow> string \<Rightarrow> units \<Rightarrow> exn + string option) option"   \<comment> \<open>\<open>None\<close>: SNS is not configured\<close>
  de_senderId :: string
  de_decryptToken :: "(bytes \<Rightarrow> exn + string) option"                          \<comment> \<open>\<open>None\<close>: no key is configured\<close>
  de_trackingBaseUrl :: string
  de_encodeURIComponent :: "string \<Rightarrow> string"
  de_base64url :: "string \<Rightarrow> string"
  de_iso :: "millis \<Rightarrow> string"

fun exn_message :: "exn \<Rightarrow> string" where
  "exn_message (HttpExn s m) = m"
| "exn_message (PrismaExn c) = c"
| "exn_message (JsError m) = m"

section \<open>Channels\<close>

definition registered_channels :: "channels \<Rightarrow> int \<Rightarrow> channel list" where
  "registered_channels c tier =
     (if truthy (ch_email c) then [Email] else [])
     @ (if truthy (ch_telegramChatId c) \<and> 1 \<le> tier then [Telegram] else [])
     @ (if truthy (ch_phone c) \<and> 1 \<le> tier then [Sms] else [])"

definition explicit_channels :: "job_data \<Rightarrow> channel list option" where
  "explicit_channels job =
     (case jd_preferredChannel job of
        Some c \<Rightarrow> Some [c]
      | None \<Rightarrow> (case jd_channels job of Some (c # cs) \<Rightarrow> Some (c # cs) | _ \<Rightarrow> None))"

definition job_tier :: "job_data \<Rightarrow> int" where "job_tier job = nullish (jd_tier job) 0"

definition excluded_channels :: "job_data \<Rightarrow> channel list" where
  "excluded_channels job = nullish (jd_excludedChannels job) []"

definition sms_escalates :: "channels \<Rightarrow> job_data \<Rightarrow> bool" where
  "sms_escalates c job = (1 \<le> job_tier job \<and> (jd_priority job = Some Important \<or> jd_priority job = Some Critical)
     \<and> truthy (ch_phone c) \<and> Sms \<notin> set (excluded_channels job))"

definition resolveAllowedChannels :: "channels \<Rightarrow> job_data \<Rightarrow> channel list" where
  "resolveAllowedChannels c job =
     (let registered = registered_channels c (job_tier job); excluded = set (excluded_channels job)
      in if registered = [] then []
         else let allowed = (case explicit_channels job of
                    Some explicit \<Rightarrow> filter (\<lambda>x. x \<in> set registered \<and> x \<notin> excluded) explicit
                  | None \<Rightarrow> filter (\<lambda>x. x \<notin> excluded) registered);
                  escalated = (if sms_escalates c job \<and> Sms \<notin> set allowed then allowed @ [Sms] else allowed)
              in sort escalated)"

section \<open>Outcomes\<close>

definition failed_outcome :: "channel option \<Rightarrow> string \<Rightarrow> outcome" where
  "failed_outcome c e = \<lparr>oc_channel = c, oc_success = False, oc_messageId = None, oc_provider = None, oc_error = Some e\<rparr>"

definition success_outcome :: "channel \<Rightarrow> string option \<Rightarrow> string \<Rightarrow> outcome" where
  "success_outcome c i provider =
     \<lparr>oc_channel = Some c, oc_success = True, oc_messageId = i, oc_provider = Some provider, oc_error = None\<rparr>"

text \<open>The \<open>try\<close> of each delivery: an error becomes a failed outcome, the state stays.\<close>

definition settle :: "channel \<Rightarrow> (string \<Rightarrow> string) \<Rightarrow> (outcome, 'w) handled \<Rightarrow> outcome \<times> 'w" where
  "settle c rename r =
     (case r of (Inr o', w) \<Rightarrow> (o', w) | (Inl e, w) \<Rightarrow> (failed_outcome (Some c) (rename (exn_message e)), w))"

section \<open>E-mail\<close>

definition getTemplateName :: "string \<Rightarrow> string" where
  "getTemplateName category = lookup_or [(''defi'', ''defi-alert''), (''governance'', ''governance''),
     (''system'', ''system''), (''marketing'', ''marketing'')] category ''defi-alert''"

text \<open>\<open>[^"]+\<close> that does not start with \<open>p\<close>, up to the closing quote.\<close>

fun not_starting :: "string \<Rightarrow> re" where
  "not_starting [] = alts []"
| "not_starting (c # p) = alts [Eps, Seq (Cls (\<lambda>x. x \<noteq> c \<and> x \<noteq> CHR 0x22)) (Star (not_char (CHR 0x22))),
     Seq (chr c) (not_starting p)]"

text \<open>\<open>/href="(https?:\/\/(?!notify\.useherald\.xyz)[^"]+)"/g\<close>; the group after \<open>://\<close> is not empty.\<close>

definition untracked_host :: string where "untracked_host = ''notify.useherald.xyz''"

definition tracked_href :: re where
  "tracked_href = seqs [lit (''href='' @ [CHR 0x22] @ ''http''), opt (chr CHR ''s''), lit ''://'',
     alts [Seq (Cls (\<lambda>x. x \<noteq> hd untracked_host \<and> x \<noteq> CHR 0x22)) (Star (not_char (CHR 0x22))),
           Seq (chr (hd untracked_host)) (not_starting (tl untracked_host))],
     chr (CHR 0x22)]"

definition wrap_links :: "dispatch_env \<Rightarrow> string \<Rightarrow> string \<Rightarrow> string \<Rightarrow> string" where
  "wrap_links E pid nid html =
     replace_all tracked_href (\<lambda>u. ''href='' @ [CHR 0x22] @ de_trackingBaseUrl E @ ''/v1/track/click/'' @ nid @ ''?p='' @ pid
        @ ''&url='' @ de_base64url E (butlast (drop 6 u)) @ [CHR 0x22]) html"

definition pixel :: "dispatch_env \<Rightarrow> string \<Rightarrow> string \<Rightarrow> string" where
  \<open>pixel E pid nid = ''<img src="'' @ de_trackingBaseUrl E @ ''/v1/track/open/'' @ nid @ ''?p='' @ pid
     @ ''" width="1" height="1" style="display:none;border:0;" alt="" />''\<close>

definition track_html :: "dispatch_env \<Rightarrow> job_data \<Rightarrow> string \<Rightarrow> string" where
  "track_html E job html =
     (let pid = de_encodeURIComponent E (jd_protocolId job); nid = de_encodeURIComponent E (jd_notificationId job);
          wrapped = wrap_links E pid nid html; px = pixel E pid nid
      in if str_includes wrapped ''</body>'' then replace_str wrapped ''</body>'' (px @ ''</body>'') else wrapped @ px)"

definition asset_url :: "string \<Rightarrow> protocol_asset list \<Rightarrow> string option" where
  "asset_url kind assets = map_option pa_url (List.find (\<lambda>a. pa_assetType a = kind) assets)"

definition fetchProtocolAssets :: "string \<Rightarrow> 'r world \<Rightarrow> protocol_asset list" where
  "fetchProtocolAssets protocolId w = filter (\<lambda>a. pa_protocolId a = protocolId \<and> pa_isActive a) (w_assets w)"

definition senderDomain :: "string \<Rightarrow> 'r world \<Rightarrow> string" where
  "senderDomain protocolId w =
     (case sort_key dk_createdAt (filter (\<lambda>k. dk_protocolId k = Some protocolId \<and> dk_isActive k \<and> dk_dnsVerified k) (w_dkimKeys w)) of
        [] \<Rightarrow> ''useherald.xyz''
      | k # _ \<Rightarrow> dk_domain k)"

definition null_or_text :: "string option \<Rightarrow> variable" where
  "null_or_text s = (case s of None \<Rightarrow> NullVar | Some t \<Rightarrow> TextVar t)"

definition unsubscribe_url :: "dispatch_env \<Rightarrow> millis \<Rightarrow> job_data \<Rightarrow> string" where
  "unsubscribe_url E now job =
     generateSignedUnsubscribeUrl (de_unsub E) now (js_or (jd_walletHash job) []) (Some (jd_category job))"

definition email_variables :: "dispatch_env \<Rightarrow> millis \<Rightarrow> job_data \<Rightarrow> protocol_asset list \<Rightarrow> string option \<Rightarrow> variables" where
  "email_variables E now job assets websiteUrl =
     (map_option TextVar \<circ> map_of (rev (nullish (jd_templateVariables job) []))) ++
     [''protocolName'' \<mapsto> TextVar (jd_protocolName job), ''subject'' \<mapsto> TextVar (jd_subject job),
      ''body'' \<mapsto> TextVar (jd_body job), ''category'' \<mapsto> TextVar (jd_category job),
      ''walletAddress'' \<mapsto> TextVar (jd_wallet job), ''unsubscribeUrl'' \<mapsto> TextVar (unsubscribe_url E now job),
      ''logoUrl'' \<mapsto> null_or_text (asset_url ''logo'' assets), ''websiteUrl'' \<mapsto> null_or_text websiteUrl,
      ''bannerUrl'' \<mapsto> null_or_text (asset_url ''banner'' assets)]"

definition email_of :: "dispatch_env \<Rightarrow> millis \<Rightarrow> string \<Rightarrow> string \<Rightarrow> job_data \<Rightarrow> string \<Rightarrow> units \<Rightarrow> email_message" where
  "email_of E now email domain job html plain = \<lparr>em_to = email,
     em_from = jd_protocolName job @ '' via Herald <noreply@'' @ domain @ ''>'', em_replyTo = ''support@useherald.xyz'',
     em_subject = ''['' @ jd_protocolName job @ ''] '' @ jd_subject job, em_html = html, em_text = plain,
     em_headers = [(''X-Herald-Protocol'', jd_protocolName job), (''X-Herald-Notification-Id'', jd_notificationId job),
       (''X-Herald-Timestamp'', de_iso E now), (''List-Unsubscribe'', ''<'' @ unsubscribe_url E now job @ ''>''),
       (''List-Unsubscribe-Post'', ''List-Unsubscribe=One-Click''), (''Precedence'', ''bulk''),
       (''X-Auto-Response-Suppress'', ''OOF''), (''Auto-Submitted'', ''auto-generated'')]\<rparr>"

definition send_mail :: "dispatch_env \<Rightarrow> email_message \<Rightarrow> 'r world \<Rightarrow> (string option \<times> string, 'r world) handled" where
  "send_mail E m w = (de_mail_api E (length (w_sent w)) m, w\<lparr>w_sent := w_sent w @ [SentMail m]\<rparr>)"

definition suppression_of :: "string option \<Rightarrow> 'r world \<Rightarrow> email_suppression option" where
  "suppression_of walletHash w =
     (if truthy walletHash then List.find (\<lambda>s. es_walletHash s = the walletHash) (w_suppressions w) else None)"

definition tracking_on :: "job_data \<Rightarrow> 'r world \<Rightarrow> bool" where
  "tracking_on job w = (case settings_of (jd_protocolId job) w of None \<Rightarrow> False | Some s \<Rightarrow> ps_trackEngagement s)"

definition deliverEmail ::
  "dispatch_env \<Rightarrow> millis \<Rightarrow> string \<Rightarrow> job_data \<Rightarrow> protocol_asset list \<Rightarrow> 'r world \<Rightarrow> outcome \<times> 'r world" where
  "deliverEmail E now email job assets w =
     (case suppression_of (jd_walletHash job) w of
        Some s \<Rightarrow> (failed_outcome (Some Email) (''Email suppressed: '' @ es_reason s), w)
      | None \<Rightarrow>
          let domain = senderDomain (jd_protocolId job) w;
              websiteUrl = Option.bind (settings_of (jd_protocolId job) w) ps_websiteUrl;
              params = \<lparr>rp_template = getTemplateName (jd_category job),
                rp_variables = email_variables E now job assets websiteUrl, rp_protocolId = Some (jd_protocolId job),
                rp_templateId = jd_templateId job, rp_tier = job_tier job\<rparr>
          in settle Email id (and_then (render (de_template E) params w) (\<lambda>rendered w1.
               let active = tracking_on job w \<and> rm_html rendered \<noteq> [];
                   html = (if active then track_html E job (rm_html rendered) else rm_html rendered);
                   w2 = (if active then snd (swallow (update_notification (jd_notificationId job)
                           (\<lambda>n. n\<lparr>nt_trackingEnabled := True\<rparr>) w1)) else w1)
               in and_then (send_mail E (email_of E now email domain job html (rm_text rendered)) w2) (\<lambda>(messageId, provider).
                    ok (success_outcome Email messageId provider)))))"

section \<open>Telegram\<close>

record telegram_settings =
  ts_customBotToken :: "string option"
  ts_groupChatId :: "string option"
  ts_messageThreadId :: "string option"
  ts_botUsername :: "string option"
  ts_trackEngagement :: bool
  ts_autoPin :: bool

text \<open>The protocol's own bot, group and topics need tier 1; a token that cannot be decrypted is an error.\<close>

definition telegram_settings_of :: "dispatch_env \<Rightarrow> job_data \<Rightarrow> 'r world \<Rightarrow> exn + telegram_settings" where
  "telegram_settings_of E job w =
     (let settings = (if jd_protocolId job = [] then None else settings_of (jd_protocolId job) w);
          premium = (1 \<le> job_tier job);
          result = (\<lambda>token. \<lparr>ts_customBotToken = token,
            ts_groupChatId = (if premium then Option.bind settings ps_telegramGroupChatId else None),
            ts_messageThreadId = (if premium \<and> jd_category job \<noteq> []
              then Option.bind (Option.bind settings ps_telegramThreadIds) (\<lambda>m. map_of m (jd_category job)) else None),
            ts_botUsername = Option.bind settings ps_telegramBotUsername,
            ts_trackEngagement = (case settings of None \<Rightarrow> False | Some s \<Rightarrow> ps_trackEngagement s),
            ts_autoPin = (case settings of None \<Rightarrow> False | Some s \<Rightarrow> ps_telegramAutoPinEnabled s)\<rparr>)
      in case (if premium then Option.bind settings ps_telegramBotTokenEncrypted else None) of
           None \<Rightarrow> Inr (result None)
         | Some c \<Rightarrow> (case de_decryptToken E of
               None \<Rightarrow> Inr (result None)
             | Some decrypt \<Rightarrow> map_sum id (result \<circ> Some) (decrypt c)))"

definition protocol_mute_key :: "string \<Rightarrow> string \<Rightarrow> string" where
  "protocol_mute_key chatId protocolId = ''tg:mute:'' @ chatId @ '':'' @ protocolId"

definition category_mute_key :: "string \<Rightarrow> string \<Rightarrow> string" where
  "category_mute_key chatId category = ''tg:mute_cat:'' @ chatId @ '':'' @ category"

definition group_sent_key :: "string \<Rightarrow> string \<Rightarrow> string" where
  "group_sent_key notificationId groupChatId = ''tg:group_sent:'' @ notificationId @ '':'' @ groupChatId"

definition telegram_params_of ::
  "dispatch_env \<Rightarrow> job_data \<Rightarrow> protocol_asset list \<Rightarrow> telegram_settings \<Rightarrow> string \<Rightarrow> string option \<Rightarrow> telegram_params" where
  "telegram_params_of E job assets ts chatId token = \<lparr>tq_chatId = chatId, tq_protocolName = jd_protocolName job,
     tq_protocolId = Some (jd_protocolId job), tq_subject = jd_subject job, tq_body = jd_body job,
     tq_category = jd_category job, tq_notificationId = jd_notificationId job, tq_tier = jd_tier job,
     tq_templateId = jd_telegramTemplateId job, tq_templateVariables = jd_templateVariables job,
     tq_bannerUrl = asset_url ''banner'' assets, tq_videoUrl = asset_url ''video'' assets, tq_customBotToken = token,
     tq_messageThreadId = ts_messageThreadId ts, tq_priority = jd_priority job,
     tq_trackEngagement = ts_trackEngagement ts, tq_trackingBaseUrl = de_trackingBaseUrl E\<rparr>"

text \<open>
  Delivery to the subscriber: by the protocol's bot when the chat has started it, else by Herald's bot,
  with a prompt where there is a bot to move to.
\<close>

definition send_individual ::
  "'r redis_api \<Rightarrow> millis \<Rightarrow> dispatch_env \<Rightarrow> string \<Rightarrow> job_data \<Rightarrow> protocol_asset list \<Rightarrow> telegram_settings \<Rightarrow> 'r world
   \<Rightarrow> (string, 'r world) handled" where
  "send_individual R now E chatId job assets ts w =
     (if truthy (ts_customBotToken ts) \<and> truthy (ts_botUsername ts)
      then if isMigrated R now chatId (jd_protocolId job) w
           then sendNotification R now (de_telegram E) (telegram_params_of E job assets ts chatId (ts_customBotToken ts)) w
           else and_then (sendNotification R now (de_telegram E) (telegram_params_of E job assets ts chatId None) w) (\<lambda>i w1.
             ok i (sendSinglePrompt R now (de_telegram E) chatId (jd_protocolId job) (the (ts_botUsername ts)) (jd_protocolName job) w1))
      else sendNotification R now (de_telegram E) (telegram_params_of E job assets ts chatId None) w)"

definition should_pin :: "telegram_settings \<Rightarrow> job_data \<Rightarrow> bool" where
  "should_pin ts job = (ts_autoPin ts
     \<and> (jd_category job = ''security'' \<or> jd_priority job = Some Critical \<or> jd_priority job = Some Important))"

text \<open>
  Delivery to the group: once per notification. A failed send is ignored; the mark that it was sent is
  not: without Redis the handler throws after the message is out.
\<close>

definition send_group ::
  "'r redis_api \<Rightarrow> millis \<Rightarrow> dispatch_env \<Rightarrow> job_data \<Rightarrow> protocol_asset list \<Rightarrow> telegram_settings \<Rightarrow> string \<Rightarrow> 'r world
   \<Rightarrow> (unit, 'r world) handled" where
  "send_group R now E job assets ts groupChatId w =
     (let key = group_sent_key (jd_notificationId job) groupChatId
      in if get_quiet R now key w \<noteq> None then ok () w
         else case sendNotification R now (de_telegram E) (telegram_params_of E job assets ts groupChatId (ts_customBotToken ts)) w of
                (Inl _, w1) \<Rightarrow> ok () w1
              | (Inr messageId, w1) \<Rightarrow>
                  if \<not> w_redisUp w1 then throw redis_error w1
                  else let w2 = setex_quiet R now key ''1'' 86400 w1;
                           w3 = setex_quiet R now (''tg:gmsg:'' @ groupChatId @ '':'' @ messageId) (jd_notificationId job) (7 * 86400) w2
                       in ok () (if should_pin ts job
                                 then pinGroupMessage (de_telegram E) groupChatId messageId (ts_customBotToken ts) w3 else w3))"

definition rename_blocked :: "string \<Rightarrow> string" where
  "rename_blocked e = (if e = ''BOT_BLOCKED'' then ''bot_blocked_by_user'' else e)"

definition deliverTelegram ::
  "'r redis_api \<Rightarrow> millis \<Rightarrow> dispatch_env \<Rightarrow> string \<Rightarrow> job_data \<Rightarrow> protocol_asset list \<Rightarrow> 'r world \<Rightarrow> outcome \<times> 'r world" where
  "deliverTelegram R now E chatId job assets w =
     settle Telegram rename_blocked (and_then (lift_result (telegram_settings_of E job w) w) (\<lambda>ts w1.
       if get_quiet R now (protocol_mute_key chatId (jd_protocolId job)) w1 \<noteq> None
       then ok (failed_outcome (Some Telegram) ''muted_by_user'') w1
       else if get_quiet R now (category_mute_key chatId (jd_category job)) w1 \<noteq> None
       then ok (failed_outcome (Some Telegram) (''muted_category:'' @ jd_category job)) w1
       else and_then (send_individual R now E chatId job assets ts w1) (\<lambda>messageId w2.
         and_then (if truthy (ts_groupChatId ts) then send_group R now E job assets ts (the (ts_groupChatId ts)) w2 else ok () w2) (\<lambda>_.
           ok (success_outcome Telegram (Some messageId) ''telegram_bot_api'')))))"

section \<open>SMS\<close>

definition sendSms ::
  "dispatch_env \<Rightarrow> string \<Rightarrow> string \<Rightarrow> string \<Rightarrow> string \<Rightarrow> 'r world \<Rightarrow> (string, 'r world) handled" where
  "sendSms E phone protocolName subject body w =
     (case de_sms_api E of
        None \<Rightarrow> throw (JsError ''AWS SNS not initialized'') w
      | Some api \<Rightarrow>
          let message = sm_body (buildSmsBody protocolName subject body);
              w1 = w\<lparr>w_sent := w_sent w @ [SentSms phone message (de_senderId E)]\<rparr>
          in and_then (lift_result (api (length (w_sent w)) phone message) w1) (\<lambda>messageId w2.
               if truthy messageId then ok (the messageId) w2 else throw (JsError ''SNS returned no MessageId'') w2))"

definition deliverSms :: "dispatch_env \<Rightarrow> string \<Rightarrow> job_data \<Rightarrow> 'r world \<Rightarrow> outcome \<times> 'r world" where
  "deliverSms E phone job w =
     settle Sms id (and_then (sendSms E phone (jd_protocolName job) (jd_subject job) (jd_body job) w) (\<lambda>i.
       ok (success_outcome Sms (Some i) ''aws_sns'')))"

section \<open>Dispatch\<close>

text \<open>A transaction: a delivery refers to its notification, without which no row is written (and a warning is).\<close>

definition delivery_row :: "millis \<Rightarrow> string \<Rightarrow> outcome \<Rightarrow> channel_delivery" where
  "delivery_row now notificationId x = \<lparr>cd_notificationId = notificationId, cd_channel = oc_channel x, cd_success = oc_success x,
     cd_messageId = oc_messageId x, cd_provider = oc_provider x, cd_error = oc_error x,
     cd_deliveredAt = (if oc_success x then Some now else None)\<rparr>"

definition persistChannelDeliveries :: "millis \<Rightarrow> string \<Rightarrow> outcome list \<Rightarrow> 'r world \<Rightarrow> 'r world" where
  "persistChannelDeliveries now notificationId outcomes w =
     (if exists_row (\<lambda>n. nt_id n = notificationId) (w_notifications w)
      then w\<lparr>w_channelDeliveries := w_channelDeliveries w @ map (delivery_row now notificationId) outcomes\<rparr> else w)"

definition deliver_if :: "bool \<Rightarrow> ('w \<Rightarrow> outcome \<times> 'w) \<Rightarrow> outcome list \<times> 'w \<Rightarrow> outcome list \<times> 'w" where
  "deliver_if b f r = (if b then let (x, w) = f (snd r) in (fst r @ [x], w) else r)"

definition deliver_channels ::
  "'r redis_api \<Rightarrow> millis \<Rightarrow> dispatch_env \<Rightarrow> channels \<Rightarrow> job_data \<Rightarrow> 'r world \<Rightarrow> outcome list \<times> 'r world" where
  "deliver_channels R now E c job w =
     (let allowed = resolveAllowedChannels c job; assets = fetchProtocolAssets (jd_protocolId job) w
      in deliver_if (Sms \<in> set allowed \<and> truthy (ch_phone c)) (deliverSms E (the (ch_phone c)) job)
         (deliver_if (Telegram \<in> set allowed \<and> truthy (ch_telegramChatId c))
            (deliverTelegram R now E (the (ch_telegramChatId c)) job assets)
         (deliver_if (Email \<in> set allowed \<and> truthy (ch_email c)) (deliverEmail E now (the (ch_email c)) job assets)
            ([], w))))"

definition dispatch ::
  "'r redis_api \<Rightarrow> millis \<Rightarrow> dispatch_env \<Rightarrow> channels \<Rightarrow> job_data \<Rightarrow> 'r world \<Rightarrow> dispatch_result \<times> 'r world" where
  "dispatch R now E c job w =
     (let (outcomes, w1) = deliver_channels R now E c job w; successCount = length (filter oc_success outcomes)
      in if outcomes = [] then (\<lparr>dr_outcomes = [], dr_totalChannels = 0, dr_successCount = 0, dr_allDelivered = False\<rparr>, w1)
         else (\<lparr>dr_outcomes = outcomes, dr_totalChannels = length outcomes, dr_successCount = successCount,
                dr_allDelivered = (successCount = length outcomes)\<rparr>,
               persistChannelDeliveries now (jd_notificationId job) outcomes w1))"

section \<open>Facts: which channels\<close>

lemma in_registered [simp]:
  "x \<in> set (registered_channels c tier) \<longleftrightarrow>
     (case x of Email \<Rightarrow> truthy (ch_email c) | Telegram \<Rightarrow> truthy (ch_telegramChatId c) \<and> 1 \<le> tier
              | Sms \<Rightarrow> truthy (ch_phone c) \<and> 1 \<le> tier)"
  by (cases x) (auto simp: registered_channels_def)

text \<open>The channels a job asks for: the preferred one, or the listed ones, or all.\<close>

definition asked_for :: "job_data \<Rightarrow> channel \<Rightarrow> bool" where
  "asked_for job x = (case explicit_channels job of None \<Rightarrow> True | Some cs \<Rightarrow> x \<in> set cs)"

lemma resolve_set:
  "x \<in> set (resolveAllowedChannels c job) \<longleftrightarrow>
     x \<in> set (registered_channels c (job_tier job)) \<and> x \<notin> set (excluded_channels job)
     \<and> (asked_for job x \<or> (x = Sms \<and> sms_escalates c job))"
proof (cases "registered_channels c (job_tier job) = []")
  case True
  then have "x \<notin> set (registered_channels c (job_tier job))" by simp
  then show ?thesis using True by (simp add: resolveAllowedChannels_def)
next
  case False
  have esc: "sms_escalates c job \<Longrightarrow> Sms \<in> set (registered_channels c (job_tier job)) \<and> Sms \<notin> set (excluded_channels job)"
    by (auto simp: sms_escalates_def)
  show ?thesis
    using False esc
    by (auto simp: resolveAllowedChannels_def asked_for_def Let_def simp del: in_registered split: option.splits)
qed

lemma resolve_sorted: "sorted (resolveAllowedChannels c job)"
  by (simp add: resolveAllowedChannels_def Let_def)

lemma resolve_truthy:
  "Email \<in> set (resolveAllowedChannels c job) \<Longrightarrow> truthy (ch_email c)"
  "Telegram \<in> set (resolveAllowedChannels c job) \<Longrightarrow> truthy (ch_telegramChatId c)"
  "Sms \<in> set (resolveAllowedChannels c job) \<Longrightarrow> truthy (ch_phone c)"
  by (simp_all add: resolve_set)

section \<open>Facts: what goes out\<close>

fun sent_channel :: "sent \<Rightarrow> channel option" where
  "sent_channel (SentMail m) = Some Email"
| "sent_channel (SentTelegram m) = Some Telegram"
| "sent_channel (SentPin c i t) = Some Telegram"
| "sent_channel (SentSms p m s) = Some Sms"
| "sent_channel (SentReceipt q) = None"
| "sent_channel (SentChain i k) = None"
| "sent_channel (SentHelioCancel i) = None"
| "sent_channel (SentAnswer t i x) = None"
| "sent_channel (SentLeave t c) = None"
| "sent_channel (SentPost u h b) = None"

text \<open>
  From \<open>w\<close> to \<open>w'\<close> only requests of the channels in \<open>C\<close> went out; besides the log, only Redis, the
  template cache and the tracking flag of notifications may have changed.
\<close>

definition untracked :: "notification list \<Rightarrow> notification list" where
  "untracked ns = map (\<lambda>n. n\<lparr>nt_trackingEnabled := False\<rparr>) ns"

definition only_on :: "channel set \<Rightarrow> 'r world \<Rightarrow> 'r world \<Rightarrow> bool" where
  "only_on C w w' \<longleftrightarrow> (\<exists>xs r ns tc. w' = w\<lparr>w_redis := r, w_notifications := ns, w_sent := w_sent w @ xs, w_templateCache := tc\<rparr>
     \<and> untracked ns = untracked (w_notifications w) \<and> (\<forall>x \<in> set xs. \<exists>c \<in> C. sent_channel x = Some c))"

lemma only_onI:
  assumes "w' = w\<lparr>w_redis := r, w_notifications := ns, w_sent := w_sent w @ xs, w_templateCache := tc\<rparr>"
    and "untracked ns = untracked (w_notifications w)" "\<forall>x \<in> set xs. \<exists>c \<in> C. sent_channel x = Some c"
  shows "only_on C w w'"
  using assms unfolding only_on_def by blast

lemma only_on_redis: "only_on C w (w\<lparr>w_redis := r\<rparr>)"
  by (rule only_onI [where xs = "[]" and r = r and ns = "w_notifications w" and tc = "w_templateCache w"]) simp_all

lemma only_on_cache: "only_on C w (w\<lparr>w_templateCache := tc\<rparr>)"
  by (rule only_onI [where xs = "[]" and r = "w_redis w" and ns = "w_notifications w" and tc = tc]) simp_all

lemma only_on_send: "sent_channel x = Some c \<Longrightarrow> c \<in> C \<Longrightarrow> only_on C w (w\<lparr>w_sent := w_sent w @ [x]\<rparr>)"
  by (rule only_onI [where xs = "[x]" and r = "w_redis w" and ns = "w_notifications w" and tc = "w_templateCache w"]) auto

lemma only_on_refl [simp, intro]: "only_on C w w"
  using only_on_redis [of C w "w_redis w"] by simp

lemma only_on_notifications:
  "untracked ns = untracked (w_notifications w) \<Longrightarrow> only_on C w (w\<lparr>w_notifications := ns\<rparr>)"
  by (rule only_onI [where xs = "[]" and r = "w_redis w" and ns = ns and tc = "w_templateCache w"]) simp_all

lemma only_on_trans:
  assumes "only_on C u v" "only_on C v w"
  shows "only_on C u w"
proof -
  obtain xs r ns tc where v: "v = u\<lparr>w_redis := r, w_notifications := ns, w_sent := w_sent u @ xs, w_templateCache := tc\<rparr>"
      "untracked ns = untracked (w_notifications u)" "\<forall>x \<in> set xs. \<exists>c \<in> C. sent_channel x = Some c"
    using assms(1) unfolding only_on_def by blast
  obtain xs' r' ns' tc' where w: "w = v\<lparr>w_redis := r', w_notifications := ns', w_sent := w_sent v @ xs', w_templateCache := tc'\<rparr>"
      "untracked ns' = untracked (w_notifications v)" "\<forall>x \<in> set xs'. \<exists>c \<in> C. sent_channel x = Some c"
    using assms(2) unfolding only_on_def by blast
  show ?thesis
    by (rule only_onI [where xs = "xs @ xs'" and r = r' and ns = ns' and tc = tc']) (use v w in auto)
qed

lemma only_on_mono:
  assumes "only_on C u v" "C \<subseteq> D"
  shows "only_on D u v"
proof -
  obtain xs r ns tc where v: "v = u\<lparr>w_redis := r, w_notifications := ns, w_sent := w_sent u @ xs, w_templateCache := tc\<rparr>"
      "untracked ns = untracked (w_notifications u)" "\<forall>x \<in> set xs. \<exists>c \<in> C. sent_channel x = Some c"
    using assms(1) unfolding only_on_def by blast
  then show ?thesis using assms(2) by (intro only_onI [OF v(1,2)]) blast
qed

text \<open>What a dispatch leaves alone.\<close>

lemma only_on_frame:
  assumes "only_on C w w'"
  shows "w_redisUp w' = w_redisUp w" "w_channelDeliveries w' = w_channelDeliveries w" "w_protocols w' = w_protocols w"
    "w_subscriptions w' = w_subscriptions w" "w_digest w' = w_digest w" "w_webhookJobs w' = w_webhookJobs w"
    "w_suppressions w' = w_suppressions w" "w_settings w' = w_settings w" "w_webhooks w' = w_webhooks w"
    "untracked (w_notifications w') = untracked (w_notifications w)"
  using assms unfolding only_on_def by auto

lemma only_on_log:
  assumes "only_on C w w'"
  obtains xs where "w_sent w' = w_sent w @ xs" "\<forall>x \<in> set xs. \<exists>c \<in> C. sent_channel x = Some c"
  using assms unfolding only_on_def by auto

lemma only_on_and_then:
  assumes "only_on C w (snd r)" and "\<And>a v. only_on C v (snd (k a v))"
  shows "only_on C w (snd (and_then r k))"
proof (cases r)
  case (Pair a v)
  then show ?thesis
    using assms only_on_trans [of C w v] by (cases a) (auto simp: flow_simps)
qed

lemma only_on_ok [simp]: "only_on C w (snd (ok a w))"
  and only_on_throw [simp]: "only_on C w (snd (throw e w))"
  by (simp_all add: ok_def throw_def)

lemma setex_quiet_on: "only_on C w (setex_quiet R now k v n w)"
  by (simp add: setex_quiet_def only_on_redis)

lemma rateLimit_on: "only_on C w (rateLimit R now chat w)"
  by (simp add: rateLimit_def Let_def only_on_redis split: prod.split)

lemma render_on: "only_on C w (snd (render env p w))"
proof -
  obtain src key st sp where src: "choose_source env p w = (src, key, st, sp)" by (cases "choose_source env p w") auto
  obtain t w1 where t: "getCompiledTemplate (expand_unsubscribe src) w = (t, w1)" by fastforce
  have "only_on C w (snd (getCompiledTemplate (expand_unsubscribe src) w))"
    by (simp add: getCompiledTemplate_def only_on_cache split: option.split)
  then show ?thesis
    by (simp add: render_def src t Let_def and_then_def lift_result_def ok_def split: sum.split)
qed

lemma untracked_update: "untracked (updateMany q (\<lambda>n. n\<lparr>nt_trackingEnabled := b\<rparr>) ns) = untracked ns"
  unfolding untracked_def by (rule map_updateMany) simp

lemma track_notification_on: "only_on C w (snd (update_notification i (\<lambda>n. n\<lparr>nt_trackingEnabled := True\<rparr>) w))"
  by (simp add: update_notification_def flow_simps only_on_notifications untracked_update)

lemma tg_request_on: "only_on {Telegram} w (snd (tg_request env m w))"
  by (simp add: tg_request_def only_on_send)

lemma send_parts_on: "only_on {Telegram} w (snd (send_parts R now env m chunks i n x w))"
proof (induction n arbitrary: i x w)
  case (Suc n)
  let ?part = "m\<lparr>tm_text := part_text chunks i, tm_buttons := (if n = 0 then tm_buttons m else [])\<rparr>"
  let ?v = "rateLimit R now (tm_chat m) w"
  obtain r w1 where r: "tg_request env ?part ?v = (r, w1)" by fastforce
  have "only_on {Telegram} ?v w1" using tg_request_on [of ?v env ?part] r by simp
  then have first: "only_on {Telegram} w w1" by (rule only_on_trans [OF rateLimit_on])
  then show ?case
  proof (cases r)
    case (TgSent y)
    show ?thesis using r TgSent only_on_trans [OF first Suc.IH] by simp
  qed (use r first in simp)
qed simp

lemma deliver_message_on: "only_on {Telegram} w (snd (deliver_message R now env m t w))"
  unfolding deliver_message_def Let_def
  by (auto intro: only_on_trans [OF rateLimit_on tg_request_on] only_on_trans [OF rateLimit_on send_parts_on])

lemma sendNotification_on: "only_on {Telegram} w (snd (sendNotification R now env p w))"
proof -
  obtain t m where m: "message_of env p w = (t, m)" by fastforce
  obtain r w1 where r: "deliver_message R now env m t w = (r, w1)" by fastforce
  then have w1: "only_on {Telegram} w w1" using deliver_message_on [of w R now env m t] by simp
  then have "only_on {Telegram} w (w1\<lparr>w_redis := x\<rparr>)" for x by (rule only_on_trans [OF _ only_on_redis])
  with w1 show ?thesis by (cases r) (simp_all add: sendNotification_def m r flow_simps)
qed

lemma sendSinglePrompt_on: "only_on {Telegram} w (sendSinglePrompt R now env chat pid u n w)"
proof -
  obtain r w1 where r: "tg_request env (prompt_message chat pid u n) w = (r, w1)" by fastforce
  then have w1: "only_on {Telegram} w w1" using tg_request_on [of w env "prompt_message chat pid u n"] by simp
  then have "only_on {Telegram} w (markPrompted R now chat pid w1)"
    unfolding markPrompted_def by (rule only_on_trans [OF _ setex_quiet_on])
  with w1 show ?thesis by (cases r) (simp_all add: sendSinglePrompt_def r)
qed

lemma send_individual_on: "only_on {Telegram} w (snd (send_individual R now E chat job assets ts w))"
  unfolding send_individual_def
  using sendSinglePrompt_on by (auto simp: ok_def intro!: only_on_and_then sendNotification_on)

lemma pinGroupMessage_on: "only_on {Telegram} w (pinGroupMessage env chat i t w)"
  by (simp add: pinGroupMessage_def only_on_send)

lemma send_group_on: "only_on {Telegram} w (snd (send_group R now E job assets ts g w))"
proof -
  obtain r w1 where r: "sendNotification R now (de_telegram E) (telegram_params_of E job assets ts g (ts_customBotToken ts)) w = (r, w1)"
    by fastforce
  then have w1: "only_on {Telegram} w w1" using sendNotification_on [of w R now "de_telegram E"] by (metis snd_conv)
  define w3 where "w3 i = setex_quiet R now (''tg:gmsg:'' @ g @ '':'' @ i) (jd_notificationId job) (7 * 86400)
      (setex_quiet R now (group_sent_key (jd_notificationId job) g) ''1'' 86400 w1)" for i
  have w3: "only_on {Telegram} w (w3 i)" for i
    unfolding w3_def by (intro only_on_trans [OF _ setex_quiet_on] w1)
  show ?thesis
  proof (cases r)
    case (Inl e)
    then show ?thesis using r w1 by (simp add: send_group_def Let_def flow_simps)
  next
    case (Inr i)
    then show ?thesis
      using r w1 w3 [of i] only_on_trans [OF w3 [of i] pinGroupMessage_on]
      by (simp add: send_group_def Let_def flow_simps w3_def)
  qed
qed

lemma settle_state: "snd (settle c f r) = snd r"
  by (cases r) (simp add: settle_def split: sum.split)

lemma deliverTelegram_on: "only_on {Telegram} w (snd (deliverTelegram R now E chat job assets w))"
  unfolding deliverTelegram_def settle_state
proof (rule only_on_and_then)
  show "only_on {Telegram} w (snd (lift_result (telegram_settings_of E job w) w))" by (simp add: lift_result_def)
  fix ts and v :: "'a world"
  have group: "only_on {Telegram} u (snd (if truthy (ts_groupChatId ts)
      then send_group R now E job assets ts (the (ts_groupChatId ts)) u else ok () u))" for u :: "'a world"
    by (simp add: send_group_on ok_def)
  have "only_on {Telegram} v (snd (and_then (send_individual R now E chat job assets ts v) (\<lambda>messageId w2.
         and_then (if truthy (ts_groupChatId ts) then send_group R now E job assets ts (the (ts_groupChatId ts)) w2 else ok () w2) (\<lambda>_.
           ok (success_outcome Telegram (Some messageId) ''telegram_bot_api'')))))"
    by (intro only_on_and_then send_individual_on group) (simp add: ok_def)
  then show "only_on {Telegram} v (snd (if get_quiet R now (protocol_mute_key chat (jd_protocolId job)) v \<noteq> None
       then ok (failed_outcome (Some Telegram) ''muted_by_user'') v
       else if get_quiet R now (category_mute_key chat (jd_category job)) v \<noteq> None
       then ok (failed_outcome (Some Telegram) (''muted_category:'' @ jd_category job)) v
       else and_then (send_individual R now E chat job assets ts v) (\<lambda>messageId w2.
         and_then (if truthy (ts_groupChatId ts) then send_group R now E job assets ts (the (ts_groupChatId ts)) w2 else ok () w2) (\<lambda>_.
           ok (success_outcome Telegram (Some messageId) ''telegram_bot_api'')))))"
    by (simp add: ok_def)
qed

lemma sendSms_on: "only_on {Sms} w (snd (sendSms E phone n t b w))"
proof (cases "de_sms_api E")
  case (Some api)
  let ?m = "sm_body (buildSmsBody n t b)"
  let ?w = "w\<lparr>w_sent := w_sent w @ [SentSms phone ?m (de_senderId E)]\<rparr>"
  have "only_on {Sms} w ?w" by (rule only_on_send) simp_all
  then show ?thesis
    unfolding sendSms_def Some option.case Let_def by (intro only_on_and_then) (simp_all add: lift_result_def)
qed (simp add: sendSms_def)

lemma deliverSms_on: "only_on {Sms} w (snd (deliverSms E phone job w))"
  unfolding deliverSms_def settle_state by (intro only_on_and_then sendSms_on) simp

lemma deliverEmail_on: "only_on {Email} w (snd (deliverEmail E now email job assets w))"
proof (cases "suppression_of (jd_walletHash job) w")
  case (Some s)
  then show ?thesis by (simp add: deliverEmail_def)
next
  case None
  have mail: "only_on {Email} v (snd (send_mail E m v))" for m and v :: "'a world"
    by (simp add: send_mail_def only_on_send)
  have marked: "only_on {Email} v (snd (send_mail E m
      (if b then snd (swallow (update_notification i (\<lambda>n. n\<lparr>nt_trackingEnabled := True\<rparr>) v)) else v)))"
    for m b i and v :: "'a world"
    using only_on_trans [OF track_notification_on mail] mail by (simp add: swallow_def)
  show ?thesis
    unfolding deliverEmail_def None option.case Let_def settle_state
    by (intro only_on_and_then render_on marked) (simp split: prod.split)
qed

section \<open>Facts: the outcomes\<close>

lemma settle_channel:
  "(\<And>x v. r = (Inr x, v) \<Longrightarrow> oc_channel x = Some c) \<Longrightarrow> oc_channel (fst (settle c f r)) = Some c"
  by (cases r) (auto simp: settle_def failed_outcome_def split: sum.split)

lemma and_then_result:
  assumes "and_then r k = (Inr x, v)"
  obtains a u where "r = (Inr a, u)" "k a u = (Inr x, v)"
  using assms by (cases r; cases "fst r") (auto simp: flow_simps)

lemma deliverEmail_channel: "oc_channel (fst (deliverEmail E now email job assets w)) = Some Email"
proof (cases "suppression_of (jd_walletHash job) w")
  case (Some s)
  then show ?thesis by (simp add: deliverEmail_def failed_outcome_def)
next
  case None
  show ?thesis
    unfolding deliverEmail_def None option.case Let_def
    by (rule settle_channel) (auto simp: ok_def success_outcome_def elim!: and_then_result split: prod.splits)
qed

lemma deliverTelegram_channel: "oc_channel (fst (deliverTelegram R now E chat job assets w)) = Some Telegram"
  unfolding deliverTelegram_def
  by (rule settle_channel)
    (auto simp: ok_def success_outcome_def failed_outcome_def elim!: and_then_result split: if_splits)

lemma deliverSms_channel: "oc_channel (fst (deliverSms E phone job w)) = Some Sms"
  unfolding deliverSms_def
  by (rule settle_channel) (auto simp: ok_def success_outcome_def elim!: and_then_result)

text \<open>One delivery more: its outcome is appended, its requests are on its channel.\<close>

definition settled_on :: "channel list \<Rightarrow> 'r world \<Rightarrow> outcome list \<times> 'r world \<Rightarrow> bool" where
  "settled_on cs w r \<longleftrightarrow> map oc_channel (fst r) = map Some cs \<and> only_on (set cs) w (snd r)"

lemma deliver_if_settled:
  assumes "settled_on cs w r" and "\<And>v. oc_channel (fst (f v)) = Some c" "\<And>v. only_on {c} v (snd (f v))"
  shows "settled_on (cs @ (if b then [c] else [])) w (deliver_if b f r)"
proof (cases b)
  case True
  obtain x v where f: "f (snd r) = (x, v)" by fastforce
  have "only_on {c} (snd r) v" using assms(3) [of "snd r"] f by simp
  then have second: "only_on (set cs \<union> {c}) (snd r) v" by (rule only_on_mono) simp
  have "only_on (set cs) w (snd r)" using assms(1) by (simp add: settled_on_def)
  then have "only_on (set cs \<union> {c}) w (snd r)" by (rule only_on_mono) auto
  from this second have "only_on (set cs \<union> {c}) w v" by (rule only_on_trans)
  then show ?thesis using assms(1) assms(2) [of "snd r"] True f by (simp add: settled_on_def deliver_if_def)
qed (use assms(1) in \<open>simp add: deliver_if_def\<close>)

definition delivered_channels :: "channels \<Rightarrow> job_data \<Rightarrow> channel list" where
  "delivered_channels c job = filter (\<lambda>x. x \<in> set (resolveAllowedChannels c job)) [Email, Telegram, Sms]"

lemma deliver_channels_settled: "settled_on (delivered_channels c job) w (deliver_channels R now E c job w)"
proof -
  let ?A = "set (resolveAllowedChannels c job)" and ?assets = "fetchProtocolAssets (jd_protocolId job) w"
  have 0: "settled_on [] w ([], w)" by (simp add: settled_on_def)
  note 1 = deliver_if_settled [OF 0, of "deliverEmail E now (the (ch_email c)) job ?assets" Email "Email \<in> ?A \<and> truthy (ch_email c)",
      OF deliverEmail_channel deliverEmail_on]
  note 2 = deliver_if_settled [OF 1, of "deliverTelegram R now E (the (ch_telegramChatId c)) job ?assets" Telegram
      "Telegram \<in> ?A \<and> truthy (ch_telegramChatId c)", OF deliverTelegram_channel deliverTelegram_on]
  note 3 = deliver_if_settled [OF 2, of "deliverSms E (the (ch_phone c)) job" Sms "Sms \<in> ?A \<and> truthy (ch_phone c)",
      OF deliverSms_channel deliverSms_on]
  have "delivered_channels c job = (([] @ (if Email \<in> ?A \<and> truthy (ch_email c) then [Email] else []))
      @ (if Telegram \<in> ?A \<and> truthy (ch_telegramChatId c) then [Telegram] else []))
      @ (if Sms \<in> ?A \<and> truthy (ch_phone c) then [Sms] else [])"
    using resolve_truthy [of c job] by (simp add: delivered_channels_def)
  then show ?thesis using 3 by (simp add: deliver_channels_def Let_def)
qed

lemma delivered_channels_eq:
  "delivered_channels c job = filter (\<lambda>x. x \<in> set (registered_channels c (job_tier job)) \<and> x \<notin> set (excluded_channels job)
     \<and> (asked_for job x \<or> (x = Sms \<and> sms_escalates c job))) [Email, Telegram, Sms]"
  unfolding delivered_channels_def resolve_set ..

text \<open>Two tables equal up to the tracking flag hold the same notifications up to it.\<close>

lemma untracked_find:
  "untracked ns = untracked ms \<Longrightarrow>
     map_option (\<lambda>n. n\<lparr>nt_trackingEnabled := False\<rparr>) (List.find (\<lambda>n. nt_id n = i) ns) =
     map_option (\<lambda>n. n\<lparr>nt_trackingEnabled := False\<rparr>) (List.find (\<lambda>n. nt_id n = i) ms)"
proof (induction ns arbitrary: ms)
  case (Cons n ns)
  then obtain m ms' where ms: "ms = m # ms'" by (cases ms) (auto simp: untracked_def)
  have same: "n\<lparr>nt_trackingEnabled := False\<rparr> = m\<lparr>nt_trackingEnabled := False\<rparr>" "untracked ns = untracked ms'"
    using Cons.prems by (simp_all add: untracked_def ms)
  have "nt_id (n\<lparr>nt_trackingEnabled := False\<rparr>) = nt_id (m\<lparr>nt_trackingEnabled := False\<rparr>)" using same(1) by simp
  then have "nt_id n = nt_id m" by simp
  then show ?case using same Cons.IH [OF same(2)] by (cases "nt_id m = i") (simp_all add: ms)
qed (simp add: untracked_def)

lemma only_on_find:
  assumes "only_on C w w'"
  shows "map_option (\<lambda>n. n\<lparr>nt_trackingEnabled := False\<rparr>) (notification_by_id w' i) =
    map_option (\<lambda>n. n\<lparr>nt_trackingEnabled := False\<rparr>) (notification_by_id w i)"
  unfolding notification_by_id_def by (rule untracked_find [OF only_on_frame(10) [OF assms]])

lemma only_on_exists:
  assumes "only_on C w w'"
  shows "notification_by_id w' i = None \<longleftrightarrow> notification_by_id w i = None"
  using arg_cong [OF only_on_find [OF assms, of i], of "\<lambda>x. x = None"] by simp

lemma dispatch_facts:
  assumes "dispatch R now E c job w = (r, w')" "tried = delivered_channels c job"
  shows "map oc_channel (dr_outcomes r) = map Some tried
     \<and> dr_totalChannels r = length tried
     \<and> dr_successCount r = length (filter oc_success (dr_outcomes r))
     \<and> (dr_allDelivered r \<longleftrightarrow> tried \<noteq> [] \<and> list_all oc_success (dr_outcomes r))
     \<and> w_channelDeliveries w' = w_channelDeliveries w
         @ (if notification_by_id w (jd_notificationId job) = None then []
            else map (delivery_row now (jd_notificationId job)) (dr_outcomes r))
     \<and> (\<exists>v. only_on (set tried) w v \<and> w_sent w' = w_sent v)"
proof -
  obtain outcomes v where d: "deliver_channels R now E c job w = (outcomes, v)" by fastforce
  have settled: "map oc_channel outcomes = map Some tried" "only_on (set tried) w v"
    using deliver_channels_settled [of c job w R now E] by (simp_all add: d settled_on_def assms(2))
  have len: "length outcomes = length tried" using settled(1) map_eq_imp_length_eq by fastforce
  have all: "length (filter oc_success outcomes) = length outcomes \<longleftrightarrow> list_all oc_success outcomes"
    by (metis filter_True length_filter_less less_irrefl list_all_iff)
  note rows = only_on_frame(2) [OF settled(2)]
  show ?thesis
  proof (cases "outcomes = []")
    case True
    then have "tried = []" using len by simp
    with True settled rows assms(1) show ?thesis by (auto simp: dispatch_def d)
  next
    case False
    then have "tried \<noteq> []" using len by auto
    moreover have "w' = persistChannelDeliveries now (jd_notificationId job) outcomes v"
      and r: "r = \<lparr>dr_outcomes = outcomes, dr_totalChannels = length outcomes,
        dr_successCount = length (filter oc_success outcomes),
        dr_allDelivered = (length (filter oc_success outcomes) = length outcomes)\<rparr>"
      using assms(1) False by (auto simp: dispatch_def d Let_def)
    moreover have "\<exists>u. only_on (set tried) w u \<and> w_sent v = w_sent u" using settled(2) by blast
    ultimately show ?thesis
      using settled(1) len all rows only_on_exists [OF settled(2), of "jd_notificationId job"]
      by (cases "notification_by_id w (jd_notificationId job)")
        (auto simp: persistChannelDeliveries_def exists_row_def notification_by_id_def)
  qed
qed

text \<open>C1: What a dispatch does: the channels tried are exactly those the recipient has (Telegram and SMS only
  from tier 1), the job asks for and does not exclude, with SMS added for an important or critical
  message; each is tried once, in the order e-mail, Telegram, SMS, and yields one outcome and, where
  the notification exists, one stored delivery; nothing goes out on any other channel; and the dispatch counts as delivered when
  there was a channel and every one succeeded.\<close>

theorem dispatch_contract:
  "let (r, w') = dispatch R now E c job w;
       tried = filter (\<lambda>x. x \<in> set (registered_channels c (job_tier job)) \<and> x \<notin> set (excluded_channels job)
         \<and> (asked_for job x \<or> (x = Sms \<and> sms_escalates c job))) [Email, Telegram, Sms]
   in map oc_channel (dr_outcomes r) = map Some tried
     \<and> dr_totalChannels r = length tried
     \<and> dr_successCount r = length (filter oc_success (dr_outcomes r))
     \<and> (dr_allDelivered r \<longleftrightarrow> tried \<noteq> [] \<and> list_all oc_success (dr_outcomes r))
     \<and> w_channelDeliveries w' = w_channelDeliveries w
         @ (if notification_by_id w (jd_notificationId job) = None then []
            else map (delivery_row now (jd_notificationId job)) (dr_outcomes r))
     \<and> (\<exists>v. only_on (set tried) w v \<and> w_sent w' = w_sent v)"
  using dispatch_facts [of R now E c job w] unfolding delivered_channels_eq [symmetric] Let_def by (cases "dispatch R now E c job w") simp

section \<open>Facts: refusals and failures\<close>

lemma suppressed_gets_no_mail:
  "suppression_of (jd_walletHash job) w = Some s \<Longrightarrow>
     deliverEmail E now email job assets w = (failed_outcome (Some Email) (''Email suppressed: '' @ es_reason s), w)"
  by (simp add: deliverEmail_def)

lemma muted_chat_gets_nothing:
  assumes "telegram_settings_of E job w = Inr ts"
    and "get_quiet R now (protocol_mute_key chat (jd_protocolId job)) w \<noteq> None
      \<or> get_quiet R now (category_mute_key chat (jd_category job)) w \<noteq> None"
  shows "snd (deliverTelegram R now E chat job assets w) = w \<and> \<not> oc_success (fst (deliverTelegram R now E chat job assets w))"
  using assms by (auto simp: deliverTelegram_def settle_def failed_outcome_def flow_simps)

text \<open>
  Without Redis, a delivery to the subscriber and to the group that both succeeded is reported as failed,
  since the mark of the group message is the one write whose failure is not caught.
\<close>

lemma delivered_but_reported_failed:
  assumes "telegram_settings_of E job w = Inr ts" "truthy (ts_groupChatId ts)" "\<not> w_redisUp w"
    and "send_individual R now E chat job assets ts w = (Inr i, w1)"
    and "sendNotification R now (de_telegram E) (telegram_params_of E job assets ts (the (ts_groupChatId ts)) (ts_customBotToken ts)) w1 = (Inr j, w2)"
  shows "deliverTelegram R now E chat job assets w = (failed_outcome (Some Telegram) ''ECONNREFUSED'', w2)"
proof -
  have "\<not> w_redisUp w1" using send_individual_on [of w R now E chat job assets ts] only_on_frame(1) assms(3,4) by (metis snd_conv)
  moreover from this have "\<not> w_redisUp w2"
    using sendNotification_on [of w1 R now "de_telegram E"] only_on_frame(1) assms(5) by (metis snd_conv)
  ultimately show ?thesis
    using assms by (simp add: deliverTelegram_def send_group_def settle_def get_quiet_def rename_blocked_def flow_simps)
qed

definition sample_dispatch_env :: dispatch_env where
  "sample_dispatch_env = \<lparr>de_template = sample_template_env,
     de_telegram = \<lparr>tg_enabled = True, tg_maxButtons = 10, tg_api = (\<lambda>_ _. TgSent ''77''), tg_encodeURIComponent = (\<lambda>s. s),
       tg_base64url = (\<lambda>s. s)\<rparr>,
     de_unsub = sample_unsub_env (sample_unsub_payload None None), de_mail_api = (\<lambda>_ _. Inr (Some ''m1'', ''resend'')),
     de_sms_api = Some (\<lambda>_ _ _. Inr (Some ''s1'')), de_senderId = ''Herald'', de_decryptToken = None,
     de_trackingBaseUrl = ''https://api'', de_encodeURIComponent = (\<lambda>s. s), de_base64url = (\<lambda>s. s), de_iso = (\<lambda>_. ''now'')\<rparr>"

text \<open>A link with two query parameters, escaped as \<open>renderHtmlElement\<close> writes it: the tracked target keeps the entity.\<close>

lemma tracked_link_keeps_entity:
  \<open>wrap_links sample_dispatch_env ''p'' ''n'' (renderHtmlElement
      \<lparr>ln_label = ''go'', ln_url = ''https://x.io/?a=1&b=2'', ln_startIndex = 0, ln_endIndex = 0, ln_linkType = UrlLink\<rparr>) =
    ''<a href="https://api/v1/track/click/n?p=p&url=https://x.io/?a=1&amp;b=2">go</a>''\<close>
  by code_simp

end
