(* ===== verification/Metering.thy ===== *)
theory Metering
  imports Gateway_World
begin

text \<open>
  \<open>billing/overage-metering.service.ts\<close>: the send counters of a protocol and of its subscription, kept
  in step by one transaction; a protocol that does not exist aborts it, with a warning only.
\<close>

definition change_counters :: "string \<Rightarrow> (int \<Rightarrow> int) \<Rightarrow> 'r world \<Rightarrow> 'r world" where
  "change_counters protocolId f w =
     (if exists_row (\<lambda>p. pr_id p = protocolId) (w_protocols w)
      then w\<lparr>w_protocols := updateMany (\<lambda>p. pr_id p = protocolId)
               (\<lambda>p. p\<lparr>pr_sendsThisPeriod := f (pr_sendsThisPeriod p)\<rparr>) (w_protocols w),
             w_subscriptions := updateMany (\<lambda>s. sb_protocolId s = protocolId)
               (\<lambda>s. s\<lparr>sb_sendsThisPeriod := f (sb_sendsThisPeriod s)\<rparr>) (w_subscriptions w)\<rparr>
      else w)"

definition incrementSendsThisPeriod :: "string \<Rightarrow> int \<Rightarrow> 'r world \<Rightarrow> 'r world" where
  "incrementSendsThisPeriod protocolId count w = change_counters protocolId (\<lambda>n. n + count) w"

definition resetSendsThisPeriod :: "string \<Rightarrow> 'r world \<Rightarrow> 'r world" where
  "resetSendsThisPeriod protocolId w = change_counters protocolId (\<lambda>_. 0) w"

section \<open>Facts\<close>

definition protocol_sends :: "string \<Rightarrow> 'r world \<Rightarrow> int option" where
  "protocol_sends i w = map_option pr_sendsThisPeriod (List.find (\<lambda>p. pr_id p = i) (w_protocols w))"

lemma change_counters_sends:
  "protocol_sends k (change_counters i f w) = (if k = i then map_option f (protocol_sends k w) else protocol_sends k w)"
proof (cases "exists_row (\<lambda>p. pr_id p = i) (w_protocols w)")
  case True
  have "List.find (\<lambda>p. pr_id p = k) (updateMany (\<lambda>p. pr_id p = i) (\<lambda>p. p\<lparr>pr_sendsThisPeriod := f (pr_sendsThisPeriod p)\<rparr>) (w_protocols w)) =
      (if k = i then map_option (\<lambda>p. p\<lparr>pr_sendsThisPeriod := f (pr_sendsThisPeriod p)\<rparr>) (List.find (\<lambda>p. pr_id p = k) (w_protocols w))
       else List.find (\<lambda>p. pr_id p = k) (w_protocols w))"
    by (rule find_key_update) simp
  with True show ?thesis
    by (simp add: change_counters_def protocol_sends_def option.map_comp comp_def)
next
  case False
  then show ?thesis by (auto simp: change_counters_def protocol_sends_def exists_row_def)
qed

lemma change_counters_frame:
  "w_notifications (change_counters i f w) = w_notifications w" "w_sent (change_counters i f w) = w_sent w"
  "w_redisUp (change_counters i f w) = w_redisUp w" "w_channelDeliveries (change_counters i f w) = w_channelDeliveries w"
  by (simp_all add: change_counters_def)

text \<open>The two counters move together.\<close>

lemma counters_in_step:
  assumes "\<forall>p \<in> set (w_protocols w). \<forall>s \<in> set (w_subscriptions w). sb_protocolId s = pr_id p \<longrightarrow> sb_sendsThisPeriod s = pr_sendsThisPeriod p"
  shows "\<forall>p \<in> set (w_protocols (change_counters i f w)). \<forall>s \<in> set (w_subscriptions (change_counters i f w)).
    sb_protocolId s = pr_id p \<longrightarrow> sb_sendsThisPeriod s = pr_sendsThisPeriod p"
  using assms by (auto simp: change_counters_def set_updateMany)

end
