(* ===== verification/Mail_Worker.thy ===== *)
theory Mail_Worker
  imports Dispatch Metering Routing Webhook
begin

text \<open>
  \<open>queue/workers/mail.worker.ts\<close> with \<open>bufferForDigest\<close> of \<open>notify/digest.service.ts\<close>: one attempt at a
  notification job, in the sandbox and in production, and the attempts of a job as BullMQ makes them
  (again after each that throws, up to the number of attempts the job was added with). The webhook
  events, which the code does not wait for, are queued where they are fired. Arweave, the cipher for the
  portal and the digest row's id are arguments. One attempt has one time.
\<close>

record mail_env =
  me_dispatch :: dispatch_env
  me_fetch :: "string \<Rightarrow> identity option option"
  me_boxOpen :: box_open
  me_privKey :: "bytes option"
  me_enclave :: "enclave_request \<Rightarrow> enclave_response option"
  me_seal :: "bytes \<Rightarrow> string \<Rightarrow> (string \<times> string) option"
  me_portalBody :: "job_data \<Rightarrow> string"
  me_arweave :: "job_data \<Rightarrow> channel \<Rightarrow> string option"
  me_webhookAdd :: "webhook \<Rightarrow> add_outcome"
  me_eventId :: string
  me_digestId :: string

section \<open>Steps\<close>

definition set_status :: "string \<Rightarrow> (notification \<Rightarrow> notification) \<Rightarrow> string \<Rightarrow> 'r world \<Rightarrow> (unit, 'r world) handled" where
  "set_status i f s w = update_notification i (\<lambda>n. (f n)\<lparr>nt_status := s\<rparr>) w"

text \<open>The next full hour (in a zone whose offset is a whole number of hours).\<close>

definition getNextHourlyFlush :: "millis \<Rightarrow> millis" where
  "getNextHourlyFlush now = (now div 3600000 + 1) * 3600000"

text \<open>The body is not stored.\<close>

definition bufferForDigest ::
  "string \<Rightarrow> millis \<Rightarrow> string \<Rightarrow> string \<Rightarrow> string \<Rightarrow> string \<Rightarrow> millis option \<Rightarrow> 'r world \<Rightarrow> 'r world" where
  "bufferForDigest newId now walletHash protocolId subject category scheduledFor w =
     w\<lparr>w_digest := w_digest w @ [\<lparr>dg_id = newId, dg_walletHash = walletHash, dg_protocolId = protocolId,
        dg_subject = subject, dg_category = category, dg_queuedAt = now,
        dg_scheduledFor = nullish scheduledFor (getNextHourlyFlush now), dg_sentAt = None\<rparr>]\<rparr>"

definition email_outcome :: "dispatch_result \<Rightarrow> outcome option" where
  "email_outcome r = List.find (\<lambda>x. oc_channel x = Some Email \<and> oc_success x) (dr_outcomes r)"

definition with_email :: "dispatch_result \<Rightarrow> notification \<Rightarrow> notification" where
  "with_email r n = n\<lparr>nt_sesMessageId := Option.bind (email_outcome r) oc_messageId,
     nt_emailProvider := Option.bind (email_outcome r) oc_provider\<rparr>"

definition delivered_note ::
  "millis \<Rightarrow> string option \<Rightarrow> (string \<times> string) option \<Rightarrow> dispatch_result \<Rightarrow> notification \<Rightarrow> notification" where
  "delivered_note now arweaveId copy result n =
     with_email result (n\<lparr>nt_deliveredAt := Some now, nt_arweaveId := arweaveId, nt_ciphertext := map_option fst copy,
       nt_nonce := map_option snd copy\<rparr>)"

definition partial_note ::
  "millis \<Rightarrow> string option \<Rightarrow> (string \<times> string) option \<Rightarrow> dispatch_result \<Rightarrow> notification \<Rightarrow> notification" where
  "partial_note now arweaveId copy result n = (delivered_note now arweaveId copy result n)\<lparr>nt_errorCode :=
     Some (''PARTIAL_'' @ show_nat (dr_successCount result) @ ''/'' @ show_nat (dr_totalChannels result))\<rparr>"

definition failed_note :: "string \<Rightarrow> notification \<Rightarrow> notification" where
  "failed_note code n = n\<lparr>nt_errorCode := Some code, nt_retryCount := nt_retryCount n + 1\<rparr>"

definition code_note :: "string \<Rightarrow> notification \<Rightarrow> notification" where
  "code_note code n = n\<lparr>nt_errorCode := Some code\<rparr>"

definition fire_event :: "mail_env \<Rightarrow> millis \<Rightarrow> job_data \<Rightarrow> string \<Rightarrow> string \<Rightarrow> 'r world \<Rightarrow> 'r world" where
  "fire_event M now job eventType status w =
     snd (swallow (dispatchEvent (me_webhookAdd M) (me_eventId M) now (jd_protocolId job) eventType
       (Some (jd_notificationId job)) (Some status) w))"

section \<open>The sandbox\<close>

definition processSandbox :: "'r redis_api \<Rightarrow> mail_env \<Rightarrow> millis \<Rightarrow> job_data \<Rightarrow> 'r world \<Rightarrow> (unit, 'r world) handled" where
  "processSandbox R M now job w =
     (let nid = jd_notificationId job
      in case jd_testContact job of
           None \<Rightarrow> set_status nid (code_note ''SANDBOX_NO_TEST_CONTACT'') ''opted_out'' w
         | Some contact \<Rightarrow>
             if \<not> hasAnyChannel contact
             then set_status nid (code_note ''SANDBOX_NO_TEST_CONTACT'') ''opted_out'' w
             else catching
               (let (result, w1) = dispatch R now (me_dispatch M) contact job w
                in if 0 < dr_successCount result
                   then set_status nid (\<lambda>n. with_email result (n\<lparr>nt_deliveredAt := Some now\<rparr>)) ''delivered'' w1
                   else set_status nid (code_note ''SANDBOX_ALL_CHANNELS_FAILED'') ''failed'' w1)
               (\<lambda>_ w1. set_status nid (code_note ''SANDBOX_DELIVERY_ERROR'') ''failed'' w1))"

section \<open>Production\<close>

definition clear_suppression :: "identity \<Rightarrow> channels \<Rightarrow> job_data \<Rightarrow> 'r world \<Rightarrow> 'r world" where
  "clear_suppression idn c job w =
     (if id_channelEmail idn \<and> truthy (ch_email c) \<and> truthy (jd_walletHash job)
      then w\<lparr>w_suppressions := deleteMany (\<lambda>s. es_walletHash s = the (jd_walletHash job)) (w_suppressions w)\<rparr> else w)"

definition primary_channel :: "channels \<Rightarrow> channel" where
  "primary_channel c = (if truthy (ch_email c) then Email else if truthy (ch_telegramChatId c) then Telegram else Sms)"

definition all_failed_error :: "dispatch_result \<Rightarrow> exn" where
  "all_failed_error r = JsError (''All channels failed: '' @ join_with ''; ''
     (map (\<lambda>x. (case oc_channel x of Some c \<Rightarrow> channel_name c | None \<Rightarrow> ''unknown'') @ '': '' @ nullish (oc_error x) ''undefined'')
       (filter (\<lambda>x. \<not> oc_success x) (dr_outcomes r))))"

text \<open>The record of the dispatch; without any success it throws after writing.\<close>

definition record_result ::
  "millis \<Rightarrow> job_data \<Rightarrow> string option \<Rightarrow> (string \<times> string) option \<Rightarrow> dispatch_result \<Rightarrow> 'r world \<Rightarrow> (string, 'r world) handled" where
  "record_result now job arweaveId copy result w =
     (let nid = jd_notificationId job
      in if dr_allDelivered result
         then and_then (set_status nid (delivered_note now arweaveId copy result) ''delivered'' w) (\<lambda>_. ok ''delivered'')
         else if 0 < dr_successCount result
         then and_then (set_status nid (partial_note now arweaveId copy result) ''partial'' w) (\<lambda>_. ok ''partial'')
         else and_then (set_status nid (failed_note ''ALL_CHANNELS_FAILED'') ''failed'' w) (\<lambda>_. throw (all_failed_error result)))"

definition deliver_job :: "'r redis_api \<Rightarrow> mail_env \<Rightarrow> millis \<Rightarrow> job_data \<Rightarrow> identity \<Rightarrow> channels \<Rightarrow> 'r world \<Rightarrow> (unit, 'r world) handled" where
  "deliver_job R M now job idn c w =
     (let (result, w1) = dispatch R now (me_dispatch M) c job (clear_suppression idn c job w)
      in and_then (record_result now job (me_arweave M job (primary_channel c))
             (portal_copy (me_seal M) (me_privKey M) idn (me_portalBody M job)) result w1) (\<lambda>finalStatus w2.
           let w3 = (if 0 < dr_successCount result then incrementSendsThisPeriod (jd_protocolId job) 1 w2 else w2)
           in ok () (fire_event M now job (''notification.'' @ finalStatus) finalStatus w3)))"

text \<open>The body of the \<open>try\<close>.\<close>

definition production_body :: "'r redis_api \<Rightarrow> mail_env \<Rightarrow> millis \<Rightarrow> job_data \<Rightarrow> 'r world \<Rightarrow> (unit, 'r world) handled" where
  "production_body R M now job w =
     (let nid = jd_notificationId job
      in if jd_digestMode job
         then set_status nid id ''digested'' (bufferForDigest (me_digestId M) now (nullish (jd_walletHash job) []) (jd_protocolId job)
                (jd_subject job) (jd_category job) None w)
         else and_then (resolveIdentity R (me_fetch M) now (jd_wallet job) w) (\<lambda>idn w1.
           case idn of
             None \<Rightarrow>
               let user = (if truthy (jd_walletHash job) then portal_user_by_hash (the (jd_walletHash job)) w1 else None)
               in set_status nid (code_note (if truthy (Option.bind user pu_emailHash)
                    then ''PORTAL_FALLBACK_CHANNELS_UNAVAILABLE'' else ''WALLET_NOT_REGISTERED_AT_PROCESSING'')) ''opted_out'' w1
           | Some i \<Rightarrow> and_then (lift_result (decryptAllChannels (me_boxOpen M) (me_privKey M) (me_enclave M) i) w1) (\<lambda>c w2.
               if \<not> hasAnyChannel c
               then set_status nid (code_note ''NO_ACTIVE_CHANNELS'') ''opted_out'' w2
               else deliver_job R M now job i c w2)))"

fun error_code :: "exn \<Rightarrow> string" where
  "error_code (PrismaExn c) = c"
| "error_code _ = ''DELIVERY_FAILED''"

definition processProduction :: "'r redis_api \<Rightarrow> mail_env \<Rightarrow> millis \<Rightarrow> job_data \<Rightarrow> 'r world \<Rightarrow> (unit, 'r world) handled" where
  "processProduction R M now job w =
     catching (production_body R M now job w) (\<lambda>e w1.
       if startsWith (exn_message e) ''All channels failed'' then throw e w1
       else and_then (set_status (jd_notificationId job) (failed_note (error_code e)) ''failed'' w1) (\<lambda>_ w2.
            throw e (fire_event M now job ''notification.failed'' ''failed'' w2)))"

definition process :: "'r redis_api \<Rightarrow> mail_env \<Rightarrow> millis \<Rightarrow> job_data \<Rightarrow> 'r world \<Rightarrow> (unit, 'r world) handled" where
  "process R M now job w =
     and_then (set_status (jd_notificationId job) (\<lambda>n. n\<lparr>nt_processingAt := Some now\<rparr>) ''processing'' w) (\<lambda>_ w1.
       if jd_isSandbox job = Some True then processSandbox R M now job w1 else processProduction R M now job w1)"

text \<open>The attempts at the given times: the next one only after one that threw.\<close>

fun run_attempts :: "'r redis_api \<Rightarrow> mail_env \<Rightarrow> job_data \<Rightarrow> millis list \<Rightarrow> 'r world \<Rightarrow> bool \<times> 'r world" where
  "run_attempts R M job [] w = (False, w)"
| "run_attempts R M job (t # ts) w =
     (case process R M t job w of
        (Inr _, w1) \<Rightarrow> (True, w1)
      | (Inl _, w1) \<Rightarrow> run_attempts R M job ts w1)"

section \<open>Facts: one attempt\<close>

definition status_of :: "'r world \<Rightarrow> string \<Rightarrow> string option" where
  "status_of w i = map_option nt_status (notification_by_id w i)"

lemma set_status_step:
  assumes "status_of w i = Some s0" "keeps_keys f"
  shows "\<exists>w'. set_status i f s w = (Inr (), w') \<and> status_of w' i = Some s \<and> w_protocols w' = w_protocols w"
proof -
  obtain n where n: "notification_by_id w i = Some n" using assms(1) by (auto simp: status_of_def)
  let ?g = "\<lambda>n. (f n)\<lparr>nt_status := s\<rparr>"
  have keeps: "keeps_keys ?g" using assms(2) by (simp add: keeps_keys_def)
  let ?w = "snd (update_notification i ?g w)"
  have "set_status i f s w = (Inr (), ?w)"
    using nt.modify_hit [OF n, of ?g] unfolding set_status_def by (rule pair_of_fst)
  moreover have "notification_by_id ?w i = Some (?g n)" using nt.modify_look [OF n keeps, of i] by simp
  moreover have "w_protocols ?w = w_protocols w" using update_notification_frame [of i ?g w] by auto
  ultimately show ?thesis by (auto simp: status_of_def)
qed

lemma keeps_notes [simp]:
  "keeps_keys id" "keeps_keys (code_note c)" "keeps_keys (failed_note c)" "keeps_keys (delivered_note t a p r)"
  "keeps_keys (partial_note t a p r)" "keeps_keys (\<lambda>n. n\<lparr>nt_processingAt := x\<rparr>)"
  "keeps_keys (\<lambda>n. with_email r (n\<lparr>nt_deliveredAt := x\<rparr>))"
  by (simp_all add: keeps_keys_def with_email_def code_note_def failed_note_def delivered_note_def partial_note_def)

lemma add_webhook_jobs_frame:
  "w_notifications (snd (add_webhook_jobs out p hs w)) = w_notifications w
   \<and> w_protocols (snd (add_webhook_jobs out p hs w)) = w_protocols w"
proof (induction hs arbitrary: w)
  case (Cons h hs)
  let ?add = "\<lambda>w. w\<lparr>w_webhookJobs := w_webhookJobs w @ [\<lparr>wj_webhookId = wh_id h, wj_url = wh_url h, wj_secret = wh_secretHash h, wj_payload = p\<rparr>]\<rparr>"
  obtain r w1 where r: "add_job (out h) ?add w = (r, w1)" by fastforce
  have "w_notifications w1 = w_notifications w \<and> w_protocols w1 = w_protocols w"
    using r by (auto simp: add_job_def flow_simps split: add_outcome.splits if_splits)
  with Cons r show ?case by (cases r) simp_all
qed (simp add: ok_def)

lemma fire_event_frame [simp]:
  "w_notifications (fire_event M now job e s w) = w_notifications w" "w_protocols (fire_event M now job e s w) = w_protocols w"
  by (simp_all add: fire_event_def dispatchEvent_def swallow_def ok_def Let_def add_webhook_jobs_frame)

lemma status_of_cong: "w_notifications w' = w_notifications w \<Longrightarrow> status_of w' i = status_of w i"
  by (simp add: status_of_def notification_by_id_def)

lemma sends_cong: "w_protocols w' = w_protocols w \<Longrightarrow> protocol_sends k w' = protocol_sends k w"
  by (simp add: protocol_sends_def)

lemma status_of_fire_event [simp]: "status_of (fire_event M now job e s w) i = status_of w i"
  by (rule status_of_cong) simp

lemma protocol_sends_fire_event [simp]: "protocol_sends k (fire_event M now job e s w) = protocol_sends k w"
  by (rule sends_cong) simp

lemma status_of_increment [simp]: "status_of (incrementSendsThisPeriod p k w) i = status_of w i"
  by (rule status_of_cong) (simp add: incrementSendsThisPeriod_def change_counters_frame)

lemma clear_suppression_frame [simp]:
  "w_notifications (clear_suppression idn c job w) = w_notifications w" "w_protocols (clear_suppression idn c job w) = w_protocols w"
  by (simp_all add: clear_suppression_def)

lemma only_on_status: "only_on C w w' \<Longrightarrow> status_of w' i = status_of w i"
proof -
  assume "only_on C w w'"
  from only_on_find [OF this, of i] have "map_option nt_status (map_option (\<lambda>n. n\<lparr>nt_trackingEnabled := False\<rparr>) (notification_by_id w' i)) =
      map_option nt_status (map_option (\<lambda>n. n\<lparr>nt_trackingEnabled := False\<rparr>) (notification_by_id w i))" by simp
  then show ?thesis by (simp add: status_of_def option.map_comp comp_def)
qed

lemma dispatch_keeps:
  "status_of (snd (dispatch R now E c job w)) i = status_of w i"
  "w_protocols (snd (dispatch R now E c job w)) = w_protocols w"
proof -
  obtain outcomes v where d: "deliver_channels R now E c job w = (outcomes, v)" by fastforce
  have v: "only_on (set (delivered_channels c job)) w v"
    using deliver_channels_settled [of c job w R now E] by (simp add: d settled_on_def)
  have same: "w_notifications (persistChannelDeliveries t k xs v) = w_notifications v"
    "w_protocols (persistChannelDeliveries t k xs v) = w_protocols v" for t k xs
    by (simp_all add: persistChannelDeliveries_def)
  show "status_of (snd (dispatch R now E c job w)) i = status_of w i"
    using only_on_status [OF v] status_of_cong [OF same(1)] by (simp add: dispatch_def d Let_def)
  show "w_protocols (snd (dispatch R now E c job w)) = w_protocols w"
    using only_on_frame(3) [OF v] same(2) by (simp add: dispatch_def d Let_def)
qed

text \<open>
  How a production attempt ends: delivered in part or whole and counted once, or settled without a
  delivery and not counted, or failed and thrown, not counted.
\<close>

definition settles :: "job_data \<Rightarrow> 'r world \<Rightarrow> (unit, 'r world) handled \<Rightarrow> bool" where
  "settles job w r \<longleftrightarrow>
     (case fst r of
        Inr _ \<Rightarrow>
          (status_of (snd r) (jd_notificationId job) \<in> {Some ''delivered'', Some ''partial''}
           \<and> (\<forall>k. protocol_sends k (snd r) = (if k = jd_protocolId job then map_option (\<lambda>n. n + 1) (protocol_sends k w) else protocol_sends k w)))
          \<or> (status_of (snd r) (jd_notificationId job) \<in> {Some ''opted_out'', Some ''digested''}
             \<and> (\<forall>k. protocol_sends k (snd r) = protocol_sends k w))
      | Inl e \<Rightarrow> status_of (snd r) (jd_notificationId job) = Some ''failed'' \<and> (\<forall>k. protocol_sends k (snd r) = protocol_sends k w))"

lemma settles_from: "w_protocols w' = w_protocols w \<Longrightarrow> settles job w' r \<longleftrightarrow> settles job w r"
proof -
  assume "w_protocols w' = w_protocols w"
  then have "protocol_sends k w' = protocol_sends k w" for k by (rule sends_cong)
  then show ?thesis by (cases "fst r") (simp_all add: settles_def)
qed

lemma all_failed_prefix: "startsWith (exn_message (all_failed_error r)) ''All channels failed''"
  by (simp add: all_failed_error_def startsWith_def)

lemma deliver_job_settles:
  assumes "status_of w (jd_notificationId job) = Some s0"
  shows "settles job w (deliver_job R M now job i c w)"
    and "fst (deliver_job R M now job i c w) = Inl e \<Longrightarrow> startsWith (exn_message e) ''All channels failed''"
proof -
  let ?n = "jd_notificationId job"
  let ?copy = "portal_copy (me_seal M) (me_privKey M) i (me_portalBody M job)" and ?ar = "me_arweave M job (primary_channel c)"
  obtain result w1 where d: "dispatch R now (me_dispatch M) c job (clear_suppression i c job w) = (result, w1)" by fastforce
  have w1: "status_of w1 ?n = Some s0" "w_protocols w1 = w_protocols w"
    using dispatch_keeps [of R now "me_dispatch M" c job "clear_suppression i c job w"] assms
      status_of_cong [of "clear_suppression i c job w" w ?n] by (simp_all add: d)
  have count: "dr_allDelivered result \<Longrightarrow> 0 < dr_successCount result"
    using d by (auto simp: dispatch_def Let_def split: prod.splits if_splits)
  consider (delivered) w2 where "record_result now job ?ar ?copy result w1 = (Inr ''delivered'', w2)" "status_of w2 ?n = Some ''delivered''"
      "w_protocols w2 = w_protocols w" "0 < dr_successCount result"
    | (partial) w2 where "record_result now job ?ar ?copy result w1 = (Inr ''partial'', w2)" "status_of w2 ?n = Some ''partial''"
      "w_protocols w2 = w_protocols w" "0 < dr_successCount result"
    | (failed) w2 where "record_result now job ?ar ?copy result w1 = (Inl (all_failed_error result), w2)"
      "status_of w2 ?n = Some ''failed''" "w_protocols w2 = w_protocols w"
  proof (cases "dr_allDelivered result")
    case True
    obtain w2 where "set_status ?n (delivered_note now ?ar ?copy result) ''delivered'' w1 = (Inr (), w2)"
        "status_of w2 ?n = Some ''delivered''" "w_protocols w2 = w_protocols w1"
      using set_status_step [OF w1(1) keeps_notes(4)] by blast
    then show ?thesis using True w1(2) count by (intro that(1) [of w2]) (simp_all add: record_result_def flow_simps)
  next
    case notall: False
    show ?thesis
    proof (cases "0 < dr_successCount result")
      case True
      obtain w2 where "set_status ?n (partial_note now ?ar ?copy result) ''partial'' w1 = (Inr (), w2)"
          "status_of w2 ?n = Some ''partial''" "w_protocols w2 = w_protocols w1"
        using set_status_step [OF w1(1) keeps_notes(5)] by blast
      then show ?thesis using True notall w1(2) by (intro that(2) [of w2]) (simp_all add: record_result_def flow_simps)
    next
      case False
      obtain w2 where "set_status ?n (failed_note ''ALL_CHANNELS_FAILED'') ''failed'' w1 = (Inr (), w2)"
          "status_of w2 ?n = Some ''failed''" "w_protocols w2 = w_protocols w1"
        using set_status_step [OF w1(1) keeps_notes(3)] by blast
      then show ?thesis using False notall w1(2) by (intro that(3) [of w2]) (simp_all add: record_result_def flow_simps)
    qed
  qed
  note cases = this
  have sends: "protocol_sends k (incrementSendsThisPeriod (jd_protocolId job) 1 w2) =
      (if k = jd_protocolId job then map_option (\<lambda>n. n + 1) (protocol_sends k w) else protocol_sends k w)"
    if "w_protocols w2 = w_protocols w" for k and w2 :: "'a world"
    using sends_cong [OF that] by (simp add: incrementSendsThisPeriod_def change_counters_sends)
  show "settles job w (deliver_job R M now job i c w)"
    using cases
  proof cases
    case (delivered w2)
    then show ?thesis using sends by (simp add: deliver_job_def d settles_def flow_simps)
  next
    case (partial w2)
    then show ?thesis using sends by (simp add: deliver_job_def d settles_def flow_simps)
  next
    case (failed w2)
    then show ?thesis using sends_cong [OF failed(3)] by (simp add: deliver_job_def d settles_def flow_simps)
  qed
  show "startsWith (exn_message e) ''All channels failed''" if "fst (deliver_job R M now job i c w) = Inl e"
    using cases that all_failed_prefix [of result] by cases (auto simp: deliver_job_def d flow_simps)
qed

lemma resolveIdentity_frame:
  "w_notifications (snd (resolveIdentity R fetch now wallet w)) = w_notifications w"
  "w_protocols (snd (resolveIdentity R fetch now wallet w)) = w_protocols w"
  by (simp_all add: resolveIdentity_def flow_simps Let_def split: option.split redis_value.split)

text \<open>A status written without a delivery.\<close>

lemma settles_status:
  assumes "status_of w (jd_notificationId job) = Some s0" "keeps_keys f" "s = ''opted_out'' \<or> s = ''digested''"
  shows "settles job w (set_status (jd_notificationId job) f s w)"
proof -
  obtain w' where w': "set_status (jd_notificationId job) f s w = (Inr (), w')"
      "status_of w' (jd_notificationId job) = Some s" "w_protocols w' = w_protocols w"
    using set_status_step [OF assms(1,2)] by blast
  then show ?thesis using assms(3) sends_cong [OF w'(3)] by (auto simp: settles_def)
qed

lemma settles_cong: "settles job w r \<Longrightarrow> w_protocols w = w_protocols v \<Longrightarrow> settles job v r"
  using settles_from [of w v job r] by simp

lemma resolveIdentity_error:
  "resolveIdentity R fetch now wallet w = (Inl e, w') \<Longrightarrow> e = HttpExn 503 ''REGISTRY_UNAVAILABLE''"
  by (auto simp: resolveIdentity_def flow_simps Let_def split: option.splits redis_value.splits)

lemma decryptAllChannels_error: "decryptAllChannels bo pk enc i = Inl e \<Longrightarrow> e = HttpExn 503 ''ROUTING_UNAVAILABLE''"
  by (auto simp: decryptAllChannels_def enclaveDecryptAll_def split: option.splits if_splits)

text \<open>The body settles, or throws before anything was counted and with the row untouched.\<close>

lemma production_body_cases:
  assumes "status_of w (jd_notificationId job) = Some s0"
  obtains (settled) "settles job w (production_body R M now job w)"
      "\<And>e. fst (production_body R M now job w) = Inl e \<Longrightarrow> startsWith (exn_message e) ''All channels failed''"
  | (thrown) e w1 where "production_body R M now job w = (Inl e, w1)" "status_of w1 (jd_notificationId job) = Some s0"
      "w_protocols w1 = w_protocols w" "\<not> startsWith (exn_message e) ''All channels failed''"
proof -
  let ?n = "jd_notificationId job" and ?b = "production_body R M now job w"
  have quiet: thesis if "w_notifications u = w_notifications w" "w_protocols u = w_protocols w" "keeps_keys f"
      "s = ''opted_out'' \<or> s = ''digested''" "?b = set_status ?n f s u" for f s u
  proof (rule settled)
    have u: "status_of u ?n = Some s0" using assms status_of_cong [OF that(1)] by simp
    show "settles job w ?b" unfolding that(5) by (rule settles_cong [OF settles_status [OF u that(3,4)] that(2)])
    show "startsWith (exn_message e) ''All channels failed''" if "fst ?b = Inl e" for e
      using set_status_step [OF u \<open>keeps_keys f\<close>, of s] that \<open>?b = set_status ?n f s u\<close> by auto
  qed
  show thesis
  proof (cases "jd_digestMode job")
    case True
    then have "?b = set_status ?n id ''digested'' (bufferForDigest (me_digestId M) now (nullish (jd_walletHash job) [])
        (jd_protocolId job) (jd_subject job) (jd_category job) None w)"
      by (simp add: production_body_def)
    then show thesis by (rule quiet [rotated 4]) (simp_all add: bufferForDigest_def)
  next
    case digest: False
    obtain r w1 where r: "resolveIdentity R (me_fetch M) now (jd_wallet job) w = (r, w1)" by fastforce
    have w1: "w_notifications w1 = w_notifications w" "w_protocols w1 = w_protocols w"
      using resolveIdentity_frame [of R "me_fetch M" now "jd_wallet job" w] by (simp_all add: r)
    have st: "status_of w1 ?n = Some s0" using assms status_of_cong [OF w1(1)] by simp
    show thesis
    proof (cases r)
      case (Inl e)
      then have "?b = (Inl e, w1)" using digest by (simp add: production_body_def r)
      moreover have "\<not> startsWith (exn_message e) ''All channels failed''"
        using resolveIdentity_error r Inl by (fastforce simp: startsWith_def)
      ultimately show thesis using st w1(2) by (intro thrown)
    next
      case (Inr idn)
      show thesis
      proof (cases idn)
        case None
        then have "?b = set_status ?n (code_note (if truthy (Option.bind (if truthy (jd_walletHash job)
              then portal_user_by_hash (the (jd_walletHash job)) w1 else None) pu_emailHash)
            then ''PORTAL_FALLBACK_CHANNELS_UNAVAILABLE'' else ''WALLET_NOT_REGISTERED_AT_PROCESSING'')) ''opted_out'' w1"
          using digest Inr by (simp add: production_body_def r)
        then show thesis by (rule quiet [rotated 4]) (simp_all add: w1)
      next
        case (Some i)
        show thesis
        proof (cases "decryptAllChannels (me_boxOpen M) (me_privKey M) (me_enclave M) i")
          case (Inl e)
          then have "?b = (Inl e, w1)" using digest \<open>r = Inr idn\<close> Some by (simp add: production_body_def r lift_result_def)
          moreover have "\<not> startsWith (exn_message e) ''All channels failed''"
            using decryptAllChannels_error [OF Inl] by (simp add: startsWith_def)
          ultimately show thesis using st w1(2) by (intro thrown)
        next
          case c: (Inr c)
          show thesis
          proof (cases "hasAnyChannel c")
            case False
            then have "?b = set_status ?n (code_note ''NO_ACTIVE_CHANNELS'') ''opted_out'' w1"
              using digest Inr Some c by (simp add: production_body_def r lift_result_def)
            then show thesis by (rule quiet [rotated 4]) (simp_all add: w1)
          next
            case True
            then have b: "?b = deliver_job R M now job i c w1"
              using digest Inr Some c by (simp add: production_body_def r lift_result_def)
            show thesis
              by (rule settled) (use deliver_job_settles [OF st] settles_cong [OF _ w1(2)] b in auto)
          qed
        qed
      qed
    qed
  qed
qed

lemma processProduction_settles:
  assumes "status_of w (jd_notificationId job) = Some s0"
  shows "settles job w (processProduction R M now job w)"
  using assms
proof (cases rule: production_body_cases [of w job s0 R M now])
  case settled
  show ?thesis
  proof (cases "production_body R M now job w")
    case (Pair a v)
    with settled show ?thesis by (cases a) (auto simp: processProduction_def throw_def)
  qed
next
  case (thrown e w1)
  obtain w2 where "set_status (jd_notificationId job) (failed_note (error_code e)) ''failed'' w1 = (Inr (), w2)"
      "status_of w2 (jd_notificationId job) = Some ''failed''" "w_protocols w2 = w_protocols w1"
    using set_status_step [OF thrown(2) keeps_notes(3)] by blast
  then show ?thesis
    using thrown sends_cong [of w2 w] by (simp add: processProduction_def throw_def flow_simps settles_def)
qed

section \<open>Facts: a job\<close>

lemma processSandbox_settles:
  assumes "status_of w (jd_notificationId job) = Some s0"
  shows "fst (processSandbox R M now job w) = Inr ()
    \<and> status_of (snd (processSandbox R M now job w)) (jd_notificationId job) \<in> {Some ''delivered'', Some ''failed'', Some ''opted_out''}
    \<and> w_protocols (snd (processSandbox R M now job w)) = w_protocols w"
proof -
  let ?n = "jd_notificationId job"
  have none: "fst (set_status ?n (code_note c) s w) = Inr () \<and> status_of (snd (set_status ?n (code_note c) s w)) ?n = Some s
      \<and> w_protocols (snd (set_status ?n (code_note c) s w)) = w_protocols w" for c s
    using set_status_step [OF assms keeps_notes(2), of c s] by auto
  show ?thesis
  proof (cases "jd_testContact job")
    case None
    then show ?thesis using none by (simp add: processSandbox_def)
  next
    case (Some contact)
    show ?thesis
    proof (cases "hasAnyChannel contact")
      case False
      then show ?thesis using none Some by (simp add: processSandbox_def)
    next
      case True
      obtain result w1 where d: "dispatch R now (me_dispatch M) contact job w = (result, w1)" by fastforce
      have w1: "status_of w1 ?n = Some s0" "w_protocols w1 = w_protocols w"
        using dispatch_keeps [of R now "me_dispatch M" contact job w] assms by (simp_all add: d)
      obtain w2 where w2: "set_status ?n (\<lambda>n. with_email result (n\<lparr>nt_deliveredAt := Some now\<rparr>)) ''delivered'' w1 = (Inr (), w2)"
          "status_of w2 ?n = Some ''delivered''" "w_protocols w2 = w_protocols w1"
        using set_status_step [OF w1(1) keeps_notes(7)] by blast
      obtain w3 where w3: "set_status ?n (code_note ''SANDBOX_ALL_CHANNELS_FAILED'') ''failed'' w1 = (Inr (), w3)"
          "status_of w3 ?n = Some ''failed''" "w_protocols w3 = w_protocols w1"
        using set_status_step [OF w1(1) keeps_notes(2)] by blast
      show ?thesis using Some True w1(2) w2 w3 by (simp add: processSandbox_def d Let_def)
    qed
  qed
qed

lemma process_start:
  assumes "status_of w (jd_notificationId job) = Some s0"
  obtains w1 where "process R M now job w =
      (if jd_isSandbox job = Some True then processSandbox R M now job w1 else processProduction R M now job w1)"
    "status_of w1 (jd_notificationId job) = Some ''processing''" "w_protocols w1 = w_protocols w"
proof -
  obtain w1 where "set_status (jd_notificationId job) (\<lambda>n. n\<lparr>nt_processingAt := Some now\<rparr>) ''processing'' w = (Inr (), w1)"
      "status_of w1 (jd_notificationId job) = Some ''processing''" "w_protocols w1 = w_protocols w"
    using set_status_step [OF assms keeps_notes(6)] by blast
  then show ?thesis by (intro that [of w1]) (simp_all add: process_def)
qed

lemma process_settles:
  assumes "status_of w (jd_notificationId job) = Some s0" "jd_isSandbox job \<noteq> Some True"
  shows "settles job w (process R M now job w)"
proof (rule process_start [OF assms(1), of R M now])
  fix w1
  assume w1: "process R M now job w =
      (if jd_isSandbox job = Some True then processSandbox R M now job w1 else processProduction R M now job w1)"
    "status_of w1 (jd_notificationId job) = Some ''processing''" "w_protocols w1 = w_protocols w"
  have "settles job w1 (processProduction R M now job w1)" using w1(2) by (rule processProduction_settles)
  then show ?thesis using settles_cong [OF _ w1(3)] w1(1) assms(2) by simp
qed

lemma attempts_settle:
  assumes "status_of w (jd_notificationId job) = Some s0" "jd_isSandbox job \<noteq> Some True" "ts \<noteq> []"
  shows "let (finished, w') = run_attempts R M job ts w; s = status_of w' (jd_notificationId job)
    in s \<in> {Some ''delivered'', Some ''partial'', Some ''opted_out'', Some ''digested'', Some ''failed''}
      \<and> (finished \<longleftrightarrow> s \<noteq> Some ''failed'')
      \<and> (\<forall>k. protocol_sends k w' = (if k = jd_protocolId job \<and> s \<in> {Some ''delivered'', Some ''partial''}
            then map_option (\<lambda>n. n + 1) (protocol_sends k w) else protocol_sends k w))"
  using assms(1,3)
proof (induction ts arbitrary: w s0)
  case (Cons t ts)
  obtain r w1 where r: "process R M t job w = (r, w1)" by fastforce
  have ends: "settles job w (r, w1)" using process_settles [OF Cons.prems(1) assms(2), of R M t] by (simp add: r)
  show ?case
  proof (cases r)
    case (Inr u)
    then show ?thesis using ends r by (auto simp: settles_def Let_def)
  next
    case (Inl e)
    then have failed: "status_of w1 (jd_notificationId job) = Some ''failed''" "\<And>k. protocol_sends k w1 = protocol_sends k w"
      using ends by (simp_all add: settles_def)
    show ?thesis
    proof (cases "ts = []")
      case True
      then show ?thesis using r Inl failed by simp
    next
      case False
      then show ?thesis
        using Cons.IH [OF failed(1) False] r Inl failed(2) by (cases "run_attempts R M job ts w1") (simp add: Let_def)
    qed
  qed
qed simp


definition sample_note :: notification where
  "sample_note = \<lparr>nt_id = ''n1'', nt_protocolId = ''p1'', nt_walletHash = ''h'', nt_status = ''queued'', nt_category = ''defi'',
     nt_subjectHash = ''s'', nt_idempotencyKey = None, nt_writeReceipt = True, nt_queuedAt = 0, nt_processingAt = None,
     nt_deliveredAt = None, nt_receiptTx = None, nt_receiptFailureReason = None, nt_lastReceiptAttemptAt = None,
     nt_sesMessageId = None, nt_emailProvider = None, nt_bounce = False, nt_bounceType = None, nt_errorCode = None,
     nt_retryCount = 0, nt_arweaveId = None, nt_ciphertext = None, nt_nonce = None, nt_riskScore = 0,
     nt_scanVerdict = None, nt_trackingEnabled = False\<rparr>"

definition sample_job :: job_data where
  "sample_job = \<lparr>jd_notificationId = ''n1'', jd_protocolId = ''p1'', jd_protocolPubkey = ''K'', jd_protocolName = ''P'',
     jd_wallet = ''W'', jd_walletHash = Some ''h'', jd_subject = ''Hi'', jd_body = ''ok'', jd_category = ''defi'',
     jd_writeReceipt = True, jd_digestMode = False, jd_priority = None, jd_channels = None, jd_excludedChannels = None,
     jd_preferredChannel = None, jd_isSandbox = None, jd_testContact = None, jd_tier = None, jd_templateId = None,
     jd_telegramTemplateId = None, jd_templateVariables = None\<rparr>"

definition sample_mail_env :: mail_env where
  "sample_mail_env = \<lparr>me_dispatch = sample_dispatch_env, me_fetch = (\<lambda>_. Some None), me_boxOpen = (\<lambda>_ _ _ _. None),
     me_privKey = None, me_enclave = (\<lambda>_. None), me_seal = (\<lambda>_ _. None), me_portalBody = jd_body,
     me_arweave = (\<lambda>_ _. None), me_webhookAdd = (\<lambda>_. Added), me_eventId = ''e1'', me_digestId = ''d1''\<rparr>"

definition sample_mail_world :: "keyspace world" where
  "sample_mail_world = (empty_world (\<lambda>_. None))\<lparr>w_notifications := [sample_note]\<rparr>"

lemma sample_mail_status: "status_of sample_mail_world (jd_notificationId sample_job) = Some ''queued''"
  by (simp add: status_of_def notification_by_id_def sample_mail_world_def sample_job_def sample_note_def)


end
