(* ===== verification/Mail_Invariant.thy ===== *)
theory Mail_Invariant
  imports Mail_Worker
begin

text \<open>
  The notification table under the mail worker: what a well-formed row is, and that every path of
  \<open>queue/workers/mail.worker.ts\<close> keeps the rows well-formed.
\<close>

section \<open>Facts: well-formed notifications\<close>

definition STATUSES :: "string list" where
  "STATUSES = [''queued'', ''processing'', ''delivered'', ''partial'', ''failed'', ''opted_out'', ''duplicate'', ''digested'', ''blocked'']"

text \<open>The status is one of the lifecycle's; times and the two halves of the portal's copy go with it.\<close>

definition note_ok :: "notification \<Rightarrow> bool" where
  "note_ok n \<longleftrightarrow> nt_status n \<in> set STATUSES
     \<and> (nt_status n \<in> {''delivered'', ''partial''} \<longrightarrow> nt_deliveredAt n \<noteq> None)
     \<and> (nt_status n = ''processing'' \<longrightarrow> nt_processingAt n \<noteq> None)
     \<and> 0 \<le> nt_retryCount n \<and> (nt_ciphertext n = None \<longleftrightarrow> nt_nonce n = None)"

definition notes_ok :: "'r world \<Rightarrow> bool" where
  "notes_ok w \<longleftrightarrow> list_all note_ok (w_notifications w)"

lemma notes_ok_cong: "w_notifications w' = w_notifications w \<Longrightarrow> notes_ok w' = notes_ok w"
  by (simp add: notes_ok_def)

lemma notes_ok_set_status:
  assumes "notes_ok w" and "\<And>n. note_ok n \<Longrightarrow> note_ok ((f n)\<lparr>nt_status := s\<rparr>)"
  shows "notes_ok (snd (set_status i f s w))"
  using assms by (auto simp: notes_ok_def set_status_def update_notification_def flow_simps list_all_iff set_updateMany)

lemma note_ok_untracked: "note_ok (n\<lparr>nt_trackingEnabled := b\<rparr>) = note_ok n"
  by (simp add: note_ok_def)

lemma only_on_notes_ok: "only_on C w w' \<Longrightarrow> notes_ok w' = notes_ok w"
proof -
  assume "only_on C w w'"
  then have "untracked (w_notifications w') = untracked (w_notifications w)" by (rule only_on_frame(10))
  moreover have "list_all note_ok (untracked ns) = list_all note_ok ns" for ns
    by (induction ns) (simp_all add: untracked_def note_ok_untracked)
  ultimately show ?thesis unfolding notes_ok_def by metis
qed

lemma dispatch_notes_ok: "notes_ok (snd (dispatch R now E c job w)) = notes_ok w"
proof -
  obtain outcomes v where d: "deliver_channels R now E c job w = (outcomes, v)" by fastforce
  have v: "only_on (set (delivered_channels c job)) w v"
    using deliver_channels_settled [of c job w R now E] by (simp add: d settled_on_def)
  have "notes_ok (persistChannelDeliveries t k xs v) = notes_ok v" for t k xs
    by (rule notes_ok_cong) (simp add: persistChannelDeliveries_def)
  then show ?thesis using only_on_notes_ok [OF v] by (simp add: dispatch_def d Let_def)
qed

lemma note_ok_writes:
  "note_ok n \<Longrightarrow> note_ok ((code_note c n)\<lparr>nt_status := ''opted_out''\<rparr>)"
  "note_ok n \<Longrightarrow> note_ok ((code_note c n)\<lparr>nt_status := ''failed''\<rparr>)"
  "note_ok n \<Longrightarrow> note_ok ((failed_note c n)\<lparr>nt_status := ''failed''\<rparr>)"
  "note_ok n \<Longrightarrow> note_ok ((id n)\<lparr>nt_status := ''digested''\<rparr>)"
  "note_ok n \<Longrightarrow> note_ok ((n\<lparr>nt_processingAt := Some t\<rparr>)\<lparr>nt_status := ''processing''\<rparr>)"
  "note_ok n \<Longrightarrow> note_ok ((delivered_note t a p r n)\<lparr>nt_status := ''delivered''\<rparr>)"
  "note_ok n \<Longrightarrow> note_ok ((partial_note t a p r n)\<lparr>nt_status := ''partial''\<rparr>)"
  "note_ok n \<Longrightarrow> note_ok ((with_email r (n\<lparr>nt_deliveredAt := Some t\<rparr>))\<lparr>nt_status := ''delivered''\<rparr>)"
  by (simp_all add: note_ok_def code_note_def failed_note_def delivered_note_def partial_note_def with_email_def STATUSES_def)

lemmas then_notes_ok = and_then_keeps [where I = notes_ok]

lemma catching_notes_ok: "notes_ok (snd r) \<Longrightarrow> (\<And>e w. notes_ok w \<Longrightarrow> notes_ok (snd (h e w))) \<Longrightarrow> notes_ok (snd (catching r h))"
  by (cases r; cases "fst r") auto

lemma notes_ok_fire_event [simp]: "notes_ok (fire_event M now job e s w) = notes_ok w"
  by (rule notes_ok_cong) simp

lemma notes_ok_write:
  assumes "notes_ok w"
  shows "notes_ok (snd (set_status i (code_note c) ''opted_out'' w))"
    and "notes_ok (snd (set_status i (code_note c) ''failed'' w))"
    and "notes_ok (snd (set_status i (failed_note c) ''failed'' w))"
    and "notes_ok (snd (set_status i id ''digested'' w))"
    and "notes_ok (snd (set_status i (\<lambda>n. n\<lparr>nt_processingAt := Some t\<rparr>) ''processing'' w))"
    and "notes_ok (snd (set_status i (delivered_note t a p r) ''delivered'' w))"
    and "notes_ok (snd (set_status i (partial_note t a p r) ''partial'' w))"
    and "notes_ok (snd (set_status i (\<lambda>n. with_email r (n\<lparr>nt_deliveredAt := Some t\<rparr>)) ''delivered'' w))"
  by (rule notes_ok_set_status [OF assms], erule note_ok_writes)+

lemma snd_then:
  "snd (and_then r (\<lambda>_. ok c)) = snd r" "snd (and_then r (\<lambda>_. throw e)) = snd r"
  by (cases r; cases "fst r"; force simp: flow_simps)+

lemma record_result_notes_ok: "notes_ok w \<Longrightarrow> notes_ok (snd (record_result now job ar copy result w))"
  by (simp add: record_result_def Let_def snd_then notes_ok_write)

lemma deliver_job_notes_ok: "notes_ok w \<Longrightarrow> notes_ok (snd (deliver_job R M now job i c w))"
proof -
  assume w: "notes_ok w"
  obtain result w1 where d: "dispatch R now (me_dispatch M) c job (clear_suppression i c job w) = (result, w1)" by fastforce
  have w1: "notes_ok w1"
    using dispatch_notes_ok [of R now "me_dispatch M" c job "clear_suppression i c job w"]
      notes_ok_cong [of "clear_suppression i c job w" w] w by (simp add: d)
  have counted: "notes_ok (incrementSendsThisPeriod p k v) = notes_ok v" for p k and v :: "'a world"
    by (rule notes_ok_cong) (simp add: incrementSendsThisPeriod_def change_counters_frame)
  show ?thesis
    unfolding deliver_job_def d prod.case Let_def
    by (rule then_notes_ok [OF record_result_notes_ok [OF w1]]) (simp add: ok_def counted)
qed

lemma production_body_notes_ok:
  assumes w: "notes_ok w"
  shows "notes_ok (snd (production_body R M now job w))"
proof -
  have resolved: "notes_ok (snd (resolveIdentity R (me_fetch M) now (jd_wallet job) w))"
    using w notes_ok_cong [OF resolveIdentity_frame(1)] by metis
  have buffered: "notes_ok (bufferForDigest a b c d e f g w)" for a b c d e f g
    using w by (simp add: notes_ok_def bufferForDigest_def)
  have delivered: "notes_ok (snd (and_then (lift_result x v) (\<lambda>c w2.
      if \<not> hasAnyChannel c then set_status (jd_notificationId job) (code_note ''NO_ACTIVE_CHANNELS'') ''opted_out'' w2
      else deliver_job R M now job i c w2)))" if "notes_ok v" for x i and v :: "'a world"
    using that by (cases x) (simp_all add: lift_result_def flow_simps notes_ok_write deliver_job_notes_ok)
  show ?thesis
  proof (cases "jd_digestMode job")
    case True
    then show ?thesis by (simp add: production_body_def notes_ok_write buffered)
  next
    case False
    show ?thesis
      unfolding production_body_def Let_def if_not_P [OF False]
      by (rule then_notes_ok [OF resolved]) (simp add: delivered notes_ok_write split: option.split)
  qed
qed

lemma processProduction_notes_ok: "notes_ok w \<Longrightarrow> notes_ok (snd (processProduction R M now job w))"
  unfolding processProduction_def
  by (rule catching_notes_ok [OF production_body_notes_ok])
    (simp_all add: throw_def then_notes_ok notes_ok_write)

lemma processSandbox_notes_ok: "notes_ok w \<Longrightarrow> notes_ok (snd (processSandbox R M now job w))"
proof -
  assume w: "notes_ok w"
  have dispatched: "notes_ok (snd (catching (let (result, w1) = dispatch R now (me_dispatch M) c job w
      in if 0 < dr_successCount result
         then set_status (jd_notificationId job) (\<lambda>n. with_email result (n\<lparr>nt_deliveredAt := Some now\<rparr>)) ''delivered'' w1
         else set_status (jd_notificationId job) (code_note ''SANDBOX_ALL_CHANNELS_FAILED'') ''failed'' w1)
      (\<lambda>_ w1. set_status (jd_notificationId job) (code_note ''SANDBOX_DELIVERY_ERROR'') ''failed'' w1)))" for c
  proof (rule catching_notes_ok)
    obtain result w1 where d: "dispatch R now (me_dispatch M) c job w = (result, w1)" by fastforce
    have "notes_ok w1" using dispatch_notes_ok [of R now "me_dispatch M" c job w] w by (simp add: d)
    then show "notes_ok (snd (let (result, w1) = dispatch R now (me_dispatch M) c job w
      in if 0 < dr_successCount result
         then set_status (jd_notificationId job) (\<lambda>n. with_email result (n\<lparr>nt_deliveredAt := Some now\<rparr>)) ''delivered'' w1
         else set_status (jd_notificationId job) (code_note ''SANDBOX_ALL_CHANNELS_FAILED'') ''failed'' w1))"
      by (simp add: d notes_ok_write)
  qed (simp add: notes_ok_write)
  show ?thesis
  proof (cases "jd_testContact job")
    case None
    with w show ?thesis by (simp add: processSandbox_def notes_ok_write)
  next
    case (Some c)
    show ?thesis
    proof (cases "hasAnyChannel c")
      case True
      with Some show ?thesis unfolding processSandbox_def Let_def [of "jd_notificationId job"]
        by (simp only: option.case not_True_eq_False if_False dispatched)
    next
      case False
      with w Some show ?thesis by (simp add: processSandbox_def notes_ok_write)
    qed
  qed
qed

lemma process_notes_ok: "notes_ok w \<Longrightarrow> notes_ok (snd (process R M now job w))"
  unfolding process_def
  by (rule then_notes_ok) (simp_all add: notes_ok_write processSandbox_notes_ok processProduction_notes_ok)

text \<open>C3: The worker keeps the notification table well-formed, on every path of every job and through all its
  attempts: each status it writes is one of the lifecycle's, a delivered or partial notification has
  its time of delivery, one in processing its start, retry counts never fall below zero, and a stored
  copy for the portal has both its ciphertext and its nonce.\<close>

theorem process_keeps_notes_ok:
  assumes "notes_ok w"
  shows "notes_ok (snd (process R M now job w)) \<and> notes_ok (snd (run_attempts R M job ts w))"
proof -
  have "notes_ok (snd (run_attempts R M job ts v))" if "notes_ok v" for v :: "'a world"
    using that
  proof (induction ts arbitrary: v)
    case (Cons t ts)
    obtain r v1 where r: "process R M t job v = (r, v1)" by fastforce
    have "notes_ok v1" using process_notes_ok [OF Cons.prems, of R M t job] by (simp add: r)
    then show ?case using Cons.IH r by (cases r) simp_all
  qed simp
  with assms show ?thesis by (simp add: process_notes_ok)
qed

theorem process_keeps_notes_ok_witness:
  "notes_ok (snd (process mem_redis sample_mail_env 0 sample_job sample_mail_world))
   \<and> notes_ok (snd (run_attempts mem_redis sample_mail_env sample_job [0, 60000] sample_mail_world))"
proof -
  have "notes_ok sample_mail_world"
    by (simp add: notes_ok_def note_ok_def sample_mail_world_def sample_note_def STATUSES_def)
  then show ?thesis by (rule process_keeps_notes_ok)
qed

end
