(* ===== verification/Bounce.thy ===== *)
theory Bounce
  imports Gateway_World
begin

text \<open>
  What the mail providers report back: \<open>bounce/bounce.service.ts\<close>, \<open>bounce/bounce.worker.ts\<close>, \<open>bounce/bounce.controller.ts\<close>,
  \<open>bounce/resend-webhook.controller.ts\<close> and \<open>sqs/sqs.consumer.service.ts\<close>. Bounces, complaints and
  deliveries are recorded, and an address that bounces hard, complains, or bounces softly three times in
  a row is suppressed. JSON and the signature check of svix are arguments.
\<close>

section \<open>Rows\<close>

definition bounce_known :: "string \<Rightarrow> 'r world \<Rightarrow> bool" where
  "bounce_known messageId w = exists_row (\<lambda>b. eb_sesMessageId b = messageId) (w_bounces w)"

definition complaint_known :: "string \<Rightarrow> 'r world \<Rightarrow> bool" where
  "complaint_known messageId w =
     exists_row (\<lambda>b. eb_sesMessageId b = messageId \<and> eb_bounceType b = ''complaint'') (w_bounces w)"

definition add_bounce :: "millis \<Rightarrow> notification \<Rightarrow> string \<Rightarrow> string \<Rightarrow> string option \<Rightarrow> 'r world \<Rightarrow> 'r world" where
  "add_bounce now n bounceType messageId diagnosticCode w = w\<lparr>w_bounces := w_bounces w @
     [\<lparr>eb_notificationId = nt_id n, eb_walletHash = nt_walletHash n, eb_bounceType = bounceType,
       eb_sesMessageId = messageId, eb_diagnosticCode = diagnosticCode, eb_bouncedAt = now\<rparr>]\<rparr>"

text \<open>\<open>upsert\<close>: an existing row keeps its notification.\<close>

definition suppress :: "millis \<Rightarrow> notification \<Rightarrow> string \<Rightarrow> 'r world \<Rightarrow> 'r world" where
  "suppress now n reason w = w\<lparr>w_suppressions :=
     (if exists_row (\<lambda>s. es_walletHash s = nt_walletHash n) (w_suppressions w)
      then updateMany (\<lambda>s. es_walletHash s = nt_walletHash n) (\<lambda>s. s\<lparr>es_reason := reason, es_suppressedAt := now\<rparr>) (w_suppressions w)
      else w_suppressions w @ [\<lparr>es_walletHash = nt_walletHash n, es_reason = reason, es_suppressedAt = now,
             es_notificationId = nt_id n\<rparr>])\<rparr>"

definition add_delivery :: "millis \<Rightarrow> notification \<Rightarrow> string \<Rightarrow> string option \<Rightarrow> int option \<Rightarrow> 'r world \<Rightarrow> 'r world" where
  "add_delivery now n messageId smtpResponse processingTime w = w\<lparr>w_emailDeliveries := w_emailDeliveries w @
     [\<lparr>ed_notificationId = nt_id n, ed_sesMessageId = messageId, ed_smtpResponse = smtpResponse,
       ed_processingTime = processingTime, ed_deliveredAt = now\<rparr>]\<rparr>"

definition mark_bounced :: "notification \<Rightarrow> string \<Rightarrow> 'r world \<Rightarrow> (unit, 'r world) handled" where
  "mark_bounced n bounceType w =
     update_notification (nt_id n) (\<lambda>n. n\<lparr>nt_bounce := True, nt_bounceType := Some bounceType\<rparr>) w"

definition notification_of_message :: "string \<Rightarrow> 'r world \<Rightarrow> notification option" where
  "notification_of_message messageId w = List.find (\<lambda>n. nt_sesMessageId n = Some messageId) (w_notifications w)"

section \<open>Soft bounces\<close>

text \<open>The latest hard bounce, complaint or delivery of the wallet; 0 (\<open>new Date(0)\<close>) without one.\<close>

definition reset_times :: "string \<Rightarrow> 'r world \<Rightarrow> millis list" where
  "reset_times walletHash w =
     map eb_bouncedAt (filter (\<lambda>b. eb_walletHash b = walletHash \<and> eb_bounceType b \<in> {''hard'', ''complaint''}) (w_bounces w))
     @ map ed_deliveredAt (filter (\<lambda>d. exists_row (\<lambda>n. nt_id n = ed_notificationId d \<and> nt_walletHash n = walletHash) (w_notifications w))
         (w_emailDeliveries w))"

definition cutoff :: "string \<Rightarrow> 'r world \<Rightarrow> millis" where
  "cutoff walletHash w = (case reset_times walletHash w of [] \<Rightarrow> 0 | t # ts \<Rightarrow> fold max ts t)"

definition consecutiveSofts :: "string \<Rightarrow> 'r world \<Rightarrow> nat" where
  "consecutiveSofts walletHash w = count_rows (\<lambda>b. eb_walletHash b = walletHash \<and> eb_bounceType b = ''soft''
     \<and> cutoff walletHash w < eb_bouncedAt b) (w_bounces w)"

section \<open>Events\<close>

definition processSesBounce :: "millis \<Rightarrow> ses_message \<Rightarrow> 'r world \<Rightarrow> (unit, 'r world) handled" where
  "processSesBounce now m w =
     (if \<not> truthy (sx_messageId m) then ok () w
      else let messageId = the (sx_messageId m)
        in case notification_of_message messageId w of
          None \<Rightarrow> ok () w
        | Some n \<Rightarrow>
            if sx_notificationType m = ''Bounce'' then
              let bounceType = (if sx_bounceType m = Some ''Permanent'' then ''hard'' else ''soft'')
              in if bounce_known messageId w then ok () w
                 else and_then (mark_bounced n bounceType (add_bounce now n bounceType messageId (sx_diagnosticCode m) w)) (\<lambda>_ w1.
                   if bounceType = ''soft''
                   then ok () (if 3 \<le> consecutiveSofts (nt_walletHash n) w1 then suppress now n ''soft_bounce'' w1 else w1)
                   else ok () (suppress now n ''hard_bounce'' w1))
            else if sx_notificationType m = ''Complaint'' then
              let w1 = (if complaint_known messageId w then w else add_bounce now n ''complaint'' messageId None w)
              in ok () (suppress now n ''complaint'' w1)
            else if sx_notificationType m = ''Delivery'' then
              ok () (add_delivery now n messageId (sx_smtpResponse m) (sx_processingTime m) w)
            else ok () w)"

definition processResendEvent :: "millis \<Rightarrow> string \<Rightarrow> string option \<Rightarrow> string option \<Rightarrow> 'r world \<Rightarrow> (unit, 'r world) handled" where
  "processResendEvent now eventType email_id data_id w =
     (let emailId = (if email_id = None then data_id else email_id)
      in if \<not> truthy emailId then ok () w
         else case notification_of_message (the emailId) w of
           None \<Rightarrow> ok () w
         | Some n \<Rightarrow>
             if eventType = ''email.bounced'' then
               if bounce_known (the emailId) w then ok () w
               else and_then (mark_bounced n ''hard'' (add_bounce now n ''hard'' (the emailId) None w)) (\<lambda>_ w1.
                 ok () (suppress now n ''hard_bounce'' w1))
             else if eventType = ''email.complained'' then
               let w1 = (if complaint_known (the emailId) w then w else add_bounce now n ''complaint'' (the emailId) None w)
               in ok () (suppress now n ''complaint'' w1)
             else if eventType = ''email.delivered'' then
               ok () (add_delivery now n (the emailId) None None w)
             else ok () w)"

text \<open>The webhook endpoint; \<open>verify\<close> is the svix check with the configured secret, if there is one.\<close>

record resend_body =
  rb_type :: "string option"
  rb_data :: "(string option \<times> string option) option"   \<comment> \<open>\<open>email_id\<close> and \<open>id\<close>\<close>

definition handleResendEvent :: "(resend_body \<Rightarrow> bool) option \<Rightarrow> millis \<Rightarrow> resend_body \<Rightarrow> 'r world \<Rightarrow> (string, 'r world) handled" where
  "handleResendEvent verify now b w =
     (if (case verify of None \<Rightarrow> False | Some v \<Rightarrow> \<not> v b) then throw (HttpExn 401 ''Invalid webhook signature'') w
      else case rb_data b of
        None \<Rightarrow> ok ''ignored'' w
      | Some (email_id, data_id) \<Rightarrow>
          if \<not> truthy (rb_type b) then ok ''ignored'' w
          else and_then (processResendEvent now (the (rb_type b)) email_id data_id w) (\<lambda>_. ok ''processed''))"

text \<open>The worker of the bounce queue.\<close>

definition process_bounce :: "millis \<Rightarrow> string \<Rightarrow> ses_message \<Rightarrow> 'r world \<Rightarrow> (unit, 'r world) handled" where
  "process_bounce now name m w = (if name = ''ses-bounce'' then processSesBounce now m w else ok () w)"

section \<open>The SQS consumer\<close>

datatype message_field = NoMessage | MessageText string | MessageObject ses_message

record sqs_body =
  qb_notificationType :: "string option"
  qb_Type :: "string option"
  qb_Message :: message_field
  qb_self :: ses_message   \<comment> \<open>the body itself, read as a message\<close>

record sqs_message =
  qm_id :: "string option"
  qm_receiptHandle :: "string option"
  qm_Body :: string

record sqs_env =
  qe_parseBody :: "string \<Rightarrow> sqs_body option"
  qe_parseMessage :: "string \<Rightarrow> ses_message option"
  qe_add :: "sqs_message \<Rightarrow> bool"   \<comment> \<open>does the job get into the queue?\<close>

text \<open>A body that is JSON is an object here.\<close>

definition processMessage :: "sqs_env \<Rightarrow> sqs_message \<Rightarrow> 'r world \<Rightarrow> (unit, 'r world) handled" where
  "processMessage Q msg w =
     (case qe_parseBody Q (qm_Body msg) of
        None \<Rightarrow> ok () w
      | Some body \<Rightarrow>
          if (if qb_notificationType body = None then qb_Type body else qb_notificationType body) = Some ''SubscriptionConfirmation''
          then ok () w
          else case (case qb_Message body of
                 MessageText s \<Rightarrow> qe_parseMessage Q s | MessageObject m \<Rightarrow> Some m | NoMessage \<Rightarrow> Some (qb_self body)) of
             None \<Rightarrow> throw (JsError ''SyntaxError'') w
           | Some m \<Rightarrow>
               if qe_add Q msg then ok () (w\<lparr>w_bounceJobs := w_bounceJobs w @ [m]\<rparr>)
               else throw (JsError ''Connection is closed.'') w)"

text \<open>The same notifications pushed by SNS; the HTTP layer has parsed the body.\<close>

definition handleSesNotification :: "(string \<Rightarrow> ses_message option) \<Rightarrow> bool \<Rightarrow> sqs_body \<Rightarrow> 'r world \<Rightarrow> (string, 'r world) handled" where
  "handleSesNotification parse added body w =
     (if (if qb_notificationType body = None then qb_Type body else qb_notificationType body) = Some ''SubscriptionConfirmation''
      then ok ''confirmed'' w
      else case (case qb_Message body of MessageText s \<Rightarrow> parse s | MessageObject m \<Rightarrow> Some m | NoMessage \<Rightarrow> Some (qb_self body)) of
             None \<Rightarrow> throw (JsError ''SyntaxError'') w
           | Some m \<Rightarrow>
               if added then ok ''queued'' (w\<lparr>w_bounceJobs := w_bounceJobs w @ [m]\<rparr>)
               else throw (JsError ''Connection is closed.'') w)"

text \<open>One poll: the messages in order, then those without an error deleted; \<open>entries\<close> are their ids and handles.\<close>

fun poll_messages :: "sqs_env \<Rightarrow> sqs_message list \<Rightarrow> (string \<times> string) list \<Rightarrow> 'r world \<Rightarrow> (string \<times> string) list \<times> 'r world" where
  "poll_messages Q [] entries w = (entries, w)"
| "poll_messages Q (msg # msgs) entries w =
     (case processMessage Q msg w of
        (Inl _, w1) \<Rightarrow> poll_messages Q msgs entries w1
      | (Inr _, w1) \<Rightarrow> poll_messages Q msgs
          (if truthy (qm_receiptHandle msg) \<and> truthy (qm_id msg) then entries @ [(the (qm_id msg), the (qm_receiptHandle msg))] else entries) w1)"

definition poll :: "sqs_env \<Rightarrow> bool \<Rightarrow> sqs_message list option \<Rightarrow> 'r world \<Rightarrow> (string \<times> string) list \<times> 'r world" where
  "poll Q active received w =
     (if \<not> active then ([], w) else case received of None \<Rightarrow> ([], w) | Some msgs \<Rightarrow> poll_messages Q msgs [] w)"

section \<open>Facts: the reputation of a wallet\<close>

datatype mail_event = Soft | Hard | Complained | Delivered

text \<open>What a wallet's mail history amounts to: soft bounces in a row, and why it is suppressed.\<close>

fun reputation_step :: "mail_event \<Rightarrow> nat \<times> string option \<Rightarrow> nat \<times> string option" where
  "reputation_step Soft (k, s) = (k + 1, if 3 \<le> k + 1 then Some ''soft_bounce'' else s)"
| "reputation_step Hard (k, s) = (0, Some ''hard_bounce'')"
| "reputation_step Complained (k, s) = (0, Some ''complaint'')"
| "reputation_step Delivered (k, s) = (0, s)"

definition suppressed_for :: "string \<Rightarrow> 'r world \<Rightarrow> string option" where
  "suppressed_for h w = map_option es_reason (List.find (\<lambda>s. es_walletHash s = h) (w_suppressions w))"

definition reputation :: "string \<Rightarrow> 'r world \<Rightarrow> nat \<times> string option" where
  "reputation h w = (consecutiveSofts h w, suppressed_for h w)"

definition ses_event :: "ses_message \<Rightarrow> mail_event option" where
  "ses_event m =
     (if sx_notificationType m = ''Bounce'' then Some (if sx_bounceType m = Some ''Permanent'' then Hard else Soft)
      else if sx_notificationType m = ''Complaint'' then Some Complained
      else if sx_notificationType m = ''Delivery'' then Some Delivered else None)"

text \<open>The wallet and the event a message is about.\<close>

definition event_for :: "'r world \<Rightarrow> ses_message \<Rightarrow> (string \<times> mail_event) option" where
  "event_for w m = (case Option.bind (if truthy (sx_messageId m) then sx_messageId m else None) (\<lambda>i. notification_of_message i w) of
     None \<Rightarrow> None | Some n \<Rightarrow> map_option (Pair (nt_walletHash n)) (ses_event m))"

lemma suppressed_for_suppress:
  "suppressed_for h (suppress now n reason w) = (if h = nt_walletHash n then Some reason else suppressed_for h w)"
proof (cases "exists_row (\<lambda>s. es_walletHash s = nt_walletHash n) (w_suppressions w)")
  case True
  have "List.find (\<lambda>s. es_walletHash s = h) (updateMany (\<lambda>s. es_walletHash s = nt_walletHash n)
      (\<lambda>s. s\<lparr>es_reason := reason, es_suppressedAt := now\<rparr>) (w_suppressions w)) =
      (if h = nt_walletHash n then map_option (\<lambda>s. s\<lparr>es_reason := reason, es_suppressedAt := now\<rparr>)
         (List.find (\<lambda>s. es_walletHash s = h) (w_suppressions w))
       else List.find (\<lambda>s. es_walletHash s = h) (w_suppressions w))"
    by (rule find_key_update) simp
  moreover obtain s where "h = nt_walletHash n \<Longrightarrow> List.find (\<lambda>s. es_walletHash s = h) (w_suppressions w) = Some s"
    using True by (auto simp: exists_row_def)
  ultimately show ?thesis using True by (simp add: suppressed_for_def suppress_def option.map_comp comp_def)
next
  case False
  then have "List.find (\<lambda>s. es_walletHash s = nt_walletHash n) (w_suppressions w) = None" by (simp add: exists_row_def)
  with False show ?thesis by (auto simp: suppressed_for_def suppress_def find_append split: option.splits)
qed

lemma cutoff_Max: "cutoff h w = (if reset_times h w = [] then 0 else Max (set (reset_times h w)))"
proof (cases "reset_times h w")
  case (Cons t ts)
  then show ?thesis using Max.set_eq_fold [of t ts] by (simp add: cutoff_def)
qed (simp add: cutoff_def)

lemma cutoff_less: "0 < t \<Longrightarrow> \<forall>x \<in> set (reset_times h w). x < t \<Longrightarrow> cutoff h w < t"
  by (auto simp: cutoff_Max)

text \<open>The columns of the notifications that decide what a message is about.\<close>

definition note_keys :: "'r world \<Rightarrow> (string \<times> string \<times> string option) list" where
  "note_keys w = map (\<lambda>n. (nt_id n, nt_walletHash n, nt_sesMessageId n)) (w_notifications w)"

lemma find_map_key: "List.find p (map f xs) = map_option f (List.find (\<lambda>x. p (f x)) xs)"
  by (induction xs) auto

lemma event_for_keys: "event_for w m = (case Option.bind (if truthy (sx_messageId m) then sx_messageId m else None)
    (\<lambda>i. List.find (\<lambda>(a, h, x). x = Some i) (note_keys w)) of None \<Rightarrow> None | Some (a, h, x) \<Rightarrow> map_option (Pair h) (ses_event m))"
  by (cases "sx_messageId m") (auto simp: event_for_def note_keys_def find_map_key notification_of_message_def split: option.splits)

lemma owner_keys:
  "exists_row (\<lambda>n. nt_id n = i \<and> nt_walletHash n = h) (w_notifications w) \<longleftrightarrow> (\<exists>x. (i, h, x) \<in> set (note_keys w))"
  by (auto simp: exists_row_iff note_keys_def)

lemma reset_times_keys: "reset_times h w =
    map eb_bouncedAt (filter (\<lambda>b. eb_walletHash b = h \<and> eb_bounceType b \<in> {''hard'', ''complaint''}) (w_bounces w))
    @ map ed_deliveredAt (filter (\<lambda>d. \<exists>x. (ed_notificationId d, h, x) \<in> set (note_keys w)) (w_emailDeliveries w))"
  by (simp add: reset_times_def owner_keys)

lemma softs_cong:
  assumes "w_bounces w' = w_bounces w" "w_emailDeliveries w' = w_emailDeliveries w" "note_keys w' = note_keys w"
  shows "consecutiveSofts h w' = consecutiveSofts h w"
  using assms by (simp add: consecutiveSofts_def cutoff_def reset_times_keys)

definition before :: "millis \<Rightarrow> 'r world \<Rightarrow> bool" where
  "before t w \<longleftrightarrow> (\<forall>b \<in> set (w_bounces w). eb_bouncedAt b < t) \<and> (\<forall>d \<in> set (w_emailDeliveries w). ed_deliveredAt d < t)"

lemma before_resets: "before t w \<Longrightarrow> x \<in> set (reset_times h w) \<Longrightarrow> x < t"
  by (auto simp: before_def reset_times_def)

lemma softs_after_reset: "before t w \<Longrightarrow> cutoff h w = t \<Longrightarrow> consecutiveSofts h w = 0"
  by (auto simp: consecutiveSofts_def before_def row_simps)

lemma Max_last: "finite A \<Longrightarrow> \<forall>x \<in> A. x < t \<Longrightarrow> Max (insert t A) = (t :: int)"
  by (rule Max_eqI) auto

text \<open>A soft bounce adds one; anything else of the wallet starts the count again.\<close>

lemma softs_soft:
  assumes "w_bounces w' = w_bounces w @ [b]" "w_emailDeliveries w' = w_emailDeliveries w" "note_keys w' = note_keys w"
    and "eb_bounceType b = ''soft''" "0 < eb_bouncedAt b" "before (eb_bouncedAt b) w"
  shows "consecutiveSofts h w' = consecutiveSofts h w + (if h = eb_walletHash b then 1 else 0)"
proof -
  have "reset_times h w' = reset_times h w" using assms by (simp add: reset_times_keys)
  then have "cutoff h w' = cutoff h w" by (simp add: cutoff_def)
  moreover have "cutoff h w < eb_bouncedAt b" using assms(5,6) before_resets by (intro cutoff_less) auto
  ultimately show ?thesis using assms(1,4) by (simp add: consecutiveSofts_def)
qed

lemma softs_reset:
  fixes w w' :: "'r world"
  assumes "set (reset_times h w') = (if h = g then insert t (set (reset_times h w)) else set (reset_times h w))"
    and "filter (\<lambda>b. eb_bounceType b = ''soft'') (w_bounces w') = filter (\<lambda>b. eb_bounceType b = ''soft'') (w_bounces w)"
    and "before t w"
  shows "consecutiveSofts h w' = (if h = g then 0 else consecutiveSofts h w)"
proof -
  have count: "consecutiveSofts h v = length (filter (\<lambda>b. eb_walletHash b = h \<and> cutoff h v < eb_bouncedAt b)
      (filter (\<lambda>b. eb_bounceType b = ''soft'') (w_bounces v)))" for h and v :: "'r world"
    by (simp add: consecutiveSofts_def count_rows_def conj_ac)
  show ?thesis
  proof (cases "h = g")
    case True
    have "cutoff h w' = t"
      using assms(1) True Max_last [of "set (reset_times h w)" t] before_resets [OF assms(3)]
      by (auto simp: cutoff_Max)
    then show ?thesis
      using True assms(3) by (auto simp: count assms(2) before_def filter_empty_conv)
  next
    case False
    then have "cutoff h w' = cutoff h w" using assms(1) by (simp add: cutoff_Max) (metis set_empty)
    with False show ?thesis by (simp add: count assms(2))
  qed
qed

section \<open>Facts: one event\<close>

lemma reads_frame [simp]:
  "suppressed_for h (w\<lparr>w_notifications := ns\<rparr>) = suppressed_for h w" "suppressed_for h (w\<lparr>w_bounces := bs\<rparr>) = suppressed_for h w"
  "suppressed_for h (w\<lparr>w_emailDeliveries := ds\<rparr>) = suppressed_for h w" "note_keys (w\<lparr>w_bounces := bs\<rparr>) = note_keys w"
  "note_keys (w\<lparr>w_emailDeliveries := ds\<rparr>) = note_keys w"
  "note_keys (w\<lparr>w_notifications := ns\<rparr>) = map (\<lambda>n. (nt_id n, nt_walletHash n, nt_sesMessageId n)) ns"
  by (simp_all add: suppressed_for_def note_keys_def)

lemma mark_bounced_found:
  assumes "notification_of_message i w = Some n"
  obtains ns where "mark_bounced n ty (add_bounce now n ty j d w) = (Inr (), (add_bounce now n ty j d w)\<lparr>w_notifications := ns\<rparr>)"
    "map (\<lambda>n. (nt_id n, nt_walletHash n, nt_sesMessageId n)) ns = note_keys w"
proof -
  let ?f = "\<lambda>n. n\<lparr>nt_bounce := True, nt_bounceType := Some ty\<rparr>" and ?w = "add_bounce now n ty j d w"
  have "n \<in> set (w_notifications w)" using find_Some_row assms by (fastforce simp: notification_of_message_def)
  then have "exists_row (\<lambda>m. nt_id m = nt_id n) (w_notifications ?w)" by (auto simp: exists_row_iff add_bounce_def)
  then have "mark_bounced n ty ?w = (Inr (), ?w\<lparr>w_notifications := updateMany (\<lambda>m. nt_id m = nt_id n) ?f (w_notifications ?w)\<rparr>)"
    by (simp add: mark_bounced_def update_notification_def flow_simps)
  moreover have "map (\<lambda>n. (nt_id n, nt_walletHash n, nt_sesMessageId n)) (updateMany (\<lambda>m. nt_id m = nt_id n) ?f (w_notifications ?w)) = note_keys w"
    by (simp add: map_updateMany note_keys_def add_bounce_def)
  ultimately show thesis by (rule that)
qed

lemma suppress_frame [simp]:
  "w_bounces (suppress now n r w) = w_bounces w" "w_emailDeliveries (suppress now n r w) = w_emailDeliveries w"
  "note_keys (suppress now n r w) = note_keys w"
  by (simp_all add: suppress_def note_keys_def)

lemma softs_suppress [simp]: "consecutiveSofts h (suppress now n r w) = consecutiveSofts h w"
  by (rule softs_cong) simp_all

text \<open>Is the message news? A bounce needs an id without a row, a complaint one without a complaint.\<close>

definition fresh :: "ses_message \<Rightarrow> 'r world \<Rightarrow> bool" where
  "fresh m w = (case sx_messageId m of None \<Rightarrow> True | Some i \<Rightarrow>
     (sx_notificationType m = ''Bounce'' \<longrightarrow> \<not> bounce_known i w) \<and> (sx_notificationType m = ''Complaint'' \<longrightarrow> \<not> complaint_known i w))"

text \<open>What one event leaves: the rows it adds, and the keys of the notifications untouched.\<close>

definition event_rows :: "millis \<Rightarrow> ses_message \<Rightarrow> notification \<Rightarrow> mail_event \<Rightarrow> email_bounce list \<times> email_delivery list" where
  "event_rows now m n e =
     (let b = (\<lambda>ty d. \<lparr>eb_notificationId = nt_id n, eb_walletHash = nt_walletHash n, eb_bounceType = ty,
                eb_sesMessageId = the (sx_messageId m), eb_diagnosticCode = d, eb_bouncedAt = now\<rparr>)
      in case e of Soft \<Rightarrow> ([b ''soft'' (sx_diagnosticCode m)], []) | Hard \<Rightarrow> ([b ''hard'' (sx_diagnosticCode m)], [])
         | Complained \<Rightarrow> ([b ''complaint'' None], [])
         | Delivered \<Rightarrow> ([], [\<lparr>ed_notificationId = nt_id n, ed_sesMessageId = the (sx_messageId m), ed_smtpResponse = sx_smtpResponse m,
             ed_processingTime = sx_processingTime m, ed_deliveredAt = now\<rparr>]))"

lemma event_found:
  assumes "event_for w m = Some (h, e)"
  obtains i n where "sx_messageId m = Some i" "i \<noteq> []" "notification_of_message i w = Some n" "nt_walletHash n = h" "ses_event m = Some e"
  using assms by (cases "sx_messageId m") (auto simp: event_for_def split: if_splits option.splits)

lemma event_effect:
  assumes "event_for w m = Some (h, e)" "fresh m w"
  obtains n w' where "processSesBounce now m w = (Inr (), w')"
    "nt_walletHash n = h" "n \<in> set (w_notifications w)"
    "w_bounces w' = w_bounces w @ fst (event_rows now m n e)" "w_emailDeliveries w' = w_emailDeliveries w @ snd (event_rows now m n e)"
    "note_keys w' = note_keys w"
    "\<And>g. suppressed_for g w' = (if g = h then (case e of Hard \<Rightarrow> Some ''hard_bounce'' | Complained \<Rightarrow> Some ''complaint''
        | Soft \<Rightarrow> if 3 \<le> consecutiveSofts h w' then Some ''soft_bounce'' else suppressed_for g w | Delivered \<Rightarrow> suppressed_for g w) else suppressed_for g w)"
proof -
  obtain i n where n: "sx_messageId m = Some i" "i \<noteq> []" "notification_of_message i w = Some n" "nt_walletHash n = h" "ses_event m = Some e"
    using event_found [OF assms(1)] .
  have row: "n \<in> set (w_notifications w)" using find_Some_row n(3) by (fastforce simp: notification_of_message_def)
  have type: "sx_notificationType m = (case e of Complained \<Rightarrow> ''Complaint'' | Delivered \<Rightarrow> ''Delivery'' | _ \<Rightarrow> ''Bounce'')"
    "e = Hard \<longleftrightarrow> sx_bounceType m = Some ''Permanent'' \<and> sx_notificationType m = ''Bounce''"
    using n(5) by (auto simp: ses_event_def split: if_splits)
  show thesis
  proof (cases e)
    case Soft
    obtain ns where ns: "mark_bounced n ''soft'' (add_bounce now n ''soft'' i (sx_diagnosticCode m) w) =
        (Inr (), (add_bounce now n ''soft'' i (sx_diagnosticCode m) w)\<lparr>w_notifications := ns\<rparr>)"
        "map (\<lambda>n. (nt_id n, nt_walletHash n, nt_sesMessageId n)) ns = note_keys w"
      using mark_bounced_found [OF n(3)] .
    let ?v = "(add_bounce now n ''soft'' i (sx_diagnosticCode m) w)\<lparr>w_notifications := ns\<rparr>"
    let ?w = "if 3 \<le> consecutiveSofts h ?v then suppress now n ''soft_bounce'' ?v else ?v"
    have "processSesBounce now m w = (Inr (), ?w)"
      using n Soft type assms(2) ns(1) by (simp add: processSesBounce_def fresh_def flow_simps Let_def)
    then show thesis
      by (rule that [of ?w n])
        (use n row Soft ns(2) in \<open>simp_all add: event_rows_def add_bounce_def suppressed_for_suppress\<close>)
  next
    case Hard
    obtain ns where ns: "mark_bounced n ''hard'' (add_bounce now n ''hard'' i (sx_diagnosticCode m) w) =
        (Inr (), (add_bounce now n ''hard'' i (sx_diagnosticCode m) w)\<lparr>w_notifications := ns\<rparr>)"
        "map (\<lambda>n. (nt_id n, nt_walletHash n, nt_sesMessageId n)) ns = note_keys w"
      using mark_bounced_found [OF n(3)] .
    let ?w = "suppress now n ''hard_bounce'' ((add_bounce now n ''hard'' i (sx_diagnosticCode m) w)\<lparr>w_notifications := ns\<rparr>)"
    have "processSesBounce now m w = (Inr (), ?w)"
      using n Hard type assms(2) ns(1) by (simp add: processSesBounce_def fresh_def flow_simps Let_def)
    then show thesis
      by (rule that [of ?w n])
        (use n row Hard ns(2) in \<open>simp_all add: event_rows_def add_bounce_def suppressed_for_suppress\<close>)
  next
    case Complained
    let ?w = "suppress now n ''complaint'' (add_bounce now n ''complaint'' i None w)"
    have "processSesBounce now m w = (Inr (), ?w)"
      using n Complained type assms(2) by (simp add: processSesBounce_def fresh_def flow_simps Let_def)
    then show thesis
      by (rule that [of ?w n])
        (use n row Complained in \<open>simp_all add: event_rows_def add_bounce_def suppressed_for_suppress\<close>)
  next
    case Delivered
    let ?w = "add_delivery now n i (sx_smtpResponse m) (sx_processingTime m) w"
    have "processSesBounce now m w = (Inr (), ?w)"
      using n Delivered type by (simp add: processSesBounce_def flow_simps Let_def)
    then show thesis
      by (rule that [of ?w n])
        (use n row Delivered in \<open>simp_all add: event_rows_def add_delivery_def\<close>)
  qed
qed

lemma event_none: "event_for w m = None \<Longrightarrow> processSesBounce now m w = (Inr (), w)"
  by (cases "sx_messageId m"; cases "notification_of_message (the (sx_messageId m)) w")
    (auto simp: event_for_def processSesBounce_def ses_event_def ok_def Let_def split: if_splits)

text \<open>A bounce that is reported again changes nothing, whatever its type.\<close>

lemma bounce_repeated:
  "sx_notificationType m = ''Bounce'' \<Longrightarrow> sx_messageId m = Some i \<Longrightarrow> bounce_known i w \<Longrightarrow> processSesBounce now m w = (Inr (), w)"
  by (auto simp: processSesBounce_def ok_def Let_def split: option.split)

lemma reputation_event:
  fixes w :: "'r world"
  assumes "event_for w m = Some (h, e)" "fresh m w" "before now w" "0 < now" "distinct (map nt_id (w_notifications w))"
  shows "reputation g (snd (processSesBounce now m w)) = (if g = h then reputation_step e (reputation g w) else reputation g w)"
proof -
  obtain n and w' :: "'r world" where p: "processSesBounce now m w = (Inr (), w')" "nt_walletHash n = h" "n \<in> set (w_notifications w)"
    "w_bounces w' = w_bounces w @ fst (event_rows now m n e)" "w_emailDeliveries w' = w_emailDeliveries w @ snd (event_rows now m n e)"
    "note_keys w' = note_keys w"
    "\<And>g. suppressed_for g w' = (if g = h then (case e of Hard \<Rightarrow> Some ''hard_bounce'' | Complained \<Rightarrow> Some ''complaint''
        | Soft \<Rightarrow> if 3 \<le> consecutiveSofts h w' then Some ''soft_bounce'' else suppressed_for g w | Delivered \<Rightarrow> suppressed_for g w) else suppressed_for g w)"
    by (rule event_effect [OF assms(1,2), where now = now]) (rule that)
  have owner: "(\<exists>x. (nt_id n, g, x) \<in> set (note_keys w)) \<longleftrightarrow> g = h"
    using p(2,3) distinct_key_unique [OF assms(5) p(3)] by (auto simp: note_keys_def)
  have "consecutiveSofts g w' = (if g = h then (if e = Soft then consecutiveSofts g w + 1 else 0) else consecutiveSofts g w)"
  proof (cases e)
    case Soft
    then show ?thesis
      using softs_soft [of w' w "hd (fst (event_rows now m n e))" g] p(2,4,5,6) assms(3,4) by (simp add: event_rows_def)
  next
    case Hard
    then show ?thesis
      using softs_reset [of g w' h now w] p(2,4,5,6) assms(3) by (simp add: event_rows_def reset_times_keys insert_commute)
  next
    case Complained
    then show ?thesis
      using softs_reset [of g w' h now w] p(2,4,5,6) assms(3) by (simp add: event_rows_def reset_times_keys)
  next
    case Delivered
    then show ?thesis
      using softs_reset [of g w' h now w] p(4,5,6) assms(3) owner by (simp add: event_rows_def reset_times_keys)
  qed
  then show ?thesis by (cases e; cases "g = h") (simp_all add: reputation_def p(1,7))
qed

definition ses_run :: "(millis \<times> ses_message) list \<Rightarrow> 'r world \<Rightarrow> 'r world" where
  "ses_run evs w = fold (\<lambda>(t, m) v. snd (processSesBounce t m v)) evs w"

text \<open>The abstract history of one wallet: the events about it, in order.\<close>

definition reputation_run :: "(ses_message \<Rightarrow> (string \<times> mail_event) option) \<Rightarrow> string \<Rightarrow> (millis \<times> ses_message) list \<Rightarrow>
    nat \<times> string option \<Rightarrow> nat \<times> string option" where
  "reputation_run about h evs s = fold (\<lambda>(t, m). case about m of None \<Rightarrow> id | Some (g, e) \<Rightarrow> if g = h then reputation_step e else id) evs s"

definition reported_ids :: "(millis \<times> ses_message) list \<Rightarrow> string option list" where
  "reported_ids evs = map (sx_messageId \<circ> snd) (filter (\<lambda>(t, m). sx_notificationType m \<in> {''Bounce'', ''Complaint''}) evs)"

lemma before_next: "before (t0 + 1) w \<Longrightarrow> t0 < t \<Longrightarrow> before t w"
  by (force simp: before_def)

lemma after_event:
  fixes w :: "'r world"
  assumes "before (t0 + 1) w" "t0 < t" "fresh m w"
  defines "v \<equiv> snd (processSesBounce t m w)"
  shows "note_keys v = note_keys w" "before (t + 1) v"
    and "\<And>i. bounce_known i v \<Longrightarrow> bounce_known i w \<or> sx_notificationType m \<in> {''Bounce'', ''Complaint''} \<and> sx_messageId m = Some i"
    and "\<And>i. complaint_known i v \<Longrightarrow> complaint_known i w \<or> sx_notificationType m \<in> {''Bounce'', ''Complaint''} \<and> sx_messageId m = Some i"
proof -
  have later: "before (t + 1) w" using assms(1,2) by (force simp: before_def)
  consider "v = w"
    | (found) h e n where "event_for w m = Some (h, e)" "w_bounces v = w_bounces w @ fst (event_rows t m n e)"
      "w_emailDeliveries v = w_emailDeliveries w @ snd (event_rows t m n e)" "note_keys v = note_keys w"
  proof (cases "event_for w m")
    case None
    then show thesis using event_none [of w m t] that(1) by (simp add: v_def)
  next
    case (Some a)
    obtain h e where a: "a = (h, e)" by fastforce
    show thesis
      by (rule event_effect [OF Some [unfolded a] assms(3), where now = t]) (rule that(2), use Some a in \<open>simp_all add: v_def\<close>)
  qed
  note cases = this
  show "note_keys v = note_keys w" by (cases rule: cases) simp_all
  show "before (t + 1) v"
    using later by (cases rule: cases) (auto simp: before_def event_rows_def Let_def split: mail_event.splits)
  have added: "sx_notificationType m \<in> {''Bounce'', ''Complaint''} \<and> sx_messageId m = Some (eb_sesMessageId b)"
    if found: "event_for w m = Some (h, e)" "b \<in> set (fst (event_rows t m n e))" for h e n b
  proof -
    obtain i where "sx_messageId m = Some i" "ses_event m = Some e"
      by (rule event_found [OF found(1)]) (rule that)
    then show ?thesis using found(2) by (cases e) (auto simp: event_rows_def ses_event_def split: if_splits)
  qed
  show "bounce_known i w \<or> sx_notificationType m \<in> {''Bounce'', ''Complaint''} \<and> sx_messageId m = Some i" if "bounce_known i v" for i
    using that by (cases rule: cases) (auto simp: bounce_known_def exists_row_iff dest: added)
  show "complaint_known i w \<or> sx_notificationType m \<in> {''Bounce'', ''Complaint''} \<and> sx_messageId m = Some i" if "complaint_known i v" for i
    using that by (cases rule: cases) (auto simp: complaint_known_def exists_row_iff dest: added)
qed

text \<open>A message stays news until another one reports its id.\<close>

lemma fresh_after:
  assumes "before (t0 + 1) w" "t0 < t" "fresh m w" "fresh m' w"
    and "sx_notificationType m \<in> {''Bounce'', ''Complaint''} \<Longrightarrow> sx_notificationType m' \<in> {''Bounce'', ''Complaint''} \<Longrightarrow>
      sx_messageId m \<noteq> sx_messageId m'"
  shows "fresh m' (snd (processSesBounce t m w))"
  using assms(4,5) after_event(3,4) [OF assms(1-3)] by (fastforce simp: fresh_def split: option.splits)

lemma reputation_run_step: "reputation_run about h ((t, m) # evs) s =
    reputation_run about h evs (case about m of None \<Rightarrow> s | Some (g, e) \<Rightarrow> if g = h then reputation_step e s else s)"
  by (simp add: reputation_run_def split: option.split)

lemma ses_run_step: "ses_run ((t, m) # evs) w = ses_run evs (snd (processSesBounce t m w))"
  by (simp add: ses_run_def)

text \<open>C4: The three tables of bounces, deliveries and suppressions implement a small automaton per wallet. Over any
  sequence of provider events at increasing times, whose bounces and complaints are reported once each,
  a wallet ends up suppressed exactly as the abstract history of its events says: at once after a hard
  bounce or a complaint, after the third soft bounce in a row, a delivery starting the row again; and
  events about other wallets change nothing for it.\<close>

theorem bounce_reputation:
  fixes w :: "'r world"
  assumes "distinct (map nt_id (w_notifications w))" "before (t0 + 1) w" "0 \<le> t0" "sorted_wrt (<) (t0 # map fst evs)"
    and "distinct (reported_ids evs)" "\<forall>(t, m) \<in> set evs. fresh m w"
  shows "reputation h (ses_run evs w) = reputation_run (event_for w) h evs (reputation h w)"
  using assms
proof (induction evs arbitrary: w t0)
  case (Cons x evs)
  obtain t m where x: "x = (t, m)" by fastforce
  have t: "t0 < t" and m: "fresh m w" using Cons.prems(4,6) by (simp_all add: x)
  let ?v = "snd (processSesBounce t m w)"
  note after = after_event [OF Cons.prems(2) t m]
  have keys: "event_for ?v = event_for w" by (rule ext) (simp add: event_for_keys after(1))
  have first: "reputation h ?v = (case event_for w m of None \<Rightarrow> reputation h w
      | Some (g, e) \<Rightarrow> if g = h then reputation_step e (reputation h w) else reputation h w)"
    using reputation_event [OF _ m before_next [OF Cons.prems(2) t] _ Cons.prems(1), of _ _ h] event_none [of w m t] Cons.prems(3) t
    by (cases "event_for w m") (auto split: prod.split)
  have ids: "map nt_id (w_notifications v) = map fst (note_keys v)" for v :: "'r world" by (simp add: note_keys_def comp_def)
  have "\<forall>(t', m') \<in> set evs. fresh m' ?v"
  proof safe
    fix t' m' assume m': "(t', m') \<in> set evs"
    have "sx_messageId m \<noteq> sx_messageId m'"
      if "sx_notificationType m \<in> {''Bounce'', ''Complaint''}" "sx_notificationType m' \<in> {''Bounce'', ''Complaint''}"
      using Cons.prems(5) m' that by (force simp: x reported_ids_def)
    then show "fresh m' ?v" using fresh_after [OF Cons.prems(2) t m, of m'] Cons.prems(6) m' by auto
  qed
  then have "reputation h (ses_run evs ?v) = reputation_run (event_for ?v) h evs (reputation h ?v)"
    using Cons.IH [of ?v t] Cons.prems after(1,2) t by (simp add: x ids reported_ids_def split: if_splits)
  then show ?case by (simp add: x ses_run_step reputation_run_step first keys)
qed (simp add: ses_run_def reputation_run_def)

definition sample_event :: "string \<Rightarrow> string option \<Rightarrow> string \<Rightarrow> ses_message" where
  "sample_event kind bounceType i = \<lparr>sx_notificationType = kind, sx_messageId = Some i, sx_bounceType = bounceType,
     sx_diagnosticCode = None, sx_smtpResponse = None, sx_processingTime = None\<rparr>"

definition sample_mails :: "keyspace world" where
  "sample_mails = (empty_world (\<lambda>_. None))\<lparr>w_notifications :=
     map (\<lambda>i. (new_notification i ''p1'' ''h'' ''s'' ''delivered'' ''defi'' 0)\<lparr>nt_sesMessageId := Some (''m'' @ i)\<rparr>) [''1'', ''2'', ''3'', ''4'']\<rparr>"

text \<open>Soft, soft, delivered, soft: not suppressed; then a hard bounce.\<close>

definition sample_events :: "(millis \<times> ses_message) list" where
  "sample_events = [(1, sample_event ''Bounce'' None ''m1''), (2, sample_event ''Bounce'' None ''m2''),
     (3, sample_event ''Delivery'' None ''m2''), (4, sample_event ''Bounce'' None ''m3''),
     (5, sample_event ''Bounce'' (Some ''Permanent'') ''m4'')]"

theorem bounce_reputation_witness:
  "reputation ''h'' (ses_run (take 4 sample_events) sample_mails) = (1, None)
   \<and> reputation ''h'' (ses_run sample_events sample_mails) = (0, Some ''hard_bounce'')"
proof -
  have world: "distinct (map nt_id (w_notifications sample_mails))" "before (0 + 1) sample_mails"
      "w_bounces sample_mails = []" "reputation ''h'' sample_mails = (0, None)"
    by (simp_all add: sample_mails_def new_notification_def empty_world_def before_def reputation_def suppressed_for_def consecutiveSofts_def)
  have fresh: "\<forall>(t, m) \<in> set evs. fresh m sample_mails" for evs
    using world(3) by (auto simp: fresh_def bounce_known_def complaint_known_def exists_row_iff split: option.split)
  have evs: "sorted_wrt (<) (0 # map fst (take n sample_events))" "distinct (reported_ids (take n sample_events))" if "n \<in> {4, 5}" for n
    using that by (auto simp: sample_events_def sample_event_def reported_ids_def)
  have run: "reputation_run (event_for sample_mails) ''h'' (take 4 sample_events) (0, None) = (1, None)"
    "reputation_run (event_for sample_mails) ''h'' (take 5 sample_events) (0, None) = (0, Some ''hard_bounce'')"
    by (simp_all add: sample_events_def sample_event_def reputation_run_step event_for_keys note_keys_def sample_mails_def
        new_notification_def ses_event_def)
      (simp_all add: reputation_run_def)
  have all: "take 5 sample_events = sample_events" by (simp add: sample_events_def)
  show ?thesis
    using bounce_reputation [OF world(1,2) _ evs(1,2) fresh, of 4 "''h''"] bounce_reputation [OF world(1,2) _ evs(1,2) fresh, of 5 "''h''"]
    by (simp add: world(4) run run(2) [unfolded all] all)
qed

section \<open>Facts: the two providers\<close>

text \<open>An event of Resend is the corresponding notification of SES.\<close>

definition resend_as_ses :: "string \<Rightarrow> string option \<Rightarrow> string option \<Rightarrow> ses_message" where
  "resend_as_ses eventType email_id data_id = \<lparr>sx_notificationType =
       (if eventType = ''email.bounced'' then ''Bounce'' else if eventType = ''email.complained'' then ''Complaint''
        else if eventType = ''email.delivered'' then ''Delivery'' else []),
     sx_messageId = (if email_id = None then data_id else email_id), sx_bounceType = Some ''Permanent'',
     sx_diagnosticCode = None, sx_smtpResponse = None, sx_processingTime = None\<rparr>"

lemma resend_like_ses:
  "processResendEvent now eventType email_id data_id w = processSesBounce now (resend_as_ses eventType email_id data_id) w"
  by (simp add: processResendEvent_def processSesBounce_def resend_as_ses_def Let_def split: option.split)

section \<open>Facts: no SES notification is lost\<close>

text \<open>What a message asks for: nothing, a job, or it cannot be read.\<close>

definition wanted_job :: "sqs_env \<Rightarrow> sqs_message \<Rightarrow> unit + ses_message option" where
  "wanted_job Q msg = (case qe_parseBody Q (qm_Body msg) of None \<Rightarrow> Inr None | Some body \<Rightarrow>
     if (if qb_notificationType body = None then qb_Type body else qb_notificationType body) = Some ''SubscriptionConfirmation'' then Inr None
     else (case (case qb_Message body of MessageText s \<Rightarrow> qe_parseMessage Q s | MessageObject m \<Rightarrow> Some m | NoMessage \<Rightarrow> Some (qb_self body)) of
         None \<Rightarrow> Inl () | Some m \<Rightarrow> Inr (Some m)))"

definition handled_message :: "sqs_env \<Rightarrow> sqs_message \<Rightarrow> bool" where
  "handled_message Q msg = (case wanted_job Q msg of Inl _ \<Rightarrow> False | Inr None \<Rightarrow> True | Inr (Some _) \<Rightarrow> qe_add Q msg)"

definition jobs_of :: "sqs_env \<Rightarrow> sqs_message \<Rightarrow> ses_message list" where
  "jobs_of Q msg = (case wanted_job Q msg of Inr (Some m) \<Rightarrow> if qe_add Q msg then [m] else [] | _ \<Rightarrow> [])"

lemma processMessage_handled:
  "\<exists>r. processMessage Q msg w = (r, w\<lparr>w_bounceJobs := w_bounceJobs w @ jobs_of Q msg\<rparr>) \<and> (r = Inr () \<longleftrightarrow> handled_message Q msg)"
proof -
  obtain d where d: "wanted_job Q msg = d" by simp
  have "processMessage Q msg w = (case d of Inl _ \<Rightarrow> throw (JsError ''SyntaxError'') w | Inr None \<Rightarrow> ok () w
      | Inr (Some m) \<Rightarrow> if qe_add Q msg then ok () (w\<lparr>w_bounceJobs := w_bounceJobs w @ [m]\<rparr>) else throw (JsError ''Connection is closed.'') w)"
    unfolding d [symmetric] processMessage_def wanted_job_def by (simp split: option.split)
  then show ?thesis by (cases d) (auto simp: handled_message_def jobs_of_def d flow_simps split: option.split)
qed

lemma poll_messages_step: "poll_messages Q (msg # msgs) entries w = poll_messages Q msgs
    (if handled_message Q msg \<and> truthy (qm_receiptHandle msg) \<and> truthy (qm_id msg)
     then entries @ [(the (qm_id msg), the (qm_receiptHandle msg))] else entries) (w\<lparr>w_bounceJobs := w_bounceJobs w @ jobs_of Q msg\<rparr>)"
proof -
  obtain r where "processMessage Q msg w = (r, w\<lparr>w_bounceJobs := w_bounceJobs w @ jobs_of Q msg\<rparr>)" "r = Inr () \<longleftrightarrow> handled_message Q msg"
    using processMessage_handled by blast
  then show ?thesis by (cases r) auto
qed

text \<open>A poll enqueues the jobs of the messages in order, and deletes exactly the messages it has handled.\<close>

lemma poll_messages_result:
  "poll_messages Q msgs entries w = (entries @ map (\<lambda>m. (the (qm_id m), the (qm_receiptHandle m)))
       (filter (\<lambda>m. handled_message Q m \<and> truthy (qm_receiptHandle m) \<and> truthy (qm_id m)) msgs),
     w\<lparr>w_bounceJobs := w_bounceJobs w @ concat (map (jobs_of Q) msgs)\<rparr>)"
  by (induction msgs arbitrary: entries w) (simp, simp add: poll_messages_step del: poll_messages.simps(2))

text \<open>Pushed or polled, a notification has the same effect.\<close>

lemma pushed_like_polled:
  assumes "qe_parseBody Q (qm_Body msg) = Some body"
  shows "processMessage Q msg w = and_then (handleSesNotification (qe_parseMessage Q) (qe_add Q msg) body w) (\<lambda>_. ok ())"
  using assms by (simp add: processMessage_def handleSesNotification_def flow_simps split: option.split message_field.split)

end
