(* ===== verification/Suppression.thy ===== *)
theory Suppression
  imports Bounce Mail_Worker
begin

text \<open>
  Where bounces meet delivery: what a suppression recorded by \<open>bounce/bounce.service.ts\<close> does to the
  next mail of \<open>channel/channel-dispatch.service.ts\<close>, and what \<open>queue/workers/mail.worker.ts\<close> does to the
  suppression before that.
\<close>

section \<open>The suppression of a wallet through a delivery\<close>

lemma record_result_suppressions: "w_suppressions (snd (record_result now job a copy r w)) = w_suppressions w"
proof -
  have "w_suppressions (snd (set_status i f s v)) = w_suppressions v" for i f s and v :: "'a world"
    using update_notification_frame [of i "\<lambda>n. (f n)\<lparr>nt_status := s\<rparr>" v] by (auto simp: set_status_def)
  moreover have "w_suppressions (snd (and_then r (\<lambda>_. ok x))) = w_suppressions (snd r)"
      "w_suppressions (snd (and_then r (\<lambda>_. throw e :: 'a world \<Rightarrow> (string, 'a world) handled))) = w_suppressions (snd r)" for r :: "(unit, 'a world) handled" and x :: string and e :: exn
    by (cases r; cases "fst r"; simp add: flow_simps)+
  ultimately show ?thesis by (simp add: record_result_def Let_def)
qed

lemma add_webhook_jobs_suppressions: "w_suppressions (snd (add_webhook_jobs f p hs w)) = w_suppressions w"
proof (induction hs arbitrary: w)
  case (Cons h hs)
  then show ?case by (cases "f h") (simp_all add: add_job_def flow_simps)
qed (simp add: flow_simps)

lemma fire_event_suppressions: "w_suppressions (fire_event M now job ty st w) = w_suppressions w"
  by (simp add: fire_event_def swallow_def dispatchEvent_def Let_def ok_def add_webhook_jobs_suppressions)

lemma increment_suppressions: "w_suppressions (incrementSendsThisPeriod i k w) = w_suppressions w"
  by (simp add: incrementSendsThisPeriod_def change_counters_def)

lemma dispatch_suppressions: "w_suppressions (snd (dispatch R now E c job w)) = w_suppressions w"
proof -
  obtain outcomes v where d: "deliver_channels R now E c job w = (outcomes, v)" by fastforce
  have "only_on (set (delivered_channels c job)) w v"
    using deliver_channels_settled [of c job w R now E] by (simp add: d settled_on_def)
  from only_on_frame(7) [OF this] show ?thesis by (simp add: dispatch_def d Let_def persistChannelDeliveries_def)
qed

lemma deliver_job_suppressions:
  "w_suppressions (snd (deliver_job R M now job i c w)) = w_suppressions (clear_suppression i c job w)"
proof -
  obtain result w1 where d: "dispatch R now (me_dispatch M) c job (clear_suppression i c job w) = (result, w1)" by fastforce
  let ?r = "record_result now job (me_arweave M job (primary_channel c))
    (portal_copy (me_seal M) (me_privKey M) i (me_portalBody M job)) result w1"
  have "w_suppressions (snd ?r) = w_suppressions (clear_suppression i c job w)"
    using dispatch_suppressions [of R now "me_dispatch M" c job "clear_suppression i c job w"]
    by (simp add: d record_result_suppressions)
  then show ?thesis
    by (cases ?r; cases "fst ?r") (simp_all add: deliver_job_def d flow_simps Let_def fire_event_suppressions increment_suppressions)
qed

text \<open>Deleting what \<open>suppress\<close> wrote leaves no trace of it.\<close>

lemma delete_update: "(\<And>r. p (f r) = p r) \<Longrightarrow> deleteMany p (updateMany p f rows) = deleteMany p rows"
  by (induction rows) (simp_all add: deleteMany_def updateMany_def)

lemma cleared_suppress:
  assumes "id_channelEmail i" "truthy (ch_email c)" "jd_walletHash job = Some (nt_walletHash n)" "nt_walletHash n \<noteq> []"
  shows "clear_suppression i c job (suppress now n reason w) = clear_suppression i c job w"
proof -
  have "truthy (jd_walletHash job)" using assms(3,4) by (simp add:)
  moreover have "deleteMany (\<lambda>s. es_walletHash s = nt_walletHash n) (w_suppressions (suppress now n reason w)) =
      deleteMany (\<lambda>s. es_walletHash s = nt_walletHash n) (w_suppressions w)"
    by (simp add: suppress_def delete_update) (simp add: deleteMany_def)
  ultimately show ?thesis using assms(1-3) by (simp add: clear_suppression_def suppress_def)
qed

lemma suppressed_email:
  assumes "jd_walletHash job = Some h" "h \<noteq> []" "suppressed_for h w = Some reason"
  shows "deliverEmail E now email job assets w = (failed_outcome (Some Email) (''Email suppressed: '' @ reason), w)"
proof -
  obtain s where "suppression_of (jd_walletHash job) w = Some s" "es_reason s = reason"
    using assms by (auto simp: suppressed_for_def suppression_of_def)
  then show ?thesis by (simp add: deliverEmail_def)
qed

text \<open>What a new hard bounce leaves: the suppression on top of the bounce row and the mark.\<close>

lemma hard_bounce_world:
  assumes "notification_of_message i w = Some n" "\<not> bounce_known i w" "i \<noteq> []"
    and "sx_messageId m = Some i" "sx_notificationType m = ''Bounce''" "sx_bounceType m = Some ''Permanent''"
  obtains v where "processSesBounce now m w = (Inr (), suppress now n ''hard_bounce'' v)" "w_suppressions v = w_suppressions w"
proof -
  have "exists_row (\<lambda>k. nt_id k = nt_id n) (w_notifications w)"
    using assms(1) by (auto simp: notification_of_message_def exists_row_iff find_Some_iff)
  then show thesis
    using assms that [of "snd (mark_bounced n ''hard'' (add_bounce now n ''hard'' i (sx_diagnosticCode m) w))"]
    by (simp add: processSesBounce_def flow_simps Let_def mark_bounced_def update_notification_def add_bounce_def)
qed

text \<open>C5: A hard bounce suppresses the wallet, and the dispatcher refuses it mail from then on; but the production
  worker deletes the wallet's suppression before every dispatch to a recipient with an e-mail channel. So
  its delivery after the bounce is the delivery it would have made without the suppression, and
  afterwards the wallet is not suppressed any more: only sandbox deliveries ever see the list.\<close>

theorem suppression_undone:
  fixes w :: "'r world" and m :: ses_message and now :: millis
  assumes "notification_of_message mid w = Some n" "\<not> bounce_known mid w" "mid \<noteq> []"
    and "sx_messageId m = Some mid" "sx_notificationType m = ''Bounce''" "sx_bounceType m = Some ''Permanent''"
    and "jd_walletHash job = Some (nt_walletHash n)" "nt_walletHash n \<noteq> []"
  defines "bounced \<equiv> snd (processSesBounce now m w)"
  shows "deliverEmail E t email job assets bounced = (failed_outcome (Some Email) ''Email suppressed: hard_bounce'', bounced)
    \<and> (id_channelEmail i \<and> truthy (ch_email c) \<longrightarrow>
         deliver_job R M t job i c bounced = deliver_job R M t job i c (bounced\<lparr>w_suppressions := w_suppressions w\<rparr>)
         \<and> suppressed_for (nt_walletHash n) (snd (deliver_job R M t job i c bounced)) = None)"
proof -
  obtain v where v: "bounced = suppress now n ''hard_bounce'' v" "w_suppressions v = w_suppressions w"
    using hard_bounce_world [OF assms(1-6), of now] by (metis bounced_def snd_conv)
  have undone: "bounced\<lparr>w_suppressions := w_suppressions w\<rparr> = v" by (simp add: v(1) suppress_def v(2) [symmetric])
  have "deliverEmail E t email job assets bounced = (failed_outcome (Some Email) ''Email suppressed: hard_bounce'', bounced)"
    using suppressed_email [OF assms(7,8), of bounced "''hard_bounce''"] by (simp add: v(1) suppressed_for_suppress)
  moreover have "deliver_job R M t job i c bounced = deliver_job R M t job i c v
      \<and> suppressed_for (nt_walletHash n) (snd (deliver_job R M t job i c bounced)) = None"
    if "id_channelEmail i" "truthy (ch_email c)"
  proof
    show "deliver_job R M t job i c bounced = deliver_job R M t job i c v"
      using cleared_suppress [OF that assms(7,8), of now "''hard_bounce''" v] by (simp add: deliver_job_def v(1))
    show "suppressed_for (nt_walletHash n) (snd (deliver_job R M t job i c bounced)) = None"
      using that assms(7,8)
      by (simp add: suppressed_for_def deliver_job_suppressions clear_suppression_def row_simps)
  qed
  ultimately show ?thesis unfolding undone by blast
qed

text \<open>A mail to a wallet whose last mail bounced is refused by the dispatcher and sent by the worker.\<close>

definition bounced_job :: job_data where
  "bounced_job = sample_job\<lparr>jd_walletHash := Some ''h''\<rparr>"

theorem suppression_undone_witness:
  "let w = snd (processSesBounce 5 (sample_event ''Bounce'' (Some ''Permanent'') ''m1'') sample_mails);
       c = \<lparr>ch_email = Some ''a@b'', ch_telegramChatId = None, ch_phone = None\<rparr>
   in fst (deliverEmail sample_dispatch_env 9 ''a@b'' bounced_job [] w) = failed_outcome (Some Email) ''Email suppressed: hard_bounce''
      \<and> suppressed_for ''h'' w = Some ''hard_bounce''
      \<and> suppressed_for ''h'' (snd (deliver_job mem_redis sample_mail_env 9 bounced_job sample_identity c w)) = None"
proof -
  let ?m = "sample_event ''Bounce'' (Some ''Permanent'') ''m1''" and ?c = "\<lparr>ch_email = Some ''a@b'', ch_telegramChatId = None, ch_phone = None\<rparr>"
  obtain n where n: "notification_of_message ''m1'' sample_mails = Some n" "nt_walletHash n = ''h''"
    by (simp add: notification_of_message_def sample_mails_def new_notification_def)
  have new: "\<not> bounce_known ''m1'' sample_mails" and some: "''m1'' \<noteq> []"
    by (simp_all add: bounce_known_def sample_mails_def empty_world_def exists_row_def)
  have kind: "sx_messageId ?m = Some ''m1''" "sx_notificationType ?m = ''Bounce''" "sx_bounceType ?m = Some ''Permanent''"
    by (simp_all add: sample_event_def)
  obtain v where "processSesBounce 5 ?m sample_mails = (Inr (), suppress 5 n ''hard_bounce'' v)"
    by (rule hard_bounce_world [OF n(1) new some kind, where now = 5]) (rule that)
  then have "suppressed_for ''h'' (snd (processSesBounce 5 ?m sample_mails)) = Some ''hard_bounce''"
    by (simp only: snd_conv suppressed_for_suppress n(2) refl if_True)
  moreover have wallet: "jd_walletHash bounced_job = Some (nt_walletHash n)" "nt_walletHash n \<noteq> []"
    and channel: "id_channelEmail sample_identity \<and> truthy (ch_email ?c)"
    by (simp_all add: bounced_job_def sample_identity_def n(2))
  note here = suppression_undone [OF n(1) new some kind wallet, where now = 5 and E = sample_dispatch_env and t = 9
    and email = "''a@b''" and assets = "[]" and i = sample_identity and c = ?c and R = mem_redis and M = sample_mail_env]
  ultimately show ?thesis
    unfolding Let_def using conjunct1 [OF here] conjunct2 [OF mp [OF conjunct2 [OF here] channel]]
    by (intro conjI) (simp_all only: n(2) fst_conv)
qed

end
