(* ===== verification/Receipt.thy ===== *)
theory Receipt
  imports Mail_Worker Notify "HOL-Library.Multiset"
begin

text \<open>
  On-chain receipts: the five-minute scan of \<open>receipt/receipt.service.ts\<close> and the batch worker of
  \<open>receipt/receipt.worker.ts\<close>. Proof, instruction, signature, submission and confirmation are calls into
  Solana, the Light protocol and KMS: one argument, the answer to a request when so many went out before.
\<close>

section \<open>The scan\<close>

definition receipt_pending :: "notification \<Rightarrow> bool" where
  "receipt_pending n = (nt_writeReceipt n \<and> nt_receiptTx n = None \<and> nt_receiptFailureReason n = None \<and> nt_status n = ''delivered'')"

definition receipt_item_of :: "notification \<Rightarrow> receipt_item" where
  "receipt_item_of n = \<lparr>ri_id = nt_id n, ri_protocolId = nt_protocolId n, ri_walletHash = nt_walletHash n, ri_category = nt_category n\<rparr>"

text \<open>Oldest delivery first; PostgreSQL sorts \<open>null\<close> last.\<close>

definition by_delivery :: "notification list \<Rightarrow> notification list" where
  "by_delivery rows = sort_key (\<lambda>n. the (nt_deliveredAt n)) (filter (\<lambda>n. nt_deliveredAt n \<noteq> None) rows)
     @ filter (\<lambda>n. nt_deliveredAt n = None) rows"

definition pendingNotifications :: "nat \<Rightarrow> 'r world \<Rightarrow> receipt_item list" where
  "pendingNotifications batchSize w =
     map receipt_item_of (take batchSize (by_delivery (filter receipt_pending (w_notifications w))))"

definition receipt_window :: "millis \<Rightarrow> string" where "receipt_window now = show_int (now div 300000)"

definition receipt_lock_key :: "millis \<Rightarrow> string" where "receipt_lock_key now = ''receipt-scan-lock:'' @ receipt_window now"

text \<open>\<open>added\<close>: does the job get into the queue? A job whose id the queue still holds is not added again.\<close>

definition enqueueReceiptBatches :: "'r redis_api \<Rightarrow> nat \<Rightarrow> bool \<Rightarrow> millis \<Rightarrow> 'r world \<Rightarrow> (unit, 'r world) handled" where
  "enqueueReceiptBatches R batchSize added now w =
     (if \<not> w_redisUp w then throw redis_error w
      else let (acquired, r1) = r_setnx R (w_redis w) now (receipt_lock_key now) (RText ''1'') (290 * 1000); w1 = w\<lparr>w_redis := r1\<rparr>
        in if \<not> acquired then ok () w1
           else let pending = pendingNotifications batchSize w1
             in if pending = [] then ok () w1
                else if added
                then ok () (if exists_row (\<lambda>j. snd j = ''receipt-batch-'' @ receipt_window now) (w_receiptJobs w1) then w1
                  else w1\<lparr>w_receiptJobs := w_receiptJobs w1 @ [(pending, ''receipt-batch-'' @ receipt_window now)]\<rparr>)
                else throw (JsError ''Connection is closed.'') w1)"

section \<open>The worker\<close>

definition CATEGORY_MAP :: "string \<rightharpoonup> notification_category" where
  "CATEGORY_MAP = [''defi'' \<mapsto> DEFI, ''governance'' \<mapsto> GOVERNANCE, ''marketing'' \<mapsto> MARKETING, ''system'' \<mapsto> OTHER, ''security'' \<mapsto> OTHER]"

text \<open>
  \<open>rc_chain n q\<close> answers the request \<open>q\<close> when \<open>n\<close> were made before: the confirmed transaction's id or the
  message of the error.
\<close>

record receipt_env =
  rc_client :: bool            \<comment> \<open>\<open>authorityClient\<close> is there\<close>
  rc_pubkeyLoaded :: bool
  rc_kmsMode :: bool
  rc_keypair :: bool
  rc_validPubkey :: "string \<Rightarrow> bool"
  rc_chain :: "nat \<Rightarrow> receipt_request \<Rightarrow> string + string"

definition receipt_request_of :: "string \<Rightarrow> receipt_item \<Rightarrow> receipt_request" where
  "receipt_request_of owner item = \<lparr>rq_protocolOwner = owner, rq_recipientHash = from_hex (ri_walletHash item),
     rq_notificationId = from_hex (filter (\<lambda>c. c \<noteq> CHR ''-'') (ri_id item)),
     rq_category = nullish (CATEGORY_MAP (ri_category item)) DEFI\<rparr>"

definition failure_reason :: "string \<Rightarrow> string" where
  "failure_reason rawMessage =
     (if str_includes rawMessage ''AccountNotInitialized''
      then ''Protocol account not initialised on-chain. Call POST /protocols/me/sync-onchain from the dashboard to register the protocol PDA, then clear this field to retry.''
      else rawMessage)"

definition record_receipt :: "string \<Rightarrow> string \<Rightarrow> 'r world \<Rightarrow> (unit, 'r world) handled" where
  "record_receipt i tx w = update_notification i (\<lambda>n. n\<lparr>nt_receiptTx := Some tx\<rparr>) w"

definition record_failure :: "millis \<Rightarrow> string \<Rightarrow> string \<Rightarrow> 'r world \<Rightarrow> (unit, 'r world) handled" where
  "record_failure now i message w = update_notification i
     (\<lambda>n. n\<lparr>nt_receiptFailureReason := Some (failure_reason message), nt_lastReceiptAttemptAt := Some now\<rparr>) w"

definition disable_receipt :: "string \<Rightarrow> 'r world \<Rightarrow> (unit, 'r world) handled" where
  "disable_receipt i w = update_notification i (\<lambda>n. n\<lparr>nt_writeReceipt := False\<rparr>) w"

text \<open>
  One item. The failure of the row's update inside the \<open>try\<close> is recorded as a failed receipt too; the
  update in the \<open>catch\<close> can throw.
\<close>

definition process_receipt :: "receipt_env \<Rightarrow> millis \<Rightarrow> receipt_item \<Rightarrow> 'r world \<Rightarrow> (unit, 'r world) handled" where
  "process_receipt C now item w =
     (let owner = map_option pr_protocolPubkey (List.find (\<lambda>p. pr_id p = ri_protocolId item) (w_protocols w))
      in if \<not> truthy owner then ok () w
         else catching
           (if \<not> rc_validPubkey C (the owner) then disable_receipt (ri_id item) w
            else let q = receipt_request_of (the owner) item; w1 = w\<lparr>w_sent := w_sent w @ [SentReceipt q]\<rparr>
              in case rc_chain C (length (w_sent w)) q of
                   Inl message \<Rightarrow> throw (JsError message) w1
                 | Inr tx \<Rightarrow> record_receipt (ri_id item) tx w1)
           (\<lambda>e w1. record_failure now (ri_id item) (exn_message e) w1))"

fun process_receipts :: "receipt_env \<Rightarrow> millis \<Rightarrow> receipt_item list \<Rightarrow> 'r world \<Rightarrow> (unit, 'r world) handled" where
  "process_receipts C now [] w = ok () w"
| "process_receipts C now (x # xs) w = and_then (process_receipt C now x w) (\<lambda>_. process_receipts C now xs)"

definition process_receipt_job ::
  "receipt_env \<Rightarrow> millis \<Rightarrow> string \<Rightarrow> receipt_item list option \<Rightarrow> 'r world \<Rightarrow> (unit, 'r world) handled" where
  "process_receipt_job C now name notifications w =
     (if name \<noteq> ''flush-receipts'' then ok () w
      else if nullish notifications [] = [] then ok () w
      else if \<not> rc_client C then throw (JsError ''AuthorityClient missing'') w
      else if \<not> rc_pubkeyLoaded C then throw (JsError ''Authority pubkey missing'') w
      else if \<not> rc_kmsMode C \<and> \<not> rc_keypair C then throw (JsError ''Authority keypair missing'') w
      else process_receipts C now (the notifications) w)"

section \<open>Facts\<close>

definition owner_of :: "'r world \<Rightarrow> receipt_item \<Rightarrow> string option" where
  "owner_of w item = map_option pr_protocolPubkey (List.find (\<lambda>p. pr_id p = ri_protocolId item) (w_protocols w))"

lemma update_found:
  "exists_row (\<lambda>n. nt_id n = i) (w_notifications w) \<Longrightarrow>
     update_notification i f w = (Inr (), w\<lparr>w_notifications := updateMany (\<lambda>n. nt_id n = i) f (w_notifications w)\<rparr>)"
  by (simp add: update_notification_def flow_simps)

text \<open>An item with a row and an owner is settled: whatever the chain answers, the row is no longer pending.\<close>

lemma process_receipt_settles:
  assumes "exists_row (\<lambda>n. nt_id n = ri_id item) (w_notifications w)" "truthy (owner_of w item)"
  obtains g w' where "process_receipt C now item w = (Inr (), w')"
    "w_notifications w' = updateMany (\<lambda>n. nt_id n = ri_id item) g (w_notifications w)" "w_protocols w' = w_protocols w"
    "\<And>n. nt_id (g n) = nt_id n \<and> nt_protocolId (g n) = nt_protocolId n \<and> \<not> receipt_pending (g n)"
proof -
  let ?q = "receipt_request_of (the (owner_of w item)) item"
  let ?w1 = "w\<lparr>w_sent := w_sent w @ [SentReceipt ?q]\<rparr>"
  let ?upd = "\<lambda>g v. v\<lparr>w_notifications := updateMany (\<lambda>n. nt_id n = ri_id item) g (w_notifications v)\<rparr>"
  let ?tx = "\<lambda>tx n. n\<lparr>nt_receiptTx := Some tx\<rparr>" and ?off = "\<lambda>n. n\<lparr>nt_writeReceipt := False\<rparr>"
    and ?bad = "\<lambda>m n. n\<lparr>nt_receiptFailureReason := Some (failure_reason m), nt_lastReceiptAttemptAt := Some now\<rparr>"
  have p: "process_receipt C now item w = (if \<not> rc_validPubkey C (the (owner_of w item)) then (Inr (), ?upd ?off w)
      else case rc_chain C (length (w_sent w)) ?q of Inl m \<Rightarrow> (Inr (), ?upd (?bad m) ?w1) | Inr tx \<Rightarrow> (Inr (), ?upd (?tx tx) ?w1))"
    using assms
    by (simp add: process_receipt_def owner_of_def [symmetric] disable_receipt_def record_receipt_def record_failure_def Let_def
        update_found flow_simps split: sum.split)
  show thesis
  proof (cases "rc_validPubkey C (the (owner_of w item))")
    case False
    then show thesis using p that [of "?upd ?off w" ?off] by (simp add: receipt_pending_def)
  next
    case True
    show thesis
    proof (cases "rc_chain C (length (w_sent w)) ?q")
      case (Inl m)
      then show thesis using True p that [of "?upd (?bad m) ?w1" "?bad m"] by (simp add: receipt_pending_def)
    next
      case (Inr tx)
      then show thesis using True p that [of "?upd (?tx tx) ?w1" "?tx tx"] by (simp add: receipt_pending_def)
    qed
  qed
qed

lemma exists_row_key: "exists_row (\<lambda>n. f n = i) rows \<longleftrightarrow> i \<in> set (map f rows)"
  by (auto simp: exists_row_iff)

lemma exists_updateMany: "(\<And>n. f (g n) = f n) \<Longrightarrow> exists_row (\<lambda>n. f n = i) (updateMany p g rows) = exists_row (\<lambda>n. f n = i) rows"
  using map_updateMany [of f g p rows] by (simp add: exists_row_key)

lemma process_receipts_settles:
  assumes "\<forall>x \<in> set xs. exists_row (\<lambda>n. nt_id n = ri_id x) (w_notifications w) \<and> truthy (owner_of w x)"
  obtains g w' where "process_receipts C now xs w = (Inr (), w')" "w_protocols w' = w_protocols w"
    "w_notifications w' = map g (w_notifications w)" "\<And>n. nt_id (g n) = nt_id n \<and> nt_protocolId (g n) = nt_protocolId n"
    "\<And>n. nt_id n \<in> ri_id ` set xs \<Longrightarrow> \<not> receipt_pending (g n)" "\<And>n. nt_id n \<notin> ri_id ` set xs \<Longrightarrow> g n = n"
  using assms
proof (induction xs arbitrary: w thesis)
  case Nil
  then show ?case by (simp add: ok_def)
next
  case (Cons x xs)
  obtain f w1 where f: "process_receipt C now x w = (Inr (), w1)" "w_protocols w1 = w_protocols w"
    "w_notifications w1 = updateMany (\<lambda>n. nt_id n = ri_id x) f (w_notifications w)"
    "\<And>n. nt_id (f n) = nt_id n \<and> nt_protocolId (f n) = nt_protocolId n \<and> \<not> receipt_pending (f n)"
    by (rule process_receipt_settles [of x w C now]) (use Cons.prems(2) in auto)
  have "\<forall>y \<in> set xs. exists_row (\<lambda>n. nt_id n = ri_id y) (w_notifications w1) \<and> truthy (owner_of w1 y)"
    using Cons.prems(2) f(2-4) by (simp add: exists_updateMany owner_of_def)
  then obtain g w' where g: "process_receipts C now xs w1 = (Inr (), w')" "w_protocols w' = w_protocols w1"
    "w_notifications w' = map g (w_notifications w1)" "\<And>n. nt_id (g n) = nt_id n \<and> nt_protocolId (g n) = nt_protocolId n"
    "\<And>n. nt_id n \<in> ri_id ` set xs \<Longrightarrow> \<not> receipt_pending (g n)" "\<And>n. nt_id n \<notin> ri_id ` set xs \<Longrightarrow> g n = n"
    using Cons.IH by blast
  let ?h = "\<lambda>n. g (if nt_id n = ri_id x then f n else n)"
  show ?case
  proof (rule Cons.prems(1) [of w' ?h])
    show "process_receipts C now (x # xs) w = (Inr (), w')" using f(1) g(1) by (simp add: flow_simps)
    show "w_protocols w' = w_protocols w" using f(2) g(2) by simp
    show "w_notifications w' = map ?h (w_notifications w)" by (simp add: g(3) f(3) updateMany_def)
    show "nt_id (?h n) = nt_id n \<and> nt_protocolId (?h n) = nt_protocolId n" for n using f(4) g(4) by simp
    show "\<not> receipt_pending (?h n)" if "nt_id n \<in> ri_id ` set (x # xs)" for n
      using that f(4) g(5,6) by (cases "ri_id x \<in> ri_id ` set xs") auto
    show "?h n = n" if "nt_id n \<notin> ri_id ` set (x # xs)" for n using that g(6) by auto
  qed
qed

lemma by_delivery_mset: "mset (by_delivery rows) = mset rows"
proof -
  have "mset (filter (\<lambda>n. nt_deliveredAt n \<noteq> None) rows) + mset (filter (\<lambda>n. nt_deliveredAt n = None) rows) = mset rows"
    by (induction rows) auto
  then show ?thesis by (simp only: by_delivery_def mset_append mset_sort)
qed

lemma pending_items:
  fixes w :: "'r world" and batchSize :: nat
  assumes "distinct (map nt_id (w_notifications w))"
  defines "items \<equiv> pendingNotifications batchSize w"
  shows "length items = min batchSize (count_rows receipt_pending (w_notifications w))"
    and "distinct (map ri_id items)"
    and "\<forall>x \<in> set items. \<exists>n \<in> set (w_notifications w). receipt_pending n \<and> x = receipt_item_of n"
proof -
  let ?rows = "filter receipt_pending (w_notifications w)"
  let ?all = "by_delivery ?rows"
  have items: "items = map receipt_item_of (take batchSize ?all)" by (simp add: items_def pendingNotifications_def)
  have mset: "mset ?all = mset ?rows" by (rule by_delivery_mset)
  then have len: "length ?all = length ?rows" by (metis size_mset)
  then show "length items = min batchSize (count_rows receipt_pending (w_notifications w))"
    by (simp add: items count_rows_def)
  have "distinct (map nt_id ?rows)" using assms(1) by (rule distinct_map_filter)
  then have "distinct (map nt_id ?all)" using mset by (metis mset_eq_imp_distinct_iff mset_map)
  then show "distinct (map ri_id items)"
    by (simp add: items take_map [symmetric] comp_def receipt_item_of_def)
  have "set ?all = set ?rows" using mset by (metis set_mset_mset)
  then show "\<forall>x \<in> set items. \<exists>n \<in> set (w_notifications w). receipt_pending n \<and> x = receipt_item_of n"
    using set_take_subset [of batchSize ?all] by (fastforce simp: items)
qed

text \<open>One scan and its batch: the pending rows that were selected are settled, the others untouched.\<close>

definition receipt_round :: "receipt_env \<Rightarrow> nat \<Rightarrow> millis \<Rightarrow> 'r world \<Rightarrow> 'r world" where
  "receipt_round C batchSize now w = snd (process_receipts C now (pendingNotifications batchSize w) w)"

definition owned :: "'r world \<Rightarrow> bool" where
  "owned w \<longleftrightarrow> (\<forall>n \<in> set (w_notifications w). truthy (owner_of w (receipt_item_of n)))"

lemma receipt_round_settles:
  fixes w :: "'r world" and C :: receipt_env and batchSize :: nat and now :: millis
  assumes "distinct (map nt_id (w_notifications w))" "owned w"
  defines "v \<equiv> receipt_round C batchSize now w"
  shows "count_rows receipt_pending (w_notifications v) = count_rows receipt_pending (w_notifications w) - batchSize"
    and "map nt_id (w_notifications v) = map nt_id (w_notifications w)" "owned v"
proof -
  let ?items = "pendingNotifications batchSize w" and ?rows = "w_notifications w"
  let ?ids = "ri_id ` set ?items"
  note items = pending_items [OF assms(1), of batchSize]
  have "\<forall>x \<in> set ?items. exists_row (\<lambda>n. nt_id n = ri_id x) ?rows \<and> truthy (owner_of w x)"
    using items(3) assms(2) by (fastforce simp: owned_def exists_row_iff receipt_item_of_def)
  then obtain g v' where g: "process_receipts C now ?items w = (Inr (), v')" "w_protocols v' = w_protocols w"
    "w_notifications v' = map g ?rows" "\<And>n. nt_id (g n) = nt_id n \<and> nt_protocolId (g n) = nt_protocolId n"
    "\<And>n. nt_id n \<in> ?ids \<Longrightarrow> \<not> receipt_pending (g n)" "\<And>n. nt_id n \<notin> ?ids \<Longrightarrow> g n = n"
    by (rule process_receipts_settles) blast
  have v: "v = v'" by (simp add: v_def receipt_round_def g(1))
  show "owned v" using assms(2) g(2,4) by (simp add: v g(3) owned_def owner_of_def receipt_item_of_def)
  show "map nt_id (w_notifications v) = map nt_id ?rows" by (simp add: v g(3,4) comp_def)
  have "filter receipt_pending (map g rows) = filter (\<lambda>n. receipt_pending n \<and> nt_id n \<notin> ?ids) rows" for rows
  proof (induction rows)
    case (Cons n rows)
    then show ?case using g(5,6) [of n] by (cases "nt_id n \<in> ?ids") simp_all
  qed simp
  note still = this
  have gone: "length (filter (\<lambda>n. receipt_pending n \<and> nt_id n \<in> ?ids) ?rows) = length ?items"
  proof -
    have "distinct (map nt_id (filter (\<lambda>n. receipt_pending n \<and> nt_id n \<in> ?ids) ?rows))" using assms(1) by (rule distinct_map_filter)
    from distinct_card [OF this] have "length (filter (\<lambda>n. receipt_pending n \<and> nt_id n \<in> ?ids) ?rows) =
        card (nt_id ` set (filter (\<lambda>n. receipt_pending n \<and> nt_id n \<in> ?ids) ?rows))"
      unfolding set_map length_map by (rule sym)
    also have "nt_id ` set (filter (\<lambda>n. receipt_pending n \<and> nt_id n \<in> ?ids) ?rows) = ?ids"
      using items(3) by (force simp: receipt_item_of_def)
    also have "card ?ids = length ?items" using distinct_card [OF items(2)] by simp
    finally show ?thesis .
  qed
  have "length (filter receipt_pending rows) = length (filter (\<lambda>n. receipt_pending n \<and> nt_id n \<in> ?ids) rows)
      + length (filter (\<lambda>n. receipt_pending n \<and> nt_id n \<notin> ?ids) rows)" for rows
    by (induction rows) auto
  note this [of ?rows]
  moreover have "count_rows receipt_pending (w_notifications v) = length (filter (\<lambda>n. receipt_pending n \<and> nt_id n \<notin> ?ids) ?rows)"
    by (simp only: count_rows_def v g(3) still)
  ultimately show "count_rows receipt_pending (w_notifications v) = count_rows receipt_pending ?rows - batchSize"
    using items(1) gone unfolding count_rows_def by linarith
qed

fun receipt_rounds :: "receipt_env \<Rightarrow> nat \<Rightarrow> millis list \<Rightarrow> 'r world \<Rightarrow> 'r world" where
  "receipt_rounds C batchSize [] w = w"
| "receipt_rounds C batchSize (t # ts) w = receipt_rounds C batchSize ts (receipt_round C batchSize t w)"


definition sample_receipt_env :: receipt_env where
  "sample_receipt_env = \<lparr>rc_client = True, rc_pubkeyLoaded = True, rc_kmsMode = False, rc_keypair = True,
     rc_validPubkey = (\<lambda>_. True), rc_chain = (\<lambda>n _. if n = 0 then Inl ''blockhash not found'' else Inr ''tx'')\<rparr>"

definition sample_receipts :: "keyspace world" where
  "sample_receipts = (empty_world (\<lambda>_. None))\<lparr>w_protocols := [sample_pr], w_notifications :=
     map (\<lambda>i. (new_notification i ''p1'' ''h'' ''s'' ''delivered'' ''defi'' 0)\<lparr>nt_deliveredAt := Some 5\<rparr>) [''1'', ''2'', ''3'']\<rparr>"


text \<open>
  Nothing but the row itself marks a notification as taken: the worker asks the chain again for an item
  whose receipt is already there.
\<close>

lemma receipt_requested_again:
  assumes "truthy (owner_of w item)" "rc_validPubkey C (the (owner_of w item))"
  shows "w_sent (snd (process_receipt C now item w)) = w_sent w @ [SentReceipt (receipt_request_of (the (owner_of w item)) item)]"
proof -
  have frame: "w_sent (snd (update_notification i f v)) = w_sent v" for i f and v :: "'a world"
    using update_notification_frame [of i f v] by auto
  have caught: "w_sent (snd (catching r (\<lambda>e v. record_failure now i (exn_message e) v))) = w_sent (snd r)" for i and r :: "(unit, 'a world) handled"
    by (cases r; cases "fst r") (simp_all add: record_failure_def frame)
  show ?thesis
    using assms by (simp add: process_receipt_def owner_of_def [symmetric] caught Let_def record_receipt_def frame throw_def split: sum.split)
qed

lemma scan_repeats: "pendingNotifications b (w\<lparr>w_redis := r, w_receiptJobs := js\<rparr>) = pendingNotifications b w"
  by (simp add: pendingNotifications_def)

context redis_service
begin

text \<open>One scan per window: the lock of 290 seconds holds for a second instance.\<close>

lemma receipt_scan_locked:
  assumes "w_redisUp w" "r_get R (w_redis w) t (receipt_lock_key t) = None" "t \<le> t'" "t' < t + 290000" "receipt_window t' = receipt_window t"
  shows "enqueueReceiptBatches R b a' t' (snd (enqueueReceiptBatches R b a t w)) = (Inr (), snd (enqueueReceiptBatches R b a t w))"
proof -
  let ?r = "snd (r_setnx R (w_redis w) t (receipt_lock_key t) (RText ''1'') (290 * 1000))"
  have key: "receipt_lock_key t' = receipt_lock_key t" using assms(5) by (simp add: receipt_lock_key_def)
  have after: "w_redis (snd (enqueueReceiptBatches R b a t w)) = ?r" "w_redisUp (snd (enqueueReceiptBatches R b a t w))"
    using assms(1,2) by (simp_all add: enqueueReceiptBatches_def setnx flow_simps Let_def)
  have "r_setnx R ?r t' (receipt_lock_key t) (RText ''1'') (290 * 1000) = (False, ?r)"
    using setnx_then_held [of t t' "290 * 1000" "w_redis w" "receipt_lock_key t" "RText ''1''"] assms by (intro setnx_refused) simp
  then show ?thesis
    by (simp add: enqueueReceiptBatches_def [of R b a' t'] after key flow_simps)
qed

end

end
