(* ===== verification/Digest.thy ===== *)
theory Digest
  imports Mail_Worker "HOL-Library.Multiset"
begin

text \<open>
  Digests: the hourly flush of \<open>notify/digest.service.ts\<close> and \<open>queue/workers/digest.worker.ts\<close>
  (\<open>bufferForDigest\<close> is in Mail_Worker). Rows that are due are grouped by wallet into jobs; the worker
  sends one message per job and marks its rows. The outcome of adding a job, the local time of an entry
  and the dispatcher's reading of the text (which holds characters above 255) are arguments.
\<close>

section \<open>Grouping\<close>

text \<open>A \<open>Map\<close> from keys to lists, in the order in which the keys first occur.\<close>

fun add_to_group :: "'k \<Rightarrow> 'v \<Rightarrow> ('k \<times> 'v list) list \<Rightarrow> ('k \<times> 'v list) list" where
  "add_to_group k v [] = [(k, [v])]"
| "add_to_group k v ((k', vs) # gs) = (if k' = k then (k', vs @ [v]) # gs else (k', vs) # add_to_group k v gs)"

definition grouped :: "('v \<Rightarrow> 'k) \<Rightarrow> 'v list \<Rightarrow> ('k \<times> 'v list) list" where
  "grouped key vs = fold (\<lambda>v. add_to_group (key v) v) vs []"

section \<open>The flush\<close>

definition dueEntries :: "millis \<Rightarrow> 'r world \<Rightarrow> digest_row list" where
  "dueEntries now w = sort_key dg_queuedAt (filter (\<lambda>d. dg_scheduledFor d \<le> now \<and> dg_sentAt d = None) (w_digest w))"

definition digest_entry_of :: "digest_row \<Rightarrow> digest_entry" where
  "digest_entry_of d = \<lparr>de_id = dg_id d, de_protocolId = dg_protocolId d, de_subject = dg_subject d,
     de_category = dg_category d, de_queuedAt = dg_queuedAt d\<rparr>"

definition digest_groups :: "digest_row list \<Rightarrow> (string \<times> digest_entry list) list" where
  "digest_groups due = map (\<lambda>(h, ds). (h, map digest_entry_of ds)) (grouped dg_walletHash due)"

fun add_digest_jobs :: "(string \<Rightarrow> bool) \<Rightarrow> millis \<Rightarrow> (string \<times> digest_entry list) list \<Rightarrow> 'r world \<Rightarrow> (unit, 'r world) handled" where
  "add_digest_jobs added now [] w = ok () w"
| "add_digest_jobs added now ((h, entries) # gs) w =
     (if added h
      then add_digest_jobs added now gs
             (w\<lparr>w_digestJobs := w_digestJobs w @ [(h, entries, ''digest-'' @ h @ ''-'' @ show_int now)]\<rparr>)
      else throw (JsError ''Connection is closed.'') w)"

definition flushDueDigests :: "(string \<Rightarrow> bool) \<Rightarrow> millis \<Rightarrow> 'r world \<Rightarrow> (unit, 'r world) handled" where
  "flushDueDigests added now w =
     (let due = dueEntries now w in if due = [] then ok () w else add_digest_jobs added now (digest_groups due) w)"

definition markAsSent :: "millis \<Rightarrow> string list \<Rightarrow> 'r world \<Rightarrow> 'r world" where
  "markAsSent now entryIds w =
     w\<lparr>w_digest := updateMany (\<lambda>d. dg_id d \<in> set entryIds) (\<lambda>d. d\<lparr>dg_sentAt := Some now\<rparr>) (w_digest w)\<rparr>"

section \<open>The worker\<close>

record digest_env =
  di_mail :: mail_env
  di_time :: "millis \<Rightarrow> units"        \<comment> \<open>\<open>toLocaleTimeString\<close>\<close>
  di_text :: "units \<Rightarrow> string"

definition category_icon :: "string \<Rightarrow> units" where
  "category_icon category =
     (if category = ''defi'' then [0xD83D, 0xDCB0] else if category = ''governance'' then [0xD83D, 0xDDF3, 0xFE0F]
      else if category = ''system'' then [0x2699, 0xFE0F] else if category = ''marketing'' then [0xD83D, 0xDCE2] else [0xD83D, 0xDD14])"

text \<open>\<open>charAt(0).toUpperCase()\<close> of a character below 256.\<close>

definition upper_unit :: "16 word \<Rightarrow> units" where
  "upper_unit u =
     (if (97 \<le> u \<and> u \<le> 122) \<or> (0xE0 \<le> u \<and> u \<le> 0xFE \<and> u \<noteq> 0xF7) then [u - 32]
      else if u = 0xDF then [83, 83] else if u = 0xFF then [0x178] else if u = 0xB5 then [0x39C] else [u])"

definition capitalized :: "string \<Rightarrow> units" where
  "capitalized s = (case units s of [] \<Rightarrow> [] | u # us \<Rightarrow> upper_unit u @ us)"

definition digest_line :: "(millis \<Rightarrow> units) \<Rightarrow> digest_entry \<Rightarrow> units" where
  "digest_line time e = units ''  '' @ [0x2022, 32] @ units (de_subject e) @ units '' _('' @ time (de_queuedAt e) @ units '')_''"

definition digest_section :: "(millis \<Rightarrow> units) \<Rightarrow> string \<times> digest_entry list \<Rightarrow> units list" where
  "digest_section time g =
     (category_icon (fst g) @ units '' **'' @ capitalized (fst g) @ units (''** ('' @ show_nat (length (snd g)) @ '')''))
     # map (digest_line time) (snd g) @ [[]]"

definition buildDigestBody :: "(millis \<Rightarrow> units) \<Rightarrow> digest_entry list \<Rightarrow> units" where
  "buildDigestBody time entries = join_with [10]
     (units (''Here'' @ [CHR 0x27] @ ''s a summary of your '' @ show_nat (length entries) @ '' notification''
        @ (if 1 < length entries then ''s'' else '''') @ '' since your last digest:'' @ [CHR 0x0A])
      # concat (map (digest_section time) (grouped (\<lambda>e. if de_category e = [] then ''general'' else de_category e) entries))
      @ [units ''---'', units ''You can adjust your digest preferences at [app.useherald.xyz](https://app.useherald.xyz)''])"

text \<open>The job handed to the dispatcher; there is no notification row of that id.\<close>

definition syntheticJob :: "digest_env \<Rightarrow> millis \<Rightarrow> string \<Rightarrow> digest_entry list \<Rightarrow> 'r world \<Rightarrow> job_data" where
  "syntheticJob D now walletHash entries w =
     (let protocolId = de_protocolId (hd entries); protocol = List.find (\<lambda>p. pr_id p = protocolId) (w_protocols w)
      in \<lparr>jd_notificationId = ''digest-'' @ take 8 walletHash @ ''-'' @ show_int now, jd_protocolId = protocolId,
          jd_protocolPubkey = (case protocol of None \<Rightarrow> [] | Some p \<Rightarrow> pr_protocolPubkey p), jd_protocolName = ''Herald Digest'',
          jd_wallet = [], jd_walletHash = None,
          jd_subject = ''Your notification digest ('' @ show_nat (length entries) @ '' updates)'',
          jd_body = di_text D (buildDigestBody (di_time D) entries), jd_category = ''system'', jd_writeReceipt = False,
          jd_digestMode = False, jd_priority = Some Normal, jd_channels = None, jd_excludedChannels = None,
          jd_preferredChannel = None, jd_isSandbox = None, jd_testContact = None,
          jd_tier = Some (case protocol of None \<Rightarrow> 0 | Some p \<Rightarrow> pr_tier p), jd_templateId = None,
          jd_telegramTemplateId = None, jd_templateVariables = None\<rparr>)"

text \<open>The wallet of the newest active subscription that has one.\<close>

definition digest_wallet :: "string \<Rightarrow> 'r world \<Rightarrow> string option" where
  "digest_wallet walletHash w =
     (case sort_key (\<lambda>s. - su_subscribedAt s) (filter (\<lambda>s. su_walletHash s = walletHash \<and> su_status s = ''active''
         \<and> su_walletPubkey s \<noteq> None) (w_audience w)) of
        [] \<Rightarrow> None | s # _ \<Rightarrow> su_walletPubkey s)"

definition process_digest ::
  "'r redis_api \<Rightarrow> digest_env \<Rightarrow> millis \<Rightarrow> string \<Rightarrow> digest_entry list option \<Rightarrow> 'r world \<Rightarrow> (unit, 'r world) handled" where
  "process_digest R D now walletHash data w =
     (let entries = nullish data []; M = di_mail D; sent = markAsSent now (map de_id entries)
      in if entries = [] then ok () w
         else if \<not> exists_row (\<lambda>n. nt_walletHash n = walletHash) (w_notifications w) then ok () (sent w)
         else let job = syntheticJob D now walletHash entries w; wallet = digest_wallet walletHash w
           in if \<not> truthy wallet then ok () (sent w)
              else and_then (resolveIdentity R (me_fetch M) now (the wallet) w) (\<lambda>idn w1.
                case idn of
                  None \<Rightarrow> ok () (sent w1)
                | Some i \<Rightarrow> and_then (lift_result (decryptAllChannels (me_boxOpen M) (me_privKey M) (me_enclave M) i) w1)
                    (\<lambda>c w2. ok () (sent (snd (dispatch R now (me_dispatch M) c job w2))))))"

text \<open>The attempts of one job, the next only after one that threw.\<close>

fun run_digest :: "'r redis_api \<Rightarrow> digest_env \<Rightarrow> string \<Rightarrow> digest_entry list \<Rightarrow> millis list \<Rightarrow> 'r world \<Rightarrow> bool \<times> 'r world" where
  "run_digest R D h entries [] w = (False, w)"
| "run_digest R D h entries (t # ts) w =
     (case process_digest R D t h (Some entries) w of
        (Inr _, w1) \<Rightarrow> (True, w1)
      | (Inl _, w1) \<Rightarrow> run_digest R D h entries ts w1)"

section \<open>Facts: the groups\<close>

lemma keys_add_to_group:
  "map fst (add_to_group k v gs) = (if k \<in> set (map fst gs) then map fst gs else map fst gs @ [k])"
proof (induction gs)
  case (Cons g gs)
  then show ?case by (cases g; cases "k \<in> set (map fst gs)"; cases "fst g = k") simp_all
qed simp

lemma map_of_add_to_group:
  "map_of (add_to_group k v gs) = (map_of gs)(k \<mapsto> (case map_of gs k of None \<Rightarrow> [] | Some us \<Rightarrow> us) @ [v])"
proof (induction gs)
  case (Cons g gs)
  then show ?case by (cases g; cases "fst g = k") (simp_all add: fun_eq_iff)
qed simp

lemma grouped_snoc: "grouped key (vs @ [v]) = add_to_group (key v) v (grouped key vs)"
  by (simp add: grouped_def)

lemma grouped_distinct: "distinct (map fst (grouped key vs))"
  by (induction vs rule: rev_induct) (simp_all add: grouped_snoc keys_add_to_group del: set_map, simp add: grouped_def)

text \<open>Each group is the sublist of its key, in order.\<close>

lemma map_of_grouped: "map_of (grouped key vs) k = (let us = filter (\<lambda>v. key v = k) vs in if us = [] then None else Some us)"
proof (induction vs rule: rev_induct)
  case (snoc v vs)
  then show ?case by (cases "k = key v"; cases "filter (\<lambda>v. key v = k) vs = []") (simp_all add: grouped_snoc map_of_add_to_group Let_def)
qed (simp add: grouped_def)

lemma in_grouped: "(k, us) \<in> set (grouped key vs) \<longleftrightarrow> us = filter (\<lambda>v. key v = k) vs \<and> us \<noteq> []"
proof -
  have "(k, us) \<in> set (grouped key vs) \<longleftrightarrow> map_of (grouped key vs) k = Some us"
    by (rule map_of_eq_Some_iff [OF grouped_distinct, symmetric])
  then show ?thesis by (auto simp: map_of_grouped Let_def)
qed

lemma add_to_group_mset: "mset (concat (map snd (add_to_group k v gs))) = add_mset v (mset (concat (map snd gs)))"
  by (induction gs) auto

lemma grouped_mset: "mset (concat (map snd (grouped key vs))) = mset vs"
  by (induction vs rule: rev_induct) (simp_all add: grouped_snoc add_to_group_mset, simp add: grouped_def)

section \<open>Facts: the flush\<close>

lemma add_digest_jobs_all:
  "(\<And>h. added h) \<Longrightarrow> add_digest_jobs added now gs w = (Inr (), w\<lparr>w_digestJobs := w_digestJobs w @
     map (\<lambda>(h, es). (h, es, ''digest-'' @ h @ ''-'' @ show_int now)) gs\<rparr>)"
  by (induction added now gs w rule: add_digest_jobs.induct) (simp_all add: flow_simps)

lemma dueEntries_mset: "mset (dueEntries now w) = filter_mset (\<lambda>d. dg_scheduledFor d \<le> now \<and> dg_sentAt d = None) (mset (w_digest w))"
  by (simp add: dueEntries_def)

lemma digest_groups_keys: "map fst (digest_groups due) = map fst (grouped dg_walletHash due)"
  by (simp add: digest_groups_def comp_def case_prod_beta)

lemma digest_groups_concat: "concat (map snd (digest_groups due)) = map digest_entry_of (concat (map snd (grouped dg_walletHash due)))"
  by (simp add: digest_groups_def map_concat comp_def case_prod_beta)

lemma in_digest_groups:
  "(h, es) \<in> set (digest_groups due) \<longleftrightarrow> es = map digest_entry_of (filter (\<lambda>d. dg_walletHash d = h) due) \<and> es \<noteq> []"
proof -
  have "(h, es) \<in> set (digest_groups due) \<longleftrightarrow> (\<exists>ds. es = map digest_entry_of ds \<and> (h, ds) \<in> set (grouped dg_walletHash due))"
    unfolding digest_groups_def by force
  then show ?thesis by (auto simp: in_grouped)
qed

text \<open>C9: The flush splits what is due among the wallets. When the queue takes the jobs, it adds one job per wallet
  with a due entry, holding exactly that wallet's due entries, oldest first; together the jobs hold every
  due, unsent row once and nothing else. It changes no row: until a job's worker has marked them, the
  next flush finds the same rows due and adds them again.\<close>

theorem digest_flush_partitions:
  fixes w :: "'r world" and now :: millis
  defines "due \<equiv> dueEntries now w"
  shows "\<exists>jobs. flushDueDigests (\<lambda>_. True) now w = (Inr (), w\<lparr>w_digestJobs := w_digestJobs w @ jobs\<rparr>)
    \<and> distinct (map fst jobs)
    \<and> (\<forall>h es. (\<exists>i. (h, es, i) \<in> set jobs) \<longleftrightarrow> es = map digest_entry_of (filter (\<lambda>d. dg_walletHash d = h) due) \<and> es \<noteq> [])
    \<and> mset (concat (map (fst \<circ> snd) jobs)) = image_mset digest_entry_of
        (filter_mset (\<lambda>d. dg_scheduledFor d \<le> now \<and> dg_sentAt d = None) (mset (w_digest w)))
    \<and> (\<forall>t. dueEntries t (snd (flushDueDigests (\<lambda>_. True) now w)) = dueEntries t w)"
proof -
  let ?jobs = "map (\<lambda>(h, es). (h, es, ''digest-'' @ h @ ''-'' @ show_int now)) (digest_groups due)"
  have flush: "flushDueDigests (\<lambda>_. True) now w = (Inr (), w\<lparr>w_digestJobs := w_digestJobs w @ ?jobs\<rparr>)"
  proof (cases "due = []")
    case True
    then show ?thesis by (simp add: flushDueDigests_def due_def [symmetric] digest_groups_def grouped_def flow_simps)
  next
    case False
    then show ?thesis using add_digest_jobs_all [of "\<lambda>_. True"] by (simp add: flushDueDigests_def due_def [symmetric])
  qed
  show ?thesis
  proof (intro exI [of _ ?jobs] conjI flush allI)
    have "map fst ?jobs = map fst (digest_groups due)" by (simp add: comp_def case_prod_beta)
    then show "distinct (map fst ?jobs)" using grouped_distinct [of dg_walletHash due] by (simp only: digest_groups_keys)
    show "(\<exists>i. (h, es, i) \<in> set ?jobs) \<longleftrightarrow> es = map digest_entry_of (filter (\<lambda>d. dg_walletHash d = h) due) \<and> es \<noteq> []" for h es
      using in_digest_groups [of h es due] by auto
    have "concat (map (fst \<circ> snd) ?jobs) = concat (map snd (digest_groups due))" by (simp add: comp_def case_prod_beta)
    then show "mset (concat (map (fst \<circ> snd) ?jobs)) = image_mset digest_entry_of
        (filter_mset (\<lambda>d. dg_scheduledFor d \<le> now \<and> dg_sentAt d = None) (mset (w_digest w)))"
      by (simp only: digest_groups_concat mset_map grouped_mset due_def dueEntries_mset)
    show "dueEntries t (snd (flushDueDigests (\<lambda>_. True) now w)) = dueEntries t w" for t by (simp add: flush dueEntries_def)
  qed
qed

text \<open>If the queue refuses a job, the flush stops there: the wallets before it have their jobs, the others wait.\<close>

lemma add_digest_jobs_prefix:
  "\<exists>k e. k \<le> length gs \<and> add_digest_jobs added now gs w = (if k = length gs then Inr () else Inl e, w\<lparr>w_digestJobs := w_digestJobs w @
     map (\<lambda>(h, es). (h, es, ''digest-'' @ h @ ''-'' @ show_int now)) (take k gs)\<rparr>)
     \<and> (\<forall>g \<in> set (take k gs). added (fst g)) \<and> (k < length gs \<longrightarrow> \<not> added (fst (gs ! k)))"
proof (induction added now gs w rule: add_digest_jobs.induct)
  case (1 added now w)
  then show ?case by (simp add: ok_def)
next
  case (2 added now h es gs w)
  show ?case
  proof (cases "added h")
    case True
    from 2 [OF True] obtain k e where "k \<le> length gs" "add_digest_jobs added now gs
          (w\<lparr>w_digestJobs := w_digestJobs w @ [(h, es, ''digest-'' @ h @ ''-'' @ show_int now)]\<rparr>) =
        (if k = length gs then Inr () else Inl e, w\<lparr>w_digestJobs := w_digestJobs w @
          map (\<lambda>(h, es). (h, es, ''digest-'' @ h @ ''-'' @ show_int now)) (take (Suc k) ((h, es) # gs))\<rparr>)"
        "\<forall>g \<in> set (take k gs). added (fst g)" "k < length gs \<longrightarrow> \<not> added (fst (gs ! k))" by auto
    then show ?thesis using True by (intro exI [of _ "Suc k"] exI [of _ e]) simp
  next
    case False
    then show ?thesis by (intro exI [of _ 0] exI [of _ "JsError ''Connection is closed.''"]) (simp add: throw_def)
  qed
qed

section \<open>Facts: the worker\<close>

lemma updateMany_due:
  "filter (\<lambda>d. dg_scheduledFor d \<le> t \<and> dg_sentAt d = None) (updateMany p (\<lambda>d. d\<lparr>dg_sentAt := Some now\<rparr>) rows) =
   filter (\<lambda>d. \<not> p d) (filter (\<lambda>d. dg_scheduledFor d \<le> t \<and> dg_sentAt d = None) rows)"
  by (induction rows) (simp_all add: updateMany_def)

lemma dueEntries_sent: "dueEntries t (markAsSent now ids w) = filter (\<lambda>d. dg_id d \<notin> set ids) (dueEntries t w)"
  by (simp add: dueEntries_def markAsSent_def updateMany_due filter_sort)

lemma resolve_keeps:
  "w_digest (snd (resolveIdentity R f now wallet w)) = w_digest w" "w_sent (snd (resolveIdentity R f now wallet w)) = w_sent w"
  by (simp_all add: resolveIdentity_def flow_simps Let_def split: option.splits redis_value.splits)

lemma dispatch_digest: "w_digest (snd (dispatch R now E c job w)) = w_digest w"
proof -
  obtain outcomes v where d: "deliver_channels R now E c job w = (outcomes, v)" by fastforce
  have "only_on (set (delivered_channels c job)) w v"
    using deliver_channels_settled [of c job w R now E] by (simp add: d settled_on_def)
  from only_on_frame(5) [OF this] show ?thesis by (simp add: dispatch_def d Let_def persistChannelDeliveries_def)
qed

text \<open>An attempt that throws has sent nothing and marked nothing; one that ends has marked exactly its rows.\<close>

lemma process_digest_cases:
  assumes "es \<noteq> []"
  shows "(\<exists>e w'. process_digest R D now h (Some es) w = (Inl e, w') \<and> w_digest w' = w_digest w \<and> w_sent w' = w_sent w)
    \<or> (\<exists>w'. process_digest R D now h (Some es) w = (Inr (), w') \<and> w_digest w' = w_digest (markAsSent now (map de_id es) w))"
proof -
  let ?M = "di_mail D"
  have sent: "w_digest (markAsSent now ids v) = w_digest (markAsSent now ids w)" if "w_digest v = w_digest w" for ids and v :: "'a world"
    using that by (simp add: markAsSent_def)
  show ?thesis
  proof (cases "exists_row (\<lambda>n. nt_walletHash n = h) (w_notifications w) \<and> truthy (digest_wallet h w)")
    case False
    then show ?thesis using assms by (auto simp: process_digest_def Let_def ok_def js_simps)
  next
    case True
    obtain r w1 where r: "resolveIdentity R (me_fetch ?M) now (the (digest_wallet h w)) w = (r, w1)" by fastforce
    have w1: "w_digest w1 = w_digest w" "w_sent w1 = w_sent w"
      using resolve_keeps [of R "me_fetch ?M" now "the (digest_wallet h w)" w] by (simp_all add: r)
    show ?thesis
    proof (cases r)
      case (Inl e)
      then show ?thesis using True assms r w1 by (simp add: process_digest_def Let_def js_simps)
    next
      case (Inr idn)
      show ?thesis
      proof (cases idn)
        case None
        then show ?thesis using True assms r Inr sent [OF w1(1)] by (simp add: process_digest_def Let_def flow_simps js_simps)
      next
        case (Some i)
        show ?thesis
        proof (cases "decryptAllChannels (me_boxOpen ?M) (me_privKey ?M) (me_enclave ?M) i")
          case (Inl e)
          then show ?thesis using True assms r \<open>r = Inr idn\<close> Some w1 by (simp add: process_digest_def Let_def flow_simps js_simps)
        next
          case (Inr c)
          then show ?thesis
            using True assms r \<open>r = Inr idn\<close> Some sent [OF dispatch_digest [THEN trans, OF w1(1)]] by (simp add: process_digest_def Let_def flow_simps js_simps)
        qed
      qed
    qed
  qed
qed

text \<open>A digest is sent by one attempt at most. Over any number of attempts at a job, either one of them ended,
  and then exactly the job's rows are off the due list, whether or not any channel delivered; or all
  threw, and then nothing was sent and the due list is what it was, so the next flush takes the rows up
  again.\<close>

theorem digest_job_atomic:
  assumes "es \<noteq> []" "run_digest R D h es ts w = (ended, w')"
  shows "dueEntries t w' = (if ended then filter (\<lambda>d. dg_id d \<notin> set (map de_id es)) (dueEntries t w) else dueEntries t w)
    \<and> (\<not> ended \<longrightarrow> w_sent w' = w_sent w)"
  using assms(2)
proof (induction ts arbitrary: w)
  case (Cons now ts)
  have same: "w_digest v = w_digest u \<Longrightarrow> dueEntries t v = dueEntries t u" for u v :: "'a world" by (simp add: dueEntries_def)
  from process_digest_cases [OF assms(1), of R D now h w] show ?case
  proof (elim disjE exE conjE)
    fix e v assume v: "process_digest R D now h (Some es) w = (Inl e, v)" "w_digest v = w_digest w" "w_sent v = w_sent w"
    then show ?case using Cons.IH [of v] Cons.prems same [OF v(2)] by simp
  next
    fix v assume v: "process_digest R D now h (Some es) w = (Inr (), v)" "w_digest v = w_digest (markAsSent now (map de_id es) w)"
    then show ?case using Cons.prems same [OF v(2)] by (auto simp: dueEntries_sent)
  qed
qed simp


definition sample_digests :: "keyspace world" where
  "sample_digests = (empty_world (\<lambda>_. None))\<lparr>
     w_notifications := [new_notification ''n1'' ''p1'' ''h'' ''s'' ''digested'' ''defi'' 0],
     w_audience := [\<lparr>su_walletPubkey = Some ''W'', su_walletHash = ''h'', su_protocolId = ''p1'', su_channels = [], su_status = ''active'',
       su_source = [], su_subscribedAt = 0, su_updatedAt = 0\<rparr>],
     w_digest := map (\<lambda>i. \<lparr>dg_id = i, dg_walletHash = ''h'', dg_protocolId = ''p1'', dg_subject = ''s'', dg_category = ''defi'',
       dg_queuedAt = 0, dg_scheduledFor = 10, dg_sentAt = None\<rparr>) [''1'', ''2'']\<rparr>"

text \<open>The registry is down for both attempts; in the next hour the wallet is not registered any more.\<close>

theorem digest_job_atomic_witness:
  "let D = \<lparr>di_mail = sample_mail_env, di_time = (\<lambda>_. []), di_text = (\<lambda>_. [])\<rparr>;
       down = D\<lparr>di_mail := sample_mail_env\<lparr>me_fetch := (\<lambda>_. None)\<rparr>\<rparr>;
       es = map digest_entry_of (w_digest sample_digests);
       (ended, w) = run_digest mem_redis down ''h'' es [20, 25] sample_digests;
       (ended', w') = run_digest mem_redis D ''h'' es [30] w
   in \<not> ended \<and> length (dueEntries 30 w) = 2 \<and> w_sent w = [] \<and> ended' \<and> dueEntries 30 w' = []"
proof -
  let ?D = "\<lparr>di_mail = sample_mail_env, di_time = (\<lambda>_. []), di_text = (\<lambda>_. [])\<rparr>"
  let ?down = "?D\<lparr>di_mail := sample_mail_env\<lparr>me_fetch := (\<lambda>_. None)\<rparr>\<rparr>"
  let ?es = "map digest_entry_of (w_digest sample_digests)"
  have due: "dueEntries 30 sample_digests = w_digest sample_digests" "length (w_digest sample_digests) = 2"
    and ids: "\<forall>d \<in> set (w_digest sample_digests). dg_id d \<in> set (map de_id ?es)" and es: "?es \<noteq> []"
    and log: "w_sent sample_digests = []"
    by (simp_all add: sample_digests_def dueEntries_def digest_entry_of_def empty_world_def)
  have found: "exists_row (\<lambda>n. nt_walletHash n = ''h'') (w_notifications sample_digests)" "digest_wallet ''h'' sample_digests = Some ''W''"
    by (simp_all add: sample_digests_def exists_row_def new_notification_def digest_wallet_def)
  have redis: "w_redisUp sample_digests" "w_redis sample_digests = (\<lambda>_. None)" by (simp_all add: sample_digests_def empty_world_def)
  have up: "resolveIdentity mem_redis f t ''W'' sample_digests = (case f ''W'' of
      None \<Rightarrow> throw (HttpExn 503 ''REGISTRY_UNAVAILABLE'') sample_digests
    | Some None \<Rightarrow> ok None (sample_digests\<lparr>w_redis := mem_setex (\<lambda>_. None) t (pda_key ''W'') (RText ''NOT_REGISTERED'') (120 * 1000)\<rparr>)
    | Some (Some i) \<Rightarrow> ok (Some i) (sample_digests\<lparr>w_redis := mem_setex (\<lambda>_. None) t (pda_key ''W'')
        (RIdentity (serializeForCache i)) (PDA_CACHE_TTL_SECONDS * 1000)\<rparr>))" for f t
    by (simp add: resolveIdentity_def redis mem_redis_def mem_get_def Let_def)
  have fails: "process_digest mem_redis ?down t ''h'' (Some ?es) sample_digests = (Inl (HttpExn 503 ''REGISTRY_UNAVAILABLE''), sample_digests)" for t
    using found es by (simp add: process_digest_def Let_def up js_simps flow_simps)
  then have first: "run_digest mem_redis ?down ''h'' ?es [20, 25] sample_digests = (False, sample_digests)" by simp
  obtain w' where second: "run_digest mem_redis ?D ''h'' ?es [30] sample_digests = (True, w')"
    using found es by (simp add: process_digest_def Let_def up js_simps flow_simps sample_mail_env_def)
  note digest_job_atomic [OF es first, of 30] digest_job_atomic [OF es second, of 30]
  then show ?thesis
    unfolding Let_def first prod.case second using due ids log by (simp add: filter_empty_conv)
qed

end
