(* ===== verification/Scheduler.thy ===== *)
theory Scheduler
  imports Job_Queue Js_Regex
begin

text \<open>
  Scheduled notifications (\<open>notify/scheduler.service.ts\<close>, with the endpoints of
  \<open>notify/notify.controller.ts\<close>): creating, listing and cancelling rows, and the reconciliation that
  runs every five minutes. Fresh ids, SHA-256 and the queue's answer are arguments.
\<close>

section \<open>The table\<close>

definition scheduled_by_id :: "'r world \<Rightarrow> string \<Rightarrow> scheduled_row option" where
  "scheduled_by_id w i = List.find (\<lambda>s. sc_id s = i) (w_scheduled w)"

definition insert_scheduled :: "scheduled_row \<Rightarrow> 'r world \<Rightarrow> (unit, 'r world) handled" where
  "insert_scheduled s w =
     (if exists_row (\<lambda>r. sc_id r = sc_id s) (w_scheduled w) then throw (PrismaExn ''P2002'') w
      else ok () (w\<lparr>w_scheduled := w_scheduled w @ [s]\<rparr>))"

definition update_scheduled :: "string \<Rightarrow> (scheduled_row \<Rightarrow> scheduled_row) \<Rightarrow> 'r world \<Rightarrow> (unit, 'r world) handled" where
  "update_scheduled i f w =
     (if exists_row (\<lambda>s. sc_id s = i) (w_scheduled w)
      then ok () (w\<lparr>w_scheduled := updateMany (\<lambda>s. sc_id s = i) f (w_scheduled w)\<rparr>)
      else throw (PrismaExn ''P2025'') w)"

section \<open>The next run\<close>

text \<open>\<open>trim().split(/\s+/)\<close>, but for the empty word of a blank text.\<close>

fun words_from :: "string \<Rightarrow> string \<Rightarrow> string list" where
  "words_from acc [] = (if acc = [] then [] else [acc])"
| "words_from acc (c # cs) =
     (if is_space c then (if acc = [] then words_from [] cs else acc # words_from [] cs) else words_from (acc @ [c]) cs)"

text \<open>\<open>parseInt(s, 10)\<close>; \<open>None\<close> is \<open>NaN\<close>.\<close>

definition parse_int :: "string \<Rightarrow> int option" where
  "parse_int s =
     (let t = dropWhile is_space s; (neg, u) = (case t of CHR ''-'' # v \<Rightarrow> (True, v) | CHR ''+'' # v \<Rightarrow> (False, v) | _ \<Rightarrow> (False, t));
          ds = takeWhile is_digit u
      in if ds = [] then None else Some (if neg then - int (parse_digits 0 ds) else int (parse_digits 0 ds)))"

text \<open>A \<open>Date\<close>; \<open>None\<close> is the invalid one.\<close>

definition js_date :: "int \<Rightarrow> millis option" where
  "js_date t = (if \<bar>t\<bar> \<le> 8640000000000000 then Some t else None)"

definition getNextCronRun :: "millis \<Rightarrow> string \<Rightarrow> millis option" where
  "getNextCronRun now cronExpr =
     (case words_from [] cronExpr of
        [minute, hour, _, _, _] \<Rightarrow>
          if startsWith minute ''*/'' then Option.bind (parse_int (drop 2 minute)) (\<lambda>k. js_date (now + k * 60000))
          else if startsWith hour ''*/'' then Option.bind (parse_int (drop 2 hour)) (\<lambda>k. js_date (now + k * 3600000))
          else js_date (now + 86400000)
      | _ \<Rightarrow> js_date (now + 3600000))"

section \<open>The endpoints\<close>

record schedule_dto =
  sd_wallet :: "string option"
  sd_subject :: string
  sd_body :: string
  sd_category :: "string option"
  sd_channels :: "string list option"
  sd_timezone :: "string option"
  sd_templateId :: "string option"

definition scheduled_of ::
  "string \<Rightarrow> string \<Rightarrow> schedule_dto \<Rightarrow> schedule_type \<Rightarrow> string option \<Rightarrow> millis \<Rightarrow> scheduled_row" where
  "scheduled_of newId protocolId dto kind cronExpr nextRunAt =
     \<lparr>sc_id = newId, sc_protocolId = protocolId, sc_wallet = sd_wallet dto, sc_subject = sd_subject dto, sc_body = sd_body dto,
      sc_category = nullish (sd_category dto) ''defi'', sc_channels = nullish (sd_channels dto) [''email''], sc_type = kind,
      sc_cronExpr = cronExpr, sc_timezone = nullish (sd_timezone dto) ''UTC'', sc_nextRunAt = nextRunAt, sc_lastRunAt = None,
      sc_status = PENDING, sc_templateId = sd_templateId dto\<rparr>"

text \<open>The columns of the table (\<open>prisma/schema.prisma\<close>) hold so much.\<close>

definition fits_scheduled :: "scheduled_row \<Rightarrow> bool" where
  "fits_scheduled s = (length (nullish (sc_wallet s) []) \<le> 44 \<and> length (sc_subject s) \<le> 200 \<and> length (sc_category s) \<le> 30
     \<and> length (nullish (sc_cronExpr s) []) \<le> 100 \<and> length (sc_timezone s) \<le> 50)"

definition create_scheduled :: "scheduled_row \<Rightarrow> 'r world \<Rightarrow> (scheduled_row, 'r world) handled" where
  "create_scheduled s w =
     (if \<not> fits_scheduled s then throw (PrismaExn ''P2000'') w else and_then (insert_scheduled s w) (\<lambda>_. ok s))"

text \<open>An invalid date is refused by the client library.\<close>

definition scheduleOnce ::
  "string \<Rightarrow> string \<Rightarrow> schedule_dto \<Rightarrow> millis option \<Rightarrow> 'r world \<Rightarrow> (scheduled_row, 'r world) handled" where
  "scheduleOnce newId protocolId dto scheduledFor w =
     (case scheduledFor of
        None \<Rightarrow> throw (JsError ''Invalid value for argument nextRunAt'') w
      | Some t \<Rightarrow> create_scheduled (scheduled_of newId protocolId dto ONE_TIME None t) w)"

definition scheduleRecurring ::
  "string \<Rightarrow> millis \<Rightarrow> string \<Rightarrow> schedule_dto \<Rightarrow> string \<Rightarrow> 'r world \<Rightarrow> (scheduled_row, 'r world) handled" where
  "scheduleRecurring newId now protocolId dto cronExpr w =
     (case getNextCronRun now cronExpr of
        None \<Rightarrow> throw (JsError ''Invalid value for argument nextRunAt'') w
      | Some t \<Rightarrow> create_scheduled (scheduled_of newId protocolId dto RECURRING (Some cronExpr) t) w)"

text \<open>\<open>skip\<close> and \<open>take\<close> of the client library: a negative \<open>take\<close> counts from the end, a negative \<open>skip\<close> is refused.\<close>

definition skip_take :: "nat \<Rightarrow> int \<Rightarrow> 'a list \<Rightarrow> 'a list" where
  "skip_take skip n xs = (if 0 \<le> n then take (nat n) (drop skip xs) else rev (take (nat (- n)) (drop skip (rev xs))))"

definition listScheduled :: "string \<Rightarrow> int option \<Rightarrow> int option \<Rightarrow> 'r world \<Rightarrow> (scheduled_row list \<times> nat, 'r world) handled" where
  "listScheduled protocolId page limit w =
     (let rows = filter (\<lambda>s. sc_protocolId s = protocolId \<and> sc_status s \<noteq> CANCELLED) (w_scheduled w)
      in case (page, limit) of
           (Some p, Some l) \<Rightarrow>
             if (p - 1) * l < 0 then throw (JsError ''Invalid value for skip argument'') w
             else ok (skip_take (nat ((p - 1) * l)) l (sort_key sc_nextRunAt rows), length rows) w
         | _ \<Rightarrow> throw (JsError ''Invalid value for skip argument'') w)"

definition cancelScheduled :: "string \<Rightarrow> string \<Rightarrow> 'r world \<Rightarrow> 'r world" where
  "cancelScheduled protocolId i w =
     w\<lparr>w_scheduled := updateMany (\<lambda>s. sc_id s = i \<and> sc_protocolId s = protocolId \<and> sc_status s = PENDING)
         (\<lambda>s. s\<lparr>sc_status := CANCELLED\<rparr>) (w_scheduled w)\<rparr>"

section \<open>The reconciliation\<close>

text \<open>
  The queue's answer to an \<open>add\<close> under a job id: taken, or the id still belongs to an earlier job
  (which BullMQ returns instead), or refused.
\<close>

datatype queue_answer = Taken | Known | Refused

record sched_env =
  sv_sha :: "string \<Rightarrow> string"
  sv_newId :: "scheduled_row \<Rightarrow> string"
  sv_add :: "scheduled_row \<Rightarrow> queue_answer"

definition scheduled_note :: "sched_env \<Rightarrow> millis \<Rightarrow> scheduled_row \<Rightarrow> notification" where
  "scheduled_note E now s =
     (new_notification (sv_newId E s) (sc_protocolId s) (sv_sha E (the (sc_wallet s))) (sv_sha E (sc_subject s)) ''queued'' (sc_category s) now)
       \<lparr>nt_writeReceipt := False\<rparr>"

definition scheduled_job :: "sched_env \<Rightarrow> scheduled_row \<Rightarrow> job_data" where
  "scheduled_job E s =
     \<lparr>jd_notificationId = sv_newId E s, jd_protocolId = sc_protocolId s, jd_protocolPubkey = [], jd_protocolName = [],
      jd_wallet = the (sc_wallet s), jd_walletHash = Some (sv_sha E (the (sc_wallet s))), jd_subject = sc_subject s, jd_body = sc_body s,
      jd_category = sc_category s, jd_writeReceipt = False, jd_digestMode = False, jd_priority = None, jd_channels = None,
      jd_excludedChannels = None, jd_preferredChannel = None, jd_isSandbox = Some False, jd_testContact = None, jd_tier = None,
      jd_templateId = sc_templateId s, jd_telegramTemplateId = None, jd_templateVariables = None\<rparr>"

definition scheduled_job_id :: "scheduled_row \<Rightarrow> string" where "scheduled_job_id s = ''scheduled-'' @ sc_id s"

text \<open>The notification of a run; its category column is narrower than the scheduled row's.\<close>

definition send_scheduled :: "sched_env \<Rightarrow> millis \<Rightarrow> scheduled_row \<Rightarrow> 'r world \<Rightarrow> (unit, 'r world) handled" where
  "send_scheduled E now s w =
     (if \<not> truthy (sc_wallet s) then ok () w
      else if 20 < length (sc_category s) then throw (PrismaExn ''P2000'') w
      else and_then (create_notification (scheduled_note E now s) w) (\<lambda>_ w1.
        case sv_add E s of
          Taken \<Rightarrow> ok () (w1\<lparr>w_notificationJobs := w_notificationJobs w1 @ [(scheduled_job E s, Some (scheduled_job_id s))]\<rparr>)
        | Known \<Rightarrow> ok () w1
        | Refused \<Rightarrow> throw (JsError ''Connection is closed.'') w1))"

definition finish_scheduled :: "millis \<Rightarrow> scheduled_row \<Rightarrow> 'r world \<Rightarrow> (unit, 'r world) handled" where
  "finish_scheduled now s w =
     (if sc_type s = RECURRING \<and> truthy (sc_cronExpr s)
      then case getNextCronRun now (the (sc_cronExpr s)) of
             None \<Rightarrow> throw (JsError ''Invalid value for argument nextRunAt'') w
           | Some t \<Rightarrow> update_scheduled (sc_id s) (\<lambda>s. s\<lparr>sc_status := PENDING, sc_nextRunAt := t\<rparr>) w
      else update_scheduled (sc_id s) (\<lambda>s. s\<lparr>sc_status := COMPLETED\<rparr>) w)"

text \<open>One overdue row, as it was when it was selected.\<close>

definition run_scheduled :: "sched_env \<Rightarrow> millis \<Rightarrow> scheduled_row \<Rightarrow> 'r world \<Rightarrow> 'r world" where
  "run_scheduled E now s w = snd (catching
     (and_then (update_scheduled (sc_id s) (\<lambda>r. r\<lparr>sc_status := RUNNING, sc_lastRunAt := Some now\<rparr>) w) (\<lambda>_ w1.
      and_then (send_scheduled E now s w1) (\<lambda>_. finish_scheduled now s)))
     (\<lambda>_ w1. swallow (update_scheduled (sc_id s) (\<lambda>r. r\<lparr>sc_status := FAILED\<rparr>) w1)))"

definition overdue :: "millis \<Rightarrow> 'r world \<Rightarrow> scheduled_row list" where
  "overdue now w = take 200 (filter (\<lambda>s. sc_status s = PENDING \<and> sc_nextRunAt s \<le> now) (w_scheduled w))"

definition reconcilePendingJobs :: "sched_env \<Rightarrow> millis \<Rightarrow> 'r world \<Rightarrow> 'r world" where
  "reconcilePendingJobs E now w = fold (run_scheduled E now) (overdue now w) w"

section \<open>Facts: the table\<close>

definition unique_scheduled :: "'r world \<Rightarrow> bool" where "unique_scheduled w \<longleftrightarrow> distinct (map sc_id (w_scheduled w))"

definition keeps_sc_id :: "(scheduled_row \<Rightarrow> scheduled_row) \<Rightarrow> bool" where "keeps_sc_id f \<longleftrightarrow> (\<forall>s. sc_id (f s) = sc_id s)"

interpretation st: keyed_table scheduled_by_id insert_scheduled update_scheduled sc_id unique_scheduled keeps_sc_id
proof (unfold_locales, goal_cases)
  case (1 r w u w' k)
  then show ?case
    by (auto simp: insert_scheduled_def scheduled_by_id_def exists_row_def flow_simps find_append split: if_splits option.splits)
next
  case (2 r w e w')
  then show ?case by (auto simp: insert_scheduled_def flow_simps split: if_splits)
next
  case (3 w r)
  then show ?case by (auto simp: insert_scheduled_def unique_scheduled_def exists_row_iff flow_simps)
next
  case (4 w k r f)
  then show ?case by (simp add: update_scheduled_def scheduled_by_id_def exists_row_def flow_simps)
next
  case (5 w k r f k')
  then show ?case
    using find_key_update [of sc_id f k' k "w_scheduled w"]
    by (auto simp: update_scheduled_def scheduled_by_id_def exists_row_def keeps_sc_id_def flow_simps)
next
  case (6 w k f)
  then show ?case by (simp add: update_scheduled_def scheduled_by_id_def exists_row_def flow_simps)
next
  case (7 w f k)
  then show ?case
    using map_updateMany [of sc_id f] by (simp add: update_scheduled_def unique_scheduled_def keeps_sc_id_def flow_simps)
qed


lemma updateMany_twice: "(\<And>r. p (g r) = p r) \<Longrightarrow> updateMany p f (updateMany p g rows) = updateMany p (\<lambda>r. f (g r)) rows"
  by (induction rows) simp_all

lemma update_scheduled_hit:
  "i \<in> sc_id ` set (w_scheduled w) \<Longrightarrow>
     update_scheduled i f w = (Inr (), w\<lparr>w_scheduled := updateMany (\<lambda>s. sc_id s = i) f (w_scheduled w)\<rparr>)"
  by (auto simp: update_scheduled_def exists_row_iff flow_simps)

lemma ids_updateMany: "(\<And>s. sc_id (f s) = sc_id s) \<Longrightarrow> sc_id ` set (updateMany p f rows) = sc_id ` set rows"
  by (induction rows) auto

section \<open>Facts: one run\<close>

lemma send_scheduled_table: "w_scheduled (snd (send_scheduled E now s w)) = w_scheduled w"
proof -
  obtain ns where "snd (create_notification (scheduled_note E now s) w) = w\<lparr>w_notifications := ns\<rparr>"
    using create_notification_frame by blast
  then show ?thesis
    by (cases "create_notification (scheduled_note E now s) w"; cases "fst (create_notification (scheduled_note E now s) w)")
      (auto simp: send_scheduled_def flow_simps split: queue_answer.split)
qed

text \<open>However a run ends, it leaves its row waiting for the next run, completed or failed; never running.\<close>

lemma run_scheduled_table:
  assumes "sc_id s \<in> sc_id ` set (w_scheduled w)"
  shows "\<exists>f. w_scheduled (run_scheduled E now s w) = updateMany (\<lambda>r. sc_id r = sc_id s) f (w_scheduled w)
    \<and> (\<forall>r. sc_id (f r) = sc_id r \<and> sc_status (f r) \<in> {PENDING, COMPLETED, FAILED})"
proof -
  let ?start = "\<lambda>r. r\<lparr>sc_status := RUNNING, sc_lastRunAt := Some now\<rparr>" and ?p = "\<lambda>r. sc_id r = sc_id s"
  let ?w1 = "w\<lparr>w_scheduled := updateMany ?p ?start (w_scheduled w)\<rparr>"
  have start: "update_scheduled (sc_id s) ?start w = (Inr (), ?w1)" by (rule update_scheduled_hit [OF assms])
  obtain r w2 where sent: "send_scheduled E now s ?w1 = (r, w2)" by fastforce
  have table: "w_scheduled w2 = updateMany ?p ?start (w_scheduled w)" using send_scheduled_table [of E now s ?w1] by (simp add: sent)
  have "sc_id ` set (updateMany ?p ?start (w_scheduled w)) = sc_id ` set (w_scheduled w)" by (rule ids_updateMany) simp
  then have "sc_id s \<in> sc_id ` set (w_scheduled w2)" using assms by (simp only: table)
  then have hit: "update_scheduled (sc_id s) f w2 = (Inr (), w2\<lparr>w_scheduled := updateMany ?p (\<lambda>r. f (?start r)) (w_scheduled w)\<rparr>)" for f
    by (simp add: update_scheduled_hit table updateMany_twice)
  have ends: ?thesis if "run_scheduled E now s w = snd (update_scheduled (sc_id s) f w2)" "\<And>r. sc_id (f r) = sc_id r"
      "\<And>r. sc_status (f r) \<in> {PENDING, COMPLETED, FAILED}" for f
    using that hit [of f] by (intro exI [of _ "\<lambda>r. f (?start r)"]) simp
  show ?thesis
  proof (cases r)
    case (Inl e)
    then show ?thesis by (intro ends [of "\<lambda>r. r\<lparr>sc_status := FAILED\<rparr>"]) (simp_all add: run_scheduled_def start sent flow_simps)
  next
    case (Inr u)
    show ?thesis
    proof (cases "sc_type s = RECURRING \<and> truthy (sc_cronExpr s)")
      case False
      then show ?thesis using Inr
        by (intro ends [of "\<lambda>r. r\<lparr>sc_status := COMPLETED\<rparr>"]) (auto simp: run_scheduled_def start sent finish_scheduled_def hit flow_simps)
    next
      case True
      show ?thesis
      proof (cases "getNextCronRun now (the (sc_cronExpr s))")
        case None
        then show ?thesis using True Inr
          by (intro ends [of "\<lambda>r. r\<lparr>sc_status := FAILED\<rparr>"]) (simp_all add: run_scheduled_def start sent finish_scheduled_def flow_simps)
      next
        case (Some t)
        then show ?thesis using True Inr
          by (intro ends [of "\<lambda>r. r\<lparr>sc_status := PENDING, sc_nextRunAt := t\<rparr>"])
            (simp_all add: run_scheduled_def start sent finish_scheduled_def hit flow_simps)
      qed
    qed
  qed
qed

lemma run_scheduled_other:
  assumes "sc_id s \<in> sc_id ` set (w_scheduled w)" "i \<noteq> sc_id s"
  shows "scheduled_by_id (run_scheduled E now s w) i = scheduled_by_id w i"
proof -
  obtain f where "w_scheduled (run_scheduled E now s w) = updateMany (\<lambda>r. sc_id r = sc_id s) f (w_scheduled w)" "\<forall>r. sc_id (f r) = sc_id r"
    using run_scheduled_table [OF assms(1)] by blast
  then show ?thesis using assms(2) by (simp add: scheduled_by_id_def find_key_update)
qed

lemma run_scheduled_ids:
  assumes "sc_id s \<in> sc_id ` set (w_scheduled w)"
  shows "map sc_id (w_scheduled (run_scheduled E now s w)) = map sc_id (w_scheduled w)"
proof -
  obtain f where "w_scheduled (run_scheduled E now s w) = updateMany (\<lambda>r. sc_id r = sc_id s) f (w_scheduled w)" "\<forall>r. sc_id (f r) = sc_id r"
    using run_scheduled_table [OF assms(1)] by blast
  then show ?thesis by (simp add: map_updateMany)
qed

text \<open>A run and the rows that were waiting: all others keep their content, and its own is not running.\<close>

lemma runs_table:
  assumes "\<forall>s \<in> set xs. sc_id s \<in> sc_id ` set (w_scheduled w)"
  shows "map sc_id (w_scheduled (fold (run_scheduled E now) xs w)) = map sc_id (w_scheduled w)
    \<and> (\<forall>i. i \<notin> sc_id ` set xs \<longrightarrow> scheduled_by_id (fold (run_scheduled E now) xs w) i = scheduled_by_id w i)
    \<and> ((\<forall>r \<in> set (w_scheduled w). sc_status r \<noteq> RUNNING) \<longrightarrow>
        (\<forall>r \<in> set (w_scheduled (fold (run_scheduled E now) xs w)). sc_status r \<noteq> RUNNING))"
  using assms
proof (induction xs arbitrary: w)
  case (Cons s xs)
  let ?v = "run_scheduled E now s w"
  have s: "sc_id s \<in> sc_id ` set (w_scheduled w)" using Cons.prems by simp
  have ids: "map sc_id (w_scheduled ?v) = map sc_id (w_scheduled w)" by (rule run_scheduled_ids [OF s])
  then have "sc_id ` set (w_scheduled ?v) = sc_id ` set (w_scheduled w)" by (metis set_map)
  then have "\<forall>s \<in> set xs. sc_id s \<in> sc_id ` set (w_scheduled ?v)" using Cons.prems by simp
  note IH = Cons.IH [OF this]
  obtain f where f: "w_scheduled ?v = updateMany (\<lambda>r. sc_id r = sc_id s) f (w_scheduled w)"
    "\<forall>r. sc_status (f r) \<in> {PENDING, COMPLETED, FAILED}"
    using run_scheduled_table [OF s, of E now] by blast
  have "\<forall>r \<in> set (w_scheduled ?v). sc_status r \<noteq> RUNNING" if "\<forall>r \<in> set (w_scheduled w). sc_status r \<noteq> RUNNING"
  proof
    fix r assume "r \<in> set (w_scheduled ?v)"
    then obtain q where "q \<in> set (w_scheduled w)" "r = (if sc_id q = sc_id s then f q else q)" by (auto simp: f(1) set_updateMany)
    then show "sc_status r \<noteq> RUNNING" using that f(2) [THEN spec, of q] by auto
  qed
  moreover have "scheduled_by_id (fold (run_scheduled E now) xs ?v) i = scheduled_by_id w i" if "i \<notin> sc_id ` set (s # xs)" for i
    using that IH run_scheduled_other [OF s, of i E now] by simp
  ultimately show ?case using IH ids by (simp del: fold_simps add: fold_Cons)
qed simp


section \<open>Facts: the lifecycle of a row\<close>

text \<open>One request or one reconciliation.\<close>

inductive sched_step :: "'r world \<Rightarrow> 'r world \<Rightarrow> bool" where
  once: "scheduleOnce newId protocolId dto t w = (r, w') \<Longrightarrow> sched_step w w'"
| recurring: "scheduleRecurring newId now protocolId dto cron w = (r, w') \<Longrightarrow> sched_step w w'"
| cancel: "sched_step w (cancelScheduled protocolId i w)"
| reconcile: "sched_step w (reconcilePendingJobs E now w)"

definition settled_row :: "scheduled_row \<Rightarrow> bool" where "settled_row s \<longleftrightarrow> sc_status s \<in> {COMPLETED, FAILED, CANCELLED}"

definition scheduled_ok :: "'r world \<Rightarrow> bool" where
  "scheduled_ok w \<longleftrightarrow> unique_scheduled w \<and> (\<forall>s \<in> set (w_scheduled w). sc_status s \<noteq> RUNNING)"

lemma create_scheduled_cases:
  assumes "create_scheduled s w = (r, w')"
  shows "w' = w \<or> (w' = w\<lparr>w_scheduled := w_scheduled w @ [s]\<rparr> \<and> scheduled_by_id w (sc_id s) = None)"
  using assms
  by (auto simp: create_scheduled_def insert_scheduled_def scheduled_by_id_def exists_row_def flow_simps split: if_splits)

lemma scheduling_cases:
  assumes "scheduleOnce newId protocolId dto t w = (r, w') \<or> scheduleRecurring newId now protocolId dto cron w = (r, w')"
  shows "w' = w \<or> (\<exists>s. w' = w\<lparr>w_scheduled := w_scheduled w @ [s]\<rparr> \<and> scheduled_by_id w (sc_id s) = None \<and> sc_status s = PENDING)"
proof -
  have pending: "sc_status (scheduled_of newId protocolId dto kind cr nx) = PENDING" for kind cr nx by (simp add: scheduled_of_def)
  from assms show ?thesis
    by (auto simp: scheduleOnce_def scheduleRecurring_def flow_simps pending split: option.splits
        dest!: create_scheduled_cases [of _ w r w'])
qed

lemma reconcile_rows: "\<forall>s \<in> set (overdue now w). sc_id s \<in> sc_id ` set (w_scheduled w)"
  by (auto simp: overdue_def dest: in_set_takeD)

definition rows_kept :: "'r world \<Rightarrow> 'r world \<Rightarrow> bool" where
  "rows_kept w w' \<longleftrightarrow> scheduled_ok w'
     \<and> (\<forall>i s. scheduled_by_id w i = Some s \<longrightarrow> settled_row s \<longrightarrow> scheduled_by_id w' i = Some s)
     \<and> (\<forall>i. scheduled_by_id w i \<noteq> None \<longrightarrow> scheduled_by_id w' i \<noteq> None)"

lemma scheduling_keeps:
  assumes "scheduleOnce newId protocolId dto t w = (r, w') \<or> scheduleRecurring newId now protocolId dto cron w = (r, w')" "scheduled_ok w"
  shows "rows_kept w w'"
  using scheduling_cases [OF assms(1)] assms(2)
  by (auto simp: rows_kept_def scheduled_ok_def unique_scheduled_def scheduled_by_id_def find_append find_None_row) blast

lemma cancel_keeps: "scheduled_ok w \<Longrightarrow> rows_kept w (cancelScheduled protocolId k w)"
proof -
  assume w: "scheduled_ok w"
  let ?p = "\<lambda>s. sc_id s = k \<and> sc_protocolId s = protocolId \<and> sc_status s = PENDING" and ?f = "\<lambda>s. s\<lparr>sc_status := CANCELLED\<rparr>"
  have "scheduled_by_id (cancelScheduled protocolId k w) i = map_option (\<lambda>r. if ?p r then ?f r else r) (scheduled_by_id w i)" for i
    unfolding cancelScheduled_def scheduled_by_id_def
    using find_updateMany_other [of "\<lambda>m. sc_id m = i" ?f ?p "w_scheduled w"] by simp
  moreover have "scheduled_ok (cancelScheduled protocolId k w)"
    using w map_updateMany [of sc_id ?f ?p "w_scheduled w"]
    by (auto simp: cancelScheduled_def scheduled_ok_def unique_scheduled_def set_updateMany)
  ultimately show ?thesis by (auto simp: rows_kept_def settled_row_def)
qed

lemma reconcile_keeps: "scheduled_ok w \<Longrightarrow> rows_kept w (reconcilePendingJobs E now w)"
proof -
  assume w: "scheduled_ok w"
  let ?v = "reconcilePendingJobs E now w"
  note runs = runs_table [OF reconcile_rows [of now w], of E now, folded reconcilePendingJobs_def [of E now w]]
  have "scheduled_ok ?v" using runs w by (simp add: scheduled_ok_def unique_scheduled_def)
  moreover have "i \<notin> sc_id ` set (overdue now w)" if "scheduled_by_id w i = Some s" "settled_row s" for i s
  proof
    assume "i \<in> sc_id ` set (overdue now w)"
    then obtain q where q: "sc_id q = i" "q \<in> set (w_scheduled w)" "sc_status q = PENDING"
      by (auto simp: overdue_def dest: in_set_takeD)
    have "sc_id s = i" "s \<in> set (w_scheduled w)"
      using find_Some_row [OF that(1) [unfolded scheduled_by_id_def]] by simp_all
    then have "s = q" using q w by (intro distinct_key_unique [of sc_id "w_scheduled w"]) (simp_all add: scheduled_ok_def unique_scheduled_def)
    then show False using q(3) that(2) by (simp add: settled_row_def)
  qed
  moreover have "scheduled_by_id ?v i \<noteq> None" if "scheduled_by_id w i \<noteq> None" for i
  proof -
    have "i \<in> set (map sc_id (w_scheduled u)) \<longleftrightarrow> scheduled_by_id u i \<noteq> None" for u :: "'a world"
      by (auto simp: scheduled_by_id_def find_None_row)
    then show ?thesis using runs that by metis
  qed
  ultimately show ?thesis using runs by (simp add: rows_kept_def)
qed

lemma sched_step_keeps: "sched_step w w' \<Longrightarrow> scheduled_ok w \<Longrightarrow> rows_kept w w'"
  by (cases rule: sched_step.cases) (auto intro: scheduling_keeps cancel_keeps reconcile_keeps)

text \<open>C7: A scheduled row ends once. However requests and reconciliations follow one another, ids stay unique, no row is
  ever left running between two of them, no row disappears, and a row that was completed, failed or
  cancelled stays exactly as it was: it is never run again and never revived.\<close>

theorem scheduled_lifecycle:
  assumes "sched_step\<^sup>*\<^sup>* w w'" "scheduled_ok w"
  shows "scheduled_ok w'
    \<and> (\<forall>i s. scheduled_by_id w i = Some s \<longrightarrow> settled_row s \<longrightarrow> scheduled_by_id w' i = Some s)
    \<and> (\<forall>i. scheduled_by_id w i \<noteq> None \<longrightarrow> scheduled_by_id w' i \<noteq> None)"
  using assms
proof (induction rule: rtranclp_induct)
  case (step u v)
  then have "rows_kept u v" by (intro sched_step_keeps) simp_all
  with step show ?case by (simp add: rows_kept_def)
qed simp


text \<open>
  Between the selection of a row and its run a cancellation has no effect: the run goes on as if it had
  not been made.
\<close>

lemma cancel_lost: "run_scheduled E now s (cancelScheduled protocolId (sc_id s) w) = run_scheduled E now s w"
proof -
  let ?start = "\<lambda>r. r\<lparr>sc_status := RUNNING, sc_lastRunAt := Some now\<rparr>"
  let ?p = "\<lambda>r. sc_id r = sc_id s \<and> sc_protocolId r = protocolId \<and> sc_status r = PENDING" and ?f = "\<lambda>r. r\<lparr>sc_status := CANCELLED\<rparr>"
  have same: "exists_row (\<lambda>r. sc_id r = sc_id s) (updateMany ?p ?f rows) = exists_row (\<lambda>r. sc_id r = sc_id s) rows" for rows :: "scheduled_row list"
    by (induction rows) (auto simp: exists_row_def)
  show ?thesis
  proof (cases "exists_row (\<lambda>r. sc_id r = sc_id s) (w_scheduled w)")
    case True
    have "updateMany (\<lambda>r. sc_id r = sc_id s) ?start (updateMany ?p ?f rows) = updateMany (\<lambda>r. sc_id r = sc_id s) ?start rows"
      for rows :: "scheduled_row list"
      by (induction rows) simp_all
    then have "update_scheduled (sc_id s) ?start (cancelScheduled protocolId (sc_id s) w) = update_scheduled (sc_id s) ?start w"
      using True by (simp add: update_scheduled_def cancelScheduled_def same)
    then show ?thesis by (simp only: run_scheduled_def)
  next
    case False
    then have "cancelScheduled protocolId (sc_id s) w = w"
      by (auto simp: cancelScheduled_def exists_row_iff updateMany_none)
    then show ?thesis by simp
  qed
qed

section \<open>Facts: what a reconciliation does\<close>

text \<open>Of an overdue row, if nothing fails: the row afterwards, its notification and its job.\<close>

definition next_run :: "millis \<Rightarrow> scheduled_row \<Rightarrow> millis option" where
  "next_run now s = (if sc_type s = RECURRING \<and> truthy (sc_cronExpr s) then getNextCronRun now (the (sc_cronExpr s)) else None)"

definition after_run :: "millis \<Rightarrow> scheduled_row \<Rightarrow> scheduled_row" where
  "after_run now s = (case next_run now s of
     None \<Rightarrow> s\<lparr>sc_status := COMPLETED, sc_lastRunAt := Some now\<rparr>
   | Some t \<Rightarrow> s\<lparr>sc_status := PENDING, sc_lastRunAt := Some now, sc_nextRunAt := t\<rparr>)"

definition notes_of_run :: "sched_env \<Rightarrow> millis \<Rightarrow> scheduled_row \<Rightarrow> notification list" where
  "notes_of_run E now s = (if truthy (sc_wallet s) then [scheduled_note E now s] else [])"

definition jobs_of_run :: "sched_env \<Rightarrow> scheduled_row \<Rightarrow> (job_data \<times> string option) list" where
  "jobs_of_run E s = (if truthy (sc_wallet s) \<and> sv_add E s = Taken then [(scheduled_job E s, Some (scheduled_job_id s))] else [])"

definition run_possible :: "sched_env \<Rightarrow> millis \<Rightarrow> scheduled_row \<Rightarrow> bool" where
  "run_possible E now s \<longleftrightarrow> (truthy (sc_wallet s) \<longrightarrow> length (sc_category s) \<le> 20 \<and> sv_add E s \<noteq> Refused)
     \<and> (sc_type s = RECURRING \<and> truthy (sc_cronExpr s) \<longrightarrow> getNextCronRun now (the (sc_cronExpr s)) \<noteq> None)"

lemma run_scheduled_exact:
  assumes "run_possible E now s" "\<forall>r \<in> set (w_scheduled w). sc_id r = sc_id s \<longrightarrow> r = s" "s \<in> set (w_scheduled w)"
    and "truthy (sc_wallet s) \<Longrightarrow> sv_newId E s \<notin> nt_id ` set (w_notifications w)"
  shows "run_scheduled E now s w = w\<lparr>w_scheduled := updateMany (\<lambda>r. sc_id r = sc_id s) (after_run now) (w_scheduled w),
    w_notifications := w_notifications w @ notes_of_run E now s, w_notificationJobs := w_notificationJobs w @ jobs_of_run E s\<rparr>"
proof -
  let ?start = "\<lambda>r. r\<lparr>sc_status := RUNNING, sc_lastRunAt := Some now\<rparr>" and ?p = "\<lambda>r. sc_id r = sc_id s"
  let ?w1 = "w\<lparr>w_scheduled := updateMany ?p ?start (w_scheduled w)\<rparr>"
  let ?w2 = "?w1\<lparr>w_notifications := w_notifications w @ notes_of_run E now s, w_notificationJobs := w_notificationJobs w @ jobs_of_run E s\<rparr>"
  have start: "update_scheduled (sc_id s) ?start w = (Inr (), ?w1)" using assms(3) by (intro update_scheduled_hit) simp
  have "\<not> key_taken ?w1 (scheduled_note E now s)" if "truthy (sc_wallet s)"
    using assms(4) [OF that] by (force simp: key_taken_def exists_row_iff scheduled_note_def new_notification_def)
  then have send: "send_scheduled E now s ?w1 = (Inr (), ?w2)"
    using assms(1)
    by (cases "truthy (sc_wallet s)"; cases "sv_add E s")
      (simp_all add: send_scheduled_def run_possible_def notes_of_run_def jobs_of_run_def create_notification_def flow_simps)
  have "sc_id s \<in> sc_id ` set (updateMany ?p ?start (w_scheduled w))"
    using assms(3) ids_updateMany [of ?start ?p "w_scheduled w"] by (metis (no_types, lifting) image_eqI scheduled_row.select_convs(1)
      scheduled_row.surjective scheduled_row.update_convs(12,13))
  then have hit: "update_scheduled (sc_id s) f ?w2 = (Inr (), ?w2\<lparr>w_scheduled := updateMany ?p (\<lambda>r. f (?start r)) (w_scheduled w)\<rparr>)" for f
    by (simp add: update_scheduled_hit updateMany_twice)
  have only: "updateMany ?p f (w_scheduled w) = updateMany ?p g (w_scheduled w)" if "f s = g s" for f g
    using assms(2) that by (auto simp: updateMany_def)
  show ?thesis
  proof (cases "sc_type s = RECURRING \<and> truthy (sc_cronExpr s)")
    case True
    then obtain t where t: "getNextCronRun now (the (sc_cronExpr s)) = Some t" using assms(1) by (auto simp: run_possible_def)
    have "updateMany ?p (\<lambda>r. (?start r)\<lparr>sc_status := PENDING, sc_nextRunAt := t\<rparr>) (w_scheduled w) =
        updateMany ?p (after_run now) (w_scheduled w)"
      using True t by (intro only) (simp add: after_run_def next_run_def)
    then show ?thesis using True t by (simp add: run_scheduled_def start send finish_scheduled_def hit flow_simps)
  next
    case False
    have "updateMany ?p (\<lambda>r. (?start r)\<lparr>sc_status := COMPLETED\<rparr>) (w_scheduled w) = updateMany ?p (after_run now) (w_scheduled w)"
      using False by (intro only) (auto simp: after_run_def next_run_def)
    moreover have "finish_scheduled now s ?w2 = update_scheduled (sc_id s) (\<lambda>s. s\<lparr>sc_status := COMPLETED\<rparr>) ?w2"
      using False by (auto simp: finish_scheduled_def)
    ultimately show ?thesis by (simp add: run_scheduled_def start send hit flow_simps)
  qed
qed


text \<open>A run touches its own row only, so the rows selected after it are still there as selected.\<close>

lemma runs_exact:
  assumes "distinct (map sc_id (w_scheduled w))" "distinct (map sc_id xs)" "set xs \<subseteq> set (w_scheduled w)"
    and "\<forall>s \<in> set xs. run_possible E now s"
    and "inj_on (sv_newId E) (set xs)"
    and "\<forall>s \<in> set xs. sv_newId E s \<notin> nt_id ` set (w_notifications w)"
  shows "fold (run_scheduled E now) xs w = w\<lparr>w_scheduled := map (\<lambda>r. if r \<in> set xs then after_run now r else r) (w_scheduled w),
    w_notifications := w_notifications w @ concat (map (notes_of_run E now) xs),
    w_notificationJobs := w_notificationJobs w @ concat (map (jobs_of_run E) xs)\<rparr>"
  using assms
proof (induction xs arbitrary: w)
  case (Cons s xs)
  let ?rows = "w_scheduled w"
  let ?v = "w\<lparr>w_scheduled := updateMany (\<lambda>r. sc_id r = sc_id s) (after_run now) ?rows,
    w_notifications := w_notifications w @ notes_of_run E now s, w_notificationJobs := w_notificationJobs w @ jobs_of_run E s\<rparr>"
  have own: "r = s" if "r \<in> set ?rows" "sc_id r = sc_id s" for r
    using distinct_key_unique [OF Cons.prems(1) that(1)] that(2) Cons.prems(3) by simp
  have first: "run_scheduled E now s w = ?v"
    using Cons.prems(3,4,6) own by (intro run_scheduled_exact) auto
  have id: "sc_id (after_run now r) = sc_id r" for r by (simp add: after_run_def split: option.split)
  have "map sc_id (w_scheduled ?v) = map sc_id ?rows" by (simp add: map_updateMany id)
  moreover have "set xs \<subseteq> set (w_scheduled ?v)"
    using Cons.prems(2,3) by (auto simp: set_updateMany image_iff)
  moreover have "sv_newId E x \<notin> nt_id ` set (w_notifications ?v)" if x: "x \<in> set xs" for x
  proof -
    have "sv_newId E x \<noteq> sv_newId E s" using Cons.prems(2,5) x by (simp add: inj_on_def) blast
    then show ?thesis using Cons.prems(6) x by (auto simp: notes_of_run_def scheduled_note_def new_notification_def)
  qed
  ultimately have rest: "fold (run_scheduled E now) xs ?v = ?v\<lparr>w_scheduled := map (\<lambda>r. if r \<in> set xs then after_run now r else r) (w_scheduled ?v),
      w_notifications := w_notifications ?v @ concat (map (notes_of_run E now) xs),
      w_notificationJobs := w_notificationJobs ?v @ concat (map (jobs_of_run E) xs)\<rparr>"
    using Cons.prems by (intro Cons.IH) (simp_all add: inj_on_def)
  have "map (\<lambda>r. if r \<in> set xs then after_run now r else r) (updateMany (\<lambda>r. sc_id r = sc_id s) (after_run now) ?rows) =
      map (\<lambda>r. if r \<in> set (s # xs) then after_run now r else r) ?rows"
  proof (unfold updateMany_def map_map, rule map_cong [OF refl])
    fix r assume r: "r \<in> set ?rows"
    have "after_run now s \<notin> set xs" using Cons.prems(2) id [of s] by (auto simp: image_iff)
    then show "((\<lambda>r. if r \<in> set xs then after_run now r else r) \<circ> (\<lambda>r. if sc_id r = sc_id s then after_run now r else r)) r =
        (if r \<in> set (s # xs) then after_run now r else r)"
      using own [OF r] Cons.prems(2) by (cases "r = s") auto
  qed
  then show ?case by (simp add: first rest)
qed simp


text \<open>C6: A reconciliation runs each overdue row once, two hundred at most. If nothing it needs fails, every selected
  row is completed, or set to its next run when it recurs, each with the time of the run; every other row
  stays; each selected row with a wallet gets one queued notification, and one job unless the queue still
  knows the row's job id. In that last case the notification stays queued with no job to deliver it.\<close>

theorem reconcile_exact:
  assumes "unique_scheduled w" "\<forall>s \<in> set (overdue now w). run_possible E now s"
    and "inj_on (sv_newId E) (set (overdue now w))" "\<forall>s \<in> set (overdue now w). sv_newId E s \<notin> nt_id ` set (w_notifications w)"
  shows "reconcilePendingJobs E now w = w
    \<lparr>w_scheduled := map (\<lambda>r. if r \<in> set (overdue now w) then after_run now r else r) (w_scheduled w),
     w_notifications := w_notifications w @ concat (map (notes_of_run E now) (overdue now w)),
     w_notificationJobs := w_notificationJobs w @ concat (map (jobs_of_run E) (overdue now w))\<rparr>"
  unfolding reconcilePendingJobs_def
proof (rule runs_exact)
  show "distinct (map sc_id (overdue now w))"
    using distinct_map_filter [OF assms(1) [unfolded unique_scheduled_def]] by (simp add: overdue_def distinct_take flip: take_map)
  show "set (overdue now w) \<subseteq> set (w_scheduled w)" by (auto simp: overdue_def dest: in_set_takeD)
qed (use assms in \<open>simp_all add: unique_scheduled_def\<close>)

definition sample_scheduled :: "string \<Rightarrow> schedule_type \<Rightarrow> string option \<Rightarrow> millis \<Rightarrow> scheduled_row" where
  "sample_scheduled i kind cron t = scheduled_of i ''p1'' \<lparr>sd_wallet = Some ''W'', sd_subject = ''s'', sd_body = ''b'', sd_category = None,
     sd_channels = None, sd_timezone = None, sd_templateId = None\<rparr> kind cron t"

definition sample_schedule :: "keyspace world" where
  "sample_schedule = (empty_world (\<lambda>_. None))\<lparr>w_scheduled := [sample_scheduled ''a'' ONE_TIME None 5,
     sample_scheduled ''b'' RECURRING (Some ''*/15 * * * *'') 7, sample_scheduled ''c'' ONE_TIME None 99]\<rparr>"

text \<open>The queue still knows the job of the recurring row's last run: its notification gets no job.\<close>

definition sample_sched_env :: sched_env where
  "sample_sched_env = \<lparr>sv_sha = (\<lambda>s. s), sv_newId = (\<lambda>s. ''n'' @ sc_id s), sv_add = (\<lambda>s. if sc_type s = RECURRING then Known else Taken)\<rparr>"

lemma sample_rows: "overdue 10 sample_schedule = [sample_scheduled ''a'' ONE_TIME None 5, sample_scheduled ''b'' RECURRING (Some ''*/15 * * * *'') 7]"
  by (simp add: overdue_def sample_schedule_def sample_scheduled_def scheduled_of_def)

lemma every_quarter: "getNextCronRun 10 ''*/15 * * * *'' = Some 900010"
  by code_simp

theorem reconcile_exact_witness:
  "map (\<lambda>s. (sc_id s, sc_status s, sc_nextRunAt s)) (w_scheduled (reconcilePendingJobs sample_sched_env 10 sample_schedule)) =
     [(''a'', COMPLETED, 5), (''b'', PENDING, 900010), (''c'', PENDING, 99)]
   \<and> map nt_id (w_notifications (reconcilePendingJobs sample_sched_env 10 sample_schedule)) = [''na'', ''nb'']
   \<and> map snd (w_notificationJobs (reconcilePendingJobs sample_sched_env 10 sample_schedule)) = [Some ''scheduled-a'']"
proof -
  have "unique_scheduled sample_schedule" "\<forall>s \<in> set (overdue 10 sample_schedule). run_possible sample_sched_env 10 s"
      "inj_on (sv_newId sample_sched_env) (set (overdue 10 sample_schedule))"
      "\<forall>s \<in> set (overdue 10 sample_schedule). sv_newId sample_sched_env s \<notin> nt_id ` set (w_notifications sample_schedule)"
    by (simp_all add: sample_rows unique_scheduled_def run_possible_def sample_sched_env_def inj_on_def every_quarter)
      (simp_all add: sample_schedule_def sample_scheduled_def scheduled_of_def every_quarter empty_world_def js_simps)
  note reconcile_exact [OF this]
  moreover have "truthy (sc_wallet (sample_scheduled i k c t))" for i k c t by (simp add: sample_scheduled_def scheduled_of_def)
  ultimately show ?thesis
    by (simp add: sample_rows notes_of_run_def jobs_of_run_def)
      (simp add: sample_schedule_def sample_scheduled_def scheduled_of_def after_run_def next_run_def every_quarter scheduled_note_def
        new_notification_def sample_sched_env_def scheduled_job_id_def empty_world_def)
qed

theorem scheduled_lifecycle_witness:
  "scheduled_ok (cancelScheduled ''p1'' ''c'' (reconcilePendingJobs sample_sched_env 10 sample_schedule))
   \<and> scheduled_by_id (reconcilePendingJobs sample_sched_env 9999 (cancelScheduled ''p1'' ''c'' sample_schedule)) ''c'' =
       Some ((sample_scheduled ''c'' ONE_TIME None 99)\<lparr>sc_status := CANCELLED\<rparr>)"
proof -
  let ?off = "cancelScheduled ''p1'' ''c''" and ?run = "reconcilePendingJobs sample_sched_env"
  have ok: "scheduled_ok sample_schedule" "scheduled_ok (?off sample_schedule)"
    and row: "scheduled_by_id (?off sample_schedule) ''c'' = Some ((sample_scheduled ''c'' ONE_TIME None 99)\<lparr>sc_status := CANCELLED\<rparr>)"
    by (simp_all add: scheduled_ok_def unique_scheduled_def sample_schedule_def sample_scheduled_def scheduled_of_def cancelScheduled_def
        scheduled_by_id_def)
  have first: "sched_step\<^sup>*\<^sup>* sample_schedule (?off (?run 10 sample_schedule))"
    by (rule rtranclp.rtrancl_into_rtrancl [OF r_into_rtranclp]) (rule sched_step.reconcile, rule sched_step.cancel)
  have second: "sched_step\<^sup>*\<^sup>* (?off sample_schedule) (?run 9999 (?off sample_schedule))"
    by (rule r_into_rtranclp) (rule sched_step.reconcile)
  have "settled_row ((sample_scheduled ''c'' ONE_TIME None 99)\<lparr>sc_status := CANCELLED\<rparr>)" by (simp add: settled_row_def)
  with scheduled_lifecycle [OF first ok(1), THEN conjunct1] scheduled_lifecycle [OF second ok(2)] row show ?thesis by blast
qed

end
