(* ===== verification/Billing.thy ===== *)
theory Billing
  imports Metering Redis_Service Job_Queue
begin

text \<open>
  Subscriptions (\<open>billing/subscription\<close>, \<open>billing/repositories\<close>, \<open>billing/billing.service.ts\<close>) and the
  payment webhooks of Helio (\<open>billing/helio\<close>). The calls into Solana and Helio are requests of the log;
  whether they succeed changes nothing here, since the code catches their errors. HMAC, SHA-256, fresh
  ids and the queue's answer are arguments.
\<close>

section \<open>The subscription repository\<close>

definition sub_cache_key :: "string \<Rightarrow> string" where "sub_cache_key protocolId = ''sub:'' @ protocolId"

definition subscription_of :: "string \<Rightarrow> 'r world \<Rightarrow> subscription option" where
  "subscription_of protocolId w = List.find (\<lambda>s. sb_protocolId s = protocolId) (w_subscriptions w)"

definition drop_cached :: "'r redis_api \<Rightarrow> string \<Rightarrow> 'r world \<Rightarrow> 'r world" where
  "drop_cached R protocolId w = (if w_redisUp w then w\<lparr>w_redis := r_del R (w_redis w) (sub_cache_key protocolId)\<rparr> else w)"

definition update_subscription ::
  "'r redis_api \<Rightarrow> string \<Rightarrow> (subscription \<Rightarrow> subscription) \<Rightarrow> 'r world \<Rightarrow> (unit, 'r world) handled" where
  "update_subscription R protocolId f w =
     (if subscription_of protocolId w = None then throw (PrismaExn ''P2025'') w
      else ok () (drop_cached R protocolId (w\<lparr>w_subscriptions :=
             updateMany (\<lambda>s. sb_protocolId s = protocolId) f (w_subscriptions w)\<rparr>)))"

definition findExpired :: "millis \<Rightarrow> 'r world \<Rightarrow> subscription list" where
  "findExpired now w = filter (\<lambda>s. sb_status s = ''active'' \<and> (case sb_currentPeriodEnd s of None \<Rightarrow> False | Some t \<Rightarrow> t < now))
     (w_subscriptions w)"

definition findDueForReset :: "millis \<Rightarrow> 'r world \<Rightarrow> subscription list" where
  "findDueForReset now w = filter (\<lambda>s. sb_status s = ''active'' \<and> sb_periodResetAt s < now) (w_subscriptions w)"

text \<open>Thirty days later (in a zone without summer time).\<close>

definition resetSends :: "'r redis_api \<Rightarrow> millis \<Rightarrow> string \<Rightarrow> 'r world \<Rightarrow> (unit, 'r world) handled" where
  "resetSends R now protocolId w = update_subscription R protocolId
     (\<lambda>s. s\<lparr>sb_sendsThisPeriod := 0, sb_periodResetAt := now + 30 * 86400000\<rparr>) w"

section \<open>The guard\<close>

text \<open>A tier outside the table has a limit of 1000.\<close>

definition TIER_SEND_LIMITS :: "int \<Rightarrow> int" where
  "TIER_SEND_LIMITS tier = (if tier = 0 then 1000 else if tier = 1 then 10000 else if tier = 2 then 100000
     else if tier = 3 then 1000000 else 1000)"

text \<open>What the guard reads of a subscription: status, end of the period, sends.\<close>

definition sub_facts :: "subscription \<Rightarrow> string \<times> millis option \<times> int" where
  "sub_facts s = (sb_status s, sb_currentPeriodEnd s, sb_sendsThisPeriod s)"

definition load_subscription ::
  "'r redis_api \<Rightarrow> millis \<Rightarrow> string \<Rightarrow> 'r world \<Rightarrow> (string \<times> millis option \<times> int) option \<times> 'r world" where
  "load_subscription R now protocolId w =
     (case (if w_redisUp w then r_get R (w_redis w) now (sub_cache_key protocolId) else None) of
        Some (RSub st e n) \<Rightarrow> (Some (st, e, n), w)
      | _ \<Rightarrow> (case subscription_of protocolId w of
           None \<Rightarrow> (None, w)
         | Some s \<Rightarrow> (Some (sub_facts s), if w_redisUp w then w\<lparr>w_redis := r_setex R (w_redis w) now (sub_cache_key protocolId)
               (RSub (sb_status s) (sb_currentPeriodEnd s) (sb_sendsThisPeriod s)) (30 * 1000)\<rparr> else w)))"

definition subscription_verdict :: "millis \<Rightarrow> int \<Rightarrow> (string \<times> millis option \<times> int) option \<Rightarrow> exn + unit" where
  "subscription_verdict now tier facts =
     (case facts of
        None \<Rightarrow> Inl (HttpExn 402 ''SUBSCRIPTION_INACTIVE'')
      | Some (st, e, n) \<Rightarrow>
          if st \<noteq> ''active'' then Inl (HttpExn 402 ''SUBSCRIPTION_INACTIVE'')
          else if (case e of None \<Rightarrow> False | Some t \<Rightarrow> t < now) then Inl (HttpExn 402 ''SUBSCRIPTION_EXPIRED'')
          else if TIER_SEND_LIMITS tier \<le> n then Inl (HttpExn 429 ''QUOTA_EXCEEDED'')
          else Inr ())"

definition subscriptionGuard :: "'r redis_api \<Rightarrow> millis \<Rightarrow> auth_protocol option \<Rightarrow> 'r world \<Rightarrow> (unit, 'r world) handled" where
  "subscriptionGuard R now protocol w =
     (case protocol of
        None \<Rightarrow> ok () w
      | Some p \<Rightarrow>
          if ap_tier p = 0 then ok () w
          else let (facts, w1) = load_subscription R now (ap_protocolId p) w
            in (subscription_verdict now (ap_tier p) facts, w1))"

section \<open>The subscription service\<close>

definition small_int :: "int \<Rightarrow> bool" where "small_int n \<longleftrightarrow> -32768 \<le> n \<and> n \<le> 32767"

text \<open>\<open>months || 1\<close>; the amount of a payload without one is 0.\<close>

definition months_of :: "helio_payload \<Rightarrow> int option" where
  "months_of p = map_option (\<lambda>m. if m = 0 then 1 else m) (hp_months p)"

definition activated :: "millis \<Rightarrow> millis \<Rightarrow> int \<Rightarrow> string \<Rightarrow> subscription \<Rightarrow> subscription" where
  "activated now periodEnd tier transactionId s = s\<lparr>sb_tier := tier, sb_status := ''active'', sb_helioSubscriptionId := Some transactionId,
     sb_currentPeriodStart := Some now, sb_currentPeriodEnd := Some periodEnd, sb_sendsThisPeriod := 0,
     sb_periodResetAt := periodEnd, sb_cancelAtPeriodEnd := False\<rparr>"

definition new_subscription :: "string \<Rightarrow> subscription" where
  "new_subscription protocolId = \<lparr>sb_protocolId = protocolId, sb_tier = 0, sb_status = ''inactive'', sb_helioSubscriptionId = None,
     sb_currentPeriodStart = None, sb_currentPeriodEnd = None, sb_sendsThisPeriod = 0, sb_periodResetAt = 0, sb_cancelAtPeriodEnd = False\<rparr>"

definition upsert_subscription :: "string \<Rightarrow> (subscription \<Rightarrow> subscription) \<Rightarrow> 'r world \<Rightarrow> 'r world" where
  "upsert_subscription protocolId f w = w\<lparr>w_subscriptions :=
     (if subscription_of protocolId w = None then w_subscriptions w @ [f (new_subscription protocolId)]
      else updateMany (\<lambda>s. sb_protocolId s = protocolId) f (w_subscriptions w))\<rparr>"

text \<open>The transaction: all four writes or, on a violated constraint or a missing event row, none.\<close>

definition activation ::
  "millis \<Rightarrow> millis \<Rightarrow> string \<Rightarrow> int \<Rightarrow> int \<Rightarrow> int \<Rightarrow> helio_payload \<Rightarrow> 'r world \<Rightarrow> (unit, 'r world) handled" where
  "activation now periodEnd protocolId tier months amount p w =
     (let tx = hp_transactionId p
      in if \<not> small_int tier \<or> \<not> small_int months then throw (JsError ''Unable to fit integer value'') w
         else if exists_row (\<lambda>s. sb_protocolId s \<noteq> protocolId \<and> sb_helioSubscriptionId s = Some tx) (w_subscriptions w)
             \<or> exists_row (\<lambda>y. py_helioTransactionId y = Some tx) (w_payments w) then throw (PrismaExn ''P2002'') w
         else if \<not> exists_row (\<lambda>e. he_helioEventId e = tx) (w_helioEvents w) then throw (PrismaExn ''P2025'') w
         else ok () ((upsert_subscription protocolId (activated now periodEnd tier tx) w)
           \<lparr>w_payments := w_payments w @ [\<lparr>py_protocolId = protocolId, py_amountUsdc = amount, py_helioTransactionId = Some tx,
               py_solanaTxSignature = hp_solanaTxSignature p, py_periodsPaid = months, py_periodStart = now, py_periodEnd = periodEnd,
               py_status = ''completed''\<rparr>],
             w_protocols := updateMany (\<lambda>q. pr_id q = protocolId) (\<lambda>q. q\<lparr>pr_tier := tier, pr_isActive := True\<rparr>) (w_protocols w),
             w_helioEvents := updateMany (\<lambda>e. he_helioEventId e = tx) (\<lambda>e. e\<lparr>he_processed := True, he_processedAt := Some now\<rparr>)
               (w_helioEvents w)\<rparr>))"

definition send_chain :: "string \<Rightarrow> string \<Rightarrow> 'r world \<Rightarrow> 'r world" where
  "send_chain instruction pubkey w = w\<lparr>w_sent := w_sent w @ [SentChain instruction pubkey]\<rparr>"

definition activateFromHelioPayment :: "millis \<Rightarrow> helio_payload \<Rightarrow> 'r world \<Rightarrow> (unit, 'r world) handled" where
  "activateFromHelioPayment now p w =
     (case hp_amountUsdc p of
        None \<Rightarrow> throw (JsError ''The number NaN cannot be converted to a BigInt'') w
      | Some amount \<Rightarrow>
          (case List.find (\<lambda>q. pr_protocolPubkey q = hp_protocolPubkey p) (w_protocols w) of
             None \<Rightarrow> throw (JsError (''Protocol not found for pubkey '' @ hp_protocolPubkey p)) w
           | Some q \<Rightarrow>
               let w1 = send_chain ''renewSubscription'' (hp_protocolPubkey p) w
               in case (hp_tier p, months_of p) of
                    (Some tier, Some months) \<Rightarrow> activation now (now + 30 * 86400000 * months) (pr_id q) tier months amount p w1
                  | _ \<Rightarrow> throw (JsError ''Invalid value for argument'') w1))"

definition scheduleCancellation :: "'r redis_api \<Rightarrow> string \<Rightarrow> 'r world \<Rightarrow> (unit, 'r world) handled" where
  "scheduleCancellation R protocolId w =
     and_then (update_subscription R protocolId (\<lambda>s. s\<lparr>sb_cancelAtPeriodEnd := True\<rparr>) w) (\<lambda>_ w1.
       case Option.bind (subscription_of protocolId w1) sb_helioSubscriptionId of
         None \<Rightarrow> ok () w1
       | Some i \<Rightarrow> ok () (if i = [] then w1 else w1\<lparr>w_sent := w_sent w1 @ [SentHelioCancel i]\<rparr>))"

text \<open>The key is the one joined to the row when it was selected.\<close>

definition pubkey_of :: "string \<Rightarrow> 'r world \<Rightarrow> string" where
  "pubkey_of protocolId w = (case List.find (\<lambda>q. pr_id q = protocolId) (w_protocols w) of None \<Rightarrow> [] | Some q \<Rightarrow> pr_protocolPubkey q)"

definition expire_subscription :: "'r redis_api \<Rightarrow> string \<Rightarrow> 'r world \<Rightarrow> (unit, 'r world) handled" where
  "expire_subscription R protocolId w =
     and_then (update_subscription R protocolId (\<lambda>s. s\<lparr>sb_status := ''expired''\<rparr>) w) (\<lambda>_ w1.
       if \<not> exists_row (\<lambda>q. pr_id q = protocolId) (w_protocols w1) then throw (PrismaExn ''P2025'') w1
       else ok () (send_chain ''deactivateProtocol'' (pubkey_of protocolId w1)
         (w1\<lparr>w_protocols := updateMany (\<lambda>q. pr_id q = protocolId) (\<lambda>q. q\<lparr>pr_isActive := False\<rparr>) (w_protocols w1)\<rparr>)))"

definition expireStaleSubscriptions :: "'r redis_api \<Rightarrow> millis \<Rightarrow> 'r world \<Rightarrow> 'r world" where
  "expireStaleSubscriptions R now w =
     fold (\<lambda>s w. snd (swallow (expire_subscription R (sb_protocolId s) w))) (findExpired now w) w"

definition resetPeriodSends :: "'r redis_api \<Rightarrow> millis \<Rightarrow> 'r world \<Rightarrow> 'r world" where
  "resetPeriodSends R now w =
     fold (\<lambda>s w. snd (swallow (and_then (resetSends R now (sb_protocolId s) w)
       (\<lambda>_ w1. ok () (send_chain ''resetProtocolSends'' (pubkey_of (sb_protocolId s) w1) w1))))) (findDueForReset now w) w"

section \<open>The webhook of Helio\<close>

record helio_request =
  hq_signature :: "string option"
  hq_rawBody :: "string option"
  hq_payload :: helio_payload

definition helioWebhookGuard :: "(string \<Rightarrow> string) \<Rightarrow> helio_request \<Rightarrow> exn + unit" where
  "helioWebhookGuard hmac rq =
     (if \<not> truthy (hq_signature rq) then Inl (HttpExn 401 ''Missing X-Helio-Signature header'')
      else case hq_rawBody rq of
             None \<Rightarrow> Inl (HttpExn 401 ''Missing request raw body'')
           | Some raw \<Rightarrow> if hmac raw = the (hq_signature rq) then Inr () else Inl (HttpExn 401 ''Invalid webhook signature''))"

text \<open>\<open>helio_event_id\<close> is unique.\<close>

definition create_helio_event :: "helio_event \<Rightarrow> 'r world \<Rightarrow> (unit, 'r world) handled" where
  "create_helio_event e w =
     (if exists_row (\<lambda>d. he_helioEventId d = he_helioEventId e) (w_helioEvents w) then throw (PrismaExn ''P2002'') w
      else ok () (w\<lparr>w_helioEvents := w_helioEvents w @ [e]\<rparr>))"

definition handleHelioWebhook ::
  "(string \<Rightarrow> string) \<Rightarrow> (string \<Rightarrow> string) \<Rightarrow> string \<Rightarrow> bool \<Rightarrow> helio_request \<Rightarrow> 'r world \<Rightarrow> (unit, 'r world) handled" where
  "handleHelioWebhook hmac sha newId added rq w =
     (case helioWebhookGuard hmac rq of
        Inl e \<Rightarrow> throw e w
      | Inr _ \<Rightarrow>
          let p = hq_payload rq; payloadHash = sha (the (hq_rawBody rq))
          in if (case List.find (\<lambda>e. he_payloadHash e = payloadHash) (w_helioEvents w) of None \<Rightarrow> False | Some e \<Rightarrow> he_processed e)
             then ok () w
             else let protocolId = map_option pr_id (List.find (\<lambda>q. pr_protocolPubkey q = hp_protocolPubkey p) (w_protocols w))
               in and_then (create_helio_event \<lparr>he_id = newId, he_helioEventId = hp_transactionId p, he_eventType = hp_event p,
                      he_protocolId = protocolId, he_payloadHash = payloadHash, he_processed = False, he_processedAt = None\<rparr> w) (\<lambda>_ w1.
                    if added then ok () (w1\<lparr>w_billingJobs := w_billingJobs w1 @ [(newId, p)]\<rparr>)
                    else throw (JsError ''Connection is closed.'') w1))"

section \<open>The billing endpoints\<close>

record billing_status =
  bg_tier :: int
  bg_tierName :: "string option"
  bg_isActive :: bool
  bg_status :: string
  bg_expiresAt :: "millis option"
  bg_daysRemaining :: int
  bg_sendsThisPeriod :: int
  bg_sendsLimit :: int
  bg_periodResetAt :: millis
  bg_cancelAtPeriodEnd :: bool

definition tier_name :: "int \<Rightarrow> string option" where
  "tier_name tier = (if tier = 0 then Some ''Developer'' else if tier = 1 then Some ''Growth'' else if tier = 2 then Some ''Scale''
     else if tier = 3 then Some ''Enterprise'' else None)"

definition days_remaining :: "millis \<Rightarrow> millis option \<Rightarrow> int" where
  "days_remaining now e = (case e of None \<Rightarrow> 0 | Some t \<Rightarrow> max 0 (ceil_div (t - now) 86400000))"

definition getStatus :: "millis \<Rightarrow> string \<Rightarrow> 'r world \<Rightarrow> exn + billing_status" where
  "getStatus now protocolId w =
     (case List.find (\<lambda>q. pr_id q = protocolId) (w_protocols w) of
        None \<Rightarrow> Inl (HttpExn 404 ''Protocol not found'')
      | Some q \<Rightarrow> let s = subscription_of protocolId w
          in Inr \<lparr>bg_tier = pr_tier q, bg_tierName = tier_name (pr_tier q), bg_isActive = pr_isActive q,
               bg_status = (case s of None \<Rightarrow> ''inactive'' | Some s \<Rightarrow> sb_status s),
               bg_expiresAt = Option.bind s sb_currentPeriodEnd, bg_daysRemaining = days_remaining now (Option.bind s sb_currentPeriodEnd),
               bg_sendsThisPeriod = (case s of None \<Rightarrow> pr_sendsThisPeriod q | Some s \<Rightarrow> sb_sendsThisPeriod s),
               bg_sendsLimit = TIER_SEND_LIMITS (pr_tier q),
               bg_periodResetAt = (case s of None \<Rightarrow> pr_periodResetAt q | Some s \<Rightarrow> sb_periodResetAt s),
               bg_cancelAtPeriodEnd = (case s of None \<Rightarrow> False | Some s \<Rightarrow> sb_cancelAtPeriodEnd s)\<rparr>)"

definition getUsageStats :: "millis \<Rightarrow> string \<Rightarrow> 'r world \<Rightarrow> exn + (int \<times> int \<times> int \<times> millis)" where
  "getUsageStats now protocolId w = map_sum id (\<lambda>g. (bg_sendsThisPeriod g, bg_sendsLimit g,
     max 0 (bg_sendsLimit g - bg_sendsThisPeriod g), bg_periodResetAt g)) (getStatus now protocolId w)"

text \<open>The tier of the checkout's product; its page is Helio's.\<close>

definition checkout_tier :: "int \<Rightarrow> exn + string" where
  "checkout_tier tier =
     (if tier = 0 then Inl (HttpExn 400 ''Developer tier is free'') else if tier = 1 then Inr ''growth''
      else if tier = 2 then Inr ''scale'' else if tier = 3 then Inr ''enterprise'' else Inl (HttpExn 400 ''Invalid tier''))"


section \<open>Facts: the counters\<close>

text \<open>What moves the books: deliveries, payments, cancellations and the two scheduled runs.\<close>

datatype billing_op = Delivered string | Paid millis helio_payload | Cancel string | ExpireRun millis | ResetRun millis

fun bill :: "'r redis_api \<Rightarrow> billing_op \<Rightarrow> 'r world \<Rightarrow> 'r world" where
  "bill R (Delivered i) w = incrementSendsThisPeriod i 1 w"
| "bill R (Paid now p) w = snd (activateFromHelioPayment now p w)"
| "bill R (Cancel i) w = snd (scheduleCancellation R i w)"
| "bill R (ExpireRun now) w = expireStaleSubscriptions R now w"
| "bill R (ResetRun now) w = resetPeriodSends R now w"

lemma drop_cached_frame [simp]:
  "w_protocols (drop_cached R i w) = w_protocols w" "w_subscriptions (drop_cached R i w) = w_subscriptions w"
  "w_payments (drop_cached R i w) = w_payments w" "w_helioEvents (drop_cached R i w) = w_helioEvents w"
  by (simp_all add: drop_cached_def)

lemma update_subscription_protocols: "w_protocols (snd (update_subscription R i f w)) = w_protocols w"
  by (simp add: update_subscription_def flow_simps)

lemma sends_updateMany:
  assumes "\<And>q. pr_id (f q) = pr_id q \<and> pr_sendsThisPeriod (f q) = pr_sendsThisPeriod q"
  shows "map_option pr_sendsThisPeriod (List.find (\<lambda>q. pr_id q = k) (updateMany p f rows)) =
    map_option pr_sendsThisPeriod (List.find (\<lambda>q. pr_id q = k) rows)"
  using assms by (induction rows) auto

lemma expire_sends: "protocol_sends k (snd (expire_subscription R i w)) = protocol_sends k w"
proof (cases "update_subscription R i (\<lambda>s. s\<lparr>sb_status := ''expired''\<rparr>) w")
  case (Pair r w1)
  then have "w_protocols w1 = w_protocols w" using update_subscription_protocols [of R i "\<lambda>s. s\<lparr>sb_status := ''expired''\<rparr>" w] by simp
  with Pair show ?thesis
    by (cases r) (simp_all add: expire_subscription_def flow_simps send_chain_def protocol_sends_def sends_updateMany)
qed

lemma reset_sends: "protocol_sends k (snd (and_then (resetSends R now i w) (\<lambda>_ w1. ok () (send_chain c (pubkey_of i w1) w1)))) = protocol_sends k w"
proof (cases "resetSends R now i w")
  case (Pair r w1)
  then have "w_protocols w1 = w_protocols w"
    using update_subscription_protocols [of R i "\<lambda>s. s\<lparr>sb_sendsThisPeriod := 0, sb_periodResetAt := now + 30 * 86400000\<rparr>" w] by (simp add: resetSends_def)
  with Pair show ?thesis by (cases r) (simp_all add: flow_simps send_chain_def protocol_sends_def)
qed

lemma fold_world_keeps: "(\<And>x w. g (f x w) = g w) \<Longrightarrow> g (fold f xs w) = g w"
  by (induction xs arbitrary: w) simp_all

lemma cancel_sends: "protocol_sends k (snd (scheduleCancellation R i w)) = protocol_sends k w"
proof (cases "update_subscription R i (\<lambda>s. s\<lparr>sb_cancelAtPeriodEnd := True\<rparr>) w")
  case (Pair r w1)
  then have "w_protocols w1 = w_protocols w" using update_subscription_protocols [of R i "\<lambda>s. s\<lparr>sb_cancelAtPeriodEnd := True\<rparr>" w] by simp
  with Pair show ?thesis
    by (cases r) (simp_all add: scheduleCancellation_def flow_simps protocol_sends_def split: option.split)
qed

lemma activation_sends: "protocol_sends k (snd (activation now e i tier months amount p w)) = protocol_sends k w"
  by (simp add: activation_def upsert_subscription_def protocol_sends_def sends_updateMany flow_simps Let_def)

lemma paid_sends: "protocol_sends k (snd (activateFromHelioPayment now p w)) = protocol_sends k w"
proof -
  have "protocol_sends k (send_chain c q w) = protocol_sends k w" for c q by (simp add: send_chain_def protocol_sends_def)
  then show ?thesis
    by (simp add: activateFromHelioPayment_def activation_sends throw_def Let_def split: option.split)
qed

text \<open>C11: The protocol's counter, on which the monthly quota is checked, counts deliveries for ever. Whatever payments,
  cancellations, expiries and monthly resets come in between, it is what it was plus the number of
  deliveries: no operation of the billing component starts it again, the reset run only the
  subscription's counter.\<close>

theorem quota_counter_never_resets:
  "protocol_sends k (fold (bill R) ops w) = map_option (\<lambda>n. n + int (count_list ops (Delivered k))) (protocol_sends k w)"
proof (induction ops arbitrary: w)
  case (Cons x ops)
  have "protocol_sends k (bill R x w) = map_option (\<lambda>n. n + (if x = Delivered k then 1 else 0)) (protocol_sends k w)"
  proof (cases x)
    case (Delivered i)
    then show ?thesis by (simp add: incrementSendsThisPeriod_def change_counters_sends option.map_ident)
  next
    case (ExpireRun now)
    have "protocol_sends k (expireStaleSubscriptions R now w) = protocol_sends k w"
      unfolding expireStaleSubscriptions_def by (rule fold_world_keeps) (simp add: swallow_def expire_sends)
    then show ?thesis by (simp add: ExpireRun option.map_ident)
  next
    case (ResetRun now)
    have "protocol_sends k (resetPeriodSends R now w) = protocol_sends k w"
      unfolding resetPeriodSends_def by (rule fold_world_keeps) (simp add: swallow_def reset_sends)
    then show ?thesis by (simp add: ResetRun option.map_ident)
  qed (simp_all add: paid_sends cancel_sends option.map_ident)
  then show ?case by (simp add: Cons.IH option.map_comp comp_def add.assoc)
qed (simp add: option.map_ident)


section \<open>Facts: payments\<close>

lemma activation_cases:
  obtains (refused) e where "activation now pe i tier months amount p w = (Inl e, w)"
  | (paid) w' where "activation now pe i tier months amount p w = (Inr (), w')"
    "w_payments w' = w_payments w @ [\<lparr>py_protocolId = i, py_amountUsdc = amount, py_helioTransactionId = Some (hp_transactionId p),
       py_solanaTxSignature = hp_solanaTxSignature p, py_periodsPaid = months, py_periodStart = now, py_periodEnd = pe, py_status = ''completed''\<rparr>]"
    "w_subscriptions w' = w_subscriptions (upsert_subscription i (activated now pe tier (hp_transactionId p)) w)"
    "w_protocols w' = updateMany (\<lambda>q. pr_id q = i) (\<lambda>q. q\<lparr>pr_tier := tier, pr_isActive := True\<rparr>) (w_protocols w)"
    "w_helioEvents w' = updateMany (\<lambda>e. he_helioEventId e = hp_transactionId p) (\<lambda>e. e\<lparr>he_processed := True, he_processedAt := Some now\<rparr>) (w_helioEvents w)"
    "\<not> exists_row (\<lambda>y. py_helioTransactionId y = Some (hp_transactionId p)) (w_payments w)"
proof (cases "activation now pe i tier months amount p w")
  case (Pair r w')
  show thesis
  proof (cases r)
    case (Inl e)
    with Pair show thesis by (intro refused) (auto simp: activation_def flow_simps Let_def split: if_splits)
  next
    case (Inr u)
    have w': "w' = snd (activation now pe i tier months amount p w)" by (simp add: Pair)
    have all: "\<not> (\<not> small_int tier \<or> \<not> small_int months)" "\<not> (exists_row (\<lambda>s. sb_protocolId s \<noteq> i \<and> sb_helioSubscriptionId s = Some (hp_transactionId p)) (w_subscriptions w)
        \<or> exists_row (\<lambda>y. py_helioTransactionId y = Some (hp_transactionId p)) (w_payments w))"
        "exists_row (\<lambda>e. he_helioEventId e = hp_transactionId p) (w_helioEvents w)"
      using Pair Inr by (auto simp: activation_def flow_simps Let_def split: if_splits)
    show thesis
    proof (rule paid [of w'])
      show "activation now pe i tier months amount p w = (Inr (), w')" using Pair Inr by simp
    qed (use all in \<open>simp_all add: w' activation_def flow_simps Let_def\<close>)
  qed
qed

lemma subscription_of_upsert:
  assumes "\<And>s. sb_protocolId (f s) = sb_protocolId s"
  shows "subscription_of k (upsert_subscription i f w) =
    (if k = i then Some (f (case subscription_of i w of None \<Rightarrow> new_subscription i | Some s \<Rightarrow> s)) else subscription_of k w)"
proof (cases "subscription_of i w")
  case None
  then show ?thesis
    using assms by (auto simp: upsert_subscription_def subscription_of_def find_append new_subscription_def split: option.split)
next
  case (Some s)
  then show ?thesis
    using find_key_update [of sb_protocolId f k i "w_subscriptions w"] assms by (simp add: upsert_subscription_def subscription_of_def)
qed

text \<open>An unfinished activation leaves the books alone; only the attempt on the chain may have gone out.\<close>

lemma unpaid_unchanged:
  "activateFromHelioPayment now p w = (Inl e, w') \<Longrightarrow> \<exists>xs. w' = w\<lparr>w_sent := w_sent w @ xs\<rparr>"
proof -
  assume fails: "activateFromHelioPayment now p w = (Inl e, w')"
  have "w' = w \<or> w' = send_chain ''renewSubscription'' (hp_protocolPubkey p) w"
    using fails
    by (auto simp: activateFromHelioPayment_def throw_def Let_def activation_def flow_simps split: option.splits if_splits)
  then show ?thesis by (auto simp: send_chain_def intro: exI [of _ "[]"])
qed

lemma recorded_payment_refused:
  assumes "exists_row (\<lambda>y. py_helioTransactionId y = Some (hp_transactionId p)) (w_payments w)"
  shows "fst (activateFromHelioPayment now p w) \<noteq> Inr ()"
proof -
  have "w_payments (send_chain c q w) = w_payments w" for c q by (simp add: send_chain_def)
  then show ?thesis
    using assms by (auto simp: activateFromHelioPayment_def throw_def Let_def activation_def flow_simps split: option.splits)
qed

text \<open>C10: A payment counts once and wholly. If processing an event of Helio succeeds, the paying protocol has its tier, is
  active, and its subscription is active for thirty days per month paid, with one payment of the amount
  recorded; no other protocol's subscription changes; and from then on every event with the same
  transaction id fails. If it fails, no table has changed.\<close>

theorem payment_counts_once:
  assumes "activateFromHelioPayment now p w = (r, w')"
  shows "case r of
      Inl e \<Rightarrow> (\<exists>xs. w' = w\<lparr>w_sent := w_sent w @ xs\<rparr>)
    | Inr _ \<Rightarrow> (\<exists>q tier months amount s y. List.find (\<lambda>q. pr_protocolPubkey q = hp_protocolPubkey p) (w_protocols w) = Some q
        \<and> hp_tier p = Some tier \<and> months_of p = Some months \<and> hp_amountUsdc p = Some amount
        \<and> w_payments w' = w_payments w @ [y] \<and> py_protocolId y = pr_id q \<and> py_amountUsdc y = amount
        \<and> subscription_of (pr_id q) w' = Some s \<and> sb_status s = ''active'' \<and> sb_tier s = tier
        \<and> sb_currentPeriodEnd s = Some (now + months * 2592000000)
        \<and> (\<forall>k. k \<noteq> pr_id q \<longrightarrow> subscription_of k w' = subscription_of k w)
        \<and> (\<forall>n \<in> set (w_protocols w'). pr_id n = pr_id q \<longrightarrow> pr_tier n = tier \<and> pr_isActive n)
        \<and> (\<forall>t p'. hp_transactionId p' = hp_transactionId p \<longrightarrow> fst (activateFromHelioPayment t p' w') \<noteq> Inr ()))"
proof (cases r)
  case (Inl e)
  then show ?thesis using unpaid_unchanged assms by simp
next
  case (Inr u)
  then obtain amount q tier months where q: "hp_amountUsdc p = Some amount" "hp_tier p = Some tier" "months_of p = Some months"
      "List.find (\<lambda>q. pr_protocolPubkey q = hp_protocolPubkey p) (w_protocols w) = Some q"
    and act: "activation now (now + 30 * 86400000 * months) (pr_id q) tier months amount p (send_chain ''renewSubscription'' (hp_protocolPubkey p) w) = (Inr (), w')"
    using assms by (auto simp: activateFromHelioPayment_def throw_def Let_def split: option.splits)
  have sent: "w_payments (send_chain c k w) = w_payments w" "subscription_of i (send_chain c k w) = subscription_of i w" for c k i
    by (simp_all add: send_chain_def subscription_of_def)
  let ?v = "send_chain ''renewSubscription'' (hp_protocolPubkey p) w" and ?f = "activated now (now + 30 * 86400000 * months) tier (hp_transactionId p)"
  from act show ?thesis
  proof (cases rule: activation_cases [of now "now + 30 * 86400000 * months" "pr_id q" tier months amount p ?v])
    case refused
    then show ?thesis using act by simp
  next
    case (paid v')
    have v': "v' = w'" using paid(1) act by simp
    let ?s = "?f (case subscription_of (pr_id q) w of None \<Rightarrow> new_subscription (pr_id q) | Some s \<Rightarrow> s)"
    have sub: "subscription_of k w' = (if k = pr_id q then Some ?s else subscription_of k w)" for k
    proof -
      have "subscription_of k w' = subscription_of k (upsert_subscription (pr_id q) ?f ?v)"
        unfolding subscription_of_def v' [symmetric] paid(3) ..
      also have "\<dots> = (if k = pr_id q then Some ?s else subscription_of k w)"
        by (subst subscription_of_upsert) (simp_all only: sent(2), simp add: activated_def)
      finally show ?thesis .
    qed
    obtain y where pay: "w_payments w' = w_payments w @ [y]" "py_protocolId y = pr_id q" "py_amountUsdc y = amount"
        "py_helioTransactionId y = Some (hp_transactionId p)"
      using paid(2) by (simp add: v' sent(1))
    have "exists_row (\<lambda>y. py_helioTransactionId y = Some (hp_transactionId p)) (w_payments w')"
      using pay(1,4) by (auto simp: exists_row_iff)
    then have again: "\<forall>t p'. hp_transactionId p' = hp_transactionId p \<longrightarrow> fst (activateFromHelioPayment t p' w') \<noteq> Inr ()"
      using recorded_payment_refused by metis
    have "\<forall>n \<in> set (w_protocols w'). pr_id n = pr_id q \<longrightarrow> pr_tier n = tier \<and> pr_isActive n"
      using paid(4) by (auto simp: v' set_updateMany)
    then show ?thesis
      using q pay(1-3) sub again Inr
      by (simp add: activated_def)
  qed
qed


definition sample_payment :: "string \<Rightarrow> helio_payload" where
  "sample_payment i = \<lparr>hp_event = ''PAYMENT'', hp_transactionId = i, hp_protocolPubkey = ''K'', hp_tier = Some 2, hp_months = Some 3,
     hp_amountUsdc = Some 897, hp_solanaTxSignature = None\<rparr>"

definition sample_books :: "keyspace world" where
  "sample_books = (empty_world (\<lambda>_. None))\<lparr>
     w_protocols := [\<lparr>pr_id = ''p1'', pr_protocolPubkey = ''K'', pr_nameEncrypted = [], pr_tier = 0, pr_isActive = False, pr_isSuspended = False,
       pr_verificationStatus = '''', pr_sendsThisPeriod = 5, pr_overageEnabled = False, pr_periodResetAt = 0\<rparr>],
     w_subscriptions := [(new_subscription ''p1'')\<lparr>sb_status := ''expired'', sb_currentPeriodEnd := Some 5\<rparr>],
     w_helioEvents := [\<lparr>he_id = ''e1'', he_helioEventId = ''t1'', he_eventType = ''PAYMENT'', he_protocolId = Some ''p1'', he_payloadHash = ''h'',
       he_processed = False, he_processedAt = None\<rparr>]\<rparr>"

theorem payment_counts_once_witness:
  "\<exists>w'. activateFromHelioPayment 10 (sample_payment ''t1'') sample_books = (Inr (), w')
     \<and> map_option sb_tier (subscription_of ''p1'' w') = Some 2
     \<and> fst (activateFromHelioPayment 20 (sample_payment ''t1'') w') \<noteq> Inr ()
     \<and> fst (activateFromHelioPayment 20 (sample_payment ''t2'') w') \<noteq> Inr ()"
proof -
  let ?r = "activateFromHelioPayment 10 (sample_payment ''t1'') sample_books"
  have q: "List.find (\<lambda>q. pr_protocolPubkey q = ''K'') (w_protocols sample_books) = Some (hd (w_protocols sample_books))"
      "pr_id (hd (w_protocols sample_books)) = ''p1''"
    by (simp_all add: sample_books_def)
  have r: "?r = (Inr (), snd ?r)"
    by (rule pair_of_fst)
      (simp add: activateFromHelioPayment_def sample_payment_def q months_of_def Let_def activation_def small_int_def flow_simps send_chain_def
        exists_row_def, simp add: sample_books_def empty_world_def new_subscription_def)
  have missing: "fst (activateFromHelioPayment 20 (sample_payment ''t2'') (snd ?r)) \<noteq> Inr ()"
    by (simp add: activateFromHelioPayment_def sample_payment_def q months_of_def Let_def activation_def small_int_def flow_simps send_chain_def
        exists_row_def upsert_subscription_def activated_def split: option.split) (simp add: sample_books_def)
  from payment_counts_once [OF r] have "\<exists>s. subscription_of ''p1'' (snd ?r) = Some s \<and> sb_tier s = 2"
      and "fst (activateFromHelioPayment 20 (sample_payment ''t1'') (snd ?r)) \<noteq> Inr ()"
    using q by (auto simp: sample_payment_def)
  with missing r show ?thesis by (intro exI [of _ "snd ?r"]) auto
qed


section \<open>Facts: webhooks and the guard\<close>

text \<open>
  Only \<open>activateFromHelioPayment\<close> marks events, and no worker of the repository takes the jobs of the
  queue: an event that Helio delivers again is not a duplicate for the handler and violates the unique
  event id.
\<close>

lemma redelivered_event_fails:
  assumes "helioWebhookGuard hmac rq = Inr ()" "exists_row (\<lambda>e. he_helioEventId e = hp_transactionId (hq_payload rq)) (w_helioEvents w)"
    and "\<forall>e \<in> set (w_helioEvents w). \<not> he_processed e"
  shows "handleHelioWebhook hmac sha newId added rq w = (Inl (PrismaExn ''P2002''), w)"
proof -
  have "\<not> (case List.find (\<lambda>e. he_payloadHash e = h) (w_helioEvents w) of None \<Rightarrow> False | Some e \<Rightarrow> he_processed e)" for h
    using assms(3) by (auto dest: find_Some_row split: option.split)
  then show ?thesis using assms(1,2) by (simp add: handleHelioWebhook_def create_helio_event_def flow_simps Let_def)
qed

text \<open>The reset run starts the counters of the due subscriptions again, and only theirs.\<close>

lemma reset_counter:
  assumes "subscription_of i w = Some s"
  shows "subscription_of k (snd (resetSends R now i w)) =
    (if k = i then Some (s\<lparr>sb_sendsThisPeriod := 0, sb_periodResetAt := now + 30 * 86400000\<rparr>) else subscription_of k w)"
proof -
  have key: "List.find (\<lambda>s. sb_protocolId s = k) (updateMany (\<lambda>s. sb_protocolId s = i) (\<lambda>s. s\<lparr>sb_sendsThisPeriod := 0, sb_periodResetAt := t\<rparr>) rows) =
      (if k = i then map_option (\<lambda>s. s\<lparr>sb_sendsThisPeriod := 0, sb_periodResetAt := t\<rparr>) (List.find (\<lambda>s. sb_protocolId s = k) rows)
       else List.find (\<lambda>s. sb_protocolId s = k) rows)" for t rows
    by (rule find_key_update) simp
  show ?thesis
    using assms by (simp add: resetSends_def update_subscription_def flow_simps key subscription_of_def [of _ "drop_cached R i v" for v])
      (simp add: subscription_of_def)
qed

context redis_service
begin

text \<open>
  The guard decides on what it saw at most thirty seconds ago: a payment or a delivery within that time
  does not count, since neither goes through the repository that drops the cached copy.
\<close>

lemma guard_snapshot:
  assumes "w_redisUp w" "r_get R (w_redis w) t (sub_cache_key (ap_protocolId p)) = None" "subscription_of (ap_protocolId p) w = Some s"
    and "ap_tier p \<noteq> 0" "t \<le> t'"
  shows "fst (subscriptionGuard R t' (Some p) (snd (subscriptionGuard R t (Some p) w)
      \<lparr>w_subscriptions := subs, w_protocols := ps, w_payments := pays, w_helioEvents := evs, w_sent := log\<rparr>)) =
    subscription_verdict t' (ap_tier p) (if t' < t + 30000 then Some (sub_facts s)
      else map_option sub_facts (List.find (\<lambda>s. sb_protocolId s = ap_protocolId p) subs))"
proof -
  let ?v = "snd (subscriptionGuard R t (Some p) w)
    \<lparr>w_subscriptions := subs, w_protocols := ps, w_payments := pays, w_helioEvents := evs, w_sent := log\<rparr>"
  let ?k = "sub_cache_key (ap_protocolId p)"
  have seen: "snd (subscriptionGuard R t (Some p) w) =
      w\<lparr>w_redis := r_setex R (w_redis w) t ?k (RSub (sb_status s) (sb_currentPeriodEnd s) (sb_sendsThisPeriod s)) (30 * 1000)\<rparr>"
    using assms(1-4) by (simp add: subscriptionGuard_def load_subscription_def)
  have "r_get R (w_redis ?v) t' ?k = (if t' < t + 30000 then Some (RSub (sb_status s) (sb_currentPeriodEnd s) (sb_sendsThisPeriod s)) else None)"
    using get_setex [OF assms(5), of "w_redis w" ?k "RSub (sb_status s) (sb_currentPeriodEnd s) (sb_sendsThisPeriod s)" "30 * 1000" ?k]
    by (simp add: seen)
  moreover have "w_redisUp ?v" using assms(1) by (simp add: seen)
  moreover have "subscription_of (ap_protocolId p) ?v = List.find (\<lambda>s. sb_protocolId s = ap_protocolId p) subs"
    by (simp add: subscription_of_def)
  ultimately show ?thesis
    using assms(4) by (simp add: subscriptionGuard_def load_subscription_def Let_def sub_facts_def split: option.split)
qed

end

text \<open>A payment is noticed late. Once a check has found a subscription (say, expired), every check of the next thirty
  seconds decides on that copy, whatever has been paid or delivered meanwhile: a protocol that pays is
  still refused with 402, and one over its limit still sends; after that the database decides.\<close>

theorem subscription_guard_stale:
  assumes "redis_service R" "w_redisUp w" "r_get R (w_redis w) t (sub_cache_key (ap_protocolId p)) = None"
    and "subscription_of (ap_protocolId p) w = Some s" "ap_tier p \<noteq> 0" "t \<le> t'"
  shows "fst (subscriptionGuard R t' (Some p) (snd (subscriptionGuard R t (Some p) w)
      \<lparr>w_subscriptions := subs, w_protocols := ps, w_payments := pays, w_helioEvents := evs, w_sent := log\<rparr>)) =
    subscription_verdict t' (ap_tier p) (if t' < t + 30000 then Some (sub_facts s)
      else map_option sub_facts (List.find (\<lambda>s. sb_protocolId s = ap_protocolId p) subs))"
  by (rule redis_service.guard_snapshot [OF assms])

theorem subscription_guard_stale_witness:
  "let p = \<lparr>ap_protocolId = ''p1'', ap_protocolPubkey = ''K'', ap_apiKeyId = ''a'', ap_tier = 2, ap_scopes = [], ap_environment = [],
       ap_isActive = True, ap_sendsThisPeriod = None, ap_name = None, ap_overageEnabled = None, ap_isTestKey = None, ap_testKeyType = None,
       ap_verificationStatus = None\<rparr>;
     paid = activated 20 (20 + 2592000000) 2 ''t1'' (new_subscription ''p1'');
     w = snd (subscriptionGuard mem_redis 10 (Some p) sample_books)\<lparr>w_subscriptions := [paid], w_protocols := [], w_payments := [],
       w_helioEvents := [], w_sent := []\<rparr>
   in fst (subscriptionGuard mem_redis 30 (Some p) w) = Inl (HttpExn 402 ''SUBSCRIPTION_INACTIVE'')
      \<and> fst (subscriptionGuard mem_redis 30010 (Some p) w) = Inr ()"
proof -
  let ?p = "\<lparr>ap_protocolId = ''p1'', ap_protocolPubkey = ''K'', ap_apiKeyId = ''a'', ap_tier = 2, ap_scopes = [], ap_environment = [],
       ap_isActive = True, ap_sendsThisPeriod = None, ap_name = None, ap_overageEnabled = None, ap_isTestKey = None, ap_testKeyType = None,
       ap_verificationStatus = None\<rparr>"
  let ?s = "(new_subscription ''p1'')\<lparr>sb_status := ''expired'', sb_currentPeriodEnd := Some 5\<rparr>"
  have "w_redisUp sample_books" "r_get mem_redis (w_redis sample_books) 10 (sub_cache_key (ap_protocolId ?p)) = None"
      "subscription_of (ap_protocolId ?p) sample_books = Some ?s" "ap_tier ?p \<noteq> 0"
    by (simp_all add: sample_books_def empty_world_def mem_redis_def mem_get_def subscription_of_def new_subscription_def)
  note stale = subscription_guard_stale [OF mem.redis_service_axioms this, where subs = "[activated 20 (20 + 2592000000) 2 ''t1'' (new_subscription ''p1'')]"
      and ps = "[]" and pays = "[]" and evs = "[]" and log = "[]"]
  from stale [of 30] stale [of 30010] show ?thesis
    unfolding Let_def by (simp add: subscription_verdict_def sub_facts_def activated_def new_subscription_def TIER_SEND_LIMITS_def)
qed

end
