(* ===== verification/Telegram_Bot.thy ===== *)
theory Telegram_Bot
  imports Dispatch Auth
begin

text \<open>
  \<open>telegram/telegram-webhook.service.ts\<close> and its controller: the updates of Herald's own bot, that is
  the connection of a chat to a wallet, the mute button and the mute commands, the click redirect, and
  the two crons. The answers of the Bot API to what a handler asks it to send are ignored by the code
  and so are not part of the model. The sweep over all \<open>tg:blocked:*\<close> keys (\<open>SCAN\<close>) is left out.
\<close>

section \<open>Updates\<close>

text \<open>
  The fields of an update that the bots read; \<open>None\<close> where the update has none. A chat id is in its
  printed form, a user id a number.
\<close>

record bot_callback =
  bc_messageChatId :: "string option"
  bc_chatId :: "string option"
  bc_data :: "string option"
  bc_id :: "string option"

record bot_new_member =
  bn_isBot :: bool
  bn_firstName :: "string option"

record bot_message =
  bm_chatId :: "string option"
  bm_chatType :: "string option"
  bm_userId :: "int option"
  bm_username :: "string option"
  bm_newMembers :: "bot_new_member list option"
  bm_text :: "string option"

record bot_membership =
  bk_status :: "string option"
  bk_chatId :: "string option"
  bk_chatType :: "string option"
  bk_senderId :: "int option"

record bot_reaction =
  br_chatId :: "string option"
  br_messageId :: "string option"
  br_emojis :: "(units option \<times> units option) list"   \<comment> \<open>\<open>emoji\<close> and \<open>custom_emoji_id\<close> of each new reaction\<close>

record bot_update =
  bu_callback :: "bot_callback option"
  bu_message :: "bot_message option"
  bu_membership :: "bot_membership option"
  bu_reaction :: "bot_reaction option"

record bot_env =
  be_enabled :: bool                                  \<comment> \<open>a token for Herald's bot is configured\<close>
  be_secret :: string                                 \<comment> \<open>\<open>TELEGRAM_WEBHOOK_SECRET\<close>\<close>
  be_internalKey :: "string option"
  be_decrypt :: "(bytes \<Rightarrow> string option) option"    \<comment> \<open>AES-GCM under the configured key, if there is one\<close>
  be_chatMember :: "string \<Rightarrow> string \<Rightarrow> int \<Rightarrow> string option"  \<comment> \<open>bot token, chat, user: the status\<close>
  be_botUsername :: "string \<Rightarrow> string option"
  be_memberCount :: "string option \<Rightarrow> string \<Rightarrow> int option"
  be_urlProtocol :: "string \<Rightarrow> string option"         \<comment> \<open>\<open>new URL(s).protocol\<close>, \<open>None\<close> when it throws\<close>
  be_utf8 :: "bytes \<Rightarrow> string"
  be_validId :: "string \<Rightarrow> bool"                     \<comment> \<open>what PostgreSQL accepts as a UUID\<close>

section \<open>Replies\<close>

definition bot_reply :: "string option \<Rightarrow> string \<Rightarrow> units \<Rightarrow> 'r world \<Rightarrow> 'r world" where
  "bot_reply token chatId t w = w\<lparr>w_sent := w_sent w @ [SentTelegram
     \<lparr>tm_chat = chatId, tm_token = token, tm_media = NoMedia, tm_text = t, tm_buttons = [], tm_silent = False,
      tm_thread = None\<rparr>]\<rparr>"

definition bot_answer :: "string option \<Rightarrow> string \<Rightarrow> units option \<Rightarrow> 'r world \<Rightarrow> 'r world" where
  "bot_answer token queryId notice w = w\<lparr>w_sent := w_sent w @ [SentAnswer token queryId notice]\<rparr>"

definition newline :: string where "newline = [CHR 0x0A]"

definition VALID_CATEGORIES :: "string list" where
  "VALID_CATEGORIES = [''defi'', ''governance'', ''system'', ''marketing'']"

definition MUTE_TTL_SECONDS :: int where "MUTE_TTL_SECONDS = 30 * 24 * 60 * 60"

definition usage_notice :: "string \<Rightarrow> string \<Rightarrow> units" where
  "usage_notice command which = units (''Usage: '' @ command @ '' &lt;category&gt;'' @ newline @ newline @ which
     @ '' categories: '' @ join_with '', '' VALID_CATEGORIES)"

definition unknown_notice :: "string \<Rightarrow> bool \<Rightarrow> units" where
  "unknown_notice cat listing = 0x274C # units ('' Unknown category <b>'' @ escapeHtml3 cat @ ''</b>.''
     @ (if listing then newline @ newline @ ''Valid categories: '' @ join_with '', '' VALID_CATEGORIES else []))"

definition muted_notice :: "string \<Rightarrow> units" where
  "muted_notice cat = [0xD83D, 0xDD07, 32] @ getCategoryEmoji cat @ units ('' <b>'' @ cat
     @ ''</b> notifications muted for 30 days.'' @ newline @ newline @ ''Use /unmute '' @ cat @ '' to re-enable.'')"

definition unmuted_notice :: "string \<Rightarrow> units" where
  "unmuted_notice cat = [0xD83D, 0xDD14, 32] @ getCategoryEmoji cat @ units ('' <b>'' @ cat @ ''</b> notifications re-enabled.'')"

definition protocol_muted_notice :: units where
  "protocol_muted_notice = [0xD83D, 0xDD07] @ units ('' Muted. You won'' @ [CHR 0x27]
     @ ''t receive Telegram notifications from this protocol.'')"

definition not_found_notice :: units where
  "not_found_notice = [0x26A0, 0xFE0F] @ units '' Notification not found.''"

text \<open>\<open>redis.setex\<close> and \<open>redis.del\<close> where the code does not catch the error.\<close>

definition setex_or_throw :: "'r redis_api \<Rightarrow> millis \<Rightarrow> string \<Rightarrow> redis_value \<Rightarrow> int \<Rightarrow> 'r world \<Rightarrow> (unit, 'r world) handled" where
  "setex_or_throw R now key v seconds w =
     (if w_redisUp w then ok () (w\<lparr>w_redis := r_setex R (w_redis w) now key v (seconds * 1000)\<rparr>) else throw redis_error w)"

definition del_or_throw :: "'r redis_api \<Rightarrow> string \<Rightarrow> 'r world \<Rightarrow> (unit, 'r world) handled" where
  "del_or_throw R key w =
     (if w_redisUp w then ok () (w\<lparr>w_redis := r_del R (w_redis w) key\<rparr>) else throw redis_error w)"

text \<open>The text of \<open>/categories\<close>; any value but the empty string is a mute.\<close>

fun muted_value :: "redis_value option \<Rightarrow> bool" where
  "muted_value None = False"
| "muted_value (Some (RText s)) = (s \<noteq> [])"
| "muted_value (Some _) = True"

definition category_line :: "'r redis_api \<Rightarrow> millis \<Rightarrow> string \<Rightarrow> 'r world \<Rightarrow> string \<Rightarrow> units" where
  "category_line R now chatId w cat = getCategoryEmoji cat @ units ('' <b>'' @ cat @ ''</b> '') @ [0x2014, 32]
     @ (if muted_value (get_quiet R now (category_mute_key chatId cat) w) then [0xD83D, 0xDD07] @ units '' muted''
        else 0x2705 # units '' active'')"

definition categories_notice :: "'r redis_api \<Rightarrow> millis \<Rightarrow> string \<Rightarrow> 'r world \<Rightarrow> units" where
  "categories_notice R now chatId w = join_with [10]
     ([units (''<b>Notification categories:</b>'' @ newline)]
      @ map (category_line R now chatId w) VALID_CATEGORIES
      @ [units (newline @ ''Use /mute &lt;category&gt; or /unmute &lt;category&gt; to change.'')])"

text \<open>The second word of a command, \<open>text.split(' ')[1]?.trim()\<close>.\<close>

definition second_word :: "string \<Rightarrow> string option" where
  "second_word t = (case split_on CHR '' '' t of _ # s # _ \<Rightarrow> Some (trim s) | _ \<Rightarrow> None)"

section \<open>Herald's bot\<close>

text \<open>\<open>verifySecret\<close>: without a configured secret every caller is let in.\<close>

definition token_char :: "char \<Rightarrow> bool" where
  "token_char c = (let n = (of_char c :: nat) in
     (65 \<le> n \<and> n \<le> 90) \<or> (97 \<le> n \<and> n \<le> 122) \<or> (48 \<le> n \<and> n \<le> 57) \<or> n = 95 \<or> n = 45)"

definition verifySecret :: "bot_env \<Rightarrow> string option \<Rightarrow> bool" where
  "verifySecret E incoming = (be_secret E = [] \<or> incoming = Some (filter token_char (be_secret E)))"

definition clearBlockedChat :: "'r redis_api \<Rightarrow> string \<Rightarrow> 'r world \<Rightarrow> (unit, 'r world) handled" where
  "clearBlockedChat R chatId w = del_or_throw R (blocked_key chatId) w"

text \<open>A lookup by an id that is no UUID throws.\<close>

definition find_notification :: "bot_env \<Rightarrow> string \<Rightarrow> 'r world \<Rightarrow> (notification option, 'r world) handled" where
  "find_notification E i w =
     (if be_validId E i then ok (notification_by_id w i) w else throw (PrismaExn ''P2023'') w)"

definition handleMuteCallback ::
  "'r redis_api \<Rightarrow> bot_env \<Rightarrow> millis \<Rightarrow> string \<Rightarrow> string \<Rightarrow> string \<Rightarrow> 'r world \<Rightarrow> (unit, 'r world) handled" where
  "handleMuteCallback R E now chatId notifId queryId w =
     and_then (find_notification E notifId w) (\<lambda>notif w1.
       case notif of
         None \<Rightarrow> ok () (bot_answer None queryId (Some not_found_notice) w1)
       | Some n \<Rightarrow> and_then (setex_or_throw R now (protocol_mute_key chatId (nt_protocolId n)) (RText ''1'') MUTE_TTL_SECONDS w1)
           (\<lambda>_ w2. ok () (bot_answer None queryId (Some protocol_muted_notice) w2)))"

definition handleCallbackQuery ::
  "'r redis_api \<Rightarrow> bot_env \<Rightarrow> millis \<Rightarrow> bot_callback \<Rightarrow> 'r world \<Rightarrow> (unit, 'r world) handled" where
  "handleCallbackQuery R E now query w =
     (let chatId = nullish (bc_messageChatId query) (nullish (bc_chatId query) []);
          callbackData = nullish (bc_data query) []; queryId = nullish (bc_id query) [];
          acknowledge = (\<lambda>w1. ok () (if queryId \<noteq> [] then bot_answer None queryId None w1 else w1))
      in if startsWith callbackData ''mute_''
         then catching (handleMuteCallback R E now chatId (drop 5 callbackData) queryId w) (\<lambda>_ w1. acknowledge w1)
         else acknowledge w)"

definition connect_notice :: units where
  "connect_notice = 0x2705 # units ('' <b>Almost there!</b>'' @ newline @ newline
     @ ''Return to the Herald portal to complete the connection. This link expires in 10 minutes.'')"

text \<open>The wallet's earlier unclaimed rows go, whichever chat asked for them.\<close>

definition handleStartConnect ::
  "millis \<Rightarrow> string \<Rightarrow> string \<Rightarrow> string option \<Rightarrow> 'r world \<Rightarrow> 'r world" where
  "handleStartConnect now chatId walletPubkey username w =
     bot_reply None chatId connect_notice (w\<lparr>w_pendingConnections :=
       deleteMany (\<lambda>c. tc_walletPubkey c = walletPubkey \<and> \<not> tc_claimed c) (w_pendingConnections w)
       @ [\<lparr>tc_walletPubkey = walletPubkey, tc_chatId = chatId, tc_telegramUsername = username, tc_claimed = False,
           tc_expiresAt = now + 10 * 60 * 1000\<rparr>]\<rparr>)"

definition welcome_notice :: units where
  "welcome_notice = [0xD83D, 0xDC4B] @ units ('' <b>Welcome to Herald!</b>'' @ newline @ newline
     @ ''To connect your Telegram account, go to the Herald developer portal and click <b>Connect Telegram</b>.''
     @ newline @ newline @ ''<b>Commands:</b>'' @ newline) @ units ''/mute &lt;category&gt; '' @ [0x2014] @ units ('' mute a category'' @ newline)
     @ units ''/unmute &lt;category&gt; '' @ [0x2014] @ units ('' unmute a category'' @ newline)
     @ units ''/categories '' @ [0x2014] @ units '' show all categories''"

definition sendWelcome :: "string \<Rightarrow> 'r world \<Rightarrow> 'r world" where
  "sendWelcome chatId w = bot_reply None chatId welcome_notice w"

text \<open>The steps of \<open>/mute\<close> and \<open>/unmute\<close> that both bots share, for a valid category.\<close>

definition mute_category ::
  "'r redis_api \<Rightarrow> millis \<Rightarrow> string option \<Rightarrow> string \<Rightarrow> string \<Rightarrow> 'r world \<Rightarrow> (unit, 'r world) handled" where
  "mute_category R now token chatId cat w =
     and_then (setex_or_throw R now (category_mute_key chatId cat) (RText ''1'') MUTE_TTL_SECONDS w)
       (\<lambda>_ w1. ok () (bot_reply token chatId (muted_notice cat) w1))"

definition unmute_category ::
  "'r redis_api \<Rightarrow> string option \<Rightarrow> string \<Rightarrow> string \<Rightarrow> 'r world \<Rightarrow> (unit, 'r world) handled" where
  "unmute_category R token chatId cat w =
     and_then (del_or_throw R (category_mute_key chatId cat) w)
       (\<lambda>_ w1. ok () (bot_reply token chatId (unmuted_notice cat) w1))"

definition handleMuteCommand ::
  "'r redis_api \<Rightarrow> millis \<Rightarrow> string \<Rightarrow> string option \<Rightarrow> 'r world \<Rightarrow> (unit, 'r world) handled" where
  "handleMuteCommand R now chatId category w =
     (if \<not> truthy category then ok () (bot_reply None chatId (usage_notice ''/mute'' ''Available'') w)
      else let cat = map lower (the category)
        in if cat \<notin> set VALID_CATEGORIES then ok () (bot_reply None chatId (unknown_notice cat True) w)
           else mute_category R now None chatId cat w)"

definition handleUnmuteCommand ::
  "'r redis_api \<Rightarrow> string \<Rightarrow> string option \<Rightarrow> 'r world \<Rightarrow> (unit, 'r world) handled" where
  "handleUnmuteCommand R chatId category w =
     (if \<not> truthy category then ok () (bot_reply None chatId (usage_notice ''/unmute'' ''Available'') w)
      else let cat = map lower (the category)
        in if cat \<notin> set VALID_CATEGORIES then ok () (bot_reply None chatId (unknown_notice cat False) w)
           else unmute_category R None chatId cat w)"

definition handleCategoriesCommand :: "'r redis_api \<Rightarrow> millis \<Rightarrow> string \<Rightarrow> 'r world \<Rightarrow> 'r world" where
  "handleCategoriesCommand R now chatId w = bot_reply None chatId (categories_notice R now chatId w) w"

text \<open>\<open>/^\/start\s+([1-9A-HJ-NP-Za-km-z]{32,44})$/\<close>: no blank is a base58 character.\<close>

definition START_PATTERN :: "string \<Rightarrow> string option" where
  "START_PATTERN t =
     (let rest = drop 6 t; wallet = dropWhile is_space rest
      in if startsWith t ''/start'' \<and> rest \<noteq> [] \<and> is_space (hd rest)
            \<and> 32 \<le> length wallet \<and> length wallet \<le> 44 \<and> list_all is_base58 wallet
         then Some wallet else None)"

definition handle_text ::
  "'r redis_api \<Rightarrow> millis \<Rightarrow> string \<Rightarrow> string option \<Rightarrow> string \<Rightarrow> 'r world \<Rightarrow> (unit, 'r world) handled" where
  "handle_text R now chatId username t w =
     (case START_PATTERN t of
        Some wallet \<Rightarrow> ok () (handleStartConnect now chatId wallet username w)
      | None \<Rightarrow>
          let command = map lower (hd (split_on CHR '' '' t))
          in if command = ''/start'' then ok () (sendWelcome chatId w)
             else if command = ''/mute'' then handleMuteCommand R now chatId (second_word t) w
             else if command = ''/unmute'' then handleUnmuteCommand R chatId (second_word t) w
             else if command = ''/categories'' then ok () (handleCategoriesCommand R now chatId w)
             else ok () w)"

definition handleUpdate ::
  "'r redis_api \<Rightarrow> bot_env \<Rightarrow> millis \<Rightarrow> bot_update \<Rightarrow> 'r world \<Rightarrow> (unit, 'r world) handled" where
  "handleUpdate R E now u w =
     (if \<not> be_enabled E then ok () w
      else case bu_callback u of
        Some query \<Rightarrow> handleCallbackQuery R E now query w
      | None \<Rightarrow> (case bu_message u of
            None \<Rightarrow> ok () w
          | Some m \<Rightarrow> if \<not> truthy (bm_text m) then ok () w
              else handle_text R now (nullish (bm_chatId m) ''undefined'') (bm_username m) (trim (the (bm_text m))) w))"

definition handleWebhook ::
  "'r redis_api \<Rightarrow> bot_env \<Rightarrow> millis \<Rightarrow> string option \<Rightarrow> bot_update \<Rightarrow> 'r world \<Rightarrow> (unit, 'r world) handled" where
  "handleWebhook R E now secret u w =
     (if \<not> verifySecret E secret then throw (HttpExn 403 ''Invalid webhook secret'') w
      else swallow (handleUpdate R E now u w))"

section \<open>Clicks and crons\<close>

text \<open>The engagement refers to the notification and its protocol; without the protocol the insert fails.\<close>

definition recordClickAsync :: "bot_env \<Rightarrow> millis \<Rightarrow> string \<Rightarrow> 'r world \<Rightarrow> 'r world" where
  "recordClickAsync E now notifId w =
     (case fst (find_notification E notifId w) of
        Inr (Some n) \<Rightarrow>
          if exists_row (\<lambda>p. pr_id p = nt_protocolId n) (w_protocols w)
          then w\<lparr>w_engagements := w_engagements w @ [\<lparr>ng_notificationId = notifId, ng_protocolId = nt_protocolId n,
                 ng_eventType = ''tg_click'', ng_linkUrl = None, ng_createdAt = now\<rparr>]\<rparr>
          else w
      | _ \<Rightarrow> w)"

definition home_page :: string where "home_page = ''https://useherald.xyz''"

definition click_destination :: "bot_env \<Rightarrow> string option \<Rightarrow> string" where
  "click_destination E urlB64 =
     (if \<not> truthy urlB64 then home_page
      else let destination = be_utf8 E (from_base64 (the urlB64))
        in case be_urlProtocol E destination of
             Some p \<Rightarrow> if p \<noteq> ''http:'' \<and> p \<noteq> ''https:'' then home_page else destination
           | None \<Rightarrow> home_page)"

definition trackClick :: "bot_env \<Rightarrow> millis \<Rightarrow> string \<Rightarrow> string option \<Rightarrow> 'r world \<Rightarrow> string \<times> 'r world" where
  "trackClick E now notifId urlB64 w = (click_destination E urlB64, recordClickAsync E now notifId w)"

definition cleanExpiredPendingConnections :: "millis \<Rightarrow> 'r world \<Rightarrow> 'r world" where
  "cleanExpiredPendingConnections now w =
     w\<lparr>w_pendingConnections := deleteMany (\<lambda>c. tc_expiresAt c < now \<or> tc_claimed c) (w_pendingConnections w)\<rparr>"

text \<open>The group's members are counted by the protocol's bot, or by Herald's where its token cannot be read.\<close>

definition custom_token_of :: "bot_env \<Rightarrow> protocol_settings \<Rightarrow> string option" where
  "custom_token_of E s =
     (case (ps_telegramBotTokenEncrypted s, be_decrypt E) of (Some c, Some decrypt) \<Rightarrow> decrypt c | _ \<Rightarrow> None)"

definition getGroupMemberCount :: "bot_env \<Rightarrow> string \<Rightarrow> string option \<Rightarrow> int option" where
  "getGroupMemberCount E chatId token =
     (if truthy token then be_memberCount E token chatId
      else if be_enabled E then be_memberCount E None chatId else None)"

definition update_settings ::
  "string \<Rightarrow> (protocol_settings \<Rightarrow> protocol_settings) \<Rightarrow> 'r world \<Rightarrow> (unit, 'r world) handled" where
  "update_settings protocolId f w =
     (if exists_row (\<lambda>s. ps_protocolId s = protocolId) (w_settings w)
      then ok () (w\<lparr>w_settings := updateMany (\<lambda>s. ps_protocolId s = protocolId) f (w_settings w)\<rparr>)
      else throw (PrismaExn ''P2025'') w)"

definition refresh_row :: "bot_env \<Rightarrow> millis \<Rightarrow> protocol_settings \<Rightarrow> 'r world \<Rightarrow> 'r world" where
  "refresh_row E now s w =
     (if \<not> truthy (ps_telegramGroupChatId s) then w
      else case getGroupMemberCount E (the (ps_telegramGroupChatId s)) (custom_token_of E s) of
             None \<Rightarrow> w
           | Some n \<Rightarrow> snd (update_settings (ps_protocolId s)
               (\<lambda>r. r\<lparr>ps_telegramGroupMemberCount := Some n, ps_telegramMemberCountAt := Some now\<rparr>) w))"

definition refreshGroupMemberCounts :: "bot_env \<Rightarrow> millis \<Rightarrow> 'r world \<Rightarrow> 'r world" where
  "refreshGroupMemberCounts E now w =
     fold (refresh_row E now) (filter (\<lambda>s. ps_telegramGroupChatId s \<noteq> None) (w_settings w)) w"


section \<open>Facts: what a handler leaves alone\<close>

lemma bot_reply_frame [simp]:
  "w_redis (bot_reply k c t w) = w_redis w" "w_redisUp (bot_reply k c t w) = w_redisUp w"
  "w_settings (bot_reply k c t w) = w_settings w" "w_pendingConnections (bot_reply k c t w) = w_pendingConnections w"
  "w_notifications (bot_reply k c t w) = w_notifications w"
  by (simp_all add: bot_reply_def)

lemma bot_answer_frame [simp]:
  "w_redis (bot_answer k q n w) = w_redis w" "w_redisUp (bot_answer k q n w) = w_redisUp w"
  "w_settings (bot_answer k q n w) = w_settings w" "w_pendingConnections (bot_answer k q n w) = w_pendingConnections w"
  "w_notifications (bot_answer k q n w) = w_notifications w"
  by (simp_all add: bot_answer_def)

text \<open>
  A relation between the state before and after that is kept by a reply, an answer and the Redis writes of
  the bots. The property of a handler is then the property of its writes.
\<close>

locale bot_frame =
  fixes P :: "'r world \<Rightarrow> 'r world \<Rightarrow> bool"
    and R :: "'r redis_api"
  assumes refl: "P w w"
    and trans: "P w w1 \<Longrightarrow> P w1 w2 \<Longrightarrow> P w w2"
    and reply: "P w (bot_reply k c t w)"
    and answer: "P w (bot_answer k q n w)"
    and mute_protocol: "P w (snd (setex_or_throw R now (protocol_mute_key c p) v s w))"
    and mute_listed: "cat \<in> set VALID_CATEGORIES \<Longrightarrow> P w (snd (setex_or_throw R now (category_mute_key c cat) v s w))"
    and unmute: "P w (snd (del_or_throw R (category_mute_key c cat) w))"
begin

lemma after: "P w (snd r) \<Longrightarrow> (\<And>a w1. P w w1 \<Longrightarrow> P w (snd (k a w1))) \<Longrightarrow> P w (snd (and_then r k))"
  by (rule and_then_keeps)

lemma caught: "P w (snd r) \<Longrightarrow> (\<And>e w1. P w w1 \<Longrightarrow> P w (snd (h e w1))) \<Longrightarrow> P w (snd (catching r h))"
  by (cases r; cases "fst r") (auto simp: catching_def)

lemma lookup: "P w (snd (find_notification E i w))"
  by (simp add: find_notification_def flow_simps refl)

lemma quiet: "P w w1 \<Longrightarrow> P w (snd (ok () w1))"
  by (simp add: flow_simps)

lemma answered: "P w w1 \<Longrightarrow> P w (snd (ok () (bot_answer k q n w1)))"
  using trans answer by (auto simp: flow_simps)

lemma replied: "P w w1 \<Longrightarrow> P w (snd (ok () (bot_reply k c t w1)))"
  using trans reply by (auto simp: flow_simps)

lemma protocol_muted: "P w w1 \<Longrightarrow> P w (snd (setex_or_throw R now (protocol_mute_key c p) v s w1))"
  using trans mute_protocol by blast

lemma callback: "P w (snd (handleCallbackQuery R E now q w))"
proof -
  have mute: "P w (snd (handleMuteCallback R E now c i qi w))" for c i qi
    unfolding handleMuteCallback_def
    by (rule after [OF lookup]) (auto split: option.splits intro!: answered after protocol_muted)
  show ?thesis
    unfolding handleCallbackQuery_def Let_def by (auto intro: caught mute answered quiet refl)
qed

lemma mute: "cat \<in> set VALID_CATEGORIES \<Longrightarrow> P w (snd (mute_category R now k c cat w))"
  unfolding mute_category_def by (rule after [OF mute_listed replied])

lemma unmute_cat: "P w (snd (unmute_category R k c cat w))"
  unfolding unmute_category_def by (rule after [OF unmute replied])

lemma commands:
  "P w (snd (handleMuteCommand R now c x w))" "P w (snd (handleUnmuteCommand R c x w))"
  "P w (handleCategoriesCommand R now c w)" "P w (sendWelcome c w)"
  by (auto simp: handleMuteCommand_def handleUnmuteCommand_def handleCategoriesCommand_def sendWelcome_def Let_def
        intro: replied refl mute unmute_cat reply)

lemma text_without_start: "START_PATTERN t = None \<Longrightarrow> P w (snd (handle_text R now c u t w))"
  using commands by (auto simp: handle_text_def Let_def flow_simps refl)

end

interpretation pending_frame: bot_frame "\<lambda>w w'. w_pendingConnections w' = w_pendingConnections w" for R
  by unfold_locales (auto simp: setex_or_throw_def del_or_throw_def flow_simps)

interpretation settings_frame: bot_frame "\<lambda>w w'. w_settings w' = w_settings w" for R
  by unfold_locales (auto simp: setex_or_throw_def del_or_throw_def flow_simps)


section \<open>Facts: pending connections\<close>

definition unclaimed :: "string \<Rightarrow> 'r world \<Rightarrow> pending_connection list" where
  "unclaimed wallet w = filter (\<lambda>c. tc_walletPubkey c = wallet \<and> \<not> tc_claimed c) (w_pendingConnections w)"

datatype bot_event = BotUpdate millis "string option" bot_update | BotSweep millis

fun bot_step :: "'r redis_api \<Rightarrow> bot_env \<Rightarrow> bot_event \<Rightarrow> 'r world \<Rightarrow> 'r world" where
  "bot_step R E (BotUpdate now secret u) w = snd (handleWebhook R E now secret u w)"
| "bot_step R E (BotSweep now) w = cleanExpiredPendingConnections now w"

lemma unclaimed_start:
  "unclaimed wallet' (handleStartConnect now chat wallet name w) =
     (if wallet' = wallet
      then [\<lparr>tc_walletPubkey = wallet, tc_chatId = chat, tc_telegramUsername = name, tc_claimed = False, tc_expiresAt = now + 600000\<rparr>]
      else unclaimed wallet' w)"
proof -
  have eq: "filter (\<lambda>c. tc_walletPubkey c = wallet' \<and> \<not> tc_claimed c) (deleteMany (\<lambda>c. tc_walletPubkey c = wallet \<and> \<not> tc_claimed c) cs)
      = (if wallet' = wallet then [] else filter (\<lambda>c. tc_walletPubkey c = wallet' \<and> \<not> tc_claimed c) cs)" for cs
    by (induction cs) (auto simp: deleteMany_def)
  show ?thesis by (simp add: unclaimed_def handleStartConnect_def eq)
qed

text \<open>The update of a \<open>/start\<close> link, and every other update.\<close>

definition start_of :: "bot_update \<Rightarrow> (string \<times> string \<times> string option) option" where
  "start_of u = (case (bu_callback u, bu_message u) of
     (None, Some m) \<Rightarrow> map_option (\<lambda>wallet. (nullish (bm_chatId m) ''undefined'', wallet, bm_username m))
       (Option.bind (bm_text m) (\<lambda>t. START_PATTERN (trim t)))
   | _ \<Rightarrow> None)"

lemma START_PATTERN_long: "START_PATTERN t = Some wallet \<Longrightarrow> t \<noteq> []"
  by (auto simp: START_PATTERN_def Let_def js_simps split: if_splits)

lemma webhook_start:
  assumes "start_of u = Some (chat, wallet, name)" "be_enabled E" "verifySecret E secret"
  shows "snd (handleWebhook R E now secret u w) = handleStartConnect now chat wallet name w"
proof -
  obtain m t where u: "bu_callback u = None" "bu_message u = Some m" "bm_text m = Some t" "START_PATTERN (trim t) = Some wallet"
      "chat = nullish (bm_chatId m) ''undefined''" "name = bm_username m"
    using assms(1) by (auto simp: start_of_def split: option.splits bind_splits)
  have "t \<noteq> []" using START_PATTERN_long [OF u(4)] by (auto simp: trim_def)
  then show ?thesis
    using u assms(2,3) by (simp add: handleWebhook_def handleUpdate_def handle_text_def flow_simps)
qed

lemma webhook_no_start:
  assumes "bot_frame P R" "start_of u = None"
  shows "P w (snd (handleWebhook R E now secret u w))"
proof -
  have "P w (snd (handleUpdate R E now u w))"
  proof (cases "bu_callback u")
    case None
    then have "START_PATTERN (trim t) = None" if "bu_message u = Some m" "bm_text m = Some t" for m t
      using assms(2) that by (simp add: start_of_def split: bind_splits)
    then show ?thesis
      using None bot_frame.text_without_start [OF assms(1)] bot_frame.refl [OF assms(1)]
      by (auto simp: handleUpdate_def flow_simps elim!: truthy.elims split: option.splits)
  next
    case (Some q)
    then show ?thesis
      using bot_frame.callback [OF assms(1)] bot_frame.refl [OF assms(1)] by (simp add: handleUpdate_def flow_simps)
  qed
  then show ?thesis
    using bot_frame.refl [OF assms(1)] by (simp add: handleWebhook_def flow_simps)
qed

lemma bot_step_unclaimed:
  "\<exists>p. unclaimed wallet (bot_step R E e w) = filter p (unclaimed wallet w)
     \<or> (\<exists>now secret u chat name. e = BotUpdate now secret u \<and> start_of u = Some (chat, wallet, name)
          \<and> unclaimed wallet (bot_step R E e w) = [\<lparr>tc_walletPubkey = wallet, tc_chatId = chat,
              tc_telegramUsername = name, tc_claimed = False, tc_expiresAt = now + 600000\<rparr>])"
proof (cases e)
  case (BotSweep now)
  then have "unclaimed wallet (bot_step R E e w) = filter (\<lambda>c. \<not> tc_expiresAt c < now) (unclaimed wallet w)"
    by (auto simp: unclaimed_def cleanExpiredPendingConnections_def deleteMany_def intro: filter_cong)
  then show ?thesis by blast
next
  case (BotUpdate now secret u)
  have same: ?thesis if "w_pendingConnections (bot_step R E e w) = w_pendingConnections w"
    using that by (intro exI [of _ "\<lambda>_. True"]) (simp add: unclaimed_def)
  show ?thesis
  proof (cases "start_of u")
    case None
    then show ?thesis
      using webhook_no_start [OF pending_frame.bot_frame_axioms None] by (intro same) (simp add: BotUpdate)
  next
    case (Some x)
    obtain chat wallet' name where x: "x = (chat, wallet', name)" by (cases x) auto
    show ?thesis
    proof (cases "be_enabled E \<and> verifySecret E secret")
      case True
      then have "bot_step R E e w = handleStartConnect now chat wallet' name w"
        using webhook_start [of u chat wallet' name E secret R now w] Some x by (simp add: BotUpdate)
      then show ?thesis
        using Some x BotUpdate by (auto simp: unclaimed_start intro: exI [of _ "\<lambda>_. True"])
    next
      case False
      then show ?thesis
        by (intro same) (auto simp: BotUpdate handleWebhook_def handleUpdate_def flow_simps)
    qed
  qed
qed

lemma bot_step_single: "length (unclaimed wallet w) \<le> 1 \<Longrightarrow> length (unclaimed wallet (bot_step R E e w)) \<le> 1"
  using bot_step_unclaimed [of wallet R E e w] by (auto intro: le_trans [OF length_filter_le])

lemma bot_run_single:
  "length (unclaimed wallet w) \<le> 1 \<Longrightarrow> length (unclaimed wallet (fold (bot_step R E) events w)) \<le> 1"
  by (induction events arbitrary: w) (simp_all add: bot_step_single [unfolded One_nat_def])

text \<open>C14: A wallet has one pending connection, and the last chat that asked for it holds it: after any
  sequence of updates of Herald's bot and of sweeps there is at most one unclaimed row per wallet, and
  right after a \<open>/start <wallet>\<close> link it is the sender's, whoever had asked before and without a proof
  that the sender owns the wallet.\<close>

theorem pending_connection_last_wins:
  assumes "w_pendingConnections w = []"
    and "start_of u = Some (chat, wallet, name)" "be_enabled E" "verifySecret E secret"
  shows "length (unclaimed wallet' (fold (bot_step R E) events w)) \<le> 1
    \<and> unclaimed wallet (fold (bot_step R E) (events @ [BotUpdate now secret u]) w) =
        [\<lparr>tc_walletPubkey = wallet, tc_chatId = chat, tc_telegramUsername = name, tc_claimed = False,
          tc_expiresAt = now + 600000\<rparr>]"
proof
  show "length (unclaimed wallet' (fold (bot_step R E) events w)) \<le> 1"
    using assms(1) by (intro bot_run_single) (simp add: unclaimed_def)
qed (simp add: webhook_start [OF assms(2-4)] unclaimed_start)

definition sample_bot_env :: bot_env where
  "sample_bot_env = \<lparr>be_enabled = True, be_secret = ''s e-c'', be_internalKey = Some ''k'', be_decrypt = Some (\<lambda>_. Some ''tok''),
     be_chatMember = (\<lambda>_ chat u. if chat = ''-10'' \<and> u = 7 then Some ''administrator'' else Some ''member''),
     be_botUsername = (\<lambda>_. Some ''acme_bot''), be_memberCount = (\<lambda>_ _. Some 3), be_urlProtocol = (\<lambda>_. Some ''https:''),
     be_utf8 = (\<lambda>b. map (\<lambda>x. char_of (unat x)) b), be_validId = (\<lambda>_. True)\<rparr>"

definition text_update :: "string \<Rightarrow> int \<Rightarrow> string \<Rightarrow> string \<Rightarrow> bot_update" where
  "text_update chat user kind t = \<lparr>bu_callback = None, bu_message = Some \<lparr>bm_chatId = Some chat, bm_chatType = Some kind,
     bm_userId = Some user, bm_username = None, bm_newMembers = None, bm_text = Some t\<rparr>, bu_membership = None, bu_reaction = None\<rparr>"

theorem pending_connection_last_wins_witness:
  "let w = empty_world (Map.empty :: keyspace); wallet = replicate 32 CHR ''A'';
       u1 = text_update ''1'' 5 ''private'' (''/start '' @ wallet); u2 = text_update ''2'' 6 ''private'' (''/start '' @ wallet)
   in map tc_chatId (unclaimed wallet (fold (bot_step mem_redis sample_bot_env)
        ([BotUpdate 0 (Some ''se-c'') u1] @ [BotUpdate 1 (Some ''se-c'') u2]) w)) = [''2'']"
proof -
  let ?wallet = "replicate 32 CHR ''A''"
  let ?u = "text_update ''2'' 6 ''private'' (''/start '' @ ?wallet)"
  have "w_pendingConnections (empty_world (Map.empty :: keyspace)) = []" by (simp add: empty_world_def)
  moreover have "start_of ?u = Some (''2'', ?wallet, None)" by code_simp
  moreover have "be_enabled sample_bot_env" "verifySecret sample_bot_env (Some ''se-c'')" by code_simp+
  ultimately show ?thesis
    using pending_connection_last_wins [of "empty_world Map.empty" ?u "''2''" ?wallet None sample_bot_env "Some ''se-c''"
        "[]" mem_redis "[BotUpdate 0 (Some ''se-c'') (text_update ''1'' 5 ''private'' (''/start '' @ ?wallet))]" 1]
    unfolding Let_def by (simp only: list.map pending_connection.simps)
qed

section \<open>Facts: muting\<close>

lemma get_mute:
  assumes "redis_service R" "w_redisUp w" "t \<le> t'"
  shows "get_quiet R t' k' (snd (setex_or_throw R t k v n w)) =
    (if k' = k then if t' < t + n * 1000 then Some v else None else get_quiet R t' k' w)"
  using redis_service.get_setex [OF assms(1,3)] assms(2) by (simp add: get_quiet_def setex_or_throw_def flow_simps)

lemma get_unmute:
  assumes "redis_service R" "w_redisUp w"
  shows "get_quiet R t k' (snd (del_or_throw R k w)) = (if k' = k then None else get_quiet R t k' w)"
  using redis_service.get_del [OF assms(1)] assms(2) by (simp add: get_quiet_def del_or_throw_def flow_simps)

text \<open>The update carries the given command with a listed category.\<close>

definition category_command :: "string \<Rightarrow> bot_update \<Rightarrow> string \<Rightarrow> string \<Rightarrow> bool" where
  "category_command command u chat cat =
     (case (bu_callback u, bu_message u) of
        (None, Some m) \<Rightarrow> (case bm_text m of None \<Rightarrow> False | Some t \<Rightarrow>
          bm_chatId m = Some chat \<and> START_PATTERN (trim t) = None
          \<and> map lower (hd (split_on CHR '' '' (trim t))) = command
          \<and> (case second_word (trim t) of None \<Rightarrow> False | Some c \<Rightarrow> map lower c = cat) \<and> cat \<in> set VALID_CATEGORIES)
      | _ \<Rightarrow> False)"

lemma listed_category: "map lower c \<in> set VALID_CATEGORIES \<Longrightarrow> c \<noteq> []"
  by (auto simp: VALID_CATEGORIES_def)

lemma category_command_text:
  assumes "category_command command u chat cat"
  obtains m t c where "bu_callback u = None" "bu_message u = Some m" "bm_text m = Some t" "t \<noteq> []" "bm_chatId m = Some chat"
    "START_PATTERN (trim t) = None" "map lower (hd (split_on CHR '' '' (trim t))) = command"
    "second_word (trim t) = Some c" "c \<noteq> []" "map lower c = cat" "cat \<in> set VALID_CATEGORIES"
proof -
  obtain m t c where u: "bu_callback u = None" "bu_message u = Some m" "bm_text m = Some t" "bm_chatId m = Some chat"
    "START_PATTERN (trim t) = None" "map lower (hd (split_on CHR '' '' (trim t))) = command"
    "second_word (trim t) = Some c" "map lower c = cat" "cat \<in> set VALID_CATEGORIES"
    using assms by (auto simp: category_command_def split: option.splits)
  then have "c \<noteq> []" using listed_category by metis
  moreover have "t \<noteq> []" using u(7) by (auto simp: second_word_def trim_def)
  ultimately show ?thesis using that u by blast
qed

lemma handleUpdate_mute:
  assumes "category_command ''/mute'' u chat cat" "be_enabled E"
  shows "handleUpdate R E now u w = mute_category R now None chat cat w"
proof (rule category_command_text [OF assms(1)])
  fix m t c
  assume u: "bu_callback u = None" "bu_message u = Some m" "bm_text m = Some t" "t \<noteq> []" "bm_chatId m = Some chat"
    "START_PATTERN (trim t) = None" "map lower (hd (split_on CHR '' '' (trim t))) = ''/mute''"
    "second_word (trim t) = Some c" "c \<noteq> []" "map lower c = cat" "cat \<in> set VALID_CATEGORIES"
  show ?thesis using u assms(2) by (simp add: handleUpdate_def handle_text_def handleMuteCommand_def nullish_def)
qed

lemma handleUpdate_unmute:
  assumes "category_command ''/unmute'' u chat cat" "be_enabled E"
  shows "handleUpdate R E now u w = unmute_category R None chat cat w"
proof (rule category_command_text [OF assms(1)])
  fix m t c
  assume u: "bu_callback u = None" "bu_message u = Some m" "bm_text m = Some t" "t \<noteq> []" "bm_chatId m = Some chat"
    "START_PATTERN (trim t) = None" "map lower (hd (split_on CHR '' '' (trim t))) = ''/unmute''"
    "second_word (trim t) = Some c" "c \<noteq> []" "map lower c = cat" "cat \<in> set VALID_CATEGORIES"
  show ?thesis using u assms(2) by (simp add: handleUpdate_def handle_text_def handleUnmuteCommand_def nullish_def)
qed

lemma mute_category_state: "w_redisUp w \<Longrightarrow>
  w_redis (snd (mute_category R now k chat cat w)) =
    w_redis (snd (setex_or_throw R now (category_mute_key chat cat) (RText ''1'') MUTE_TTL_SECONDS w))"
  "w_redisUp w \<Longrightarrow> w_redisUp (snd (mute_category R now k chat cat w))"
  by (simp_all add: mute_category_def setex_or_throw_def flow_simps)

lemma unmute_category_state: "w_redisUp w \<Longrightarrow>
  w_redis (snd (unmute_category R k chat cat w)) = w_redis (snd (del_or_throw R (category_mute_key chat cat) w))"
  "w_redisUp w \<Longrightarrow> w_redisUp (snd (unmute_category R k chat cat w))"
  by (simp_all add: unmute_category_def del_or_throw_def flow_simps)

lemma get_quiet_cong: "w_redis w = w_redis w' \<Longrightarrow> w_redisUp w = w_redisUp w' \<Longrightarrow> get_quiet R t k w = get_quiet R t k w'"
  by (simp add: get_quiet_def)



definition muted_job :: job_data where
  "muted_job = \<lparr>jd_notificationId = ''n1'', jd_protocolId = ''p1'', jd_protocolPubkey = ''K'', jd_protocolName = ''P'',
     jd_wallet = ''W'', jd_walletHash = None, jd_subject = ''s'', jd_body = ''b'', jd_category = ''defi'', jd_writeReceipt = False,
     jd_digestMode = False, jd_priority = None, jd_channels = None, jd_excludedChannels = None, jd_preferredChannel = None,
     jd_isSandbox = None, jd_testContact = None, jd_tier = Some 2, jd_templateId = None, jd_telegramTemplateId = None,
     jd_templateVariables = None\<rparr>"


text \<open>The click redirect follows any web address; nothing ties it to the notification.\<close>

lemma click_goes_anywhere:
  assumes "be_urlProtocol E (be_utf8 E (from_base64 b)) = Some ''https:''" "b \<noteq> []"
  shows "fst (trackClick E now notifId (Some b) w) = be_utf8 E (from_base64 b)"
  using assms by (simp add: trackClick_def click_destination_def Let_def)


end
