(* ===== verification/Custom_Bot.thy ===== *)
theory Custom_Bot
  imports Telegram_Bot Routing
begin

text \<open>
  The rest of \<open>telegram/telegram-migration.service.ts\<close>: the updates of a protocol's own bot, which link a
  group to the protocol by a one-time code, greet its members, serve the commands and record reactions;
  and the fan-out of the migration prompts. The subscribers of a batch are handled one after the other
  here (the code starts ten at a time). The sweep over a protocol's migration keys (\<open>SCAN\<close>) is left out.
\<close>

section \<open>Helpers\<close>

text \<open>\<open>prisma.protocolSettings.findUnique\<close>: an id that is no UUID throws.\<close>

definition find_settings :: "bot_env \<Rightarrow> string \<Rightarrow> 'r world \<Rightarrow> (protocol_settings option, 'r world) handled" where
  "find_settings E protocolId w =
     (if be_validId E protocolId then ok (settings_of protocolId w) w else throw (PrismaExn ''P2023'') w)"

definition resolveProtocolName :: "bot_env \<Rightarrow> string \<Rightarrow> 'r world \<Rightarrow> string" where
  "resolveProtocolName E protocolId w =
     (case (be_decrypt E, List.find (\<lambda>p. pr_id p = protocolId) (w_protocols w)) of
        (Some decrypt, Some p) \<Rightarrow> nullish (decrypt (pr_nameEncrypted p)) ''Herald Protocol''
      | _ \<Rightarrow> ''Herald Protocol'')"

definition getCustomBotToken :: "bot_env \<Rightarrow> string \<Rightarrow> 'r world \<Rightarrow> (string option, 'r world) handled" where
  "getCustomBotToken E protocolId w =
     (if be_decrypt E = None then ok None w
      else and_then (find_settings E protocolId w) (\<lambda>s w1.
        ok (Option.bind s (custom_token_of E)) w1))"

definition custom_welcome_notice :: "string \<Rightarrow> units" where
  "custom_welcome_notice name = 0x2705 # units ('' <b>You'' @ [CHR 0x27] @ ''re connected!</b>'' @ newline @ newline
     @ ''<b>'' @ escapeHtml3 name @ ''</b> alerts will now be delivered directly via this bot.'' @ newline @ newline
     @ ''You'' @ [CHR 0x27] @ ''ll receive notifications for DeFi positions, governance votes, security alerts, and more.'')"

definition sendCustomBotWelcome :: "bot_env \<Rightarrow> string \<Rightarrow> string \<Rightarrow> 'r world \<Rightarrow> (unit, 'r world) handled" where
  "sendCustomBotWelcome E chatId protocolId w =
     and_then (getCustomBotToken E protocolId w) (\<lambda>token w1.
       case token of
         None \<Rightarrow> ok () w1
       | Some t \<Rightarrow> ok () (bot_reply (Some t) chatId (custom_welcome_notice (resolveProtocolName E protocolId w1)) w1))"

text \<open>A failed request counts as no admin.\<close>

definition checkIsAdmin :: "bot_env \<Rightarrow> string \<Rightarrow> string \<Rightarrow> int \<Rightarrow> bool" where
  "checkIsAdmin E token chatId userId =
     (be_chatMember E token chatId userId = Some ''creator'' \<or> be_chatMember E token chatId userId = Some ''administrator'')"

text \<open>A missing id and \<open>0\<close> are falsy.\<close>

definition sender :: "int option \<Rightarrow> int option" where
  "sender userId = (if userId = Some 0 then None else userId)"

definition is_group :: "string option \<Rightarrow> bool" where
  "is_group chatType = (chatType = Some ''group'' \<or> chatType = Some ''supergroup'')"

section \<open>Buttons, members and reactions\<close>

definition customBotCallbackQuery ::
  "'r redis_api \<Rightarrow> bot_env \<Rightarrow> millis \<Rightarrow> string \<Rightarrow> bot_callback \<Rightarrow> 'r world \<Rightarrow> (unit, 'r world) handled" where
  "customBotCallbackQuery R E now token query w =
     (let chatId = nullish (bc_messageChatId query) (nullish (bc_chatId query) []);
          callbackData = nullish (bc_data query) []; queryId = nullish (bc_id query) [];
          acknowledge = (\<lambda>w1. ok () (if queryId \<noteq> [] then bot_answer (Some token) queryId None w1 else w1))
      in if chatId = [] then acknowledge w
         else if startsWith callbackData ''mute_''
         then catching (and_then (find_notification E (drop 5 callbackData) w) (\<lambda>notif w1.
                case notif of
                  Some n \<Rightarrow> if nt_protocolId n \<noteq> []
                    then and_then (setex_or_throw R now (protocol_mute_key chatId (nt_protocolId n)) (RText ''1'') (30 * 24 * 60 * 60) w1)
                      (\<lambda>_ w2. ok () (bot_answer (Some token) queryId (Some protocol_muted_notice) w2))
                    else ok () (bot_answer (Some token) queryId (Some not_found_notice) w1)
                | None \<Rightarrow> ok () (bot_answer (Some token) queryId (Some not_found_notice) w1)))
              (\<lambda>_ w1. acknowledge w1)
         else acknowledge w)"

definition greeting :: "string \<Rightarrow> bot_new_member \<Rightarrow> units" where
  "greeting welcome m = units (replace_str_all welcome ''{{name}}'' (escapeHtml3 (nullish (bn_firstName m) ''there'')))"

definition customBotNewChatMembers ::
  "bot_env \<Rightarrow> string \<Rightarrow> string \<Rightarrow> string \<Rightarrow> bot_new_member list \<Rightarrow> 'r world \<Rightarrow> (unit, 'r world) handled" where
  "customBotNewChatMembers E token protocolId chatId members w =
     and_then (find_settings E protocolId w) (\<lambda>s w1.
       let welcome = Option.bind s ps_telegramWelcomeMessage
       in if \<not> truthy welcome \<or> Option.bind s ps_telegramGroupChatId \<noteq> Some chatId then ok () w1
          else ok () (fold (\<lambda>m. bot_reply (Some token) chatId (greeting (the welcome) m))
                 (filter (\<lambda>m. \<not> bn_isBot m) members) w1))"

definition added_notice :: units where
  "added_notice = [0xD83D, 0xDC4B] @ units ('' <b>Herald Bot added!</b>'' @ newline @ newline
     @ ''To link this group for notifications, go to your Herald Dashboard '') @ [0x2192] @ units '' Settings '' @ [0x2192]
     @ units '' Telegram '' @ [0x2192] @ units '' Link Group and follow the setup flow.''"

definition customBotMyChatMember ::
  "bot_env \<Rightarrow> string \<Rightarrow> string \<Rightarrow> bot_membership \<Rightarrow> 'r world \<Rightarrow> (unit, 'r world) handled" where
  "customBotMyChatMember E token protocolId k w =
     (let chatId = nullish (bk_chatId k) []
      in case sender (bk_senderId k) of
           None \<Rightarrow> ok () w
         | Some senderId \<Rightarrow>
             if chatId = [] then ok () w
             else if bk_status k = Some ''left'' \<or> bk_status k = Some ''kicked''
             then and_then (find_settings E protocolId w) (\<lambda>s w1.
                    if Option.bind s ps_telegramGroupChatId = Some chatId
                    then update_settings protocolId
                           (\<lambda>r. r\<lparr>ps_telegramGroupChatId := None, ps_telegramGroupMemberCount := None\<rparr>) w1
                    else ok () w1)
             else if (bk_status k = Some ''member'' \<or> bk_status k = Some ''administrator'') \<and> is_group (bk_chatType k)
             then if \<not> checkIsAdmin E token chatId senderId
                  then ok () (w\<lparr>w_sent := w_sent w @ [SentLeave token chatId]\<rparr>)
                  else ok () (bot_reply (Some token) chatId added_notice w)
             else ok () w)"

definition reaction_emoji :: "units option \<times> units option \<Rightarrow> units" where
  "reaction_emoji r = nullish (fst r) (nullish (snd r) (units ''unknown''))"

definition customBotMessageReaction ::
  "'r redis_api \<Rightarrow> bot_env \<Rightarrow> millis \<Rightarrow> string \<Rightarrow> bot_reaction \<Rightarrow> 'r world \<Rightarrow> (unit, 'r world) handled" where
  "customBotMessageReaction R E now protocolId x w =
     (let chatId = nullish (br_chatId x) []; messageId = nullish (br_messageId x) []
      in if chatId = [] \<or> messageId = [] \<or> br_emojis x = [] then ok () w
         else case get_quiet R now (''tg:gmsg:'' @ chatId @ '':'' @ messageId) w of
           Some (RText notifId) \<Rightarrow>
             if notifId = [] then ok () w
             else and_then (find_notification E notifId w) (\<lambda>notif w1.
               case notif of
                 None \<Rightarrow> ok () w1
               | Some n \<Rightarrow>
                   if nt_protocolId n \<noteq> protocolId \<or> \<not> exists_row (\<lambda>p. pr_id p = protocolId) (w_protocols w1) then ok () w1
                   else ok () (w1\<lparr>w_engagements := w_engagements w1 @ [\<lparr>ng_notificationId = notifId, ng_protocolId = protocolId,
                          ng_eventType = ''tg_reaction'', ng_linkUrl = Some (reaction_emoji (hd (br_emojis x))), ng_createdAt = now\<rparr>]\<rparr>))
         | _ \<Rightarrow> ok () w)"


section \<open>Commands\<close>

definition not_admin_notice :: units where
  "not_admin_notice = [0x26A0, 0xFE0F] @ units '' Only group creators or administrators can link this bot.''"

definition expired_notice :: units where
  "expired_notice = 0x23F0 # units '' This setup link has expired. Please generate a new one from the Herald Portal.''"

definition other_bot_notice :: units where
  "other_bot_notice = [0x26A0, 0xFE0F]
     @ units '' This setup link is for a different bot. Please use the correct bot to complete group setup.''"

definition other_protocol_notice :: units where
  "other_protocol_notice = [0x26A0, 0xFE0F] @ units '' This setup link is not valid for this bot.''"

definition linked_notice :: units where
  "linked_notice = 0x2705 # units ('' <b>Group Linked Successfully!</b>'' @ newline @ newline
     @ ''This group chat is now linked to your Herald protocol dashboard.'' @ newline @ newline
     @ ''Make sure this bot is promoted to <b>Administrator</b> with permission to post messages so alerts are delivered properly.'')"

definition group_nonce_key :: "string \<Rightarrow> string" where "group_nonce_key nonce = ''tg:group_nonce:'' @ nonce"

text \<open>
  \<open>/start setup_<nonce>\<close>: the sender must be an admin of the chat, the nonce alive, made for a custom bot
  and for this protocol. The nonce then lives on for 60 seconds as completed.
\<close>

definition setup_group ::
  "'r redis_api \<Rightarrow> bot_env \<Rightarrow> millis \<Rightarrow> string \<Rightarrow> string \<Rightarrow> string \<Rightarrow> int option \<Rightarrow> string \<Rightarrow> 'r world \<Rightarrow> (unit, 'r world) handled" where
  "setup_group R E now token protocolId chatId userId nonce w =
     (let say = (\<lambda>t w1. ok () (bot_reply (Some token) chatId t w1))
      in case sender userId of
           None \<Rightarrow> ok () w
         | Some senderId \<Rightarrow>
             if \<not> checkIsAdmin E token chatId senderId then say not_admin_notice w
             else if \<not> w_redisUp w then throw redis_error w
             else case r_get R (w_redis w) now (group_nonce_key nonce) of
               None \<Rightarrow> say expired_notice w
             | Some (RNonce botType pid status chat) \<Rightarrow>
                 if truthy botType \<and> botType \<noteq> Some ''custom'' then say other_bot_notice w
                 else if pid \<noteq> Some protocolId then say other_protocol_notice w
                 else and_then (update_settings protocolId (\<lambda>r. r\<lparr>ps_telegramGroupChatId := Some chatId\<rparr>) w) (\<lambda>_ w1.
                   and_then (setex_or_throw R now (group_nonce_key nonce)
                       (RNonce botType pid (Some ''completed'') (Some chatId)) 60 w1) (\<lambda>_ w2.
                     say linked_notice w2))
             | Some (RText t) \<Rightarrow> if t = [] then say expired_notice w else throw (JsError ''SyntaxError'') w
             | Some _ \<Rightarrow> throw (JsError ''SyntaxError'') w)"

definition command_hint :: "string option \<Rightarrow> string" where
  "command_hint botUsername =
     (if truthy botUsername then ''<code>/start@'' @ the botUsername @ '' setup_&lt;code&gt;</code>''
      else ''<code>/start@[botname] setup_&lt;code&gt;</code>'')"

definition group_start_notice :: "string option \<Rightarrow> units" where
  "group_start_notice botUsername = [0xD83D, 0xDC4B] @ units ('' <b>Herald Bot is here!</b>'' @ newline @ newline
     @ ''To link this group for notifications, go to your <b>Herald Dashboard '') @ [0x2192] @ units '' Settings '' @ [0x2192]
     @ units '' Telegram '' @ [0x2192] @ units ('' Link Group</b>, generate a setup link, then paste the command shown there directly into this group.''
     @ newline @ newline @ ''The command will look like:'' @ newline @ command_hint botUsername)"

definition private_start_notice :: units where
  "private_start_notice = [0xD83D, 0xDC4B] @ units ('' <b>Welcome!</b>'' @ newline @ newline
     @ ''I am the official custom notification bot for this protocol. I will deliver your real-time alerts here.''
     @ newline @ newline @ ''Use /help to see available commands.'')"

definition custom_start ::
  "'r redis_api \<Rightarrow> bot_env \<Rightarrow> millis \<Rightarrow> string \<Rightarrow> string \<Rightarrow> string \<Rightarrow> int option \<Rightarrow> string option \<Rightarrow> string \<Rightarrow> 'r world
   \<Rightarrow> (unit, 'r world) handled" where
  "custom_start R E now token protocolId chatId userId chatType t w =
     (let arg = second_word t
      in if truthy arg \<and> startsWith (the arg) ''hrld_''
         then sendCustomBotWelcome E chatId protocolId (markMigrated R now chatId protocolId w)
         else if truthy arg \<and> startsWith (the arg) ''setup_''
         then setup_group R E now token protocolId chatId userId (drop 6 (the arg)) w
         else if is_group chatType
         then ok () (bot_reply (Some token) chatId (group_start_notice (be_botUsername E token)) w)
         else ok () (bot_reply (Some token) chatId private_start_notice w))"

definition status_heading :: units where
  "status_heading = [0xD83D, 0xDCCA] @ units ('' <b>Herald Bot Status</b>'' @ newline @ newline)"

definition linked_status :: "string \<Rightarrow> units" where
  "linked_status chatId = status_heading @ 0x2705 # units ('' This group (<code>'' @ chatId
     @ ''</code>) is linked as the delivery group for this protocol.'')"

definition unlinked_status :: units where
  "unlinked_status = status_heading @ [0x26A0, 0xFE0F] @ units ('' This group is <b>not yet linked</b> for notifications.''
     @ newline @ newline @ ''To link it, go to your Herald Dashboard '') @ [0x2192] @ units '' Settings '' @ [0x2192]
     @ units '' Telegram '' @ [0x2192] @ units '' Link Group.''"

definition private_status :: "string \<Rightarrow> units" where
  "private_status chatId = status_heading @ 0x2705 # units ('' Chat ID: <code>'' @ chatId @ ''</code>'' @ newline)
     @ 0x2705 # units ('' Connection: Active'' @ newline @ newline @ ''You are securely linked to receive direct alerts from this bot.'')"

definition custom_status ::
  "bot_env \<Rightarrow> string \<Rightarrow> string \<Rightarrow> string \<Rightarrow> string option \<Rightarrow> 'r world \<Rightarrow> (unit, 'r world) handled" where
  "custom_status E token protocolId chatId chatType w =
     (if is_group chatType
      then and_then (find_settings E protocolId w) (\<lambda>s w1.
             ok () (bot_reply (Some token) chatId
               (if Option.bind s ps_telegramGroupChatId = Some chatId then linked_status chatId else unlinked_status) w1))
      else ok () (bot_reply (Some token) chatId (private_status chatId) w))"

definition help_notice :: units where
  "help_notice = [0xD83D, 0xDCD6] @ units ('' <b>Available Commands</b>'' @ newline @ newline)
     @ units ''/status '' @ [0x2014] @ units ('' Check bot status and link group chat'' @ newline)
     @ units ''/mute &lt;category&gt; '' @ [0x2014] @ units ('' Mute a notification category'' @ newline)
     @ units ''/unmute &lt;category&gt; '' @ [0x2014] @ units ('' Unmute a notification category'' @ newline)
     @ units ''/categories '' @ [0x2014] @ units '' Show all alert categories''"

definition custom_mute ::
  "'r redis_api \<Rightarrow> millis \<Rightarrow> string \<Rightarrow> string \<Rightarrow> string \<Rightarrow> 'r world \<Rightarrow> (unit, 'r world) handled" where
  "custom_mute R now token chatId t w =
     (let category = map lower (nullish (second_word t) [])
      in if category = [] then ok () (bot_reply (Some token) chatId (usage_notice ''/mute'' ''Valid'') w)
         else if category \<notin> set VALID_CATEGORIES then ok () (bot_reply (Some token) chatId (unknown_notice category True) w)
         else mute_category R now (Some token) chatId category w)"

definition custom_unmute ::
  "'r redis_api \<Rightarrow> string \<Rightarrow> string \<Rightarrow> string \<Rightarrow> 'r world \<Rightarrow> (unit, 'r world) handled" where
  "custom_unmute R token chatId t w =
     (let category = map lower (nullish (second_word t) [])
      in if category = [] then ok () (bot_reply (Some token) chatId (usage_notice ''/unmute'' ''Valid'') w)
         else if category \<notin> set VALID_CATEGORIES then ok () (bot_reply (Some token) chatId (unknown_notice category False) w)
         else unmute_category R (Some token) chatId category w)"

text \<open>\<open>verifyGroupAdmin\<close>: nobody is asked in a private chat.\<close>

definition verifyGroupAdmin :: "bot_env \<Rightarrow> string \<Rightarrow> string \<Rightarrow> string option \<Rightarrow> int option \<Rightarrow> bool" where
  "verifyGroupAdmin E token chatId chatType userId =
     (\<not> is_group chatType \<or> (case sender userId of None \<Rightarrow> False | Some u \<Rightarrow> checkIsAdmin E token chatId u))"

definition clean_command :: "string \<Rightarrow> string" where
  "clean_command t = map lower (hd (split_on CHR ''@'' (hd (split_on CHR '' '' t))))"

definition customBotMessageText ::
  "'r redis_api \<Rightarrow> bot_env \<Rightarrow> millis \<Rightarrow> string \<Rightarrow> string \<Rightarrow> string \<Rightarrow> int option \<Rightarrow> string \<Rightarrow> string option \<Rightarrow> 'r world
   \<Rightarrow> (unit, 'r world) handled" where
  "customBotMessageText R E now token protocolId chatId userId t chatType w =
     (let cmd = clean_command t; admin = verifyGroupAdmin E token chatId chatType userId
      in if cmd = ''/start'' then custom_start R E now token protocolId chatId userId chatType t w
         else if cmd \<notin> {''/status'', ''/help'', ''/mute'', ''/unmute'', ''/categories''} \<or> \<not> admin then ok () w
         else if cmd = ''/status'' then custom_status E token protocolId chatId chatType w
         else if cmd = ''/help'' then ok () (bot_reply (Some token) chatId help_notice w)
         else if cmd = ''/mute'' then custom_mute R now token chatId t w
         else if cmd = ''/unmute'' then custom_unmute R token chatId t w
         else ok () (bot_reply (Some token) chatId (categories_notice R now chatId w) w))"

section \<open>The webhook\<close>

text \<open>A message without text and without new members lets the later parts of the update be looked at.\<close>

definition custom_message ::
  "'r redis_api \<Rightarrow> bot_env \<Rightarrow> millis \<Rightarrow> string \<Rightarrow> string \<Rightarrow> bot_message \<Rightarrow> 'r world \<Rightarrow> (unit, 'r world) handled option" where
  "custom_message R E now token protocolId m w =
     (let chatId = nullish (bm_chatId m) []
      in if chatId = [] then Some (ok () w)
         else case bm_newMembers m of
           Some members \<Rightarrow> Some (customBotNewChatMembers E token protocolId chatId members w)
         | None \<Rightarrow> if truthy (bm_text m)
             then Some (customBotMessageText R E now token protocolId chatId (bm_userId m) (trim (the (bm_text m))) (bm_chatType m) w)
             else None)"

definition custom_dispatch ::
  "'r redis_api \<Rightarrow> bot_env \<Rightarrow> millis \<Rightarrow> string \<Rightarrow> string \<Rightarrow> bot_update \<Rightarrow> 'r world \<Rightarrow> (unit, 'r world) handled" where
  "custom_dispatch R E now token protocolId u w =
     (case bu_callback u of
        Some query \<Rightarrow> customBotCallbackQuery R E now token query w
      | None \<Rightarrow> (case Option.bind (bu_message u) (\<lambda>m. custom_message R E now token protocolId m w) of
          Some r \<Rightarrow> r
        | None \<Rightarrow> (case bu_membership u of
            Some k \<Rightarrow> customBotMyChatMember E token protocolId k w
          | None \<Rightarrow> (case bu_reaction u of
              Some x \<Rightarrow> customBotMessageReaction R E now protocolId x w
            | None \<Rightarrow> ok () w))))"

definition handleCustomBotUpdate ::
  "'r redis_api \<Rightarrow> bot_env \<Rightarrow> millis \<Rightarrow> string \<Rightarrow> bot_update \<Rightarrow> 'r world \<Rightarrow> (unit, 'r world) handled" where
  "handleCustomBotUpdate R E now protocolId u w =
     and_then (getCustomBotToken E protocolId w) (\<lambda>token w1.
       if \<not> truthy token then ok () w1 else custom_dispatch R E now (the token) protocolId u w1)"

definition handleCustomBotWebhook ::
  "'r redis_api \<Rightarrow> bot_env \<Rightarrow> millis \<Rightarrow> string \<Rightarrow> string option \<Rightarrow> bot_update \<Rightarrow> 'r world \<Rightarrow> (unit, 'r world) handled" where
  "handleCustomBotWebhook R E now protocolId secret u w =
     (if \<not> verifySecret E secret then throw (HttpExn 403 ''Invalid webhook secret'') w
      else swallow (handleCustomBotUpdate R E now protocolId u w))"

section \<open>The fan-out of migration prompts\<close>

record migration_env =
  me_fetch :: "string \<Rightarrow> identity option option"
  me_decrypt :: "identity \<Rightarrow> exn + channels"   \<comment> \<open>\<open>decryptAllChannels\<close>\<close>
  me_telegram :: telegram_env

definition prompt_subscriber ::
  "'r redis_api \<Rightarrow> migration_env \<Rightarrow> millis \<Rightarrow> string \<Rightarrow> string \<Rightarrow> string \<Rightarrow> string \<Rightarrow> nat \<times> nat \<times> 'r world \<Rightarrow> nat \<times> nat \<times> 'r world" where
  "prompt_subscriber R M now protocolId username name wallet st =
     (case st of (sent, skipped, w) \<Rightarrow>
        if wallet = [] then st
        else case resolveIdentity R (me_fetch M) now wallet w of
          (Inr (Some idn), w1) \<Rightarrow>
            if \<not> id_channelTelegram idn then (sent, skipped + 1, w1)
            else (case me_decrypt M idn of
                Inr c \<Rightarrow>
                  if \<not> truthy (ch_telegramChatId c) \<or> isMigrated R now (the (ch_telegramChatId c)) protocolId w1
                  then (sent, skipped + 1, w1)
                  else (sent + 1, skipped,
                        sendSinglePrompt R now (me_telegram M) (the (ch_telegramChatId c)) protocolId username name w1)
              | Inl _ \<Rightarrow> (sent, skipped + 1, w1))
        | (_, w1) \<Rightarrow> (sent, skipped + 1, w1))"

definition sendMigrationPrompts ::
  "'r redis_api \<Rightarrow> bot_env \<Rightarrow> migration_env \<Rightarrow> millis \<Rightarrow> string \<Rightarrow> 'r world \<Rightarrow> (nat \<times> nat, 'r world) handled" where
  "sendMigrationPrompts R E M now protocolId w =
     and_then (find_settings E protocolId w) (\<lambda>s w1.
       let username = Option.bind s ps_telegramBotUsername
       in if \<not> truthy username then ok (0, 0) w1
          else let wallets = map (\<lambda>u. the (su_walletPubkey u))
                     (filter (\<lambda>u. su_protocolId u = protocolId \<and> su_status u = ''active'' \<and> su_walletPubkey u \<noteq> None) (w_audience w1));
                   (sent, skipped, w2) = fold (prompt_subscriber R M now protocolId (the username) (resolveProtocolName E protocolId w1))
                     wallets (0, 0, w1)
               in ok (sent, skipped) (snd (update_settings protocolId (\<lambda>r. r\<lparr>ps_telegramMigrationSentAt := Some now\<rparr>) w2)))"

text \<open>\<open>verifyInternalSecret\<close> and its caller.\<close>

definition verifyInternalSecret :: "bot_env \<Rightarrow> string option \<Rightarrow> bool" where
  "verifyInternalSecret E secret = (truthy (be_internalKey E) \<and> secret = be_internalKey E)"

definition triggerMigration ::
  "'r redis_api \<Rightarrow> bot_env \<Rightarrow> migration_env \<Rightarrow> millis \<Rightarrow> string \<Rightarrow> string option \<Rightarrow> 'r world \<Rightarrow> (nat \<times> nat, 'r world) handled" where
  "triggerMigration R E M now protocolId secret w =
     (if \<not> verifyInternalSecret E secret then throw (HttpExn 403 ''Invalid internal secret'') w
      else sendMigrationPrompts R E M now protocolId w)"


section \<open>Facts: what an update leaves alone\<close>

lemma find_settings_state [simp]: "snd (find_settings E p w) = w"
  by (simp add: find_settings_def flow_simps)

lemma getCustomBotToken_state: "snd (getCustomBotToken E p w) = w"
  by (simp add: getCustomBotToken_def find_settings_def flow_simps)

locale custom_frame = bot_frame +
  assumes migrated: "P w (markMigrated R now c p w)"
    and leave: "P w (w\<lparr>w_sent := w_sent w @ [SentLeave k c]\<rparr>)"
    and engaged: "P w (w\<lparr>w_engagements := w_engagements w @ [x]\<rparr>)"
begin

lemma settings_lookup: "P w (snd (find_settings E p w))"
  by (simp add: refl)

lemma custom_callback: "P w (snd (customBotCallbackQuery R E now token q w))"
proof -
  have "P w (snd (and_then (find_notification E i w) (\<lambda>notif w1. case notif of
      Some n \<Rightarrow> if nt_protocolId n \<noteq> []
        then and_then (setex_or_throw R now (protocol_mute_key c (nt_protocolId n)) (RText ''1'') s w1)
          (\<lambda>_ w2. ok () (bot_answer k qi (Some protocol_muted_notice) w2))
        else ok () (bot_answer k qi (Some not_found_notice) w1)
    | None \<Rightarrow> ok () (bot_answer k qi (Some not_found_notice) w1))))" for i c s k qi
    by (rule after [OF lookup]) (auto intro: after protocol_muted answered split: option.splits)
  then show ?thesis
    unfolding customBotCallbackQuery_def Let_def by (auto intro: caught answered quiet refl)
qed

lemma replies: "P w (fold (\<lambda>m. bot_reply k c (f m)) ms w)"
  by (induction ms arbitrary: w) (auto intro: refl trans reply)

lemma members: "P w (snd (customBotNewChatMembers E token p c ms w))"
  unfolding customBotNewChatMembers_def Let_def
  by (rule after [OF settings_lookup]) (auto simp: flow_simps intro: trans replies)

lemma engaged_after: "P w w1 \<Longrightarrow> P w (w1\<lparr>w_engagements := w_engagements w1 @ [x]\<rparr>)"
  using trans engaged by blast

lemma reacted: "P w (snd (customBotMessageReaction R E now p x w))"
proof -
  have "P w (snd (and_then (find_notification E i w) (\<lambda>notif w1. case notif of
      None \<Rightarrow> ok () w1
    | Some n \<Rightarrow> if nt_protocolId n \<noteq> p \<or> \<not> exists_row (\<lambda>p'. pr_id p' = p) (w_protocols w1) then ok () w1
        else ok () (w1\<lparr>w_engagements := w_engagements w1 @ [g i]\<rparr>))))" for i and g :: "string \<Rightarrow> engagement"
    by (rule after [OF lookup]) (auto intro: quiet engaged_after split: option.splits)
  note this [where g = "\<lambda>i. \<lparr>ng_notificationId = i, ng_protocolId = p, ng_eventType = ''tg_reaction'',
      ng_linkUrl = Some (reaction_emoji (hd (br_emojis x))), ng_createdAt = now\<rparr>"]
  then show ?thesis
    unfolding customBotMessageReaction_def Let_def
    by (auto intro: quiet refl split: option.splits redis_value.splits)
qed

lemma custom_welcome: "P w (snd (sendCustomBotWelcome E c p w))"
  unfolding sendCustomBotWelcome_def
  by (rule after) (auto simp: getCustomBotToken_state intro: refl replied quiet split: option.splits)

lemma custom_commands:
  "P w (snd (custom_status E token p c ty w))" "P w (snd (custom_mute R now token c t w))"
  "P w (snd (custom_unmute R token c t w))"
  unfolding custom_status_def custom_mute_def custom_unmute_def Let_def
  by (auto intro: after [OF settings_lookup] replied quiet refl mute unmute_cat)

end

text \<open>A message that asks for a group to be linked: the chat and the nonce.\<close>

definition setup_request :: "bot_message \<Rightarrow> (string \<times> string) option" where
  "setup_request m =
     (case (bm_chatId m, bm_newMembers m, bm_text m) of
        (Some chat, None, Some t) \<Rightarrow>
          if chat \<noteq> [] \<and> t \<noteq> [] \<and> clean_command (trim t) = ''/start''
          then Option.bind (second_word (trim t)) (\<lambda>arg.
            if startsWith arg ''setup_'' then Some (chat, drop 6 arg) else None)
          else None
      | _ \<Rightarrow> None)"

lemma truthy_Some: "truthy x \<longleftrightarrow> (\<exists>s. x = Some s \<and> s \<noteq> [])"
  by (cases x) auto

context custom_frame
begin

lemma start_cases:
  "P w (snd (custom_start R E now token p c user ty t w))
   \<or> (\<exists>arg. second_word t = Some arg \<and> startsWith arg ''setup_''
        \<and> custom_start R E now token p c user ty t w = setup_group R E now token p c user (drop 6 arg) w)"
proof (cases "truthy (second_word t) \<and> startsWith (the (second_word t)) ''setup_'' \<and> \<not> startsWith (the (second_word t)) ''hrld_''")
  case True
  then show ?thesis by (auto simp: custom_start_def Let_def truthy_Some)
next
  case False
  then have "P w (snd (custom_start R E now token p c user ty t w))"
    unfolding custom_start_def Let_def by (auto intro: trans migrated custom_welcome replied refl)
  then show ?thesis ..
qed

lemma message_cases:
  assumes "custom_message R E now token p m w = Some r"
  shows "P w (snd r) \<or> (\<exists>chat nonce. setup_request m = Some (chat, nonce) \<and> r = setup_group R E now token p chat (bm_userId m) nonce w)"
proof -
  consider "bm_chatId m = None \<or> bm_chatId m = Some []" | c ms where "bm_chatId m = Some c" "c \<noteq> []" "bm_newMembers m = Some ms"
    | c t where "bm_chatId m = Some c" "c \<noteq> []" "bm_newMembers m = None" "bm_text m = Some t" "t \<noteq> []"
    using assms by (cases "bm_chatId m"; cases "bm_newMembers m"; cases "bm_text m")
      (auto simp: custom_message_def nullish_def split: if_splits)
  then show ?thesis
  proof cases
    case 1
    then have "r = ok () w" using assms by (auto simp: custom_message_def nullish_def)
    then show ?thesis by (simp add: flow_simps refl)
  next
    case 2
    then show ?thesis using assms by (auto simp: custom_message_def nullish_def intro: members)
  next
    case 3
    then have r: "r = customBotMessageText R E now token p c (bm_userId m) (trim t) (bm_chatType m) w"
      using assms by (simp add: custom_message_def nullish_def)
    show ?thesis
    proof (cases "clean_command (trim t) = ''/start''")
      case True
      then have "r = custom_start R E now token p c (bm_userId m) (bm_chatType m) (trim t) w"
        by (simp add: r customBotMessageText_def)
      then show ?thesis
        using start_cases [of w E now token p c "bm_userId m" "bm_chatType m" "trim t"] 3 True
        by (auto simp: setup_request_def)
    next
      case False
      then have "P w (snd r)"
        unfolding r customBotMessageText_def Let_def by (auto intro: custom_commands replied quiet refl)
      then show ?thesis ..
    qed
  qed
qed

lemma dispatch_cases:
  "P w (snd (custom_dispatch R E now token p u w))
   \<or> (\<exists>m chat nonce. bu_message u = Some m \<and> setup_request m = Some (chat, nonce)
        \<and> custom_dispatch R E now token p u w = setup_group R E now token p chat (bm_userId m) nonce w)
   \<or> (\<exists>k. bu_membership u = Some k \<and> custom_dispatch R E now token p u w = customBotMyChatMember E token p k w)"
proof (cases "bu_callback u")
  case None
  show ?thesis
  proof (cases "Option.bind (bu_message u) (\<lambda>m. custom_message R E now token p m w)")
    case (Some r)
    then obtain m where "bu_message u = Some m" "custom_message R E now token p m w = Some r"
      by (cases "bu_message u") auto
    then show ?thesis using None Some message_cases [of E now token p m w r] by (auto simp: custom_dispatch_def)
  next
    case none: None
    then show ?thesis
      using None by (auto simp: custom_dispatch_def intro: reacted quiet refl split: option.split)
  qed
next
  case (Some q)
  then show ?thesis using custom_callback by (simp add: custom_dispatch_def)
qed

end

interpretation custom_settings: custom_frame "\<lambda>w w'. w_settings w' = w_settings w" for R
  by unfold_locales (auto simp: markMigrated_def setex_quiet_def)

section \<open>Facts: the linked group\<close>

definition group_of :: "string \<Rightarrow> 'r world \<Rightarrow> string option" where
  "group_of p w = Option.bind (settings_of p w) ps_telegramGroupChatId"

text \<open>The live code, made for a custom bot and for this protocol.\<close>

definition nonce_valid :: "'r redis_api \<Rightarrow> millis \<Rightarrow> string \<Rightarrow> string \<Rightarrow> 'r world \<Rightarrow> bool" where
  "nonce_valid R now nonce p w = (w_redisUp w \<and>
     (case r_get R (w_redis w) now (group_nonce_key nonce) of
        Some (RNonce botType pid _ _) \<Rightarrow> pid = Some p \<and> (truthy botType \<longrightarrow> botType = Some ''custom'')
      | _ \<Rightarrow> False))"

lemma setup_group_settings:
  "w_settings (snd (setup_group R E now token p chat user nonce w)) = w_settings w
   \<or> (\<exists>i. sender user = Some i \<and> checkIsAdmin E token chat i \<and> nonce_valid R now nonce p w
        \<and> w_settings (snd (setup_group R E now token p chat user nonce w)) =
            updateMany (\<lambda>s. ps_protocolId s = p) (\<lambda>r. r\<lparr>ps_telegramGroupChatId := Some chat\<rparr>) (w_settings w))"
  by (auto simp: setup_group_def nonce_valid_def update_settings_def setex_or_throw_def flow_simps Let_def
        split: option.splits redis_value.splits)

lemma membership_settings:
  "w_settings (snd (customBotMyChatMember E token p k w)) = w_settings w
   \<or> (\<exists>chat. bk_chatId k = Some chat \<and> (bk_status k = Some ''left'' \<or> bk_status k = Some ''kicked'')
        \<and> group_of p w = Some chat
        \<and> w_settings (snd (customBotMyChatMember E token p k w)) =
            updateMany (\<lambda>s. ps_protocolId s = p)
              (\<lambda>r. r\<lparr>ps_telegramGroupChatId := None, ps_telegramGroupMemberCount := None\<rparr>) (w_settings w))"
  by (cases "bk_chatId k")
    (auto simp: customBotMyChatMember_def group_of_def find_settings_def update_settings_def nullish_def flow_simps Let_def bot_reply_def
        split: option.splits)


lemma group_of_update:
  assumes "w_settings w' = updateMany (\<lambda>s. ps_protocolId s = p) f (w_settings w)" "\<And>s. ps_protocolId (f s) = ps_protocolId s"
    and "\<And>s. ps_telegramGroupChatId (f s) = g"
  shows "group_of q w' = (if q = p \<and> settings_of p w \<noteq> None then g else group_of q w)"
  using find_key_update [of ps_protocolId f q p "w_settings w"] assms
  by (auto simp: group_of_def settings_of_def bind_eq_Some_conv split: option.splits)

lemma shared_bot_keeps_groups: "w_settings (snd (handleWebhook R E now secret u w)) = w_settings w"
proof (cases "start_of u")
  case None
  then show ?thesis by (rule webhook_no_start [OF settings_frame.bot_frame_axioms])
next
  case (Some x)
  obtain chat wallet name where x: "x = (chat, wallet, name)" by (cases x) auto
  show ?thesis
  proof (cases "be_enabled E \<and> verifySecret E secret")
    case True
    then show ?thesis
      using webhook_start [of u chat wallet name E secret R now w] Some x by (simp add: handleStartConnect_def)
  next
    case False
    then show ?thesis by (auto simp: handleWebhook_def handleUpdate_def flow_simps)
  qed
qed

lemma custom_webhook_settings:
  assumes "w_settings (snd (handleCustomBotWebhook R E now p secret u w)) \<noteq> w_settings w"
  obtains token where "verifySecret E secret" "getCustomBotToken E p w = (Inr (Some token), w)"
    "w_settings (snd (custom_dispatch R E now token p u w)) \<noteq> w_settings w"
    "snd (handleCustomBotWebhook R E now p secret u w) = snd (custom_dispatch R E now token p u w)"
proof -
  have secret: "verifySecret E secret"
    using assms by (cases "verifySecret E secret") (simp_all add: handleCustomBotWebhook_def flow_simps)
  then have h: "snd (handleCustomBotWebhook R E now p secret u w) = snd (handleCustomBotUpdate R E now p u w)"
    by (simp add: handleCustomBotWebhook_def flow_simps)
  obtain r where r: "getCustomBotToken E p w = (r, w)"
    using getCustomBotToken_state [of E p w] by (cases "getCustomBotToken E p w") simp
  obtain token where t: "r = Inr (Some token)" "token \<noteq> []"
    using assms unfolding h handleCustomBotUpdate_def r
    by (cases r) (auto simp: flow_simps truthy_Some split: if_splits)
  have "snd (handleCustomBotUpdate R E now p u w) = snd (custom_dispatch R E now token p u w)"
    by (simp add: handleCustomBotUpdate_def r t)
  then show ?thesis using that secret r t assms h by simp
qed

text \<open>What an update must be to link a chat, and to unlink it.\<close>

definition links :: "'r redis_api \<Rightarrow> bot_env \<Rightarrow> millis \<Rightarrow> string \<Rightarrow> string \<Rightarrow> bot_update \<Rightarrow> 'r world \<Rightarrow> string \<Rightarrow> bool" where
  "links R E now token p u w chat = (\<exists>m nonce i. bu_message u = Some m \<and> setup_request m = Some (chat, nonce)
     \<and> sender (bm_userId m) = Some i \<and> checkIsAdmin E token chat i \<and> nonce_valid R now nonce p w)"

definition unlinks :: "string \<Rightarrow> bot_update \<Rightarrow> 'r world \<Rightarrow> bool" where
  "unlinks p u w = (\<exists>k chat. bu_membership u = Some k \<and> bk_chatId k = Some chat
     \<and> (bk_status k = Some ''left'' \<or> bk_status k = Some ''kicked'') \<and> group_of p w = Some chat)"

lemma dispatch_settings:
  fixes R :: "'r redis_api" and w :: "'r world"
  defines "w' \<equiv> \<lambda>E now token p u w. snd (custom_dispatch R E now token p u w)"
  assumes "group_of q (w' E now token p u w) \<noteq> group_of q w"
  shows "q = p \<and> ((\<exists>chat. links R E now token p u w chat \<and> group_of p (w' E now token p u w) = Some chat)
    \<or> unlinks p u w \<and> group_of p (w' E now token p u w) = None)"
proof -
  let ?v = "w' E now token p u w"
  have "w_settings ?v \<noteq> w_settings w"
    using assms(2) by (auto simp: group_of_def settings_of_def)
  with custom_settings.dispatch_cases [of R E now token p u w]
  consider m chat nonce where "bu_message u = Some m" "setup_request m = Some (chat, nonce)"
      "custom_dispatch R E now token p u w = setup_group R E now token p chat (bm_userId m) nonce w"
    | k where "bu_membership u = Some k" "custom_dispatch R E now token p u w = customBotMyChatMember E token p k w"
    unfolding w'_def by blast
  then show ?thesis
  proof cases
    case (1 m chat nonce)
    then obtain i where i: "sender (bm_userId m) = Some i" "checkIsAdmin E token chat i" "nonce_valid R now nonce p w"
        "w_settings ?v = updateMany (\<lambda>s. ps_protocolId s = p) (\<lambda>r. r\<lparr>ps_telegramGroupChatId := Some chat\<rparr>) (w_settings w)"
      using setup_group_settings [of R E now token p chat "bm_userId m" nonce w] \<open>w_settings ?v \<noteq> w_settings w\<close>
      by (auto simp: w'_def)
    have "group_of x ?v = (if x = p \<and> settings_of p w \<noteq> None then Some chat else group_of x w)" for x
      by (rule group_of_update [OF i(4)]) simp_all
    then have "q = p" "group_of p ?v = Some chat" using assms(2) by (metis, metis)
    then show ?thesis using 1 i by (auto simp: links_def)
  next
    case (2 k)
    then obtain chat where c: "bk_chatId k = Some chat" "bk_status k = Some ''left'' \<or> bk_status k = Some ''kicked''"
        "group_of p w = Some chat"
        "w_settings ?v = updateMany (\<lambda>s. ps_protocolId s = p)
          (\<lambda>r. r\<lparr>ps_telegramGroupChatId := None, ps_telegramGroupMemberCount := None\<rparr>) (w_settings w)"
      using membership_settings [of E token p k w] \<open>w_settings ?v \<noteq> w_settings w\<close> by (auto simp: w'_def)
    have "group_of x ?v = (if x = p \<and> settings_of p w \<noteq> None then None else group_of x w)" for x
      by (rule group_of_update [OF c(4)]) simp_all
    then have "q = p" "group_of p ?v = None" using assms(2) by (metis, metis)
    then show ?thesis using 2 c by (auto simp: unlinks_def)
  qed
qed

text \<open>C12: Only the right people link a group: whenever an update of a protocol's bot changes the group a
  protocol delivers to, it carries the configured secret, the protocol is the one whose bot was called,
  and either the group becomes the chat of a \<open>/start setup_<code>\<close> message whose sender the bot sees as an
  admin of that chat and whose code is alive, made for this protocol and not for Herald's bot, or the
  bot was removed from the linked group, which is forgotten. Herald's bot never changes it.\<close>

theorem group_link_guarded:
  fixes R :: "'r redis_api" and E u w now p secret
  defines "w' \<equiv> snd (handleCustomBotWebhook R E now p secret u w)"
  shows "(group_of q w' \<noteq> group_of q w \<longrightarrow> q = p \<and> verifySecret E secret
      \<and> (\<exists>token. getCustomBotToken E p w = (Inr (Some token), w)
        \<and> ((\<exists>chat. links R E now token p u w chat \<and> group_of p w' = Some chat)
          \<or> unlinks p u w \<and> group_of p w' = None)))
    \<and> group_of q (snd (handleWebhook R E now secret u w)) = group_of q w"
proof
  show "group_of q w' \<noteq> group_of q w \<longrightarrow> q = p \<and> verifySecret E secret
      \<and> (\<exists>token. getCustomBotToken E p w = (Inr (Some token), w)
        \<and> ((\<exists>chat. links R E now token p u w chat \<and> group_of p w' = Some chat) \<or> unlinks p u w \<and> group_of p w' = None))"
  proof
    assume changed: "group_of q w' \<noteq> group_of q w"
    then have "w_settings w' \<noteq> w_settings w" by (auto simp: group_of_def settings_of_def)
    then obtain token where "verifySecret E secret" "getCustomBotToken E p w = (Inr (Some token), w)"
        "w' = snd (custom_dispatch R E now token p u w)"
      unfolding w'_def using custom_webhook_settings by metis
    with changed dispatch_settings [of q R E now token p u w]
    show "q = p \<and> verifySecret E secret \<and> (\<exists>token. getCustomBotToken E p w = (Inr (Some token), w)
        \<and> ((\<exists>chat. links R E now token p u w chat \<and> group_of p w' = Some chat) \<or> unlinks p u w \<and> group_of p w' = None))"
      by blast
  qed
  show "group_of q (snd (handleWebhook R E now secret u w)) = group_of q w"
    by (simp add: group_of_def settings_of_def shared_bot_keeps_groups)
qed

definition nonce_keyspace :: keyspace where
  "nonce_keyspace k = (if k = group_nonce_key ''c0de'' then Some (RNonce (Some ''custom'') (Some ''p1'') None None, Some 600000) else None)"

definition bare_settings :: "string \<Rightarrow> protocol_settings" where
  "bare_settings p = \<lparr>ps_protocolId = p, ps_customFromName = None, ps_websiteUrl = None, ps_testEmail = None,
     ps_testTelegramId = None, ps_testPhone = None, ps_trackEngagement = False, ps_telegramBotTokenEncrypted = Some [1],
     ps_telegramBotUsername = Some ''acme_bot'', ps_telegramGroupChatId = None, ps_telegramThreadIds = None,
     ps_telegramAutoPinEnabled = False, ps_telegramWelcomeMessage = None, ps_telegramGroupMemberCount = None,
     ps_telegramMemberCountAt = None, ps_telegramMigrationSentAt = None\<rparr>"

definition bot_world :: "keyspace world" where
  "bot_world = (empty_world nonce_keyspace)\<lparr>w_settings := [bare_settings ''p1'']\<rparr>"

abbreviation setup_update :: "string \<Rightarrow> bot_update" where
  "setup_update chat \<equiv> text_update chat 7 ''supergroup'' ''/start@acme_bot setup_c0de''"

lemma setup_links:
  "group_of ''p1'' (snd (handleCustomBotWebhook mem_redis sample_bot_env 0 ''p1'' (Some ''se-c'') (setup_update ''-10'') bot_world)) = Some ''-10''"
  "group_of ''p1'' bot_world = None"
  by code_simp+

lemma bot_world_token: "getCustomBotToken sample_bot_env ''p1'' bot_world = (Inr (Some ''tok''), bot_world)"
  by (simp add: getCustomBotToken_def find_settings_def settings_of_def bot_world_def bare_settings_def sample_bot_env_def
      custom_token_of_def flow_simps)

theorem group_link_guarded_witness:
  "links mem_redis sample_bot_env 0 ''tok'' ''p1'' (setup_update ''-10'') bot_world ''-10''"
  using group_link_guarded [of "''p1''" mem_redis sample_bot_env 0 "''p1''" "Some ''se-c''" "setup_update ''-10''" bot_world]
    setup_links bot_world_token by auto

text \<open>A code is good for more than one group: once used it lives on for a minute, and nothing reads its status.\<close>

lemma completed_code_links_again:
  assumes "redis_service R" "nonce_valid R t nonce p w" "t \<le> t'" "t' < t + 60000" "settings_of p w \<noteq> None"
    and "sender user = Some i" "checkIsAdmin E token chat i"
    and "w_redis w1 = w_redis (snd (setup_group R E t token p chat user nonce w))" "w_redisUp w1"
  shows "nonce_valid R t' nonce p w1"
proof -
  obtain bt st ch where n: "w_redisUp w" "r_get R (w_redis w) t (group_nonce_key nonce) = Some (RNonce bt (Some p) st ch)"
      "truthy bt \<longrightarrow> bt = Some ''custom''"
    using assms(2) by (auto simp: nonce_valid_def split: option.splits redis_value.splits)
  have "exists_row (\<lambda>s. ps_protocolId s = p) (w_settings w)"
    using assms(5) by (auto simp: settings_of_def exists_row_def)
  then have "w_redis w1 = r_setex R (w_redis w) t (group_nonce_key nonce) (RNonce bt (Some p) (Some ''completed'') (Some chat)) 60000"
    using n assms(6-8) by (auto simp: setup_group_def update_settings_def setex_or_throw_def flow_simps Let_def)
  then show ?thesis
    using redis_service.get_setex [OF assms(1,3)] assms(4,9) n(3) by (simp add: nonce_valid_def)
qed

section \<open>Facts: the two bots agree\<close>

definition unsent :: "'r world \<Rightarrow> 'r world" where "unsent w = w\<lparr>w_sent := []\<rparr>"

lemma unsent_reply [simp]: "unsent (bot_reply k c t w) = unsent w"
  by (simp add: unsent_def bot_reply_def)

lemma unsent_mute: "unsent (snd (mute_category R now k c cat w)) = unsent (snd (mute_category R now k' c cat w))"
  by (simp add: mute_category_def setex_or_throw_def flow_simps)

lemma unsent_unmute: "unsent (snd (unmute_category R k c cat w)) = unsent (snd (unmute_category R k' c cat w))"
  by (simp add: unmute_category_def del_or_throw_def flow_simps)

lemma mute_commands_agree:
  "unsent (snd (handleMuteCommand R now c (second_word t) w)) = unsent (snd (custom_mute R now k c t w))"
  "unsent (snd (handleUnmuteCommand R c (second_word t) w)) = unsent (snd (custom_unmute R k c t w))"
  using unsent_mute [of R now None c _ w "Some k"] unsent_unmute [of R None c _ w "Some k"]
  by (cases "second_word t"; auto simp: handleMuteCommand_def custom_mute_def handleUnmuteCommand_def custom_unmute_def nullish_def
        flow_simps Let_def)+

lemma first_word: "hd (split_on c s) = takeWhile (\<lambda>x. x \<noteq> c) s"
  by (induction s) (auto split: list.splits)

lemma set_trim: "set (trim t) \<subseteq> set t"
  by (auto simp: trim_def dest!: set_dropWhileD)

lemma clean_command_plain:
  assumes "CHR ''@'' \<notin> set t"
  shows "clean_command (trim t) = map lower (hd (split_on CHR '' '' (trim t)))"
proof -
  have "CHR ''@'' \<notin> set (hd (split_on CHR '' '' (trim t)))"
    using assms set_trim [of t] by (auto simp: first_word dest: set_takeWhileD)
  then show ?thesis by (simp add: clean_command_def)
qed

lemma no_start_command:
  assumes "map lower (hd (split_on CHR '' '' t)) \<in> {''/mute'', ''/unmute'', ''/categories''}"
  shows "START_PATTERN t = None"
proof (rule ccontr)
  assume "START_PATTERN t \<noteq> None"
  then have "startsWith t ''/start''" by (auto simp: START_PATTERN_def Let_def split: if_splits)
  then have "take 6 t = ''/start''" by (simp add: startsWith_def eval_nat_numeral)
  then obtain r where "t = ''/start'' @ r" by (metis append_take_drop_id)
  then show False using assms unfolding first_word by simp
qed




section \<open>Facts: the fan-out\<close>

lemma resolveIdentity_sent: "w_sent (snd (resolveIdentity R fetch now wallet w)) = w_sent w"
  by (auto simp: resolveIdentity_def flow_simps Let_def split: option.splits redis_value.splits)

lemma sendSinglePrompt_sent:
  "\<exists>ps. w_sent (sendSinglePrompt R now env chat p u n w) = w_sent w @ ps \<and> length ps \<le> 1 \<and> (tg_enabled env \<or> ps = [])"
  by (auto simp: sendSinglePrompt_def tg_request_def markPrompted_def setex_quiet_def split: telegram_reply.splits prod.splits)

text \<open>What the counters say after some subscribers, starting from \<open>w\<close>.\<close>

definition fanout_ok :: "bool \<Rightarrow> 'r world \<Rightarrow> nat \<Rightarrow> nat \<times> nat \<times> 'r world \<Rightarrow> bool" where
  "fanout_ok enabled w n st =
     (case st of (sent, skipped, w') \<Rightarrow> sent + skipped = n
        \<and> (\<exists>ps. w_sent w' = w_sent w @ ps \<and> length ps \<le> sent \<and> (enabled \<or> ps = [])))"

lemma prompt_subscriber_ok:
  assumes "fanout_ok (tg_enabled (me_telegram M)) w n st"
  shows "fanout_ok (tg_enabled (me_telegram M)) w (n + (if wallet = [] then 0 else 1)) (prompt_subscriber R M now p u name wallet st)"
proof (cases "wallet = []")
  case True
  then show ?thesis using assms by (cases st) (simp add: prompt_subscriber_def)
next
  case False
  obtain sent skipped w0 where st: "st = (sent, skipped, w0)" by (cases st) auto
  obtain r w1 where r: "resolveIdentity R (me_fetch M) now wallet w0 = (r, w1)" by fastforce
  have s1: "w_sent w1 = w_sent w0" using resolveIdentity_sent [of R "me_fetch M" now wallet w0] r by simp
  obtain ps where ps: "w_sent w0 = w_sent w @ ps" "length ps \<le> sent" "tg_enabled (me_telegram M) \<or> ps = []" and n: "sent + skipped = n"
    using assms by (auto simp: st fanout_ok_def)
  have skip: "fanout_ok (tg_enabled (me_telegram M)) w (n + 1) (sent, skipped + 1, w1)"
    using ps n s1 by (auto simp: fanout_ok_def)
  have prompt: "fanout_ok (tg_enabled (me_telegram M)) w (n + 1)
      (sent + 1, skipped, sendSinglePrompt R now (me_telegram M) chat p u name w1)" for chat
    using sendSinglePrompt_sent [of R now "me_telegram M" chat p u name w1] ps n s1 by (fastforce simp: fanout_ok_def)
  show ?thesis
    using skip prompt False by (auto simp: prompt_subscriber_def st r split: sum.splits option.splits)
qed

lemma prompt_subscribers_ok:
  "fanout_ok (tg_enabled (me_telegram M)) w n st \<Longrightarrow>
     fanout_ok (tg_enabled (me_telegram M)) w (n + length (filter (\<lambda>x. x \<noteq> []) wallets))
       (fold (prompt_subscriber R M now p u name) wallets st)"
proof (induction wallets arbitrary: n st)
  case (Cons x wallets)
  then show ?case
    using Cons.IH [OF prompt_subscriber_ok [OF Cons.prems, of x R now p u name]] by (auto simp: add.assoc split: if_splits)
qed simp

definition active_wallets :: "string \<Rightarrow> 'r world \<Rightarrow> string list" where
  "active_wallets p w = filter (\<lambda>x. x \<noteq> []) (map (\<lambda>s. the (su_walletPubkey s))
     (filter (\<lambda>s. su_protocolId s = p \<and> su_status s = ''active'' \<and> su_walletPubkey s \<noteq> None) (w_audience w)))"

text \<open>The fan-out accounts for everyone: it returns, and where the protocol has a bot, every active
  subscriber with a wallet is either counted as sent or as skipped. At most one message per counted prompt
  goes out; it can be none at all, since a prompt that was held back or could not be sent is counted as
  sent, too, as when Herald's bot is not configured.\<close>

theorem migration_fanout:
  assumes "find_settings E p w = (Inr (Some s), w)" "truthy (ps_telegramBotUsername s)"
  shows "\<exists>sent skipped ps w'. sendMigrationPrompts R E M now p w = (Inr (sent, skipped), w')
    \<and> sent + skipped = length (active_wallets p w) \<and> w_sent w' = w_sent w @ ps \<and> length ps \<le> sent
    \<and> (tg_enabled (me_telegram M) \<or> ps = [])"
proof -
  let ?ws = "map (\<lambda>u. the (su_walletPubkey u))
    (filter (\<lambda>u. su_protocolId u = p \<and> su_status u = ''active'' \<and> su_walletPubkey u \<noteq> None) (w_audience w))"
  obtain sent skipped w2 where f: "fold (prompt_subscriber R M now p (the (ps_telegramBotUsername s)) (resolveProtocolName E p w)) ?ws (0, 0, w)
      = (sent, skipped, w2)"
    by (rule prod_cases3)
  have "fanout_ok (tg_enabled (me_telegram M)) w 0 (0, 0, w)" by (simp add: fanout_ok_def)
  from prompt_subscribers_ok [OF this, of ?ws R now p "the (ps_telegramBotUsername s)" "resolveProtocolName E p w"]
  have ok: "fanout_ok (tg_enabled (me_telegram M)) w (0 + length (filter (\<lambda>x. x \<noteq> []) ?ws)) (sent, skipped, w2)"
    unfolding f .
  then have "\<exists>ps. sent + skipped = length (active_wallets p w) \<and> w_sent w2 = w_sent w @ ps \<and> length ps \<le> sent
      \<and> (tg_enabled (me_telegram M) \<or> ps = [])"
    by (simp only: fanout_ok_def active_wallets_def prod.case add_0_left) blast
  moreover have "sendMigrationPrompts R E M now p w
      = (Inr (sent, skipped), snd (update_settings p (\<lambda>r. r\<lparr>ps_telegramMigrationSentAt := Some now\<rparr>) w2))"
    using assms(2) unfolding sendMigrationPrompts_def assms(1) and_then_simps Let_def bind.bind_lunit f
    by (simp add: flow_simps)
  moreover have "w_sent (snd (update_settings p g w2)) = w_sent w2" for g
    by (simp add: update_settings_def flow_simps)
  ultimately show ?thesis by metis
qed

definition fanout_world :: "keyspace world" where
  "fanout_world = bot_world\<lparr>w_audience := map (\<lambda>x. \<lparr>su_walletPubkey = Some x, su_walletHash = x, su_protocolId = ''p1'',
     su_channels = [], su_status = ''active'', su_source = ''portal'', su_subscribedAt = 0, su_updatedAt = 0\<rparr>) [''W1'', ''W2'']\<rparr>"

definition fanout_env :: migration_env where
  "fanout_env = \<lparr>me_fetch = (\<lambda>_. Some None), me_decrypt = (\<lambda>_. Inr no_channels), me_telegram = de_telegram sample_dispatch_env\<rparr>"

theorem migration_fanout_witness:
  "\<exists>sent skipped. fst (sendMigrationPrompts mem_redis sample_bot_env fanout_env 0 ''p1'' fanout_world) = Inr (sent, skipped)
     \<and> sent + skipped = 2"
proof -
  have "find_settings sample_bot_env ''p1'' fanout_world = (Inr (Some (bare_settings ''p1'')), fanout_world)"
    by (simp add: find_settings_def settings_of_def fanout_world_def bot_world_def bare_settings_def sample_bot_env_def flow_simps)
  moreover have "truthy (ps_telegramBotUsername (bare_settings ''p1''))" by (simp add: bare_settings_def)
  moreover have "length (active_wallets ''p1'' fanout_world) = 2" by (simp add: active_wallets_def fanout_world_def)
  ultimately show ?thesis
    using migration_fanout [of sample_bot_env "''p1''" fanout_world "bare_settings ''p1''" mem_redis fanout_env 0] by force
qed

end
