(* ===== verification/Domains.thy ===== *)
theory Domains
  imports Dispatch Base64
begin

text \<open>
  \<open>domain/dkim.service.ts\<close>, \<open>domain/bimi.service.ts\<close>, \<open>domain/dns-verification.service.ts\<close> and the handlers of
  \<open>domain/domain.controller.ts\<close>: DKIM keys of custom sender domains, their verification in the DNS, the
  registration with the mail providers, and BIMI logos. The DNS, AWS KMS, SES, Resend and the fetch of a
  logo are parameters. An id is taken to be a well-formed UUID.
\<close>

section \<open>Environment\<close>

record resend_domain =
  rd_id :: string
  rd_name :: string

record domain_env =
  do_txt :: "string \<Rightarrow> string list list option"          \<comment> \<open>\<open>dns.resolveTxt\<close>, \<open>None\<close> when it rejects\<close>
  do_createKey :: "string \<Rightarrow> string option option"       \<comment> \<open>KMS by description: \<open>None\<close> an error, \<open>Some None\<close> no key id\<close>
  do_getPublicKey :: "string \<Rightarrow> bytes option option"
  do_sesCreate :: "string \<Rightarrow> string option"             \<comment> \<open>the error's name, if there is one\<close>
  do_sesTokens :: "string \<Rightarrow> exn + string list"
  do_resendCreate :: "string \<Rightarrow> resend_domain option \<times> string option"
  do_resendList :: "resend_domain list"
  do_fetch :: "string \<Rightarrow> exn + string"                  \<comment> \<open>the logo behind a URL\<close>
  do_byteLength :: "string \<Rightarrow> nat"                     \<comment> \<open>its length in UTF-8\<close>

section \<open>Public keys as text\<close>

definition BEGIN_KEY :: string where "BEGIN_KEY = ''-----BEGIN PUBLIC KEY-----''"
definition END_KEY :: string where "END_KEY = ''-----END PUBLIC KEY-----''"

text \<open>\<open>match(/.{1,64}/g)\<close> on text without line ends.\<close>

function lines64 :: "string \<Rightarrow> string list" where
  "lines64 s = (if s = [] then [] else take 64 s # lines64 (drop 64 s))"
  by pat_completeness auto
termination
  by (relation "measure length") auto

declare lines64.simps [simp del]

text \<open>An empty key would be \<open>undefined\<close> between the markers.\<close>

definition pem_of :: "string \<Rightarrow> string" where
  "pem_of b64 = BEGIN_KEY @ [CHR 0x0A] @ (if b64 = [] then ''undefined'' else join_with [CHR 0x0A] (lines64 b64)) @ [CHR 0x0A] @ END_KEY"

text \<open>\<open>replace(/<begin>|<end>/g, '')\<close>.\<close>

function strip_markers :: "string \<Rightarrow> string" where
  "strip_markers s =
     (if s = [] then []
      else if startsWith s BEGIN_KEY then strip_markers (drop (length BEGIN_KEY) s)
      else if startsWith s END_KEY then strip_markers (drop (length END_KEY) s)
      else hd s # strip_markers (tl s))"
  by pat_completeness auto
termination
  by (relation "measure length") (auto simp: BEGIN_KEY_def END_KEY_def neq_Nil_conv)

declare strip_markers.simps [simp del]

definition key_text :: "string \<Rightarrow> string" where
  "key_text publicKey = filter (\<lambda>c. \<not> is_space c) (strip_markers publicKey)"

section \<open>DKIM keys\<close>

definition key_of :: "string \<Rightarrow> string \<Rightarrow> 'r world \<Rightarrow> dkim_key option" where
  "key_of i protocolId w = List.find (\<lambda>k. dk_id k = i \<and> dk_protocolId k = Some protocolId) (w_dkimKeys w)"

definition record_name :: "string \<Rightarrow> string \<Rightarrow> string" where
  "record_name selector domain = selector @ ''._domainkey.'' @ domain"

definition max_domains :: "int \<Rightarrow> nat" where "max_domains tier = (if tier = 0 then 1 else 20)"

definition active_keys :: "string \<Rightarrow> 'r world \<Rightarrow> nat" where
  "active_keys protocolId w = count_rows (\<lambda>k. dk_protocolId k = Some protocolId \<and> dk_isActive k) (w_dkimKeys w)"

definition create_key :: "dkim_key \<Rightarrow> 'r world \<Rightarrow> (unit, 'r world) handled" where
  "create_key k w =
     (if exists_row (\<lambda>x. dk_domain x = dk_domain k \<and> dk_selector x = dk_selector k) (w_dkimKeys w) then throw (PrismaExn ''P2002'') w
      else if 255 < length (dk_domain k) \<or> 63 < length (dk_selector k) then throw (PrismaExn ''P2000'') w
      else ok () (w\<lparr>w_dkimKeys := w_dkimKeys w @ [k]\<rparr>))"

record provisioned =
  pd_id :: string
  pd_domain :: string
  pd_selector :: string
  pd_recordName :: string
  pd_recordValue :: string
  pd_kmsKeyId :: string

definition new_key :: "string \<Rightarrow> millis \<Rightarrow> string \<Rightarrow> string \<Rightarrow> string \<Rightarrow> string \<Rightarrow> string \<Rightarrow> dkim_key" where
  "new_key i now protocolId domain selector pem kms = \<lparr>dk_id = i, dk_protocolId = Some protocolId, dk_domain = domain,
     dk_selector = selector, dk_publicKey = pem, dk_kmsKeyId = kms, dk_isActive = True, dk_dnsVerified = False,
     dk_sesVerified = False, dk_sesCnames = None, dk_resendId = None, dk_resendVerified = False, dk_createdAt = now\<rparr>"

definition provision_body ::
  "domain_env \<Rightarrow> millis \<Rightarrow> string \<Rightarrow> string \<Rightarrow> string \<Rightarrow> string \<Rightarrow> 'r world \<Rightarrow> (provisioned, 'r world) handled" where
  "provision_body E now i protocolId domain selector w =
     (case List.find (\<lambda>p. pr_id p = protocolId) (w_protocols w) of
        None \<Rightarrow> throw (JsError ''Protocol not found'') w
      | Some p \<Rightarrow>
          if max_domains (pr_tier p) \<le> active_keys protocolId w then throw (HttpExn 403 ''Domain limit reached'') w
          else case do_createKey E (''DKIM key for '' @ domain @ '' ('' @ protocolId @ '')'') of
            None \<Rightarrow> throw (JsError ''KMS'') w
          | Some kms \<Rightarrow>
              if \<not> truthy kms then throw (JsError ''Failed to create KMS key'') w
              else case do_getPublicKey E (the kms) of
                None \<Rightarrow> throw (JsError ''KMS'') w
              | Some None \<Rightarrow> throw (JsError ''Failed to get KMS public key'') w
              | Some (Some der) \<Rightarrow>
                  and_then (create_key (new_key i now protocolId domain selector (pem_of (base64 der)) (the kms)) w) (\<lambda>_ w1.
                    ok \<lparr>pd_id = i, pd_domain = domain, pd_selector = selector, pd_recordName = record_name selector domain,
                        pd_recordValue = ''v=DKIM1; k=rsa; p='' @ base64 der, pd_kmsKeyId = the kms\<rparr> w1))"

text \<open>Whatever went wrong, the limit included, the caller sees the same error.\<close>

definition provisionDomainKey ::
  "domain_env \<Rightarrow> millis \<Rightarrow> string \<Rightarrow> string \<Rightarrow> string \<Rightarrow> string \<Rightarrow> 'r world \<Rightarrow> (provisioned, 'r world) handled" where
  "provisionDomainKey E now i protocolId domain selector w =
     catching (provision_body E now i protocolId domain selector w) (\<lambda>_ w1. throw (JsError ''Failed to provision DKIM key'') w1)"

record verification =
  ve_domain :: string
  ve_selector :: string
  ve_recordName :: string
  ve_dnsVerified :: bool
  ve_records :: "string option"

definition update_key :: "string \<Rightarrow> (dkim_key \<Rightarrow> dkim_key) \<Rightarrow> 'r world \<Rightarrow> 'r world" where
  "update_key i f w = w\<lparr>w_dkimKeys := updateMany (\<lambda>k. dk_id k = i) f (w_dkimKeys w)\<rparr>"

definition record_matches :: "string \<Rightarrow> string \<Rightarrow> bool" where
  "record_matches flatRecords publicKey = str_includes flatRecords (slice_to (key_text publicKey) 32)"

definition verifyDomain :: "domain_env \<Rightarrow> string \<Rightarrow> string \<Rightarrow> 'r world \<Rightarrow> (verification, 'r world) handled" where
  "verifyDomain E i protocolId w =
     (case key_of i protocolId w of
        None \<Rightarrow> throw (JsError ''DKIM key not found'') w
      | Some k \<Rightarrow>
          let name = record_name (dk_selector k) (dk_domain k);
              result = (\<lambda>v records. \<lparr>ve_domain = dk_domain k, ve_selector = dk_selector k, ve_recordName = name,
                ve_dnsVerified = v, ve_records = records\<rparr>)
          in case do_txt E name of
               None \<Rightarrow> ok (result False None) w
             | Some records \<Rightarrow>
                 let flatRecords = concat (map concat records); verified = record_matches flatRecords (dk_publicKey k)
                 in ok (result verified (Some flatRecords))
                      (if verified then update_key i (\<lambda>r. r\<lparr>dk_dnsVerified := True\<rparr>) w else w))"

section \<open>Registration with the providers\<close>

definition registerWithSes :: "domain_env \<Rightarrow> string \<Rightarrow> exn + (string \<times> string) list" where
  "registerWithSes E domain =
     (case do_sesCreate E domain of
        Some e \<Rightarrow> if e \<noteq> ''AlreadyExistsException'' then Inl (JsError e)
                  else map_sum id (map (\<lambda>t. (t @ ''._domainkey.'' @ domain, t @ ''.dkim.amazonses.com''))) (do_sesTokens E domain)
      | None \<Rightarrow> map_sum id (map (\<lambda>t. (t @ ''._domainkey.'' @ domain, t @ ''.dkim.amazonses.com''))) (do_sesTokens E domain))"

definition registerWithResend :: "domain_env \<Rightarrow> string \<Rightarrow> exn + string" where
  "registerWithResend E domain =
     (case do_resendCreate E domain of
        (Some d, _) \<Rightarrow> Inr (rd_id d)
      | (None, Some e) \<Rightarrow> (case List.find (\<lambda>d. rd_name d = domain) (do_resendList E) of
            Some d \<Rightarrow> Inr (rd_id d)
          | None \<Rightarrow> Inl (JsError (''Resend domain registration failed: '' @ e)))
      | (None, None) \<Rightarrow> Inl (JsError ''Resend domain registration failed: unknown error''))"

definition fulfilled :: "exn + 'a \<Rightarrow> 'a option" where
  "fulfilled r = (case r of Inl _ \<Rightarrow> None | Inr x \<Rightarrow> Some x)"

text \<open>The answer: the CNAME records where SES took the domain, Resend's id where Resend did.\<close>

definition registerDomain ::
  "domain_env \<Rightarrow> string \<Rightarrow> string \<Rightarrow> 'r world \<Rightarrow> ((string \<times> string) list option \<times> string option, 'r world) handled" where
  "registerDomain E i protocolId w =
     (case key_of i protocolId w of
        None \<Rightarrow> throw (HttpExn 404 ''Domain not found'') w
      | Some k \<Rightarrow>
          let ses = fulfilled (registerWithSes E (dk_domain k)); resend = fulfilled (registerWithResend E (dk_domain k))
          in ok (ses, resend) (update_key i (\<lambda>r. r\<lparr>
               dk_sesCnames := (if ses \<noteq> None then ses else dk_sesCnames r), dk_sesVerified := (ses \<noteq> None \<or> dk_sesVerified r),
               dk_resendId := (if resend \<noteq> None then resend else dk_resendId r)\<rparr>) w))"

definition getDomainKeys :: "string \<Rightarrow> 'r world \<Rightarrow> dkim_key list" where
  "getDomainKeys protocolId w = sort_key (\<lambda>k. - dk_createdAt k) (filter (\<lambda>k. dk_protocolId k = Some protocolId) (w_dkimKeys w))"

text \<open>Resend is told to forget the domain; whether it does makes no difference.\<close>

definition deleteDomainKey :: "string \<Rightarrow> string \<Rightarrow> 'r world \<Rightarrow> 'r world" where
  "deleteDomainKey i protocolId w =
     w\<lparr>w_dkimKeys := deleteMany (\<lambda>k. dk_id k = i \<and> dk_protocolId k = Some protocolId) (w_dkimKeys w)\<rparr>"

text \<open>\<open>/<begin>([A-Za-z0-9+/=\n]+)<end>/\<close>: the group, or the text without the markers and line ends.\<close>

definition key_char :: "char \<Rightarrow> bool" where
  "key_char c = (b64_value c \<noteq> None \<and> c \<noteq> CHR ''-'' \<and> c \<noteq> CHR ''_'' \<or> c = CHR ''='' \<or> c = CHR 0x0A)"

fun pem_body :: "string \<Rightarrow> string option" where
  "pem_body [] = None"
| "pem_body (c # s) =
     (let r = drop (length BEGIN_KEY) (c # s); run = takeWhile key_char r
      in if startsWith (c # s) BEGIN_KEY \<and> run \<noteq> [] \<and> startsWith (drop (length run) r) END_KEY then Some run else pem_body s)"

definition listed_key :: "string \<Rightarrow> string" where
  "listed_key publicKey =
     (let base64Key = filter (\<lambda>c. c \<noteq> CHR 0x0A) (nullish (pem_body publicKey) (strip_markers publicKey))
      in if base64Key \<noteq> [] then ''v=DKIM1; k=rsa; p='' @ base64Key else [])"

record listed_domain =
  ld_id :: string
  ld_domain :: string
  ld_selector :: string
  ld_dnsVerified :: bool
  ld_sesVerified :: bool
  ld_resendVerified :: bool
  ld_registered :: bool
  ld_recordName :: string
  ld_recordValue :: string
  ld_sesCnames :: "(string \<times> string) list option"
  ld_createdAt :: millis

definition list_domains :: "string \<Rightarrow> 'r world \<Rightarrow> listed_domain list" where
  "list_domains protocolId w = map (\<lambda>k. \<lparr>ld_id = dk_id k, ld_domain = dk_domain k, ld_selector = dk_selector k,
     ld_dnsVerified = dk_dnsVerified k, ld_sesVerified = dk_sesVerified k, ld_resendVerified = dk_resendVerified k,
     ld_registered = (dk_sesVerified k \<or> truthy (dk_resendId k)),
     ld_recordName = record_name (dk_selector k) (dk_domain k), ld_recordValue = listed_key (dk_publicKey k),
     ld_sesCnames = dk_sesCnames k, ld_createdAt = dk_createdAt k\<rparr>)
     (getDomainKeys protocolId w)"

section \<open>DNS records\<close>

definition resolveTxt :: "domain_env \<Rightarrow> string \<Rightarrow> string list" where
  "resolveTxt E hostname = (case do_txt E hostname of None \<Rightarrow> [] | Some records \<Rightarrow> map concat records)"

text \<open>\<open>match(/t=([^;]+)/)[1]\<close>: behind the first \<open>t=\<close> that something follows.\<close>

fun tag_value :: "string \<Rightarrow> string \<Rightarrow> string option" where
  "tag_value t [] = None"
| "tag_value t (c # s) =
     (let v = takeWhile (\<lambda>x. x \<noteq> CHR '';'') (drop (length t) (c # s))
      in if startsWith (c # s) t \<and> v \<noteq> [] then Some v else tag_value t s)"

record dmarc_status =
  dm_valid :: bool
  dm_policy :: "string option"
  dm_record :: "string option"
  dm_error :: "string option"

definition checkDmarcPolicy :: "domain_env \<Rightarrow> string \<Rightarrow> dmarc_status" where
  "checkDmarcPolicy E domain =
     (let records = resolveTxt E (''_dmarc.'' @ domain); bad = (\<lambda>p r e. \<lparr>dm_valid = False, dm_policy = p, dm_record = r, dm_error = Some e\<rparr>)
      in if records = [] then bad None None ''No DMARC record found''
         else case List.find (\<lambda>r. startsWith r ''v=DMARC1'') records of
           None \<Rightarrow> bad None None ''Invalid DMARC record format''
         | Some r \<Rightarrow>
             let policy = map_option trim (tag_value ''p='' r)
             in if policy = Some ''quarantine'' \<or> policy = Some ''reject''
                then \<lparr>dm_valid = True, dm_policy = policy, dm_record = Some r, dm_error = None\<rparr>
                else bad (Some (js_or policy ''none'')) (Some r) ''DMARC policy must be quarantine or reject'')"

record bimi_status =
  bs_published :: bool
  bs_record :: "string option"
  bs_logoUrl :: "string option"
  bs_vmcUrl :: "string option"
  bs_matches :: bool

definition checkBimiRecord :: "domain_env \<Rightarrow> string \<Rightarrow> string \<Rightarrow> string option \<Rightarrow> bimi_status" where
  "checkBimiRecord E domain selector expected =
     (case List.find (\<lambda>r. startsWith r ''v=BIMI1'') (resolveTxt E (selector @ ''._bimi.'' @ domain)) of
        None \<Rightarrow> \<lparr>bs_published = False, bs_record = None, bs_logoUrl = None, bs_vmcUrl = None, bs_matches = False\<rparr>
      | Some r \<Rightarrow>
          let logoUrl = map_option trim (tag_value ''l='' r)
          in \<lparr>bs_published = True, bs_record = Some r, bs_logoUrl = logoUrl, bs_vmcUrl = map_option trim (tag_value ''a='' r),
              bs_matches = (truthy expected \<longrightarrow> logoUrl = expected)\<rparr>)"

section \<open>BIMI\<close>

definition logo_errors :: "domain_env \<Rightarrow> string \<Rightarrow> string list" where
  "logo_errors E body =
     (if 32 * 1024 < do_byteLength E body then [''Logo size is too large''] else [])
     @ (if str_includes (map lower body) ''<svg'' then [] else [''File is not a valid SVG image.''])
     @ (if str_includes body ''<script'' \<or> str_includes body ''on''
        then [''SVG contains scripts or event handlers, which are forbidden for BIMI.''] else [])
     @ (if str_includes body ''<foreignObject'' then [''SVG contains foreignObject tag, which is forbidden for BIMI.''] else [])
     @ (if str_includes body ''<image'' \<or> str_includes body ''xlink:href''
        then [''SVG contains external references or embedded bitmap images, which are forbidden for BIMI.''] else [])"

definition validateLogo :: "domain_env \<Rightarrow> string \<Rightarrow> bool \<times> string list" where
  "validateLogo E logoUrl =
     (case do_fetch E logoUrl of
        Inl e \<Rightarrow> (False, [''Could not reach logo URL: '' @ exn_message e])
      | Inr body \<Rightarrow> (logo_errors E body = [], logo_errors E body))"

definition generateDnsRecord :: "string \<Rightarrow> string option \<Rightarrow> string" where
  "generateDnsRecord logoUrl vmcUrl =
     ''v=BIMI1; l='' @ logoUrl @ '';'' @ (if truthy vmcUrl then '' a='' @ the vmcUrl @ '';'' else '' a=;'')"

definition checkEligibility :: "domain_env \<Rightarrow> string \<Rightarrow> dmarc_status \<times> bool" where
  "checkEligibility E domain = (let s = checkDmarcPolicy E domain in (s, dm_valid s))"

definition bimi_of :: "string \<Rightarrow> string \<Rightarrow> 'r world \<Rightarrow> bimi_row option" where
  "bimi_of protocolId domain w = List.find (\<lambda>b. bi_protocolId b = protocolId \<and> bi_domain b = domain) (w_bimi w)"

definition syncBimiStatus :: "domain_env \<Rightarrow> string \<Rightarrow> string \<Rightarrow> 'r world \<Rightarrow> (bimi_row, 'r world) handled" where
  "syncBimiStatus E protocolId domain w =
     (case bimi_of protocolId domain w of
        None \<Rightarrow> throw (HttpExn 400 ''BIMI record not found for this domain'') w
      | Some b \<Rightarrow>
          let dmarc = checkDmarcPolicy E domain; dns = checkBimiRecord E domain (bi_selector b) (Some (bi_logoUrl b));
              f = (\<lambda>r. r\<lparr>bi_dmarcVerified := dm_valid dmarc, bi_published := bs_published dns,
                bi_isVerified := (dm_valid dmarc \<and> bs_published dns \<and> bs_matches dns)\<rparr>);
              log = (\<lambda>kind good. \<lparr>bl_protocolId = protocolId, bl_domain = domain, bl_checkType = kind,
                bl_status = (if good then ''pass'' else ''fail'')\<rparr>)
          in ok (f b) (w\<lparr>w_bimi := updateMany (\<lambda>r. bi_id r = bi_id b) f (w_bimi w),
               w_bimiLogs := w_bimiLogs w @ [log ''dmarc'' (dm_valid dmarc), log ''dns'' (bs_published dns)]\<rparr>))"

definition with_domain :: "string \<Rightarrow> string \<Rightarrow> (dkim_key \<Rightarrow> 'r world \<Rightarrow> ('a, 'r world) handled) \<Rightarrow> 'r world \<Rightarrow> ('a, 'r world) handled" where
  "with_domain i protocolId h w =
     (case key_of i protocolId w of None \<Rightarrow> throw (HttpExn 404 ''Domain not found'') w | Some k \<Rightarrow> h k w)"

datatype bimi_answer = LogoRefused "string list" | BimiRecord string string

definition upsert_bimi :: "string \<Rightarrow> string \<Rightarrow> string \<Rightarrow> string \<Rightarrow> string option \<Rightarrow> string \<Rightarrow> 'r world \<Rightarrow> 'r world" where
  "upsert_bimi i protocolId domain logoUrl vmcUrl selector w =
     (if bimi_of protocolId domain w \<noteq> None
      then w\<lparr>w_bimi := updateMany (\<lambda>b. bi_protocolId b = protocolId \<and> bi_domain b = domain)
             (\<lambda>b. b\<lparr>bi_logoUrl := logoUrl, bi_vmcUrl := (if vmcUrl = None then bi_vmcUrl b else vmcUrl), bi_selector := selector\<rparr>) (w_bimi w)\<rparr>
      else w\<lparr>w_bimi := w_bimi w @ [\<lparr>bi_id = i, bi_protocolId = protocolId, bi_domain = domain, bi_selector = selector,
             bi_logoUrl = logoUrl, bi_vmcUrl = vmcUrl, bi_isVerified = False, bi_dmarcVerified = False, bi_published = False\<rparr>]\<rparr>)"

definition upsertBimi ::
  "domain_env \<Rightarrow> string \<Rightarrow> string \<Rightarrow> string \<Rightarrow> string \<Rightarrow> string option \<Rightarrow> string \<Rightarrow> 'r world \<Rightarrow> (bimi_answer, 'r world) handled" where
  "upsertBimi E newId i protocolId logoUrl vmcUrl selector w =
     with_domain i protocolId (\<lambda>k w1.
       let (valid, errors) = validateLogo E logoUrl
       in if \<not> valid then ok (LogoRefused errors) w1
          else let w2 = upsert_bimi newId protocolId (dk_domain k) logoUrl vmcUrl selector w1
            in case bimi_of protocolId (dk_domain k) w2 of
                 Some b \<Rightarrow> ok (BimiRecord (bi_selector b @ ''._bimi.'' @ bi_domain b) (generateDnsRecord (bi_logoUrl b) (bi_vmcUrl b))) w2
               | None \<Rightarrow> ok (LogoRefused []) w2) w"

definition getBimi :: "string \<Rightarrow> string \<Rightarrow> 'r world \<Rightarrow> (bimi_row option, 'r world) handled" where
  "getBimi i protocolId w = with_domain i protocolId (\<lambda>k w1. ok (bimi_of protocolId (dk_domain k) w1) w1) w"

definition syncBimi :: "domain_env \<Rightarrow> string \<Rightarrow> string \<Rightarrow> 'r world \<Rightarrow> (bimi_row, 'r world) handled" where
  "syncBimi E i protocolId w = with_domain i protocolId (\<lambda>k. syncBimiStatus E protocolId (dk_domain k)) w"

definition checkBimi :: "domain_env \<Rightarrow> string \<Rightarrow> string \<Rightarrow> 'r world \<Rightarrow> (dmarc_status \<times> bool, 'r world) handled" where
  "checkBimi E i protocolId w = with_domain i protocolId (\<lambda>k. ok (checkEligibility E (dk_domain k))) w"


section \<open>Facts: keys as text\<close>

lemma strip_markers_plain: "CHR ''-'' \<notin> set u \<Longrightarrow> strip_markers (u @ v) = u @ strip_markers v"
proof (induction u)
  case (Cons c u)
  then have "\<not> startsWith (c # u @ v) BEGIN_KEY" "\<not> startsWith (c # u @ v) END_KEY"
    by (auto simp: startsWith_def BEGIN_KEY_def END_KEY_def)
  with Cons show ?case by (subst strip_markers.simps) simp
qed simp

lemma strip_markers_Nil [simp]: "strip_markers [] = []"
  by (simp add: strip_markers.simps)

lemma strip_markers_BEGIN: "strip_markers (BEGIN_KEY @ v) = strip_markers v"
  by (subst strip_markers.simps) (simp add: startsWith_def BEGIN_KEY_def)

lemma strip_markers_END: "strip_markers END_KEY = []"
  by (subst strip_markers.simps) (simp add: startsWith_def END_KEY_def BEGIN_KEY_def)

lemma concat_lines64: "concat (lines64 s) = s"
proof (induction s rule: lines64.induct)
  case (1 s)
  then show ?case by (cases "s = []") (simp_all add: lines64.simps [of s] lines64.simps [of "[]"])
qed

lemma filter_join: "\<not> P c \<Longrightarrow> filter P (join_with [c] ws) = filter P (concat ws)"
  by (induction "[c]" ws rule: join_with.induct) auto

lemma set_join: "set (join_with [c] ws) \<subseteq> insert c (set (concat ws))"
  by (induction "[c]" ws rule: join_with.induct) auto

lemma b64_char_text: "s < 64 \<Longrightarrow> b64_char False s \<noteq> CHR ''-'' \<and> \<not> is_space (b64_char False s)"
proof -
  assume s: "s < 64"
  have "\<forall>s \<in> set [0..<64]. b64_char False s \<noteq> CHR ''-'' \<and> \<not> is_space (b64_char False s)" by code_simp
  with s show ?thesis by simp
qed

lemma base64_text: "c \<in> set (base64 bs) \<Longrightarrow> c \<noteq> CHR ''-'' \<and> \<not> is_space c"
  using sextets_bytes [of bs] b64_char_text by (auto simp: base64_def list_all_iff is_space_def Let_def)

lemma key_text_pem:
  assumes "base64 der \<noteq> []"
  shows "key_text (pem_of (base64 der)) = base64 der"
proof -
  let ?b = "base64 der"
  let ?body = "[CHR 0x0A] @ join_with [CHR 0x0A] (lines64 ?b) @ [CHR 0x0A]"
  have plain: "CHR ''-'' \<notin> set ?body"
    using set_join [of "CHR 0x0A" "lines64 ?b"] base64_text [of "CHR ''-''" der] by (auto simp: concat_lines64)
  have "strip_markers (pem_of ?b) = ?body"
    using strip_markers_plain [OF plain, of END_KEY] assms by (simp add: pem_of_def strip_markers_BEGIN strip_markers_END)
  moreover have "is_space (CHR 0x0A)" by (simp add: is_space_def)
  moreover have "filter (\<lambda>c. \<not> is_space c) ?b = ?b" using base64_text by (simp add: filter_id_conv)
  ultimately show ?thesis by (simp add: key_text_def filter_join concat_lines64)
qed

section \<open>Facts: which record verifies a key\<close>

lemma sextets_append: "3 dvd length xs \<Longrightarrow> sextets (xs @ ys) = sextets xs @ sextets ys"
proof (induction xs rule: sextets.induct)
  case (2 a b)
  then have "(3 :: nat) dvd 2" by (simp add: numeral_2_eq_2)
  then show ?case by simp
next
  case (3 a)
  then have "(3 :: nat) dvd 1" by simp
  then show ?case by simp
next
  case (1 a b c r)
  have "length (a # b # c # r) = 3 + length r" by simp
  then have "3 dvd length r" using 1(2) by (metis dvd_add_right_iff dvd_refl)
  then show ?case using 1(1) by simp
qed simp

text \<open>
  What the encoding of an RSA key of 2048 bits in a SubjectPublicKeyInfo begins with: the lengths and the
  algorithm, the same for every such key.
\<close>

definition rsa_header :: bytes where
  "rsa_header = [0x30, 0x82, 0x01, 0x22, 0x30, 0x0d, 0x06, 0x09, 0x2a, 0x86, 0x48, 0x86,
     0xf7, 0x0d, 0x01, 0x01, 0x01, 0x05, 0x00, 0x03, 0x82, 0x01, 0x0f, 0x00]"

lemma length_rsa_header: "length rsa_header = 24"
  by (simp add: rsa_header_def)

definition rsa_prefix :: string where "rsa_prefix = ''MIIBIjANBgkqhkiG9w0BAQEFAAOCAQ8A''"

lemma base64_append: "3 dvd length h \<Longrightarrow> base64 (h @ r) = map (b64_char False) (sextets (map unat h)) @ base64 r"
proof -
  assume h: "3 dvd length h"
  then have "(length h + length r) mod 3 = length r mod 3" by (metis add.commute mod_add_self1 dvdE mod_mult_self2)
  with h show ?thesis by (simp add: base64_def sextets_append)
qed

lemma rsa_sextets: "map (b64_char False) (sextets (map unat rsa_header)) = rsa_prefix"
  by code_simp

lemma base64_rsa: "base64 (rsa_header @ r) = rsa_prefix @ base64 r"
  by (simp add: base64_append length_rsa_header rsa_sextets)

lemma record_matches_rsa:
  assumes "str_includes flat (base64 (rsa_header @ other))"
  shows "record_matches flat (pem_of (base64 (rsa_header @ r)))"
proof -
  have "base64 (rsa_header @ r) \<noteq> []" by (simp add: base64_rsa rsa_prefix_def)
  then have "key_text (pem_of (base64 (rsa_header @ r))) = rsa_prefix @ base64 r"
    unfolding base64_rsa [symmetric] by (rule key_text_pem)
  moreover have "length rsa_prefix = 32" by (simp add: rsa_prefix_def)
  ultimately have "record_matches flat (pem_of (base64 (rsa_header @ r))) = str_includes flat rsa_prefix"
    by (simp add: record_matches_def slice_to_def)
  moreover have "str_includes flat rsa_prefix"
    using assms unfolding base64_rsa str_includes_iff by (metis append.assoc)
  ultimately show ?thesis by simp
qed


section \<open>Provisioning and verifying\<close>

lemma create_key_then:
  "and_then (create_key k w) f = (Inr d, w1) \<Longrightarrow> f () (w\<lparr>w_dkimKeys := w_dkimKeys w @ [k]\<rparr>) = (Inr d, w1)"
  by (auto simp: create_key_def throw_def ok_def split: if_splits)

text \<open>A key that was provisioned holds what KMS answered, and the protocol was below its limit.\<close>

lemma provision_ok:
  assumes "provisionDomainKey E now i pid domain selector w = (Inr d, w1)"
  shows "\<exists>kms der p. do_getPublicKey E kms = Some (Some der) \<and> pd_recordValue d = ''v=DKIM1; k=rsa; p='' @ base64 der
    \<and> w1 = w\<lparr>w_dkimKeys := w_dkimKeys w @ [new_key i now pid domain selector (pem_of (base64 der)) kms]\<rparr>
    \<and> List.find (\<lambda>p. pr_id p = pid) (w_protocols w) = Some p \<and> active_keys pid w < max_domains (pr_tier p)"
proof -
  have body: "provision_body E now i pid domain selector w = (Inr d, w1)"
    using assms unfolding provisionDomainKey_def
    by (cases "provision_body E now i pid domain selector w"; cases "fst (provision_body E now i pid domain selector w)")
       (auto simp: throw_def)
  then show ?thesis
    unfolding provision_body_def
    by (auto simp: throw_def ok_def not_le split: option.splits if_splits dest!: create_key_then) blast
qed

lemma provision_refused:
  assumes "List.find (\<lambda>p. pr_id p = pid) (w_protocols w) = Some p" "max_domains (pr_tier p) \<le> active_keys pid w"
  shows "provisionDomainKey E now i pid domain selector w = (Inl (JsError ''Failed to provision DKIM key''), w)"
  using assms by (simp add: provisionDomainKey_def provision_body_def throw_def)

lemma active_keys_append:
  "active_keys pid (w\<lparr>w_dkimKeys := w_dkimKeys w @ [k]\<rparr>) =
     active_keys pid w + (if dk_protocolId k = Some pid \<and> dk_isActive k then 1 else 0)"
  by (simp add: active_keys_def count_rows_def)

lemma key_of_new:
  assumes "\<forall>k \<in> set (w_dkimKeys w). dk_id k \<noteq> i"
  shows "key_of i pid (w\<lparr>w_dkimKeys := w_dkimKeys w @ [new_key i now pid domain selector pem kms]\<rparr>) =
    Some (new_key i now pid domain selector pem kms)"
proof -
  have "List.find (\<lambda>k. dk_id k = i \<and> dk_protocolId k = Some pid) (w_dkimKeys w) = None"
    using assms by (simp add: find_None_row)
  then show ?thesis by (simp add: key_of_def find_append new_key_def)
qed

lemma senderDomain_verified:
  assumes "\<forall>k \<in> set (w_dkimKeys w). dk_id k \<noteq> i \<and> \<not> (dk_protocolId k = Some pid \<and> dk_isActive k \<and> dk_dnsVerified k)"
  shows "senderDomain pid (update_key i (\<lambda>r. r\<lparr>dk_dnsVerified := True\<rparr>)
    (w\<lparr>w_dkimKeys := w_dkimKeys w @ [new_key i now pid domain selector pem kms]\<rparr>)) = domain"
proof -
  let ?u = "\<lambda>k. dk_protocolId k = Some pid \<and> dk_isActive k \<and> dk_dnsVerified k"
  have same: "updateMany (\<lambda>k. dk_id k = i) (\<lambda>r. r\<lparr>dk_dnsVerified := True\<rparr>) (w_dkimKeys w) = w_dkimKeys w"
    using assms by (intro updateMany_none) auto
  have none: "filter ?u (w_dkimKeys w) = []" using assms by (auto simp: filter_empty_conv)
  show ?thesis
    unfolding senderDomain_def update_key_def using none
    by (simp add: same updateMany_append) (simp add: updateMany_def new_key_def)
qed

text \<open>C16: Verification compares 32 characters of the key, and the first 32 characters of every RSA key of
  2048 bits are the same: a TXT record that holds any such key, whoever's it is, verifies the key
  (\<open>dkim.service.ts\<close>). The tenant chooses domain and selector freely, so the domain of anyone who publishes
  such a key becomes the sender of the tenant's mail. Assumed is that KMS gives such keys.\<close>

theorem any_rsa_key_verifies:
  assumes provisioned: "provisionDomainKey E now i pid domain selector w = (Inr d, w1)"
    and fresh: "\<forall>k \<in> set (w_dkimKeys w). dk_id k \<noteq> i \<and> \<not> (dk_protocolId k = Some pid \<and> dk_isActive k \<and> dk_dnsVerified k)"
    and kms: "\<forall>key der. do_getPublicKey E key = Some (Some der) \<longrightarrow> (\<exists>r. der = rsa_header @ r)"
    and published: "do_txt E' (record_name selector domain) = Some records"
    and foreign: "str_includes (concat (map concat records)) (base64 (rsa_header @ other))"
  shows "\<exists>v. fst (verifyDomain E' i pid w1) = Inr v \<and> ve_dnsVerified v
    \<and> senderDomain pid (snd (verifyDomain E' i pid w1)) = domain"
proof -
  obtain key der where der: "do_getPublicKey E key = Some (Some der)"
    and w1: "w1 = w\<lparr>w_dkimKeys := w_dkimKeys w @ [new_key i now pid domain selector (pem_of (base64 der)) key]\<rparr>"
    using provision_ok [OF provisioned] by blast
  obtain r where r: "der = rsa_header @ r" using kms der by blast
  have key: "key_of i pid w1 = Some (new_key i now pid domain selector (pem_of (base64 der)) key)"
    unfolding w1 using fresh by (intro key_of_new) blast
  have "record_matches (concat (map concat records)) (pem_of (base64 der))"
    unfolding r by (rule record_matches_rsa [OF foreign])
  then show ?thesis
    using key published senderDomain_verified [OF fresh]
    by (simp add: verifyDomain_def Let_def ok_def new_key_def w1)
qed

text \<open>A protocol gets a further domain exactly while it is below its plan's limit: a granted domain leaves
  it within the limit, and at the limit nothing changes; the caller does not see the 403 though, but the
  error every failure gives.\<close>

theorem domain_limit:
  assumes p: "List.find (\<lambda>p. pr_id p = pid) (w_protocols w) = Some p"
    and result: "provisionDomainKey E now i pid domain selector w = (r, w1)"
  shows "(active_keys pid w \<le> max_domains (pr_tier p) \<longrightarrow> active_keys pid w1 \<le> max_domains (pr_tier p))
    \<and> (max_domains (pr_tier p) \<le> active_keys pid w \<longrightarrow> r = Inl (JsError ''Failed to provision DKIM key'') \<and> w1 = w)
    \<and> (isl r \<longrightarrow> w1 = w)"
proof -
  have "w1 = w" if "isl r"
    using result that unfolding provisionDomainKey_def provision_body_def create_key_def
    by (auto simp: throw_def ok_def split: option.splits if_splits)
  moreover have "active_keys pid w1 \<le> max_domains (pr_tier p)" if "active_keys pid w \<le> max_domains (pr_tier p)"
  proof (cases r)
    case Inl
    with \<open>isl r \<Longrightarrow> w1 = w\<close> that show ?thesis by simp
  next
    case (Inr d)
    with provision_ok [of E now i pid domain selector w d w1] result p show ?thesis
      by (auto simp: active_keys_append)
  qed
  ultimately show ?thesis using provision_refused [OF p] result by auto
qed


definition sample_kms :: domain_env where
  "sample_kms = \<lparr>do_txt = \<lambda>_. None, do_createKey = \<lambda>_. Some (Some ''key''), do_getPublicKey = \<lambda>_. Some (Some (rsa_header @ [1, 2, 3])),
     do_sesCreate = \<lambda>_. None, do_sesTokens = \<lambda>_. Inr [], do_resendCreate = \<lambda>_. (None, None), do_resendList = [],
     do_fetch = \<lambda>_. Inr ''<svg></svg>'', do_byteLength = length\<rparr>"

definition sample_tenant :: "keyspace world" where
  "sample_tenant = (empty_world Map.empty)\<lparr>
     w_protocols := [\<lparr>pr_id = ''p1'', pr_protocolPubkey = ''K'', pr_nameEncrypted = [], pr_tier = 0, pr_isActive = True, pr_isSuspended = False,
       pr_verificationStatus = ''verified'', pr_sendsThisPeriod = 0, pr_overageEnabled = False, pr_periodResetAt = 0\<rparr>]\<rparr>"

definition sample_granted :: provisioned where
  "sample_granted = \<lparr>pd_id = ''d1'', pd_domain = ''bank.example'', pd_selector = ''s1'', pd_recordName = record_name ''s1'' ''bank.example'',
     pd_recordValue = ''v=DKIM1; k=rsa; p='' @ base64 (rsa_header @ [1, 2, 3]), pd_kmsKeyId = ''key''\<rparr>"

definition sample_claimed :: "keyspace world" where
  "sample_claimed = sample_tenant\<lparr>w_dkimKeys :=
     [new_key ''d1'' 0 ''p1'' ''bank.example'' ''s1'' (pem_of (base64 (rsa_header @ [1, 2, 3]))) ''key'']\<rparr>"

lemma sample_provisioned:
  "provisionDomainKey sample_kms 0 ''d1'' ''p1'' ''bank.example'' ''s1'' sample_tenant = (Inr sample_granted, sample_claimed)"
  by (simp add: provisionDomainKey_def provision_body_def sample_kms_def sample_tenant_def sample_granted_def sample_claimed_def
      empty_world_def max_domains_def active_keys_def count_rows_def create_key_def exists_row_def new_key_def ok_def)

text \<open>The bank's own key, with which it signs its own mail.\<close>

definition bank_record :: string where
  "bank_record = ''v=DKIM1; k=rsa; p='' @ base64 (rsa_header @ [9, 9, 9])"

lemma bank_record_rsa: "str_includes (concat (map concat [[bank_record]])) (base64 (rsa_header @ [9, 9, 9]))"
  using str_includes_infix [of "''v=DKIM1; k=rsa; p=''" "base64 (rsa_header @ [9, 9, 9])" "[]"] by (simp add: bank_record_def)

theorem any_rsa_key_verifies_witness:
  "\<exists>v. fst (verifyDomain (sample_kms\<lparr>do_txt := \<lambda>_. Some [[bank_record]]\<rparr>) ''d1'' ''p1'' sample_claimed) = Inr v \<and> ve_dnsVerified v
    \<and> senderDomain ''p1'' (snd (verifyDomain (sample_kms\<lparr>do_txt := \<lambda>_. Some [[bank_record]]\<rparr>) ''d1'' ''p1'' sample_claimed)) = ''bank.example''"
  by (rule any_rsa_key_verifies [OF sample_provisioned _ _ _ bank_record_rsa])
     (simp_all add: sample_tenant_def empty_world_def sample_kms_def)

theorem domain_limit_witness:
  "(active_keys ''p1'' sample_tenant \<le> max_domains 0 \<longrightarrow> active_keys ''p1'' sample_claimed \<le> max_domains 0)
    \<and> (max_domains 0 \<le> active_keys ''p1'' sample_tenant \<longrightarrow> (Inr sample_granted :: exn + provisioned) = Inl (JsError ''Failed to provision DKIM key'')
         \<and> sample_claimed = sample_tenant)
    \<and> (isl (Inr sample_granted :: exn + provisioned) \<longrightarrow> sample_claimed = sample_tenant)"
proof -
  have p: "List.find (\<lambda>p. pr_id p = ''p1'') (w_protocols sample_tenant) = Some (hd (w_protocols sample_tenant))"
    "pr_tier (hd (w_protocols sample_tenant)) = 0"
    by (simp_all add: sample_tenant_def)
  show ?thesis using domain_limit [OF p(1) sample_provisioned] unfolding p(2) .
qed

section \<open>DNS policies and logos\<close>

text \<open>The policy of subdomains is taken for the policy: the expression finds \<open>p=\<close> inside \<open>sp=\<close>.\<close>

lemma dmarc_subdomain_policy_decides:
  "do_txt E (''_dmarc.'' @ domain) = Some [[''v=DMARC1; sp=reject; p=none'']] \<Longrightarrow> dm_valid (checkDmarcPolicy E domain)"
  by (simp add: checkDmarcPolicy_def resolveTxt_def startsWith_def Let_def trim_def is_space_def)

lemma takeWhile_semicolon: "CHR '';'' \<notin> set l \<Longrightarrow> takeWhile (\<lambda>x. x \<noteq> CHR '';'') (l @ CHR '';'' # r) = l"
  by (induction l) auto

lemma generated_logo:
  assumes "l \<noteq> []" "CHR '';'' \<notin> set l"
  shows "tag_value ''l='' (generateDnsRecord l vmc) = Some l"
  using assms takeWhile_semicolon [OF assms(2)] by (simp add: generateDnsRecord_def startsWith_def Let_def)

lemma bimi_of_upsert:
  "\<exists>b. bimi_of pid domain (upsert_bimi i pid domain l vmc sel w) = Some b \<and> bi_domain b = domain \<and> bi_selector b = sel \<and> bi_logoUrl b = l"
proof (cases "bimi_of pid domain w")
  case None
  then show ?thesis by (simp add: upsert_bimi_def bimi_of_def find_append)
next
  case (Some b)
  let ?p = "\<lambda>b. bi_protocolId b = pid \<and> bi_domain b = domain"
  let ?f = "\<lambda>b. b\<lparr>bi_logoUrl := l, bi_vmcUrl := (if vmc = None then bi_vmcUrl b else vmc), bi_selector := sel\<rparr>"
  have b: "bi_domain b = domain" using Some find_Some_row [of ?p "w_bimi w" b] by (simp add: bimi_of_def)
  have "List.find ?p (updateMany ?p ?f (w_bimi w)) = map_option ?f (List.find ?p (w_bimi w))"
    by (rule find_updateMany_same) simp
  then have "bimi_of pid domain (upsert_bimi i pid domain l vmc sel w) = Some (?f b)"
    using Some by (simp add: upsert_bimi_def bimi_of_def)
  with b show ?thesis by simp
qed

lemma key_of_upsert [simp]: "key_of i pid (upsert_bimi j pid' domain l vmc sel w) = key_of i pid w"
  by (simp add: key_of_def upsert_bimi_def)

text \<open>C17: What configuring a logo tells the tenant to publish is what the check looks for: with that record in the
  DNS and a DMARC policy the check accepts, synchronising marks the logo verified. The URL must not hold a
  semicolon: it would end the tag.\<close>

theorem bimi_roundtrip:
  assumes configured: "upsertBimi E newId i pid l vmc sel w = (Inr (BimiRecord name value), w1)"
    and key: "key_of i pid w = Some k"
    and logo: "l \<noteq> []" "CHR '';'' \<notin> set l" "trim l = l"
    and published: "do_txt E' name = Some [chunks]" "concat chunks = value"
    and dmarc: "dm_valid (checkDmarcPolicy E' (dk_domain k))"
  shows "\<exists>b. fst (syncBimi E' i pid w1) = Inr b \<and> bi_isVerified b \<and> bi_published b \<and> bi_logoUrl b = l"
proof -
  let ?d = "dk_domain k"
  have valid: "fst (validateLogo E l)"
    using configured key by (cases "validateLogo E l") (auto simp: upsertBimi_def with_domain_def ok_def split: if_splits)
  obtain b where b: "bimi_of pid ?d (upsert_bimi newId pid ?d l vmc sel w) = Some b" "bi_domain b = ?d"
    "bi_selector b = sel" "bi_logoUrl b = l" using bimi_of_upsert by blast
  have eq: "name = sel @ ''._bimi.'' @ ?d" "value = generateDnsRecord l (bi_vmcUrl b)"
    "w1 = upsert_bimi newId pid ?d l vmc sel w"
    using configured key valid b
    by (cases "validateLogo E l"; simp add: upsertBimi_def with_domain_def ok_def Let_def)+
  have "checkBimiRecord E' ?d sel (Some l) =
    \<lparr>bs_published = True, bs_record = Some value, bs_logoUrl = Some l, bs_vmcUrl = map_option trim (tag_value ''a='' value), bs_matches = True\<rparr>"
    using published logo generated_logo [OF logo(1,2), of "bi_vmcUrl b"] unfolding eq
    by (simp add: checkBimiRecord_def resolveTxt_def Let_def) (simp add: generateDnsRecord_def startsWith_def)
  then show ?thesis
    using b key dmarc by (simp add: syncBimi_def with_domain_def syncBimiStatus_def eq Let_def ok_def)
qed

text \<open>A logo whose file names its SVG version, as the profile for BIMI demands, is never accepted: the check
  against event handlers refuses every text with the letters \<open>on\<close> in it, and \<open>version=\<close> has them.\<close>

theorem versioned_logo_refused:
  assumes key: "key_of i pid w = Some k" and fetched: "do_fetch E l = Inr body" "str_includes body ''version=''"
  shows "\<exists>errors. upsertBimi E newId i pid l vmc sel w = (Inr (LogoRefused errors), w) \<and> errors \<noteq> []"
proof -
  obtain a b where "body = a @ ''version='' @ b" using fetched(2) by (auto simp: str_includes_iff)
  then have "body = (a @ ''versi'') @ ''on'' @ (''='' @ b)" by simp
  then have "str_includes body ''on''" by (metis str_includes_infix)
  then have "logo_errors E body \<noteq> []" by (simp add: logo_errors_def)
  then show ?thesis using key fetched(1) by (simp add: upsertBimi_def with_domain_def validateLogo_def ok_def)
qed


definition sample_logo :: string where "sample_logo = ''https://bank.example/l.svg''"

definition sample_dns :: domain_env where
  "sample_dns = sample_kms\<lparr>do_txt := \<lambda>h. Some [[if h = ''_dmarc.bank.example'' then ''v=DMARC1; p=reject'' else generateDnsRecord sample_logo None]]\<rparr>"

lemma sample_key: "\<exists>k. key_of ''d1'' ''p1'' sample_claimed = Some k \<and> dk_domain k = ''bank.example''"
  by (simp add: key_of_def sample_claimed_def new_key_def)

lemma sample_configured:
  "upsertBimi sample_kms ''b1'' ''d1'' ''p1'' sample_logo None ''default'' sample_claimed =
     (Inr (BimiRecord ''default._bimi.bank.example'' (generateDnsRecord sample_logo None)),
      upsert_bimi ''b1'' ''p1'' ''bank.example'' sample_logo None ''default'' sample_claimed)"
  using sample_key
  by (auto simp: upsertBimi_def with_domain_def validateLogo_def logo_errors_def sample_kms_def ok_def Let_def
      upsert_bimi_def bimi_of_def sample_claimed_def sample_tenant_def empty_world_def)

theorem bimi_roundtrip_witness:
  "\<exists>b. fst (syncBimi sample_dns ''d1'' ''p1'' (upsert_bimi ''b1'' ''p1'' ''bank.example'' sample_logo None ''default'' sample_claimed)) = Inr b
    \<and> bi_isVerified b \<and> bi_published b \<and> bi_logoUrl b = sample_logo"
proof -
  obtain k where k: "key_of ''d1'' ''p1'' sample_claimed = Some k" "dk_domain k = ''bank.example''" using sample_key by blast
  have logo: "sample_logo \<noteq> []" "CHR '';'' \<notin> set sample_logo" "trim sample_logo = sample_logo"
    by (simp_all add: sample_logo_def trim_def is_space_def)
  have dns: "do_txt sample_dns ''default._bimi.bank.example'' = Some [[generateDnsRecord sample_logo None]]"
    "concat [generateDnsRecord sample_logo None] = generateDnsRecord sample_logo None"
    by (simp_all add: sample_dns_def)
  have "dm_valid (checkDmarcPolicy sample_dns (dk_domain k))"
    by (simp add: k(2) checkDmarcPolicy_def resolveTxt_def sample_dns_def startsWith_def Let_def trim_def is_space_def)
  then show ?thesis by (rule bimi_roundtrip [OF sample_configured k(1) logo dns])
qed

theorem versioned_logo_refused_witness:
  "\<exists>errors. upsertBimi (sample_kms\<lparr>do_fetch := \<lambda>_. Inr ''<svg version=1.2/>''\<rparr>) ''b1'' ''d1'' ''p1'' sample_logo None ''default'' sample_claimed
     = (Inr (LogoRefused errors), sample_claimed) \<and> errors \<noteq> []"
proof -
  obtain k where k: "key_of ''d1'' ''p1'' sample_claimed = Some k" using sample_key by blast
  show ?thesis by (rule versioned_logo_refused [OF k, where body = "''<svg version=1.2/>''"]) simp_all
qed

end
