(* ===== verification/Campaign.thy ===== *)
theory Campaign
  imports Dispatch Notify_Facts
begin

text \<open>
  \<open>admin/admin.service.ts\<close>, \<open>admin/internal-campaign.controller.ts\<close> and \<open>campaign/campaign.controller.ts\<close>:
  campaigns to an audience and the system broadcast. The settled promises run one after the other; the ids of
  the rows and the outcomes of adding the jobs are given in that order. The registry of identities is a parameter.
\<close>

section \<open>Settled promises\<close>

text \<open>How many were fulfilled and how many rejected, and the state all of them leave.\<close>

fun settle_count :: "('x \<Rightarrow> 'w \<Rightarrow> ('a, 'w) handled) \<Rightarrow> 'x list \<Rightarrow> 'w \<Rightarrow> nat \<times> nat \<times> 'w" where
  "settle_count h [] w = (0, 0, w)"
| "settle_count h (x # xs) w =
     (let (r, w1) = h x w; (good, bad, w2) = settle_count h xs w1
      in case r of Inr _ \<Rightarrow> (Suc good, bad, w2) | Inl _ \<Rightarrow> (good, Suc bad, w2))"

section \<open>Broadcast to all identities\<close>

record admin_dto =
  ad_subject :: string
  ad_body :: string
  ad_category :: string

record broadcast_counts =
  bc_total_users :: nat
  bc_enqueued_success :: nat
  bc_enqueued_failed :: nat

definition admin_note :: "admin_dto \<Rightarrow> string \<Rightarrow> notify_dto" where
  "admin_note dto wallet = \<lparr>nd_wallet = wallet, nd_subject = ad_subject dto, nd_body = ad_body dto,
     nd_category = Some (ad_category dto), nd_preferred_channel = None, nd_priority = None, nd_receipt = None,
     nd_idempotencyKey = None, nd_templateId = None, nd_telegramTemplateId = None, nd_batchChannels = None,
     nd_batchExcludeChannels = None, nd_variables = None\<rparr>"

definition broadcast ::
  "'r notify_env \<Rightarrow> millis \<Rightarrow> exn + string list \<Rightarrow> (string \<times> add_outcome) list \<Rightarrow> admin_dto \<Rightarrow> auth_protocol
     \<Rightarrow> 'r world \<Rightarrow> (broadcast_counts, 'r world) handled" where
  "broadcast E now identities ids dto p w =
     (case identities of
        Inl e \<Rightarrow> throw e w
      | Inr wallets \<Rightarrow>
          let (good, bad, w1) = settle_count (\<lambda>(wallet, i, o'). queueNotification E o' now i (admin_note dto wallet) p) (zip wallets ids) w
          in ok \<lparr>bc_total_users = length wallets, bc_enqueued_success = good, bc_enqueued_failed = bad\<rparr> w1)"

section \<open>Campaigns\<close>

definition campaign_by_id :: "string \<Rightarrow> 'r world \<Rightarrow> campaign option" where
  "campaign_by_id i w = List.find (\<lambda>c. cp_id c = i) (w_campaigns w)"

definition update_campaign :: "string \<Rightarrow> (campaign \<Rightarrow> campaign) \<Rightarrow> 'r world \<Rightarrow> 'r world" where
  "update_campaign i f w = w\<lparr>w_campaigns := updateMany (\<lambda>c. cp_id c = i) f (w_campaigns w)\<rparr>"

definition campaign_row :: "(string \<Rightarrow> string) \<Rightarrow> millis \<Rightarrow> campaign \<Rightarrow> string \<times> string \<times> add_outcome \<Rightarrow> notification" where
  "campaign_row sha256 now c = (\<lambda>(wallet, i, _).
     (new_notification i (cp_protocolId c) (sha256 wallet) (sha256 (cp_subject c)) ''queued'' (cp_category c) now)\<lparr>nt_writeReceipt := False\<rparr>)"

text \<open>The job names neither the protocol nor its plan, the campaign's channels or a template.\<close>

definition campaign_job :: "(string \<Rightarrow> string) \<Rightarrow> campaign \<Rightarrow> string \<times> string \<times> add_outcome \<Rightarrow> job_data" where
  "campaign_job sha256 c = (\<lambda>(wallet, i, _).
     \<lparr>jd_notificationId = i, jd_protocolId = cp_protocolId c, jd_protocolPubkey = [], jd_protocolName = [],
      jd_wallet = wallet, jd_walletHash = Some (sha256 wallet), jd_subject = cp_subject c, jd_body = cp_body c,
      jd_category = cp_category c, jd_writeReceipt = False, jd_digestMode = False, jd_priority = None,
      jd_channels = None, jd_excludedChannels = None, jd_preferredChannel = None, jd_isSandbox = Some False,
      jd_testContact = None, jd_tier = None, jd_templateId = None, jd_telegramTemplateId = None, jd_templateVariables = None\<rparr>)"

definition campaign_wallet ::
  "(string \<Rightarrow> string) \<Rightarrow> millis \<Rightarrow> campaign \<Rightarrow> string \<times> string \<times> add_outcome \<Rightarrow> 'r world \<Rightarrow> (unit, 'r world) handled" where
  "campaign_wallet sha256 now c x w =
     and_then (create_notification (campaign_row sha256 now c x) w) (\<lambda>_. enqueueNotification (snd (snd x)) (campaign_job sha256 c x))"

text \<open>The answer is the number of wallets; \<open>POST /internal/campaigns/:id/enqueue\<close> calls this directly.\<close>

definition enqueueCampaign ::
  "(string \<Rightarrow> string) \<Rightarrow> millis \<Rightarrow> string \<Rightarrow> (string \<times> add_outcome) list \<Rightarrow> 'r world \<Rightarrow> (nat, 'r world) handled" where
  "enqueueCampaign sha256 now i ids w =
     (case campaign_by_id i w of
        None \<Rightarrow> throw (HttpExn 404 ''CAMPAIGN_NOT_FOUND'') w
      | Some c \<Rightarrow>
          let (good, _, w1) = settle_count (campaign_wallet sha256 now c) (zip (cp_wallets c) ids) w
          in ok good (update_campaign i (\<lambda>c. c\<lparr>cp_status := ''RUNNING'', cp_startedAt := Some now, cp_totalTargets := length (cp_wallets c)\<rparr>) w1))"

record campaign_item =
  ci_id :: string
  ci_name :: string
  ci_status :: string
  ci_audienceSize :: nat
  ci_sent :: nat
  ci_createdAt :: millis

definition listCampaigns :: "string \<Rightarrow> 'r world \<Rightarrow> campaign_item list" where
  "listCampaigns protocolId w =
     map (\<lambda>c. \<lparr>ci_id = cp_id c, ci_name = cp_subject c, ci_status = cp_status c, ci_audienceSize = length (cp_wallets c),
            ci_sent = cp_totalSent c, ci_createdAt = cp_createdAt c\<rparr>)
       (sort_key (\<lambda>c. - cp_createdAt c) (filter (\<lambda>c. cp_protocolId c = protocolId) (w_campaigns w)))"

definition own_campaign :: "string \<Rightarrow> string \<Rightarrow> 'r world \<Rightarrow> campaign option" where
  "own_campaign i protocolId w = List.find (\<lambda>c. cp_id c = i \<and> cp_protocolId c = protocolId) (w_campaigns w)"

definition not_started :: "campaign \<Rightarrow> bool" where
  "not_started c = (cp_status c = ''DRAFT'' \<or> cp_status c = ''SCHEDULED'')"

definition launchCampaign ::
  "(string \<Rightarrow> string) \<Rightarrow> millis \<Rightarrow> string \<Rightarrow> string \<Rightarrow> (string \<times> add_outcome) list \<Rightarrow> 'r world \<Rightarrow> (nat, 'r world) handled" where
  "launchCampaign sha256 now i protocolId ids w =
     (case own_campaign i protocolId w of
        None \<Rightarrow> throw (HttpExn 404 ''Campaign not found'') w
      | Some c \<Rightarrow> if \<not> not_started c then throw (HttpExn 400 ''Cannot launch a campaign'') w else enqueueCampaign sha256 now i ids w)"

definition cancelCampaign :: "string \<Rightarrow> string \<Rightarrow> 'r world \<Rightarrow> (unit, 'r world) handled" where
  "cancelCampaign i protocolId w =
     (case own_campaign i protocolId w of
        None \<Rightarrow> throw (HttpExn 404 ''Campaign not found'') w
      | Some c \<Rightarrow> if \<not> not_started c then throw (HttpExn 400 ''Cannot cancel a campaign'') w
                  else ok () (update_campaign i (\<lambda>c. c\<lparr>cp_status := ''CANCELLED''\<rparr>) w))"

section \<open>Facts\<close>

lemma settle_count_total: "settle_count h xs w = (good, bad, w') \<Longrightarrow> good + bad = length xs"
  by (induction xs arbitrary: w good bad) (auto simp: Let_def split: prod.splits sum.splits)

text \<open>One wallet: with a fresh id its row is written whatever the queue does.\<close>

lemma campaign_wallet_fresh:
  assumes "\<forall>n \<in> set (w_notifications w). nt_id n \<noteq> fst (snd x)"
  shows "isl (fst (campaign_wallet sha256 now c x w)) = (snd (snd x) \<noteq> Added)"
    and "snd (campaign_wallet sha256 now c x w) = w\<lparr>w_notifications := w_notifications w @ [campaign_row sha256 now c x],
      w_notificationJobs := w_notificationJobs w @ (if reaches_queue (snd (snd x)) then [(campaign_job sha256 c x, None)] else [])\<rparr>"
proof -
  have "\<not> key_taken w (campaign_row sha256 now c x)"
    using assms by (auto simp: key_taken_def exists_row_iff campaign_row_def new_notification_def split: prod.splits)
  then show "isl (fst (campaign_wallet sha256 now c x w)) = (snd (snd x) \<noteq> Added)"
    and "snd (campaign_wallet sha256 now c x w) = w\<lparr>w_notifications := w_notifications w @ [campaign_row sha256 now c x],
      w_notificationJobs := w_notificationJobs w @ (if reaches_queue (snd (snd x)) then [(campaign_job sha256 c x, None)] else [])\<rparr>"
    by (cases "snd (snd x)"; simp add: campaign_wallet_def create_notification_def enqueueNotification_def add_job_def ok_def throw_def)+
qed

lemma campaign_all_fresh:
  assumes "distinct (map (fst \<circ> snd) xs)" "\<forall>x \<in> set xs. \<forall>n \<in> set (w_notifications w). nt_id n \<noteq> fst (snd x)"
  shows "\<exists>bad. settle_count (campaign_wallet sha256 now c) xs w = (length (filter (\<lambda>x. snd (snd x) = Added) xs), bad,
    w\<lparr>w_notifications := w_notifications w @ map (campaign_row sha256 now c) xs,
      w_notificationJobs := w_notificationJobs w @ map (\<lambda>x. (campaign_job sha256 c x, None)) (filter (\<lambda>x. reaches_queue (snd (snd x))) xs)\<rparr>)"
  using assms
proof (induction xs arbitrary: w)
  case (Cons x xs)
  let ?w1 = "snd (campaign_wallet sha256 now c x w)"
  have fresh: "\<forall>n \<in> set (w_notifications w). nt_id n \<noteq> fst (snd x)" using Cons.prems by simp
  note w1 = campaign_wallet_fresh(2) [OF fresh, of sha256 now c]
  have "nt_id (campaign_row sha256 now c x) = fst (snd x)"
    by (simp add: campaign_row_def new_notification_def split_beta)
  then have "\<forall>y \<in> set xs. \<forall>n \<in> set (w_notifications ?w1). nt_id n \<noteq> fst (snd y)"
    using Cons.prems unfolding w1 by (auto simp: image_iff)
  from Cons.IH [OF _ this] Cons.prems(1) obtain bad where
    "settle_count (campaign_wallet sha256 now c) xs ?w1 = (length (filter (\<lambda>x. snd (snd x) = Added) xs), bad,
      ?w1\<lparr>w_notifications := w_notifications ?w1 @ map (campaign_row sha256 now c) xs,
        w_notificationJobs := w_notificationJobs ?w1 @ map (\<lambda>x. (campaign_job sha256 c x, None)) (filter (\<lambda>x. reaches_queue (snd (snd x))) xs)\<rparr>)"
    by auto
  then show ?case
    using campaign_wallet_fresh(1) [OF fresh, of sha256 now c] unfolding w1
    by (cases "fst (campaign_wallet sha256 now c x w)") (auto simp: split_beta Let_def w1)
qed simp


lemma own_campaign_by_id:
  assumes "distinct (map cp_id (w_campaigns w))" "own_campaign i pid w = Some c"
  shows "campaign_by_id i w = Some c"
proof -
  have c: "c \<in> set (w_campaigns w)" "cp_id c = i"
    using assms(2) find_Some_row [of "\<lambda>c. cp_id c = i \<and> cp_protocolId c = pid" "w_campaigns w" c] by (auto simp: own_campaign_def)
  have "d = c" if "campaign_by_id i w = Some d" for d
    using that c distinct_key_unique [OF assms(1), of d c] find_Some_row [of "\<lambda>c. cp_id c = i" "w_campaigns w" d]
    by (auto simp: campaign_by_id_def)
  moreover have "campaign_by_id i w \<noteq> None" using c by (auto simp: campaign_by_id_def find_None_row)
  ultimately show ?thesis by blast
qed

definition launched :: "millis \<Rightarrow> campaign \<Rightarrow> campaign" where
  "launched now c = c\<lparr>cp_status := ''RUNNING'', cp_startedAt := Some now, cp_totalTargets := length (cp_wallets c)\<rparr>"

lemma find_launched:
  "List.find (\<lambda>c. cp_id c = i \<and> cp_protocolId c = pid) (updateMany (\<lambda>c. cp_id c = i) (launched now) cs) =
     map_option (launched now) (List.find (\<lambda>c. cp_id c = i \<and> cp_protocolId c = pid) cs)"
  by (induction cs) (auto simp: updateMany_def launched_def)

lemma added_of_zip: "length ids = length ws \<Longrightarrow>
  length (filter (\<lambda>x. snd (snd x) = Added) (zip ws ids)) = length (filter (\<lambda>x. snd x = Added) ids)"
  by (induction ids ws rule: list_induct2) auto

definition fresh_ids :: "(string \<times> add_outcome) list \<Rightarrow> 'r world \<Rightarrow> bool" where
  "fresh_ids ids w = (distinct (map fst ids) \<and> (\<forall>x \<in> set ids. \<forall>n \<in> set (w_notifications w). nt_id n \<noteq> fst x))"

text \<open>The internal route looks at no status: it sends a running, a finished or a cancelled campaign all the same.\<close>

lemma enqueueCampaign_result:
  assumes c: "campaign_by_id i w = Some c" and "length ids = length (cp_wallets c)" "fresh_ids ids w"
  shows "enqueueCampaign sha256 now i ids w = (Inr (length (filter (\<lambda>x. snd x = Added) ids)),
    w\<lparr>w_notifications := w_notifications w @ map (campaign_row sha256 now c) (zip (cp_wallets c) ids),
      w_notificationJobs := w_notificationJobs w
        @ map (\<lambda>x. (campaign_job sha256 c x, None)) (filter (\<lambda>x. reaches_queue (snd (snd x))) (zip (cp_wallets c) ids)),
      w_campaigns := updateMany (\<lambda>c. cp_id c = i) (launched now) (w_campaigns w)\<rparr>)"
proof -
  let ?xs = "zip (cp_wallets c) ids"
  have fst: "map (fst \<circ> snd) ?xs = map fst ids" using assms(2) by (simp flip: map_map)
  have fresh: "\<forall>x \<in> set ?xs. \<forall>n \<in> set (w_notifications w). nt_id n \<noteq> fst (snd x)"
    using assms(3) by (auto simp: fresh_ids_def dest!: set_zip_rightD)
  have count: "length (filter (\<lambda>x. snd (snd x) = Added) ?xs) = length (filter (\<lambda>x. snd x = Added) ids)"
    by (rule added_of_zip [OF assms(2)])
  obtain bad where all: "settle_count (campaign_wallet sha256 now c) ?xs w = (length (filter (\<lambda>x. snd (snd x) = Added) ?xs), bad,
    w\<lparr>w_notifications := w_notifications w @ map (campaign_row sha256 now c) ?xs,
      w_notificationJobs := w_notificationJobs w @ map (\<lambda>x. (campaign_job sha256 c x, None)) (filter (\<lambda>x. reaches_queue (snd (snd x))) ?xs)\<rparr>)"
    using campaign_all_fresh [of ?xs w sha256 now c] fst fresh assms(3) by (auto simp: fresh_ids_def)
  show ?thesis unfolding enqueueCampaign_def using c all
    by (simp add: update_campaign_def launched_def [abs_def] ok_def count)
qed

text \<open>C18: A campaign is launched once. A launch that succeeds found it not started, writes one queued row for
  every wallet of the audience with a job for each that reached the queue, answers the number of accepted jobs,
  and neither launching nor cancelling it works afterwards. The rows whose job was refused stay queued.\<close>

theorem campaign_launched_once:
  assumes launch: "launchCampaign sha256 now i pid ids w = (Inr n, w')"
    and own: "own_campaign i pid w = Some c" and unique: "distinct (map cp_id (w_campaigns w))"
    and ids: "length ids = length (cp_wallets c)" "fresh_ids ids w"
  shows "not_started c \<and> n = length (filter (\<lambda>x. snd x = Added) ids)
    \<and> w_notifications w' = w_notifications w @ map (campaign_row sha256 now c) (zip (cp_wallets c) ids)
    \<and> w_notificationJobs w' = w_notificationJobs w
        @ map (\<lambda>x. (campaign_job sha256 c x, None)) (filter (\<lambda>x. reaches_queue (snd (snd x))) (zip (cp_wallets c) ids))
    \<and> launchCampaign sha256 now' i pid ids' w' = (Inl (HttpExn 400 ''Cannot launch a campaign''), w')
    \<and> cancelCampaign i pid w' = (Inl (HttpExn 400 ''Cannot cancel a campaign''), w')"
proof -
  have start: "not_started c" using launch own by (auto simp: launchCampaign_def throw_def split: if_splits)
  note eq = enqueueCampaign_result [OF own_campaign_by_id [OF unique own] ids, of sha256 now]
  have w': "n = length (filter (\<lambda>x. snd x = Added) ids)"
    "w' = snd (enqueueCampaign sha256 now i ids w)"
    using launch own start eq by (auto simp: launchCampaign_def)
  have "own_campaign i pid w' = Some (launched now c)"
    using own by (simp add: own_campaign_def w'(2) eq find_launched)
  moreover have "\<not> not_started (launched now c)" by (simp add: not_started_def launched_def)
  ultimately show ?thesis
    using start w'(1) by (simp add: launchCampaign_def cancelCampaign_def throw_def) (simp add: w'(2) eq)
qed

text \<open>C19: A campaign is mail. Whatever channels it lists and whatever the plan of its protocol, the dispatch of one of
  its jobs tries the e-mail address of the wallet and nothing else: the job carries neither channels nor tier,
  so a wallet with only a Telegram chat or a phone gets nothing.\<close>

theorem campaign_mail_only:
  "map oc_channel (dr_outcomes (fst (dispatch R now E ch (campaign_job sha256 c x) w))) = (if truthy (ch_email ch) then [Some Email] else [])"
proof -
  let ?j = "campaign_job sha256 c x"
  have job: "job_tier ?j = 0" "excluded_channels ?j = []" "explicit_channels ?j = None" "\<not> sms_escalates ch ?j"
    by (simp_all add: campaign_job_def split_beta job_tier_def nullish_def excluded_channels_def explicit_channels_def sms_escalates_def)
  have "map oc_channel (dr_outcomes (fst (dispatch R now E ch ?j w))) = map Some (delivered_channels ch ?j)"
    using dispatch_facts [of R now E ch ?j w] by (cases "dispatch R now E ch ?j w") simp
  then show ?thesis unfolding delivered_channels_eq by (simp add: job asked_for_def)
qed

definition sample_campaign :: campaign where
  "sample_campaign = \<lparr>cp_id = ''c1'', cp_protocolId = ''p1'', cp_wallets = [''W1'', ''W2''], cp_subject = ''News'', cp_body = ''Hello'',
     cp_category = ''defi'', cp_channels = [''email'', ''telegram''], cp_status = ''DRAFT'', cp_startedAt = None, cp_totalTargets = 0,
     cp_totalSent = 0, cp_createdAt = 0\<rparr>"

definition sample_audience :: "keyspace world" where
  "sample_audience = (empty_world Map.empty)\<lparr>w_campaigns := [sample_campaign]\<rparr>"

theorem campaign_launched_once_witness:
  "\<exists>w'. launchCampaign id 5 ''c1'' ''p1'' [(''n1'', Added), (''n2'', Rejected)] sample_audience = (Inr 1, w')
    \<and> map nt_id (w_notifications w') = [''n1'', ''n2''] \<and> length (w_notificationJobs w') = 1
    \<and> launchCampaign id 6 ''c1'' ''p1'' [] w' = (Inl (HttpExn 400 ''Cannot launch a campaign''), w')"
proof -
  let ?ids = "[(''n1'', Added), (''n2'', Rejected)]"
  have own: "own_campaign ''c1'' ''p1'' sample_audience = Some sample_campaign"
    by (simp add: own_campaign_def sample_audience_def sample_campaign_def)
  have unique: "distinct (map cp_id (w_campaigns sample_audience))" by (simp add: sample_audience_def)
  have len: "length ?ids = length (cp_wallets sample_campaign)" by (simp add: sample_campaign_def)
  have fresh: "fresh_ids ?ids sample_audience" by (simp add: fresh_ids_def sample_audience_def empty_world_def)
  obtain w' where l: "launchCampaign id 5 ''c1'' ''p1'' ?ids sample_audience = (Inr 1, w')"
    using enqueueCampaign_result [OF own_campaign_by_id [OF unique own] len fresh, of id 5] own
    by (simp add: launchCampaign_def not_started_def sample_campaign_def)
  have none: "w_notifications sample_audience = []" "w_notificationJobs sample_audience = []"
    by (simp_all add: sample_audience_def empty_world_def)
  show ?thesis
    using campaign_launched_once [OF l own unique len fresh, of 6 "[]"] l
    by (intro exI [of _ w']) (simp add: none sample_campaign_def campaign_row_def new_notification_def)
qed

end
