(* ===== verification/Request_Log.thy ===== *)
theory Request_Log
  imports Scheduler
begin

text \<open>
  \<open>common/interceptors/request-log.interceptor.ts\<close>: the log of API requests with its redaction of bodies, and
  \<open>getRequestLogs\<close> of \<open>analytics/analytics.service.ts\<close> with the parsing of its query, which pages through it.
\<close>

section \<open>Redaction\<close>

definition SENSITIVE_KEYS :: "string set" where
  "SENSITIVE_KEYS = {''wallet'', ''email'', ''subject'', ''body'', ''authorization'', ''password'', ''secret''}"

definition is_sensitive :: "string \<Rightarrow> bool" where
  "is_sensitive k = (map lower k \<in> SENSITIVE_KEYS)"

definition redacted :: json where "redacted = JString ''[redacted]''"

lemma size_in_object: "(k, v) \<in> set kvs \<Longrightarrow> size v < Suc (size_list (size_prod (\<lambda>_. 0) size) kvs)"
  by (induction kvs) auto

fun sanitizeBody :: "json \<Rightarrow> json" where
  "sanitizeBody (JArray js) = JArray (map sanitizeBody js)"
| "sanitizeBody (JObject kvs) = JObject (map (\<lambda>(k, v). (k, if is_sensitive k then redacted else sanitizeBody v)) kvs)"
| "sanitizeBody j = j"

section \<open>The interceptor\<close>

record logged_protocol =
  lp_protocolId :: string
  lp_apiKeyId :: "string option"
  lp_isTestKey :: "bool option"

record logged_request =
  lq_protocol :: "logged_protocol option"     \<comment> \<open>what \<open>AuthGuard\<close> stored\<close>
  lq_method :: string
  lq_path :: string
  lq_body :: "json option"
  lq_forwardedFor :: "string option"
  lq_remoteAddress :: "string option"
  lq_correlationId :: "string option"

text \<open>What the handler did: a status with the body of the answer, or an error with its status if it has one.\<close>

datatype handled_as = Answered int "json option" | Failed "int option"

definition ip_hash :: "(string \<Rightarrow> string) \<Rightarrow> logged_request \<Rightarrow> string option" where
  "ip_hash sha256 q =
     (let ip = nullish (lq_forwardedFor q) (nullish (lq_remoteAddress q) [])
      in if ip \<noteq> [] then Some (slice_to (sha256 ip) 16) else None)"

definition log_row ::
  "(string \<Rightarrow> string) \<Rightarrow> string \<Rightarrow> millis \<Rightarrow> int \<Rightarrow> logged_request \<Rightarrow> logged_protocol \<Rightarrow> handled_as \<Rightarrow> request_log" where
  "log_row sha256 i now latencyMs q p outcome = \<lparr>rl_id = i, rl_protocolId = lp_protocolId p,
     rl_apiKeyId = (if truthy (lp_apiKeyId p) \<and> lp_apiKeyId p \<noteq> Some ''internal'' then lp_apiKeyId p else None),
     rl_isTestKey = nullish (lp_isTestKey p) False, rl_method = lq_method q, rl_endpoint = lq_path q,
     rl_requestBody = map_option sanitizeBody (lq_body q),
     rl_responseBody = (case outcome of Answered _ b \<Rightarrow> map_option sanitizeBody b | Failed _ \<Rightarrow> None),
     rl_statusCode = (case outcome of Answered s _ \<Rightarrow> s | Failed s \<Rightarrow> nullish s 500),
     rl_latencyMs = latencyMs, rl_correlationId = lq_correlationId q,
     rl_ipHash = (case outcome of Answered _ _ \<Rightarrow> ip_hash sha256 q | Failed _ \<Rightarrow> None), rl_createdAt = now\<rparr>"

text \<open>The insert fails without the protocol or when a column is too narrow; nobody learns of it.\<close>

definition storable :: "request_log \<Rightarrow> 'r world \<Rightarrow> bool" where
  "storable l w = (exists_row (\<lambda>p. pr_id p = rl_protocolId l) (w_protocols w) \<and> length (rl_method l) \<le> 10
     \<and> length (rl_endpoint l) \<le> 200 \<and> length (nullish (rl_correlationId l) []) \<le> 128)"

definition log_request ::
  "(string \<Rightarrow> string) \<Rightarrow> string \<Rightarrow> millis \<Rightarrow> int \<Rightarrow> logged_request \<Rightarrow> handled_as \<Rightarrow> 'r world \<Rightarrow> 'r world" where
  "log_request sha256 i now latencyMs q outcome w =
     (case lq_protocol q of
        None \<Rightarrow> w
      | Some p \<Rightarrow>
          if lp_protocolId p = [] then w
          else let l = log_row sha256 i now latencyMs q p outcome
            in if storable l w then w\<lparr>w_requestLogs := w_requestLogs w @ [l]\<rparr> else w)"

section \<open>Reading the log\<close>

record log_filter =
  lf_page :: int
  lf_limit :: int
  lf_statusCode :: "int option"
  lf_endpoint :: "string option"
  lf_isTestKey :: "bool option"

record log_page =
  lg_items :: "request_log list"
  lg_total :: nat
  lg_page :: int
  lg_limit :: int
  lg_hasMore :: bool

text \<open>Prisma's \<open>skip\<close> and \<open>take\<close>: a negative \<open>skip\<close> is refused, a negative \<open>take\<close> counts from the end.\<close>

definition page_of :: "int \<Rightarrow> int \<Rightarrow> 'a list \<Rightarrow> 'a list option" where
  "page_of skip n xs =
     (if skip < 0 then None
      else if 0 \<le> n then Some (take (nat n) (drop (nat skip) xs))
      else Some (rev (take (nat (- n)) (drop (nat skip) (rev xs)))))"

definition log_matches :: "string \<Rightarrow> log_filter \<Rightarrow> request_log \<Rightarrow> bool" where
  "log_matches protocolId f l = (rl_protocolId l = protocolId
     \<and> (lf_statusCode f = None \<or> lf_statusCode f = Some (rl_statusCode l))
     \<and> (case lf_endpoint f of None \<Rightarrow> True | Some e \<Rightarrow> str_includes (rl_endpoint l) e)
     \<and> (lf_isTestKey f = None \<or> lf_isTestKey f = Some (rl_isTestKey l)))"

definition matching_logs :: "string \<Rightarrow> log_filter \<Rightarrow> 'r world \<Rightarrow> request_log list" where
  "matching_logs protocolId f w = sort_key (\<lambda>l. - rl_createdAt l) (filter (log_matches protocolId f) (w_requestLogs w))"

definition getRequestLogs :: "string \<Rightarrow> log_filter \<Rightarrow> 'r world \<Rightarrow> (log_page, 'r world) handled" where
  "getRequestLogs protocolId f w =
     (let skip = (lf_page f - 1) * lf_limit f; total = length (matching_logs protocolId f w)
      in case page_of skip (lf_limit f) (matching_logs protocolId f w) of
           None \<Rightarrow> throw (PrismaExn ''skip'') w
         | Some items \<Rightarrow> ok \<lparr>lg_items = items, lg_total = total, lg_page = lf_page f, lg_limit = lf_limit f,
             lg_hasMore = (skip + int (length items) < int total)\<rparr> w)"

text \<open>The query of \<open>GET /v1/requests\<close>; Prisma refuses what is not a number.\<close>

definition list_requests ::
  "string \<Rightarrow> string option \<Rightarrow> string option \<Rightarrow> string option \<Rightarrow> string option \<Rightarrow> string option \<Rightarrow> 'r world \<Rightarrow> (log_page, 'r world) handled" where
  "list_requests protocolId page limit statusCode endpoint isTestKey w =
     (case (parse_int (nullish page ''1''), parse_int (nullish limit ''50'')) of
        (Some p, Some n) \<Rightarrow>
          if truthy statusCode \<and> parse_int (the statusCode) = None then throw (PrismaExn ''NaN'') w
          else getRequestLogs protocolId \<lparr>lf_page = p, lf_limit = min n 100,
                 lf_statusCode = (if truthy statusCode then parse_int (the statusCode) else None), lf_endpoint = endpoint,
                 lf_isTestKey = (if isTestKey = Some ''true'' then Some True else if isTestKey = Some ''false'' then Some False else None)\<rparr> w
      | _ \<Rightarrow> throw (PrismaExn ''NaN'') w)"

section \<open>Facts: redaction\<close>

text \<open>A place in a JSON value.\<close>

datatype json_step = Key string | Index nat

fun at_path :: "json_step list \<Rightarrow> json \<Rightarrow> json option" where
  "at_path [] j = Some j"
| "at_path (Key k # p) (JObject kvs) = Option.bind (map_of kvs k) (at_path p)"
| "at_path (Index i # p) (JArray js) = (if i < length js then at_path p (js ! i) else None)"
| "at_path (s # p) j = None"

definition public_step :: "json_step \<Rightarrow> bool" where
  "public_step s = (case s of Key k \<Rightarrow> \<not> is_sensitive k | Index _ \<Rightarrow> True)"

lemma map_of_sanitized:
  "map_of (map (\<lambda>(k, v). (k, if is_sensitive k then redacted else sanitizeBody v)) kvs) k =
     map_option (\<lambda>v. if is_sensitive k then redacted else sanitizeBody v) (map_of kvs k)"
  by (induction kvs) auto

lemma at_public: "list_all public_step p \<Longrightarrow> at_path (p @ q) (sanitizeBody j) = Option.bind (at_path p j) (\<lambda>v. at_path q (sanitizeBody v))"
proof (induction p j rule: at_path.induct)
  case (2 k p kvs)
  then show ?case by (cases "map_of kvs k") (simp_all add: map_of_sanitized public_step_def)
qed simp_all

lemma sanitize_idem: "sanitizeBody (sanitizeBody j) = sanitizeBody j"
proof (induction j rule: sanitizeBody.induct)
  case (2 kvs)
  then show ?case by (auto simp: redacted_def)
qed simp_all

lemma at_append: "at_path (p @ q) j = Option.bind (at_path p j) (at_path q)"
proof (induction p j rule: at_path.induct)
  case (2 k p kvs)
  then show ?case by (cases "map_of kvs k") simp_all
qed simp_all

lemma at_redacted: "at_path q redacted = (if q = [] then Some redacted else None)"
  by (cases q; cases "hd q") (auto simp: redacted_def)

lemma at_sensitive:
  "is_sensitive k \<Longrightarrow> at_path (Key k # q) (sanitizeBody v) = (if at_path [Key k] v = None \<or> q \<noteq> [] then None else Some redacted)"
proof (cases v)
  case (JObject kvs)
  then show "is_sensitive k \<Longrightarrow> ?thesis" by (cases "map_of kvs k") (simp_all add: map_of_sanitized at_redacted)
qed simp_all


definition sample_body :: json where
  "sample_body = JObject [(''items'', JArray [JObject [(''id'', JNumber 7), (''Secret'', JObject [(''pin'', JString ''1234'')])]])]"


text \<open>One row at most, with the bodies redacted, and nothing else changes.\<close>

lemma log_request_frame: "\<exists>ls. log_request sha256 i now d q outcome w = w\<lparr>w_requestLogs := ls\<rparr>"
  by (cases "lq_protocol q") (auto simp: log_request_def Let_def intro: exI [of _ "w_requestLogs w"])

section \<open>Facts: paging\<close>

lemma concat_pages: "concat (map (\<lambda>k. take l (drop (k * l) xs)) [0..<n]) = take (n * l) xs"
proof (induction n)
  case (Suc n)
  have "take (n * l) xs @ take l (drop (n * l) xs) = take (n * l + l) xs" by (simp add: take_add)
  with Suc show ?case by (simp add: add.commute)
qed simp

lemma more_left: "0 < l \<Longrightarrow> int s + int (length (take l (drop s xs))) < int (length xs) \<longleftrightarrow> s + l < length xs"
  by (auto simp: min_def)

lemma log_page_exact:
  fixes f :: log_filter
  assumes "0 < l"
  shows "getRequestLogs pid (f\<lparr>lf_page := int k + 1, lf_limit := int l\<rparr>) w =
    (Inr \<lparr>lg_items = take l (drop (k * l) (matching_logs pid f w)), lg_total = length (matching_logs pid f w), lg_page = int k + 1,
      lg_limit = int l, lg_hasMore = ((k + 1) * l < length (matching_logs pid f w))\<rparr>, w)"
proof -
  let ?xs = "matching_logs pid f w"
  have same: "matching_logs pid (f\<lparr>lf_page := int k + 1, lf_limit := int l\<rparr>) w = ?xs"
    by (simp add: matching_logs_def log_matches_def [abs_def])
  have skip: "(int k + 1 - 1) * int l = int (k * l)" by simp
  have more: "int (k * l) + int (length (take l (drop (k * l) ?xs))) < int (length ?xs) \<longleftrightarrow> (k + 1) * l < length ?xs"
    using more_left [OF assms, of "k * l" ?xs] by (simp add: algebra_simps)
  have sel: "lf_page (f\<lparr>lf_page := int k + 1, lf_limit := int l\<rparr>) = int k + 1" "lf_limit (f\<lparr>lf_page := int k + 1, lf_limit := int l\<rparr>) = int l"
    by simp_all
  have page: "page_of (int (k * l)) (int l) ?xs = Some (take l (drop (k * l) ?xs))"
    unfolding page_of_def nat_int by (simp del: of_nat_mult)
  show ?thesis unfolding getRequestLogs_def Let_def same sel skip page option.case more ok_def ..
qed

text \<open>Paging loses nothing and repeats nothing. For any filter and page size, the pages of a log put together, as many as
  one asks for, are the newest matching entries in order, and \<open>hasMore\<close> holds exactly while something is left.\<close>

theorem request_pages:
  fixes f :: log_filter
  assumes "0 < l"
  shows "\<exists>items. concat (map items [0..<n]) = take (n * l) (matching_logs pid f w)
    \<and> (\<forall>k < n. \<exists>g. getRequestLogs pid (f\<lparr>lf_page := int k + 1, lf_limit := int l\<rparr>) w = (Inr g, w)
        \<and> lg_items g = items k \<and> (lg_hasMore g \<longleftrightarrow> (k + 1) * l < length (matching_logs pid f w)))"
  by (rule exI [of _ "\<lambda>k. take l (drop (k * l) (matching_logs pid f w))"]) (simp add: concat_pages log_page_exact [OF assms])

definition all_logs :: log_filter where
  "all_logs = \<lparr>lf_page = 1, lf_limit = 50, lf_statusCode = None, lf_endpoint = None, lf_isTestKey = None\<rparr>"

theorem request_pages_witness:
  "\<exists>items. concat (map items [0..<2]) = take (2 * 1) (matching_logs ''p1'' all_logs (empty_world ()))
    \<and> (\<forall>k < 2. \<exists>g. getRequestLogs ''p1'' (all_logs\<lparr>lf_page := int k + 1, lf_limit := int 1\<rparr>) (empty_world ()) = (Inr g, empty_world ())
        \<and> lg_items g = items k \<and> (lg_hasMore g \<longleftrightarrow> (k + 1) * 1 < length (matching_logs ''p1'' all_logs (empty_world ()))))"
  by (rule request_pages [where l = 1 and n = 2 and f = all_logs and w = "empty_world ()" and pid = "''p1''"]) simp

end
