(* ===== verification/Analytics.thy ===== *)
theory Analytics
  imports Request_Log Audience Rate_Limit Auth Base64 Markdown Complex_Main
begin

text \<open>
  \<open>analytics/analytics.service.ts\<close> with the public tracking routes of \<open>analytics/analytics.controller.ts\<close>, and
  \<open>auth/usage.controller.ts\<close>. A ratio is the rational number itself; a rounded percentage is kept as the
  integer number of its last digit (hundredths for \<open>toFixed(2)\<close>), rounded half up. Date printing and the parsing
  of dates are parameters.
\<close>

section \<open>Delivery figures\<close>

definition day :: millis where "day = 24 * 60 * 60 * 1000"

definition period_days :: "string \<Rightarrow> int option" where
  "period_days p = (if p = ''7d'' then Some 7 else if p = ''30d'' then Some 30 else if p = ''90d'' then Some 90 else None)"

definition ratio :: "nat \<Rightarrow> nat \<Rightarrow> rat" where
  "ratio n sends = (if 0 < sends then of_nat n / of_nat sends else 0)"

definition sent_since :: "string \<Rightarrow> millis \<Rightarrow> notification \<Rightarrow> bool" where
  "sent_since protocolId since n = (nt_protocolId n = protocolId \<and> since \<le> nt_queuedAt n)"

record delivery_figures =
  df_total_sends :: nat
  df_delivered :: nat
  df_failed :: nat
  df_opted_out :: nat
  df_bounced :: nat
  df_delivery_rate :: rat
  df_bounce_rate :: rat
  df_opted_out_rate :: rat
  df_failure_rate :: rat

definition delivery_figures_of :: "string \<Rightarrow> millis \<Rightarrow> 'r world \<Rightarrow> delivery_figures" where
  "delivery_figures_of protocolId since w =
     (let having = (\<lambda>q. count_rows (\<lambda>n. sent_since protocolId since n \<and> q n) (w_notifications w));
          sends = having (\<lambda>_. True); delivered = having (\<lambda>n. nt_status n = ''delivered''); failed = having (\<lambda>n. nt_status n = ''failed'');
          optedOut = having (\<lambda>n. nt_status n = ''opted_out''); bounced = having nt_bounce
      in \<lparr>df_total_sends = sends, df_delivered = delivered, df_failed = failed, df_opted_out = optedOut, df_bounced = bounced,
          df_delivery_rate = ratio delivered sends, df_bounce_rate = ratio bounced sends,
          df_opted_out_rate = ratio optedOut sends, df_failure_rate = ratio failed sends\<rparr>)"

text \<open>An unknown period gives an invalid date, which Prisma refuses.\<close>

definition getAnalytics :: "millis \<Rightarrow> string \<Rightarrow> string \<Rightarrow> 'r world \<Rightarrow> (delivery_figures, 'r world) handled" where
  "getAnalytics now protocolId period w =
     (case period_days period of
        None \<Rightarrow> throw (PrismaExn ''Invalid Date'') w
      | Some d \<Rightarrow> ok (delivery_figures_of protocolId (now - d * day) w) w)"

section \<open>Usage\<close>

record usage =
  ug_tier :: int
  ug_tier_name :: string
  ug_sends_used :: int
  ug_sends_limit :: int
  ug_sends_remaining :: int
  ug_period_reset_at :: "millis option"

definition usage_limit :: "int \<Rightarrow> int" where
  "usage_limit tier = (if tier = 0 then 1000 else if tier = 1 then 50000 else if tier = 2 then 250000 else if tier = 3 then 1000000 else 1000)"

definition usage_name :: "int \<Rightarrow> string" where
  "usage_name tier = (if tier = 1 then ''Growth'' else if tier = 2 then ''Scale'' else if tier = 3 then ''Enterprise'' else ''Developer'')"

definition usage_pct :: "usage \<Rightarrow> rat" where
  "usage_pct u = (if 0 < ug_sends_limit u then of_int (ug_sends_used u) / of_int (ug_sends_limit u) * 100 else 0)"

definition getUsage :: "string \<Rightarrow> int \<Rightarrow> 'r world \<Rightarrow> usage" where
  "getUsage protocolId tier w =
     (let p = List.find (\<lambda>p. pr_id p = protocolId) (w_protocols w); limit = usage_limit tier;
          used = (case p of None \<Rightarrow> 0 | Some p \<Rightarrow> pr_sendsThisPeriod p)
      in \<lparr>ug_tier = tier, ug_tier_name = usage_name tier, ug_sends_used = used, ug_sends_limit = limit,
          ug_sends_remaining = max 0 (limit - used), ug_period_reset_at = map_option pr_periodResetAt p\<rparr>)"

text \<open>\<open>GET /v1/usage\<close>, from the protocol \<open>AuthGuard\<close> stored.\<close>

record month_usage =
  mu_tier :: int
  mu_limit :: int
  mu_usage :: int
  mu_remaining :: int
  mu_overageEnabled :: bool

definition month_usage_of :: "auth_protocol \<Rightarrow> month_usage" where
  "month_usage_of p = (let limit = tl_sendsPerMonth (getTierLimits (ap_tier p)); used = nullish (ap_sendsThisPeriod p) 0
     in \<lparr>mu_tier = ap_tier p, mu_limit = limit, mu_usage = used, mu_remaining = max 0 (limit - used),
         mu_overageEnabled = nullish (ap_overageEnabled p) False\<rparr>)"

section \<open>Engagement\<close>

definition percent2 :: "nat \<Rightarrow> nat \<Rightarrow> int" where
  "percent2 n sends = (if 0 < sends then round_div (int n * 10000) (int sends) else 0)"

record engagement_metrics =
  em_totalSends :: nat
  em_opens :: nat
  em_clicks :: nat
  em_unsubscribes :: nat
  em_openRate :: int         \<comment> \<open>in hundredths of a per cent\<close>
  em_clickRate :: int
  em_unsubscribeRate :: int
  em_from :: millis
  em_until :: millis

definition engaged :: "string \<Rightarrow> millis \<Rightarrow> millis \<Rightarrow> string \<Rightarrow> 'r world \<Rightarrow> nat" where
  "engaged protocolId since until kind w = count_rows (\<lambda>g. ng_protocolId g = protocolId \<and> since \<le> ng_createdAt g
     \<and> ng_createdAt g \<le> until \<and> ng_eventType g = kind) (w_engagements w)"

definition engagement_metrics_of :: "string \<Rightarrow> millis \<Rightarrow> millis \<Rightarrow> 'r world \<Rightarrow> engagement_metrics" where
  "engagement_metrics_of protocolId since until w =
     (let sends = count_rows (\<lambda>n. sent_since protocolId since n \<and> nt_queuedAt n \<le> until \<and> nt_trackingEnabled n) (w_notifications w);
          of_kind = (\<lambda>kind. engaged protocolId since until kind w)
      in \<lparr>em_totalSends = sends, em_opens = of_kind ''open'', em_clicks = of_kind ''click'', em_unsubscribes = of_kind ''unsubscribe'',
          em_openRate = percent2 (of_kind ''open'') sends, em_clickRate = percent2 (of_kind ''click'') sends,
          em_unsubscribeRate = percent2 (of_kind ''unsubscribe'') sends, em_from = since, em_until = until\<rparr>)"

definition getEngagementMetrics ::
  "(string \<Rightarrow> millis option) \<Rightarrow> millis \<Rightarrow> string \<Rightarrow> string option \<Rightarrow> string option \<Rightarrow> 'r world \<Rightarrow> (engagement_metrics, 'r world) handled" where
  "getEngagementMetrics parse now protocolId startDate endDate w =
     (case (if truthy startDate then parse (the startDate) else Some (now - 30 * day), if truthy endDate then parse (the endDate) else Some now) of
        (Some since, Some until) \<Rightarrow> ok (engagement_metrics_of protocolId since until w) w
      | _ \<Rightarrow> throw (PrismaExn ''Invalid Date'') w)"

text \<open>Notification and protocol must exist, but need not belong together; a link has 2000 characters at most.\<close>

definition recordEngagement :: "millis \<Rightarrow> string \<Rightarrow> string \<Rightarrow> string \<Rightarrow> units option \<Rightarrow> 'r world \<Rightarrow> (unit, 'r world) handled" where
  "recordEngagement now notificationId protocolId kind linkUrl w =
     (if notification_by_id w notificationId = None \<or> \<not> exists_row (\<lambda>p. pr_id p = protocolId) (w_protocols w) then throw (PrismaExn ''P2003'') w
      else if 2000 < length (nullish linkUrl []) then throw (PrismaExn ''P2000'') w
      else ok () (w\<lparr>w_engagements := w_engagements w @ [\<lparr>ng_notificationId = notificationId, ng_protocolId = protocolId,
             ng_eventType = kind, ng_linkUrl = linkUrl, ng_createdAt = now\<rparr>]\<rparr>))"

text \<open>The routes are public; without \<open>url\<close> the decoding throws and the home page is the destination.\<close>

definition trackOpen :: "millis \<Rightarrow> string \<Rightarrow> string option \<Rightarrow> 'r world \<Rightarrow> 'r world" where
  "trackOpen now notificationId p w =
     (if notificationId \<noteq> [] \<and> truthy p then snd (recordEngagement now notificationId (the p) ''open'' None w) else w)"

definition trackClickWrap ::
  "(bytes \<Rightarrow> units) \<Rightarrow> units \<Rightarrow> millis \<Rightarrow> string \<Rightarrow> string option \<Rightarrow> string option \<Rightarrow> 'r world \<Rightarrow> units \<times> 'r world" where
  "trackClickWrap utf8 home now notificationId p url w =
     (let destination = (case url of None \<Rightarrow> home | Some u \<Rightarrow> utf8 (from_base64 u))
      in (destination, if notificationId \<noteq> [] \<and> truthy p
           then snd (recordEngagement now notificationId (the p) ''click'' (Some destination) w) else w))"

section \<open>Audience\<close>

record audience_figures =
  af_totalRegistered :: nat
  af_broadcastableSubscribers :: nat
  af_activeLastThirtyDays :: nat
  af_retentionRate :: int
  af_email :: int
  af_telegram :: int
  af_sms :: int
  af_bySource :: "(string \<times> nat) list"
  af_trend :: "(string \<times> nat) list"

definition percent0 :: "nat \<Rightarrow> nat \<Rightarrow> int" where
  "percent0 n sends = (if 0 < sends then round_div (int n * 100) (int sends) else 0)"

definition registration_trend :: "(millis \<Rightarrow> string) \<Rightarrow> millis \<Rightarrow> string \<Rightarrow> 'r world \<Rightarrow> (string \<times> nat) list" where
  "registration_trend isoDay since protocolId w =
     sort_key fst (fold (\<lambda>r. count_key (isoDay (su_subscribedAt r)))
       (sort_key su_subscribedAt (filter (\<lambda>r. su_protocolId r = protocolId \<and> since \<le> su_subscribedAt r) (w_audience w))) [])"

definition recently_notified :: "millis \<Rightarrow> string \<Rightarrow> 'r world \<Rightarrow> string list" where
  "recently_notified since protocolId w = remdups (map nt_walletHash
     (filter (\<lambda>n. sent_since protocolId since n \<and> nt_status n \<in> {''delivered'', ''partial''}) (w_notifications w)))"

definition getAudienceAnalytics :: "(millis \<Rightarrow> string) \<Rightarrow> millis \<Rightarrow> string \<Rightarrow> 'r world \<Rightarrow> audience_figures" where
  "getAudienceAnalytics isoDay now protocolId w =
     (let st = getAudienceStats isoDay now protocolId w; sends = as_totalSubscribers st;
          active = length (recently_notified (now - 30 * day) protocolId w);
          with_channel = (\<lambda>c. nullish (map_of (as_byChannel st) c) 0)
      in \<lparr>af_totalRegistered = sends, af_broadcastableSubscribers = as_broadcastableSubscribers st, af_activeLastThirtyDays = active,
          af_retentionRate = percent0 active sends, af_email = percent0 (with_channel ''email'') sends,
          af_telegram = percent0 (with_channel ''telegram'') sends, af_sms = percent0 (with_channel ''sms'') sends,
          af_bySource = as_bySource st, af_trend = registration_trend isoDay (now - 90 * day) protocolId w\<rparr>)"

section \<open>Telegram\<close>

record telegram_figures =
  tf_subscribers :: nat
  tf_sent :: nat
  tf_delivered :: nat
  tf_failed :: nat
  tf_deliveryRate :: int       \<comment> \<open>in ten thousandths\<close>
  tf_clicks :: nat
  tf_clickRate :: int
  tf_topLinks :: "(units \<times> nat) list"

definition telegram_deliveries :: "string \<Rightarrow> millis \<Rightarrow> bool \<Rightarrow> 'r world \<Rightarrow> nat" where
  "telegram_deliveries protocolId since good w = count_rows (\<lambda>d. cd_channel d = Some Telegram \<and> cd_success d = good
     \<and> (case notification_by_id w (cd_notificationId d) of None \<Rightarrow> False | Some n \<Rightarrow> sent_since protocolId since n)) (w_channelDeliveries w)"

definition clicks_since :: "string \<Rightarrow> millis \<Rightarrow> 'r world \<Rightarrow> engagement list" where
  "clicks_since protocolId since w =
     filter (\<lambda>g. ng_protocolId g = protocolId \<and> ng_eventType g = ''tg_click'' \<and> since \<le> ng_createdAt g) (w_engagements w)"

definition top_links :: "engagement list \<Rightarrow> (units \<times> nat) list" where
  "top_links gs = take 10 (sort_key (\<lambda>x. - int (snd x)) (fold count_key (List.map_filter ng_linkUrl gs) []))"

definition getTelegramAnalytics :: "millis \<Rightarrow> string \<Rightarrow> string \<Rightarrow> 'r world \<Rightarrow> (telegram_figures, 'r world) handled" where
  "getTelegramAnalytics now protocolId period w =
     (case period_days period of
        None \<Rightarrow> throw (PrismaExn ''Invalid Date'') w
      | Some d \<Rightarrow>
          let since = now - d * day; delivered = telegram_deliveries protocolId since True w; failed = telegram_deliveries protocolId since False w;
              clicks = clicks_since protocolId since w
          in ok \<lparr>tf_subscribers = count_rows (\<lambda>r. is_active_in protocolId r \<and> ''telegram'' \<in> set (su_channels r)) (w_audience w),
                 tf_sent = delivered + failed, tf_delivered = delivered, tf_failed = failed, tf_deliveryRate = percent2 delivered (delivered + failed),
                 tf_clicks = length clicks, tf_clickRate = percent2 (length clicks) delivered, tf_topLinks = top_links clicks\<rparr> w)"


section \<open>Facts\<close>

lemma count_rows_disjoint:
  assumes "\<And>r. \<not> (a r \<and> b r)"
  shows "count_rows (\<lambda>r. s r \<and> a r) rows + count_rows (\<lambda>r. s r \<and> b r) rows = count_rows (\<lambda>r. s r \<and> (a r \<or> b r)) rows"
  using assms unfolding count_rows_def by (induction rows) auto

lemma count_rows_mono: "(\<And>r. p r \<Longrightarrow> q r) \<Longrightarrow> count_rows p rows \<le> count_rows q rows"
  unfolding count_rows_def by (induction rows) auto

lemma ratio_bounds: "n \<le> m \<Longrightarrow> 0 \<le> ratio n m \<and> ratio n m \<le> 1"
  by (simp add: ratio_def divide_le_eq_1)

text \<open>The delivery figures are consistent: the delivered, failed and opted-out sends are different ones of the
  total, so they sum to the total at most (queued, running and partial sends are in none of them), and every rate lies
  between 0 and 1.\<close>

theorem delivery_figures_consistent:
  "let f = delivery_figures_of pid since w
   in df_delivered f + df_failed f + df_opted_out f \<le> df_total_sends f
     \<and> df_delivery_rate f + df_failure_rate f + df_opted_out_rate f \<le> 1
     \<and> (\<forall>r \<in> {df_delivery_rate f, df_failure_rate f, df_opted_out_rate f, df_bounce_rate f}. 0 \<le> r \<and> r \<le> 1)"
proof -
  let ?s = "\<lambda>q. count_rows (\<lambda>n. sent_since pid since n \<and> q n) (w_notifications w)"
  let ?t = "?s (\<lambda>_. True)" and ?d = "?s (\<lambda>n. nt_status n = ''delivered'')" and ?f = "?s (\<lambda>n. nt_status n = ''failed'')"
  let ?o = "?s (\<lambda>n. nt_status n = ''opted_out'')" and ?b = "?s nt_bounce"
  have "?d + ?f = ?s (\<lambda>n. nt_status n = ''delivered'' \<or> nt_status n = ''failed'')"
    by (rule count_rows_disjoint) auto
  moreover have "?s (\<lambda>n. nt_status n = ''delivered'' \<or> nt_status n = ''failed'') + ?o =
      ?s (\<lambda>n. (nt_status n = ''delivered'' \<or> nt_status n = ''failed'') \<or> nt_status n = ''opted_out'')"
    by (rule count_rows_disjoint) auto
  moreover have "?s q \<le> ?t" for q by (rule count_rows_mono) simp
  ultimately have sum: "?d + ?f + ?o \<le> ?t" by simp
  then have "?d \<le> ?t" "?f \<le> ?t" "?o \<le> ?t" "?b \<le> ?t" by (auto intro: count_rows_mono)
  note bounds = this [THEN ratio_bounds]
  have "ratio ?d ?t + ratio ?f ?t + ratio ?o ?t = ratio (?d + ?f + ?o) ?t"
    by (simp add: ratio_def add_divide_distrib)
  then have "ratio ?d ?t + ratio ?f ?t + ratio ?o ?t \<le> 1" using ratio_bounds [OF sum] by simp
  then show ?thesis using sum bounds by (simp add: delivery_figures_of_def Let_def)
qed

lemma usage_limit_tier: "usage_limit t = tl_sendsPerMonth (getTierLimits t)"
  by (simp add: usage_limit_def getTierLimits_def TIER_LIMITS_def js_simps
      tier_developer_def tier_growth_def tier_scale_def tier_enterprise_def)


lemma count_key_fst: "fst ` set (count_key k m) = insert k (fst ` set m)"
  by (induction k m rule: count_key.induct) auto

lemma count_key_distinct: "distinct (map fst m) \<Longrightarrow> distinct (map fst (count_key k m))"
  by (induction k m rule: count_key.induct) (auto simp: count_key_fst image_iff)

lemma fold_count_key_distinct: "distinct (map fst m) \<Longrightarrow> distinct (map fst (fold (\<lambda>r. count_key (g r)) rows m))"
  by (induction rows arbitrary: m) (simp_all add: count_key_distinct)

text \<open>The trend has each day once, in order, and counts every registration of the period.\<close>

lemma trend_complete:
  "sorted (map fst (registration_trend isoDay since pid w)) \<and> distinct (map fst (registration_trend isoDay since pid w))
    \<and> sum_list (map snd (registration_trend isoDay since pid w))
      = count_rows (\<lambda>r. su_protocolId r = pid \<and> since \<le> su_subscribedAt r) (w_audience w)"
proof -
  let ?rows = "sort_key su_subscribedAt (filter (\<lambda>r. su_protocolId r = pid \<and> since \<le> su_subscribedAt r) (w_audience w))"
  let ?m = "fold (\<lambda>r. count_key (isoDay (su_subscribedAt r))) ?rows []"
  have "distinct (map fst (sort_key fst ?m)) = distinct (map fst ?m)"
    by (simp add: distinct_map)
  moreover have "sum_list (map snd (sort_key fst ?m)) = sum_list (map snd ?m)"
    by (simp flip: sum_mset_sum_list)
  ultimately show ?thesis
    using fold_count_key_distinct [of "[]" "\<lambda>r. isoDay (su_subscribedAt r)" ?rows]
    by (simp add: registration_trend_def fold_count_key_sum count_rows_def)
qed

text \<open>A reached wallet need not be a subscriber, so the retention has no bound.\<close>

lemma retention_over_hundred:
  assumes "as_totalSubscribers (getAudienceStats isoDay now pid w) = 1" "length (recently_notified (now - 30 * day) pid w) = 3"
  shows "af_retentionRate (getAudienceAnalytics isoDay now pid w) = 300"
  using assms by (simp add: getAudienceAnalytics_def percent0_def round_div_def Let_def)

text \<open>Telegram's clicks are stored without the link, so the list of top links is always empty.\<close>

definition clicks_without_links :: "'r world \<Rightarrow> bool" where
  "clicks_without_links w = (\<forall>g \<in> set (w_engagements w). ng_eventType g = ''tg_click'' \<longrightarrow> ng_linkUrl g = None)"

lemma no_top_links: "clicks_without_links w \<Longrightarrow> top_links (clicks_since pid since w) = []"
proof -
  assume "clicks_without_links w"
  then have "List.map_filter ng_linkUrl (clicks_since pid since w) = []"
    by (auto simp: clicks_without_links_def clicks_since_def List.map_filter_def filter_empty_conv)
  then show ?thesis by (simp add: top_links_def)
qed

lemma recordEngagement_links:
  "clicks_without_links w \<Longrightarrow> kind \<noteq> ''tg_click'' \<Longrightarrow> clicks_without_links (snd (recordEngagement now i pid kind url w))"
  by (auto simp: clicks_without_links_def recordEngagement_def throw_def ok_def)


definition sample_caller :: auth_protocol where
  "sample_caller = \<lparr>ap_protocolId = ''p1'', ap_protocolPubkey = ''K'', ap_apiKeyId = ''k1'', ap_tier = 1, ap_scopes = [],
     ap_environment = ''production'', ap_isActive = True, ap_sendsThisPeriod = Some 0, ap_name = None, ap_overageEnabled = Some False,
     ap_isTestKey = None, ap_testKeyType = None, ap_verificationStatus = None\<rparr>"


end
