(* ===== verification/Playground.thy ===== *)
theory Playground
  imports Notify
begin

text \<open>
  \<open>sandbox/sandbox.controller.ts\<close>: the playground endpoint \<open>POST /v1/sandbox/send\<close>, which sends a test message to
  the test contacts of the protocol's settings under its own daily limit. Its counters are those of
  \<open>Sandbox\<close>; the facts show that the endpoint spends them the way the quota interface there demands.
\<close>

section \<open>The endpoint\<close>

record playground_dto =
  pg_subject :: string
  pg_body :: string
  pg_category :: "string option"
  pg_preferred_channel :: "channel option"

record playground_answer =
  pa_notification_id :: string
  pa_status :: string
  pa_error_code :: "string option"
  pa_email :: "string option"
  pa_telegram :: "string option"
  pa_sms :: "string option"
  pa_remaining_today :: int
  pa_daily_limit :: int

definition playground_hash :: "(string \<Rightarrow> string) \<Rightarrow> auth_protocol \<Rightarrow> string" where
  "playground_hash sha p = sha (''playground:'' @ ap_protocolId p)"

definition playground_row :: "(string \<Rightarrow> string) \<Rightarrow> string \<Rightarrow> millis \<Rightarrow> playground_dto \<Rightarrow> auth_protocol \<Rightarrow> notification" where
  "playground_row sha i now dto p = (new_notification i (ap_protocolId p) (playground_hash sha p) (sha (pg_subject dto)) ''queued''
     (nullish (pg_category dto) ''defi'') now)\<lparr>nt_writeReceipt := False\<rparr>"

definition playground_job :: "(string \<Rightarrow> string) \<Rightarrow> string \<Rightarrow> playground_dto \<Rightarrow> auth_protocol \<Rightarrow> channels \<Rightarrow> job_data" where
  "playground_job sha i dto p contact =
     \<lparr>jd_notificationId = i, jd_protocolId = ap_protocolId p, jd_protocolPubkey = ap_protocolPubkey p,
      jd_protocolName = nullish (ap_name p) ''Unknown Protocol'', jd_wallet = ''sandbox-playground'',
      jd_walletHash = Some (playground_hash sha p), jd_subject = ''[HERALD TEST] '' @ pg_subject dto, jd_body = pg_body dto,
      jd_category = nullish (pg_category dto) ''defi'', jd_writeReceipt = False, jd_digestMode = False, jd_priority = Some Normal,
      jd_channels = None, jd_excludedChannels = None, jd_preferredChannel = pg_preferred_channel dto, jd_isSandbox = Some True,
      jd_testContact = Some contact, jd_tier = Some (ap_tier p), jd_templateId = None, jd_telegramTemplateId = None,
      jd_templateVariables = None\<rparr>"

definition test_contact_of :: "protocol_settings option \<Rightarrow> channels" where
  "test_contact_of s = no_channels\<lparr>ch_email := Option.bind s ps_testEmail, ch_telegramChatId := Option.bind s ps_testTelegramId,
     ch_phone := Option.bind s ps_testPhone\<rparr>"

definition has_contact :: "channels \<Rightarrow> bool" where
  "has_contact c = (truthy (ch_email c) \<or> truthy (ch_telegramChatId c) \<or> truthy (ch_phone c))"

definition playground_answer_of :: "string \<Rightarrow> string \<Rightarrow> string option \<Rightarrow> channels \<Rightarrow> int \<Rightarrow> int \<Rightarrow> playground_answer" where
  "playground_answer_of i status code c remaining limit = \<lparr>pa_notification_id = i, pa_status = status, pa_error_code = code,
     pa_email = (if truthy (ch_email c) then Some (maskEmail (the (ch_email c))) else None),
     pa_telegram = (if truthy (ch_telegramChatId c) then Some ''configured'' else None),
     pa_sms = (if truthy (ch_phone c) then Some (maskPhone (the (ch_phone c))) else None),
     pa_remaining_today = remaining, pa_daily_limit = limit\<rparr>"

definition sendTest ::
  "'r redis_api \<Rightarrow> (string \<Rightarrow> string) \<Rightarrow> add_outcome \<Rightarrow> millis \<Rightarrow> string \<Rightarrow> playground_dto \<Rightarrow> auth_protocol
     \<Rightarrow> 'r world \<Rightarrow> (playground_answer, 'r world) handled" where
  "sendTest R sha outcome now i dto p w =
     (if ap_environment p \<noteq> ''sandbox'' then throw (HttpExn 403 ''SANDBOX_ENDPOINT_REQUIRES_SANDBOX_KEY'') w
      else and_then (checkPlaygroundLimit R now (ap_apiKeyId p) w) (\<lambda>(allowed, remaining, limit) w1.
        if \<not> allowed then throw (HttpExn 429 ''PLAYGROUND_LIMIT_EXCEEDED'') w1
        else let contact = test_contact_of (settings_of (ap_protocolId p) w1)
          in if \<not> has_contact contact then throw (HttpExn 400 ''SANDBOX_NO_TEST_CONTACT'') w1
             else and_then (create_notification (playground_row sha i now dto p) w1) (\<lambda>_ w2.
               case enqueueNotification outcome (playground_job sha i dto p contact) w2 of
                 (Inl _, w3) \<Rightarrow> ok (playground_answer_of i ''failed'' (Some ''ENQUEUE_FAILED'') contact remaining limit) (mark_enqueue_failed i w3)
               | (Inr _, w3) \<Rightarrow>
                   let w4 = snd (swallow (recordSandboxReceipt now (ap_apiKeyId p) (Some i) (playground_hash sha p)
                     (Some (''[HERALD TEST] '' @ pg_subject dto)) (Some ''queued'') None
                     (Some (case pg_preferred_channel dto of None \<Rightarrow> ''email'' | Some c \<Rightarrow> channel_name c)) w3))
                   in and_then (incrementPlaygroundUsage R now (ap_apiKeyId p) w4) (\<lambda>_.
                     ok (playground_answer_of i ''queued'' None contact (remaining - 1) limit)))))"

section \<open>The endpoint spends the quota\<close>

lemma playground_limit_read:
  assumes "playground_used R k w t0 d n" "t0 \<le> t" "t div DAY_MS = d"
  shows "checkPlaygroundLimit R t k w = (Inr (n < PLAYGROUND_DAILY_LIMIT, max 0 (PLAYGROUND_DAILY_LIMIT - n), PLAYGROUND_DAILY_LIMIT), w)"
  using assms day_count_read [of R "w_redis w" "PLAYGROUND_DAILY_KEY k" t0 d n t]
  by (simp add: playground_used_def checkPlaygroundLimit_def getPlaygroundTodayCount_def read_count_def flow_simps Let_def)
    (simp add: max_def)

definition accepted :: "exn + playground_answer \<Rightarrow> bool" where
  "accepted r = (case r of Inr a \<Rightarrow> pa_status a = ''queued'' | Inl _ \<Rightarrow> False)"

text \<open>A request as a gate: the queue takes the job, and \<open>uuids\<close> are the ids the requests draw.\<close>

definition endpoint_gate ::
  "'r redis_api \<Rightarrow> (string \<Rightarrow> string) \<Rightarrow> (nat \<Rightarrow> string) \<Rightarrow> playground_dto \<Rightarrow> auth_protocol \<Rightarrow> millis \<Rightarrow> 'r world \<Rightarrow> (bool, 'r world) handled" where
  "endpoint_gate R sha uuids dto p t w =
     (let (r, w') = sendTest R sha Added t (uuids (length (w_notifications w))) dto p w in (Inr (accepted r), w'))"

definition endpoint_ready :: "(nat \<Rightarrow> string) \<Rightarrow> auth_protocol \<Rightarrow> 'r world \<Rightarrow> bool" where
  "endpoint_ready uuids p w \<longleftrightarrow> ap_environment p = ''sandbox'' \<and> inj uuids
     \<and> has_contact (test_contact_of (settings_of (ap_protocolId p) w))
     \<and> (\<forall>m \<in> set (w_notifications w). \<exists>j < length (w_notifications w). nt_id m = uuids j)"

definition endpoint_used :: "'r redis_api \<Rightarrow> (nat \<Rightarrow> string) \<Rightarrow> auth_protocol \<Rightarrow> 'r world \<Rightarrow> millis \<Rightarrow> int \<Rightarrow> int \<Rightarrow> bool" where
  "endpoint_used R uuids p w t0 d n \<longleftrightarrow> endpoint_ready uuids p w \<and> playground_used R (ap_apiKeyId p) w t0 d n"

lemma fresh_uuid:
  assumes "endpoint_ready uuids p w"
  shows "\<not> key_taken w (playground_row sha (uuids (length (w_notifications w))) t dto p)"
proof -
  have "nt_id m \<noteq> uuids (length (w_notifications w))" if "m \<in> set (w_notifications w)" for m
    using assms that by (fastforce simp: endpoint_ready_def dest: injD)
  then show ?thesis by (auto simp: key_taken_def exists_row_iff playground_row_def new_notification_def)
qed

lemma endpoint_full:
  assumes "endpoint_used R uuids p w t0 d n" "t0 \<le> t" "t div DAY_MS = d" "PLAYGROUND_DAILY_LIMIT \<le> n"
  shows "endpoint_gate R sha uuids dto p t w = (Inr False, w)"
proof -
  have used: "playground_used R (ap_apiKeyId p) w t0 d n" and env: "ap_environment p = ''sandbox''"
    using assms(1) by (simp_all add: endpoint_used_def endpoint_ready_def)
  show ?thesis
    using playground_limit_read [OF used assms(2,3)] assms(4) env
    by (simp add: endpoint_gate_def sendTest_def accepted_def throw_def)
qed

lemma endpoint_open:
  assumes "endpoint_used R uuids p w t0 d n" "t0 \<le> t" "t div DAY_MS = d" "n < PLAYGROUND_DAILY_LIMIT"
  shows "\<exists>job receipts. endpoint_gate R sha uuids dto p t w = (Inr True,
    w\<lparr>w_notifications := w_notifications w @ [playground_row sha (uuids (length (w_notifications w))) t dto p],
      w_notificationJobs := w_notificationJobs w @ [job], w_sandboxReceipts := receipts,
      w_redis := bump_store R t (PLAYGROUND_DAILY_KEY (ap_apiKeyId p)) (until_midnight t) (w_redis w)\<rparr>)"
proof -
  have used: "playground_used R (ap_apiKeyId p) w t0 d n" and ready: "endpoint_ready uuids p w"
    using assms(1) by (simp_all add: endpoint_used_def)
  have up: "w_redisUp w" using used by (simp add: playground_used_def)
  show ?thesis
    using playground_limit_read [OF used assms(2,3)] assms(4) ready up fresh_uuid [OF ready, of sha t dto]
    by (simp add: endpoint_gate_def sendTest_def accepted_def endpoint_ready_def create_notification_def enqueueNotification_def
        add_job_def recordSandboxReceipt_def swallow_def incrementPlaygroundUsage_def bump_count_def playground_answer_of_def flow_simps Let_def)
      (intro exI, rule refl)
qed

sublocale redis_service \<subseteq> endpoint: quota_gate "endpoint_gate R sha uuids dto p" "endpoint_used R uuids p" PLAYGROUND_DAILY_LIMIT
  for sha uuids dto p
proof (unfold_locales, goal_cases)
  case (1 w t0 d n t)
  let ?i = "uuids (length (w_notifications w))"
  obtain job receipts where step: "endpoint_gate R sha uuids dto p t w = (Inr True,
    w\<lparr>w_notifications := w_notifications w @ [playground_row sha ?i t dto p],
      w_notificationJobs := w_notificationJobs w @ [job], w_sandboxReceipts := receipts,
      w_redis := bump_store R t (PLAYGROUND_DAILY_KEY (ap_apiKeyId p)) (until_midnight t) (w_redis w)\<rparr>)"
    using endpoint_open [OF 1(1,3,4,5), of sha dto] by blast
  have ids: "\<exists>j < Suc (length (w_notifications w)). nt_id m = uuids j"
    if "m \<in> set (w_notifications w @ [playground_row sha ?i t dto p])" for m
    using 1(1) that by (fastforce simp: endpoint_used_def endpoint_ready_def playground_row_def new_notification_def less_Suc_eq)
  show ?case
    unfolding step using 1 ids bump_day [of "w_redis w" "PLAYGROUND_DAILY_KEY (ap_apiKeyId p)" t0 d n t]
    by (auto simp: endpoint_used_def endpoint_ready_def playground_used_def settings_of_def)
next
  case (2 w t0 d n t)
  have "endpoint_used R uuids p w t d n"
    using 2 day_count_later by (auto simp: endpoint_used_def playground_used_def)
  then show ?case using endpoint_full [OF 2(1,3,4,5)] by blast
qed

context redis_service begin

lemma endpoint_day:
  "endpoint_used R uuids p w 0 d 0 \<Longrightarrow> sorted ts \<Longrightarrow> \<forall>t \<in> set ts. 0 \<le> t \<and> t div DAY_MS = d \<Longrightarrow>
     gate_run (endpoint_gate R sha uuids dto p) w ts = map (\<lambda>j. int j < PLAYGROUND_DAILY_LIMIT) [0..<length ts]"
  by (rule endpoint.run_day)

end

text \<open>C20: The playground endpoint sends 25 messages a day. With test contacts configured, a queue that takes the jobs and no
  sends of the day on record, the requests of one sandbox key in one UTC day are queued exactly up to the
  twenty-fifth and refused after it.\<close>

theorem playground_endpoint_exact:
  assumes redis: "redis_service R" "w_redisUp w"
    and ready: "endpoint_ready uuids p w"
    and unused: "\<forall>t. 0 \<le> t \<and> t div DAY_MS = d \<longrightarrow> r_get R (w_redis w) t (PLAYGROUND_DAILY_KEY (ap_apiKeyId p)) = None"
    and times: "sorted ts" "\<forall>t \<in> set ts. 0 \<le> t \<and> t div DAY_MS = d"
  shows "gate_run (endpoint_gate R sha uuids dto p) w ts = map (\<lambda>j. j < 25) [0..<length ts]"
proof -
  have "endpoint_used R uuids p w 0 d 0"
    using assms by (simp add: endpoint_used_def playground_used_def day_count_def)
  from redis_service.endpoint_day [OF redis(1) this times, of sha dto] show ?thesis
    by (simp add: PLAYGROUND_DAILY_LIMIT_def)
qed


definition sample_tester :: auth_protocol where
  "sample_tester = \<lparr>ap_protocolId = ''p1'', ap_protocolPubkey = ''K'', ap_apiKeyId = ''k1'', ap_tier = 0, ap_scopes = [],
     ap_environment = ''sandbox'', ap_isActive = True, ap_sendsThisPeriod = None, ap_name = None, ap_overageEnabled = None,
     ap_isTestKey = Some True, ap_testKeyType = None, ap_verificationStatus = None\<rparr>"

definition sample_lab :: "keyspace world" where
  "sample_lab = (empty_world Map.empty)\<lparr>w_settings := [\<lparr>ps_protocolId = ''p1'', ps_customFromName = None, ps_websiteUrl = None,
     ps_testEmail = Some ''dev@p1.io'', ps_testTelegramId = None, ps_testPhone = None, ps_trackEngagement = False,
     ps_telegramBotTokenEncrypted = None, ps_telegramBotUsername = None, ps_telegramGroupChatId = None,
     ps_telegramThreadIds = None, ps_telegramAutoPinEnabled = False, ps_telegramWelcomeMessage = None,
     ps_telegramGroupMemberCount = None, ps_telegramMemberCountAt = None, ps_telegramMigrationSentAt = None\<rparr>]\<rparr>"

theorem playground_endpoint_exact_witness:
  "gate_run (endpoint_gate mem_redis id (\<lambda>n. replicate n CHR ''x'') \<lparr>pg_subject = ''s'', pg_body = ''b'', pg_category = None, pg_preferred_channel = None\<rparr>
     sample_tester) sample_lab (map int [0..<30]) = map (\<lambda>j. j < 25) [0..<30]"
proof -
  have "endpoint_ready (\<lambda>n. replicate n CHR ''x'') sample_tester sample_lab"
    by (auto simp: endpoint_ready_def sample_tester_def sample_lab_def empty_world_def settings_of_def test_contact_of_def has_contact_def
        no_channels_def intro: injI)
  moreover have "w_redisUp sample_lab" by (simp add: sample_lab_def empty_world_def)
  moreover have "sorted (map int [0..<30])" "\<forall>t \<in> set (map int [0..<30]). 0 \<le> t \<and> t div DAY_MS = 0"
    by (simp_all add: DAY_MS_def upt_rec)
  ultimately show ?thesis
    using playground_endpoint_exact [OF mem.redis_service_axioms, of sample_lab "\<lambda>n. replicate n CHR ''x''" sample_tester 0 "map int [0..<30]"]
    by (simp add: sample_lab_def empty_world_def mem_redis_def mem_get_def)
qed

end
