(* ===== verification/Portal.thy ===== *)
theory Portal
  imports Audience Unsubscribe Markdown
begin

text \<open>
  The handlers of the user portal and of the subscription endpoints: \<open>subscriptions/portal-subscriptions.controller.ts\<close>
  with the preferences per protocol, \<open>subscriptions/subscriptions.controller.ts\<close> and \<open>notify/unsubscribe.controller.ts\<close>,
  whose pages are given by their kind and the texts put into them. The wallet hash is the one \<open>PortalAuthGuard\<close> found.
\<close>

section \<open>Subscriptions of the portal\<close>

definition portal_list :: "string \<Rightarrow> 'r world \<Rightarrow> user_subscription list" where
  "portal_list walletHash w = getUserSubscriptions walletHash w"

text \<open>A new row has no address and no channels; a protocol that does not exist is refused by the database.\<close>

definition portal_subscribe :: "millis \<Rightarrow> string \<Rightarrow> string \<Rightarrow> 'r world \<Rightarrow> (unit, 'r world) handled" where
  "portal_subscribe now walletHash protocolId w =
     (if exists_row (is_member walletHash protocolId) (w_audience w)
      then ok () (w\<lparr>w_audience := updateMany (is_member walletHash protocolId) (\<lambda>r. r\<lparr>su_status := ''active'', su_updatedAt := now\<rparr>) (w_audience w)\<rparr>)
      else if \<not> exists_row (\<lambda>p. pr_id p = protocolId) (w_protocols w) then throw (PrismaExn ''P2003'') w
      else ok () (w\<lparr>w_audience := w_audience w @ [\<lparr>su_walletPubkey = None, su_walletHash = walletHash, su_protocolId = protocolId,
             su_channels = [], su_status = ''active'', su_source = ''join_link'', su_subscribedAt = now, su_updatedAt = now\<rparr>]\<rparr>))"

definition portal_unsubscribe :: "millis \<Rightarrow> string \<Rightarrow> string \<Rightarrow> 'r world \<Rightarrow> (unit, 'r world) handled" where
  "portal_unsubscribe now walletHash protocolId w = unsubscribe now walletHash protocolId w"

definition portal_resubscribe :: "millis \<Rightarrow> string \<Rightarrow> string \<Rightarrow> 'r world \<Rightarrow> (unit, 'r world) handled" where
  "portal_resubscribe now walletHash protocolId w = resubscribe now walletHash protocolId w"

section \<open>Preferences per protocol\<close>

record preferences =
  rf_optInDefi :: "bool option"
  rf_optInGovernance :: "bool option"
  rf_optInMarketing :: "bool option"
  rf_optInSystem :: "bool option"
  rf_channels :: "string list"

text \<open>A field that is left out stays as it is; \<open>null\<close> takes an override back.\<close>

record preferences_dto =
  pd_optInDefi :: "bool option option"
  pd_optInGovernance :: "bool option option"
  pd_optInMarketing :: "bool option option"
  pd_optInSystem :: "bool option option"
  pd_channels :: "string list option"

definition preference_of :: "string \<Rightarrow> string \<Rightarrow> 'r world \<Rightarrow> protocol_preference option" where
  "preference_of walletHash protocolId w =
     List.find (\<lambda>f. pf_walletHash f = walletHash \<and> pf_protocolId f = protocolId) (w_preferences w)"

definition shown :: "protocol_preference \<Rightarrow> preferences" where
  "shown f = \<lparr>rf_optInDefi = pf_optInDefi f, rf_optInGovernance = pf_optInGovernance f, rf_optInMarketing = pf_optInMarketing f,
     rf_optInSystem = pf_optInSystem f, rf_channels = pf_channels f\<rparr>"

definition inherited :: preferences where
  "inherited = \<lparr>rf_optInDefi = None, rf_optInGovernance = None, rf_optInMarketing = None, rf_optInSystem = None, rf_channels = []\<rparr>"

definition getPreferences :: "string \<Rightarrow> string \<Rightarrow> 'r world \<Rightarrow> preferences" where
  "getPreferences walletHash protocolId w = (case preference_of walletHash protocolId w of None \<Rightarrow> inherited | Some f \<Rightarrow> shown f)"

definition apply_dto :: "preferences_dto \<Rightarrow> protocol_preference \<Rightarrow> protocol_preference" where
  "apply_dto d f = f\<lparr>pf_optInDefi := nullish (pd_optInDefi d) (pf_optInDefi f), pf_optInGovernance := nullish (pd_optInGovernance d) (pf_optInGovernance f),
     pf_optInMarketing := nullish (pd_optInMarketing d) (pf_optInMarketing f), pf_optInSystem := nullish (pd_optInSystem d) (pf_optInSystem f),
     pf_channels := nullish (pd_channels d) (pf_channels f)\<rparr>"

definition new_preference :: "string \<Rightarrow> string \<Rightarrow> preferences_dto \<Rightarrow> protocol_preference" where
  "new_preference walletHash protocolId d = \<lparr>pf_walletHash = walletHash, pf_protocolId = protocolId,
     pf_optInDefi = nullish (pd_optInDefi d) None, pf_optInGovernance = nullish (pd_optInGovernance d) None,
     pf_optInMarketing = nullish (pd_optInMarketing d) None, pf_optInSystem = nullish (pd_optInSystem d) None,
     pf_channels = nullish (pd_channels d) []\<rparr>"

text \<open>The row refers to the portal's user and to the protocol.\<close>

definition updatePreferences :: "string \<Rightarrow> string \<Rightarrow> preferences_dto \<Rightarrow> 'r world \<Rightarrow> (preferences, 'r world) handled" where
  "updatePreferences walletHash protocolId d w =
     (case preference_of walletHash protocolId w of
        Some f \<Rightarrow> ok (shown (apply_dto d f)) (w\<lparr>w_preferences :=
            updateMany (\<lambda>f. pf_walletHash f = walletHash \<and> pf_protocolId f = protocolId) (apply_dto d) (w_preferences w)\<rparr>)
      | None \<Rightarrow>
          if \<not> exists_row (\<lambda>u. pu_walletHash u = walletHash) (w_portalUsers w) \<or> \<not> exists_row (\<lambda>p. pr_id p = protocolId) (w_protocols w)
          then throw (PrismaExn ''P2003'') w
          else let f = new_preference walletHash protocolId d in ok (shown f) (w\<lparr>w_preferences := w_preferences w @ [f]\<rparr>))"

section \<open>Subscriptions by API key and by the join flow\<close>

definition api_subscribe ::
  "(string \<Rightarrow> string) \<Rightarrow> millis \<Rightarrow> string \<Rightarrow> string list option \<Rightarrow> auth_protocol \<Rightarrow> 'r world \<Rightarrow> (unit, 'r world) handled" where
  "api_subscribe sha now walletAddress channels p w = subscribe sha now walletAddress (ap_protocolId p) (nullish channels [''email'']) ''api'' w"

definition api_unsubscribe :: "(string \<Rightarrow> string) \<Rightarrow> millis \<Rightarrow> string \<Rightarrow> auth_protocol \<Rightarrow> 'r world \<Rightarrow> (unit, 'r world) handled" where
  "api_unsubscribe sha now walletAddress p w = unsubscribe now (sha walletAddress) (ap_protocolId p) w"

definition api_check :: "(string \<Rightarrow> string) \<Rightarrow> string \<Rightarrow> auth_protocol \<Rightarrow> 'r world \<Rightarrow> (subscription_check, 'r world) handled" where
  "api_check sha walletAddress p w =
     (if walletAddress = [] then throw (HttpExn 400 ''walletAddress is required'') w
      else ok (checkSubscription (sha walletAddress) (ap_protocolId p) w) w)"

definition api_count :: "(millis \<Rightarrow> string) \<Rightarrow> millis \<Rightarrow> auth_protocol \<Rightarrow> 'r world \<Rightarrow> nat \<times> (string \<times> nat) list" where
  "api_count isoDay now p w = (let st = getAudienceStats isoDay now (ap_protocolId p) w in (as_totalSubscribers st, as_byChannel st))"

definition subscribeInternal ::
  "(string \<Rightarrow> string) \<Rightarrow> millis \<Rightarrow> string \<Rightarrow> string \<Rightarrow> string list option \<Rightarrow> string option \<Rightarrow> 'r world \<Rightarrow> (unit, 'r world) handled" where
  "subscribeInternal sha now walletPubkey protocolId channels source w =
     (if exists_row (is_member (sha walletPubkey) protocolId) (w_audience w) \<or> exists_row (\<lambda>p. pr_id p = protocolId) (w_protocols w)
      then subscribe sha now walletPubkey protocolId (nullish channels [''email'']) (nullish source ''join_link'') w
      else throw (PrismaExn ''P2003'') w)"

section \<open>The pages behind an unsubscribe link\<close>

datatype unsubscribe_page = ErrorPage string | ConfirmPage string string | SuccessPage string

definition category_label :: "string option \<Rightarrow> string" where
  "category_label category =
     (if \<not> truthy category \<or> category = Some ''all'' then ''all notifications'' else escapeHtml (the category) @ '' notifications'')"

definition broken_link :: string where "broken_link = ''This unsubscribe link is invalid or has expired.''"

definition showConfirmation :: "unsubscribe_env \<Rightarrow> millis \<Rightarrow> string \<Rightarrow> int \<times> unsubscribe_page" where
  "showConfirmation U now token =
     (case decodeToken U now token of
        None \<Rightarrow> (400, ErrorPage broken_link)
      | Some p \<Rightarrow> (200, ConfirmPage token (category_label (up_category p))))"

definition executeUnsubscribeLink :: "unsubscribe_env \<Rightarrow> millis \<Rightarrow> string \<Rightarrow> 'r world \<Rightarrow> (int \<times> unsubscribe_page) \<times> 'r world" where
  "executeUnsubscribeLink U now token w =
     (case validateAndExecute U now token w of
        (Refused e, w1) \<Rightarrow> ((400, ErrorPage (js_or (Some e) broken_link)), w1)
      | (Unsubscribed p, w1) \<Rightarrow> ((200, SuccessPage (category_label (up_category p))), w1))"

section \<open>Facts\<close>

lemma find_member_none: "\<not> exists_row (is_member h pid) rows \<longleftrightarrow> List.find (is_member h pid) rows = None"
  by (simp add: exists_row_def)

text \<open>C21: Whoever subscribes in the portal is counted but never reached. For a wallet that was no member, the subscription of
  the portal counts as active and adds one to the subscribers, yet the targets of a broadcast stay what they were, since the
  row has no address; neither unsubscribing and resubscribing nor subscribing there again changes that.\<close>

theorem portal_subscriber_unreachable:
  assumes new: "\<not> exists_row (is_member h pid) (w_audience w)" and subscribed: "portal_subscribe now h pid w = (Inr u, w1)"
  shows "sk_isSubscribed (checkSubscription h pid w1) \<and> getSubscriberCount pid w1 = getSubscriberCount pid w + 1
    \<and> getBroadcastTargets pid w1 = getBroadcastTargets pid w
    \<and> getBroadcastTargets pid (snd (resubscribe t' h pid (snd (unsubscribe t h pid w1)))) = getBroadcastTargets pid w
    \<and> getBroadcastTargets pid (snd (portal_subscribe t h pid w1)) = getBroadcastTargets pid w"
proof -
  let ?r = "\<lambda>s t. \<lparr>su_walletPubkey = None, su_walletHash = h, su_protocolId = pid, su_channels = [], su_status = s,
    su_source = ''join_link'', su_subscribedAt = now, su_updatedAt = t\<rparr>"
  have w1: "w1 = w\<lparr>w_audience := w_audience w @ [?r ''active'' now]\<rparr>"
    using subscribed new by (auto simp: portal_subscribe_def ok_def throw_def split: if_splits)
  have old: "updateMany (is_member h pid) f (w_audience w) = w_audience w" for f
    using new by (intro updateMany_none) (simp add: exists_row_iff)
  have mem: "is_member h pid (?r s t)" for s t by (simp add: is_member_def)
  have none: "List.find (is_member h pid) (w_audience w) = None" using new by (simp add: exists_row_def)
  have targets: "getBroadcastTargets pid (w\<lparr>w_audience := w_audience w @ [?r s t]\<rparr>) = getBroadcastTargets pid w" for s t
    by (simp add: getBroadcastTargets_def)
  have found: "sk_isSubscribed (checkSubscription h pid w1)"
    by (simp add: w1 checkSubscription_def find_append none is_member_def)
  have count: "getSubscriberCount pid w1 = getSubscriberCount pid w + 1"
    by (simp add: w1 getSubscriberCount_def count_rows_def is_active_in_def)
  have again: "exists_row (is_member h pid) (w_audience w1)" by (simp add: w1 exists_row_iff is_member_def)
  show ?thesis
    using found count targets again
    by (simp add: w1 unsubscribe_def resubscribe_def portal_subscribe_def ok_def old mem)
qed

lemma shown_apply: "shown (apply_dto d f) = \<lparr>rf_optInDefi = nullish (pd_optInDefi d) (rf_optInDefi (shown f)),
     rf_optInGovernance = nullish (pd_optInGovernance d) (rf_optInGovernance (shown f)),
     rf_optInMarketing = nullish (pd_optInMarketing d) (rf_optInMarketing (shown f)),
     rf_optInSystem = nullish (pd_optInSystem d) (rf_optInSystem (shown f)), rf_channels = nullish (pd_channels d) (rf_channels (shown f))\<rparr>"
  by (simp add: shown_def apply_dto_def)

text \<open>What is saved is what is shown: an update answers the preferences read afterwards, which are those from before with the
  given fields replaced, and no other wallet or protocol is touched.\<close>

lemma preferences_roundtrip:
  assumes "updatePreferences h pid d w = (Inr f, w1)"
  shows "getPreferences h pid w1 = f \<and> rf_optInDefi f = nullish (pd_optInDefi d) (rf_optInDefi (getPreferences h pid w))
    \<and> rf_channels f = nullish (pd_channels d) (rf_channels (getPreferences h pid w))
    \<and> (h' \<noteq> h \<or> pid' \<noteq> pid \<longrightarrow> getPreferences h' pid' w1 = getPreferences h' pid' w)"
proof (cases "preference_of h pid w")
  case None
  then have w1: "w1 = w\<lparr>w_preferences := w_preferences w @ [new_preference h pid d]\<rparr>" "f = shown (new_preference h pid d)"
    using assms by (auto simp: updatePreferences_def ok_def throw_def Let_def split: if_splits)
  show ?thesis
    using None unfolding w1 by (auto simp: getPreferences_def preference_of_def find_append new_preference_def shown_def inherited_def split: option.splits)
next
  case (Some g)
  let ?p = "\<lambda>h pid f. pf_walletHash f = h \<and> pf_protocolId f = pid"
  have w1: "w1 = w\<lparr>w_preferences := updateMany (?p h pid) (apply_dto d) (w_preferences w)\<rparr>" "f = shown (apply_dto d g)"
    using assms Some by (auto simp: updatePreferences_def ok_def)
  have "List.find (?p h pid) (updateMany (?p h pid) (apply_dto d) (w_preferences w)) = map_option (apply_dto d) (List.find (?p h pid) (w_preferences w))"
    by (rule find_updateMany_same) (simp add: apply_dto_def)
  moreover have "List.find (?p h' pid') (updateMany (?p h pid) (apply_dto d) (w_preferences w)) = List.find (?p h' pid') (w_preferences w)"
    if "h' \<noteq> h \<or> pid' \<noteq> pid"
  proof -
    have "List.find (?p h' pid') (updateMany (?p h pid) (apply_dto d) (w_preferences w)) =
      map_option (\<lambda>r. if ?p h pid r then apply_dto d r else r) (List.find (?p h' pid') (w_preferences w))"
      by (rule find_updateMany_other) (simp add: apply_dto_def)
    moreover have "\<not> ?p h pid r" if "List.find (?p h' pid') (w_preferences w) = Some r" for r
      using find_Some_row [OF that] \<open>h' \<noteq> h \<or> pid' \<noteq> pid\<close> by auto
    ultimately show ?thesis by (cases "List.find (?p h' pid') (w_preferences w)") simp_all
  qed
  ultimately show ?thesis
    using Some unfolding w1 by (simp add: getPreferences_def preference_of_def shown_apply)
qed

text \<open>The texts put into the pages cannot open a tag or end an attribute.\<close>

lemma category_label_inert: "c \<in> {CHR ''<'', CHR ''>'', CHR 0x22, CHR 0x27} \<Longrightarrow> c \<notin> set (category_label category)"
  using escapeHtml_inert [of c "the category"] by (auto simp: category_label_def)

text \<open>A link whose page asks for confirmation works when confirmed at once, unless it was used before.\<close>

lemma confirmed_link_works:
  assumes "showConfirmation U now token = (200, page)" and "\<forall>t \<in> set (w_unsubTokens w). ut_tokenHash t = ue_tokenHash U token \<longrightarrow> ut_usedAt t = None"
  shows "\<exists>label w1. page = ConfirmPage token label \<and> executeUnsubscribeLink U now token w = ((200, SuccessPage label), w1)"
proof -
  obtain p where p: "decodeToken U now token = Some p" "page = ConfirmPage token (category_label (up_category p))"
    using assms(1) by (auto simp: showConfirmation_def split: option.splits)
  have "fst (validateAndExecute U now token w) = Unsubscribed p"
    using p(1) assms(2) by (auto simp: decodeToken_def validateAndExecute_def Let_def dest!: find_Some_row split: list.splits if_splits option.splits)
  then show ?thesis using p(2) by (cases "validateAndExecute U now token w") (simp add: executeUnsubscribeLink_def)
qed


definition sample_directory :: "unit world" where
  "sample_directory = (empty_world ())\<lparr>w_protocols := [\<lparr>pr_id = ''p1'', pr_protocolPubkey = ''K'', pr_nameEncrypted = [], pr_tier = 0,
     pr_isActive = True, pr_isSuspended = False, pr_verificationStatus = ''verified'', pr_sendsThisPeriod = 0, pr_overageEnabled = False,
     pr_periodResetAt = 0\<rparr>]\<rparr>"

theorem portal_subscriber_unreachable_witness:
  "\<exists>w1. portal_subscribe 5 ''h'' ''p1'' sample_directory = (Inr (), w1) \<and> getSubscriberCount ''p1'' w1 = 1 \<and> getBroadcastTargets ''p1'' w1 = []"
proof -
  obtain w1 where s: "portal_subscribe 5 ''h'' ''p1'' sample_directory = (Inr (), w1)"
    by (simp add: portal_subscribe_def sample_directory_def empty_world_def exists_row_iff ok_def)
  have new: "\<not> exists_row (is_member ''h'' ''p1'') (w_audience sample_directory)"
    by (simp add: sample_directory_def empty_world_def exists_row_iff)
  have "getSubscriberCount ''p1'' sample_directory = 0" "getBroadcastTargets ''p1'' sample_directory = []"
    by (simp_all add: sample_directory_def empty_world_def getSubscriberCount_def getBroadcastTargets_def)
  with portal_subscriber_unreachable [OF new s, of 0 0] s show ?thesis by simp
qed

end
