(* ===== verification/Mail_Providers.thy ===== *)
theory Mail_Providers
  imports Domains
begin

text \<open>
  \<open>mail/mail.service.ts\<close> with its three providers (\<open>providers/ses.provider.ts\<close>, \<open>resend.provider.ts\<close>,
  \<open>smtp.provider.ts\<close>) and \<open>mail/ses-identity.service.ts\<close>. The transports (Nodemailer, SES, Resend) are parameters that
  take the message with its final headers; \<open>Dispatch\<close> sees all of it as one parameter.
\<close>

section \<open>The message\<close>

record mail_message =
  mm_email :: email_message
  mm_protocolId :: "string option"

record mail_result =
  mr_messageId :: string
  mr_provider :: string

section \<open>SES and BIMI\<close>

text \<open>\<open>/<([^>]+)>|([^\s]+@[^\s]+)/\<close>: the first place where either alternative matches.\<close>

definition bracketed :: "string \<Rightarrow> string option" where
  "bracketed s = (case s of
       CHR ''<'' # r \<Rightarrow> (let e = takeWhile (\<lambda>c. c \<noteq> CHR ''>'') r in if e \<noteq> [] \<and> e \<noteq> r then Some e else None)
     | _ \<Rightarrow> None)"

definition address_word :: "string \<Rightarrow> string option" where
  "address_word s = (let run = takeWhile (\<lambda>c. \<not> is_space c) s in if CHR ''@'' \<in> set (butlast (tl run)) then Some run else None)"

fun first_address :: "string \<Rightarrow> string option" where
  "first_address [] = None"
| "first_address (c # s) =
     (case bracketed (c # s) of Some e \<Rightarrow> Some e
      | None \<Rightarrow> (case address_word (c # s) of Some e \<Rightarrow> Some e | None \<Rightarrow> first_address s))"

definition from_domain :: "string \<Rightarrow> string option" where
  "from_domain sender = (case split_on (CHR ''@'') (nullish (first_address sender) sender) of
       _ # d # _ \<Rightarrow> (if d = [] then None else Some d)
     | _ \<Rightarrow> None)"

definition herald_domains :: "string set" where
  "herald_domains = {''useherald.xyz'', ''herald.xyz'', ''sandbox.useherald.xyz''}"

definition getBimiConfig :: "string \<Rightarrow> string option \<Rightarrow> 'r world \<Rightarrow> string option" where
  "getBimiConfig sender protocolId w =
     (case from_domain sender of
        None \<Rightarrow> None
      | Some domain \<Rightarrow>
          (case List.find (\<lambda>b. bi_domain b = domain \<and> bi_isVerified b \<and> (truthy protocolId \<longrightarrow> Some (bi_protocolId b) = protocolId)) (w_bimi w) of
             Some b \<Rightarrow> Some (bi_selector b)
           | None \<Rightarrow> if domain \<in> herald_domains then Some ''herald'' else None))"

text \<open>Setting a property of an object: the last value of a name counts, at the place of the first.\<close>

definition set_header :: "string \<Rightarrow> string \<Rightarrow> (string \<times> string) list \<Rightarrow> (string \<times> string) list" where
  "set_header k v hs = (if k \<in> fst ` set hs then map (\<lambda>(j, u). (j, if j = k then v else u)) hs else hs @ [(k, v)])"

definition ses_headers :: "string option \<Rightarrow> mail_message \<Rightarrow> 'r world \<Rightarrow> (string \<times> string) list" where
  "ses_headers configSet m w =
     (let h = em_headers (mm_email m); h1 = (if truthy configSet then set_header ''X-SES-CONFIGURATION-SET'' (the configSet) h else h);
          bimi = getBimiConfig (em_from (mm_email m)) (mm_protocolId m) w
      in if truthy bimi \<and> bimi \<noteq> Some ''default'' then set_header ''BIMI-Selector'' (''v=BIMI1; s='' @ the bimi @ '';'') h1 else h1)"

record transports =
  tr_configSet :: "string option"
  tr_mime :: "email_message \<Rightarrow> exn + string"                     \<comment> \<open>Nodemailer's message id\<close>
  tr_ses :: "email_message \<Rightarrow> exn + string option"
  tr_resendKey :: "string option"
  tr_resend :: "email_message \<Rightarrow> string option \<times> string option"    \<comment> \<open>the id, the error's message\<close>
  tr_smtp :: "email_message \<Rightarrow> exn + string"

definition ses_send :: "transports \<Rightarrow> mail_message \<Rightarrow> 'r world \<Rightarrow> exn + mail_result" where
  "ses_send T m w =
     (let e = (mm_email m)\<lparr>em_headers := ses_headers (tr_configSet T) m w\<rparr>
      in case tr_mime T e of
           Inl x \<Rightarrow> Inl x
         | Inr local_id \<Rightarrow> (case tr_ses T e of
               Inl x \<Rightarrow> Inl x
             | Inr i \<Rightarrow> Inr \<lparr>mr_messageId = nullish i local_id, mr_provider = ''ses''\<rparr>))"

definition resend_send :: "transports \<Rightarrow> mail_message \<Rightarrow> exn + mail_result" where
  "resend_send T m =
     (if \<not> truthy (tr_resendKey T) then Inl (JsError ''Cannot send via Resend: RESEND_API_KEY is not configured'')
      else case tr_resend T (mm_email m) of
        (Some i, None) \<Rightarrow> Inr \<lparr>mr_messageId = i, mr_provider = ''resend''\<rparr>
      | (_, e) \<Rightarrow> Inl (JsError (''Resend send failed: '' @ nullish e ''unknown error'')))"

definition smtp_send :: "transports \<Rightarrow> mail_message \<Rightarrow> exn + mail_result" where
  "smtp_send T m = map_sum id (\<lambda>i. \<lparr>mr_messageId = i, mr_provider = ''smtp''\<rparr>) (tr_smtp T (mm_email m))"

section \<open>The service\<close>

datatype mail_provider = Ses | Resend | Smtp

definition provider_of :: "string option \<Rightarrow> mail_provider" where
  "provider_of mailProvider = (if mailProvider = Some ''ses'' then Ses else if mailProvider = Some ''resend'' then Resend else Smtp)"

definition mail_send :: "mail_provider \<Rightarrow> transports \<Rightarrow> mail_message \<Rightarrow> 'r world \<Rightarrow> exn + mail_result" where
  "mail_send p T m w = (case p of Ses \<Rightarrow> ses_send T m w | Resend \<Rightarrow> resend_send T m | Smtp \<Rightarrow> smtp_send T m)"

section \<open>Identities at SES\<close>

definition VERIFIED_PREFIX :: string where "VERIFIED_PREFIX = ''ses:verified:''"
definition BACKOFF_PREFIX :: string where "BACKOFF_PREFIX = ''ses:verify:backoff:''"
definition VERIFIED_TTL :: int where "VERIFIED_TTL = 3600"
definition BACKOFF_TTL :: int where "BACKOFF_TTL = 300"

definition marked :: "'r redis_api \<Rightarrow> millis \<Rightarrow> string \<Rightarrow> 'r world \<Rightarrow> bool" where
  "marked R now k w = (r_get R (w_redis w) now k \<notin> {None, Some (RText [])})"

definition mark :: "'r redis_api \<Rightarrow> millis \<Rightarrow> string \<Rightarrow> int \<Rightarrow> 'r world \<Rightarrow> 'r world" where
  "mark R now k seconds w = w\<lparr>w_redis := r_setex R (w_redis w) now k (RText ''1'') (seconds * 1000)\<rparr>"

text \<open>
  \<open>answer\<close> is SES's: nothing, or the name of the error. The first component says whether SES was asked. Without Redis the
  first read fails and the error is only logged.
\<close>

definition ensureVerified ::
  "'r redis_api \<Rightarrow> bool \<Rightarrow> millis \<Rightarrow> (string \<Rightarrow> string option) \<Rightarrow> string \<Rightarrow> 'r world \<Rightarrow> bool \<times> 'r world" where
  "ensureVerified R enabled now answer email w =
     (if \<not> enabled \<or> \<not> w_redisUp w then (False, w)
      else if marked R now (VERIFIED_PREFIX @ email) w \<or> marked R now (BACKOFF_PREFIX @ email) w then (False, w)
      else (True, case answer email of
          None \<Rightarrow> mark R now (VERIFIED_PREFIX @ email) VERIFIED_TTL w
        | Some e \<Rightarrow>
            if e = ''AlreadyExistsException'' then mark R now (VERIFIED_PREFIX @ email) VERIFIED_TTL w
            else if e = ''LimitExceededException'' \<or> e = ''Throttling'' then mark R now (BACKOFF_PREFIX @ email) BACKOFF_TTL w
            else w))"

definition mask :: "string \<Rightarrow> string" where
  "mask email = (case split_on (CHR ''@'') email of
       local # domain # _ \<Rightarrow> (if domain = [] then ''<invalid>''
          else (if local = [] then ''undefined'' else [hd local]) @ ''***@'' @ domain)
     | _ \<Rightarrow> ''<invalid>'')"

section \<open>Facts: the sender's domain\<close>

lemma address_word_none: "CHR ''@'' \<notin> set (takeWhile (\<lambda>c. \<not> is_space c) s) \<Longrightarrow> address_word s = None"
proof -
  assume a: "CHR ''@'' \<notin> set (takeWhile (\<lambda>c. \<not> is_space c) s)"
  have "set (butlast (tl xs)) \<subseteq> set xs" for xs :: string
    by (cases xs) (auto dest: in_set_butlastD)
  with a have "CHR ''@'' \<notin> set (butlast (tl (takeWhile (\<lambda>c. \<not> is_space c) s)))" by blast
  then show ?thesis by (simp add: address_word_def)
qed

text \<open>A text without either sign, then a blank: the search goes on behind it.\<close>

lemma first_address_skip:
  "CHR ''@'' \<notin> set u \<Longrightarrow> CHR ''<'' \<notin> set u \<Longrightarrow> first_address (u @ CHR '' '' # s) = first_address (CHR '' '' # s)"
proof (induction u)
  case (Cons c u)
  have "set (takeWhile (\<lambda>c. \<not> is_space c) ((c # u) @ CHR '' '' # s)) \<subseteq> set (c # u)"
    by (auto simp: takeWhile_append is_space_def dest: set_takeWhileD)
  then have "address_word ((c # u) @ CHR '' '' # s) = None" using Cons.prems by (intro address_word_none) auto
  moreover have "bracketed ((c # u) @ CHR '' '' # s) = None"
    using Cons.prems by (auto simp: bracketed_def split: list.splits char.splits bool.splits)
  ultimately show ?case using Cons by simp
qed simp


lemma first_address_blank [simp]: "first_address (CHR '' '' # s) = first_address s"
  by (simp add: bracketed_def address_word_def is_space_def)

lemma first_address_word: "CHR ''@'' \<notin> set u \<Longrightarrow> CHR ''<'' \<notin> set u \<Longrightarrow> first_address (u @ CHR '' '' # s) = first_address s"
  by (metis first_address_skip first_address_blank)

lemma takeWhile_close: "CHR ''>'' \<notin> set u \<Longrightarrow> takeWhile (\<lambda>c. c \<noteq> CHR ''>'') (u @ CHR ''>'' # s) = u"
  by (induction u) auto

text \<open>The sender the dispatcher writes is read back, where the protocol's name holds none of the signs the search looks for.\<close>

lemma sender_read_back:
  assumes name: "CHR ''@'' \<notin> set name" "CHR ''<'' \<notin> set name" and d: "d \<noteq> []" "CHR ''@'' \<notin> set d" "CHR ''>'' \<notin> set d"
  shows "from_domain (name @ '' via Herald <noreply@'' @ d @ ''>'') = Some d"
proof -
  have "first_address (name @ '' via Herald <noreply@'' @ d @ ''>'') = first_address (''via'' @ CHR '' '' # ''Herald'' @ CHR '' '' # ''<noreply@'' @ d @ ''>'')"
    using first_address_word [OF name, of "''via Herald <noreply@'' @ d @ ''>''"] by simp
  also have "\<dots> = first_address (''<noreply@'' @ d @ ''>'')"
    by (subst first_address_word; simp?) (subst first_address_word [of "''Herald''", simplified]; simp)
  also have "\<dots> = Some (''noreply@'' @ d)"
    using takeWhile_close [of "''noreply@'' @ d" "[]"] d(3) by (simp add: bracketed_def Let_def)
  finally show ?thesis
    using split_on_sep [of "CHR ''@''" "''noreply''" d] d by (simp add: from_domain_def nullish_def)
qed

lemma name_with_address: "from_domain ''a@evil.com via Herald <noreply@p1.io>'' = Some ''evil.com''"
  by code_simp

text \<open>The dispatcher names no protocol, so the mark of a mail is that of whoever verified a logo for the domain first.\<close>

lemma dispatched_mail_bimi:
  assumes name: "CHR ''@'' \<notin> set (jd_protocolName job)" "CHR ''<'' \<notin> set (jd_protocolName job)"
    and d: "d \<noteq> []" "CHR ''@'' \<notin> set d" "CHR ''>'' \<notin> set d"
    and b: "List.find (\<lambda>b. bi_domain b = d \<and> bi_isVerified b) (w_bimi w) = Some b" "bi_selector b \<notin> {[], ''default''}"
  shows "(''BIMI-Selector'', ''v=BIMI1; s='' @ bi_selector b @ '';'') \<in>
    set (ses_headers cfg \<lparr>mm_email = email_of E now email d job html plain, mm_protocolId = None\<rparr> w)"
proof -
  have "getBimiConfig (em_from (email_of E now email d job html plain)) None w = Some (bi_selector b)"
    using sender_read_back [OF name d] b(1) by (simp add: getBimiConfig_def email_of_def)
  moreover have "(k, v) \<in> set (set_header k v hs)" for k v hs by (force simp: set_header_def)
  ultimately show ?thesis using b(2) by (simp add: ses_headers_def Let_def)
qed

section \<open>Facts: how often SES is asked\<close>

context redis_service begin

lemma mark_seen:
  assumes "t \<le> t'" "t' < t + s * 1000"
  shows "marked R t' k (mark R t k s w)"
  using assms by (simp add: marked_def mark_def get_setex)

lemma asked_once:
  assumes "ensureVerified R True t answer email w = (True, w1)" "t \<le> t'"
    and "answer email \<in> {None, Some ''AlreadyExistsException''} \<and> t' < t + 3600000
      \<or> answer email \<in> {Some ''LimitExceededException'', Some ''Throttling''} \<and> t' < t + 300000"
  shows "ensureVerified R True t' answer' email w1 = (False, w1)"
proof -
  have "marked R t' (VERIFIED_PREFIX @ email) w1 \<or> marked R t' (BACKOFF_PREFIX @ email) w1"
    using assms mark_seen [of t t' VERIFIED_TTL "VERIFIED_PREFIX @ email" w] mark_seen [of t t' BACKOFF_TTL "BACKOFF_PREFIX @ email" w]
    by (auto simp: ensureVerified_def VERIFIED_TTL_def BACKOFF_TTL_def split: if_splits)
  then show ?thesis by (simp add: ensureVerified_def)
qed

end

text \<open>SES is not pestered: after it took an identity, or knew it already, it is not asked about it again for an hour, and
  after it refused for want of capacity not for five minutes. Without Redis it is never asked.\<close>

lemma identity_asked_once:
  assumes "redis_service R" "ensureVerified R True t answer email w = (True, w1)" "t \<le> t'"
    and "answer email \<in> {None, Some ''AlreadyExistsException''} \<and> t' < t + 3600000
      \<or> answer email \<in> {Some ''LimitExceededException'', Some ''Throttling''} \<and> t' < t + 300000"
  shows "ensureVerified R True t' answer' email w1 = (False, w1)"
  by (rule redis_service.asked_once [OF assms])

end
