(* ===== verification/Notify_Endpoint.thy ===== *)
theory Notify_Endpoint
  imports Auth Billing Notify_Facts Request_Log
begin

text \<open>
  \<open>POST /v1/notify\<close> of \<open>notify/notify.controller.ts\<close> as the framework runs it: the guards of the class and of the
  method in their order, then the global request log around the rate limit around the handler. Every part is the
  one its own theory defines; here they are composed, and the facts say what the composition lets through.
\<close>

section \<open>The pipeline\<close>

record 'r endpoint_env =
  en_notify :: "'r notify_env"
  en_decryptName :: "bytes \<Rightarrow> string option"
  en_internalKey :: "string option"
  en_scheme :: string                                \<comment> \<open>Express's \<open>request.protocol\<close>\<close>
  en_body :: "notify_response \<Rightarrow> json"               \<comment> \<open>the answer as the log sees it\<close>

definition logged_as :: "auth_protocol \<Rightarrow> logged_protocol" where
  "logged_as p = \<lparr>lp_protocolId = ap_protocolId p, lp_apiKeyId = Some (ap_apiKeyId p), lp_isTestKey = ap_isTestKey p\<rparr>"

definition outcome_of :: "'r endpoint_env \<Rightarrow> exn + notify_response \<Rightarrow> handled_as" where
  "outcome_of N r = (case r of
       Inr a \<Rightarrow> Answered 202 (Some (en_body N a))
     | Inl (HttpExn st _) \<Rightarrow> Failed (Some st)
     | Inl _ \<Rightarrow> Failed None)"

definition rate_limited ::
  "'r endpoint_env \<Rightarrow> millis \<Rightarrow> millis \<Rightarrow> guard_request \<Rightarrow> ('r world \<Rightarrow> ('a, 'r world) handled) \<Rightarrow> 'r world \<Rightarrow> ('a, 'r world) handled" where
  "rate_limited N now now2 rq h w =
     (let (verdict, s) = intercept (ne_redis (en_notify N)) (w_redisUp w) (w_redis w) now now2
            \<lparr>rq_protocol = UrlScheme (en_scheme N), rq_authProtocol = gr_authProtocol rq, rq_url = gr_url rq, rq_notifications = None\<rparr>
      in case verdict of
           Proceed _ \<Rightarrow> h (w\<lparr>w_redis := s\<rparr>)
         | Refuse st e _ _ \<Rightarrow> throw (HttpExn st (nullish e '''')) (w\<lparr>w_redis := s\<rparr>))"

definition logged ::
  "'r endpoint_env \<Rightarrow> string \<Rightarrow> millis \<Rightarrow> int \<Rightarrow> logged_request \<Rightarrow> (notify_response, 'r world) handled \<Rightarrow> (notify_response, 'r world) handled" where
  "logged N logId now latency q r = (fst r, log_request (ne_sha (en_notify N)) logId now latency q (outcome_of N (fst r)) (snd r))"

text \<open>The ids of the notification and of the log row, the outcome of adding the job and the times are given.\<close>

definition post_notify ::
  "'r endpoint_env \<Rightarrow> add_outcome \<Rightarrow> millis \<Rightarrow> millis \<Rightarrow> int \<Rightarrow> string \<Rightarrow> string \<Rightarrow> guard_request \<Rightarrow> logged_request \<Rightarrow> notify_dto
     \<Rightarrow> 'r world \<Rightarrow> (notify_response, 'r world) handled" where
  "post_notify N outcome now now2 latency i logId rq q dto w =
     (let E = en_notify N; R = ne_redis E
      in and_then (authGuard R (ne_sha E) (en_decryptName N) (en_internalKey N) now rq w) (\<lambda>rq1 w1.
         and_then (scopeGuard (Some [''notify:write'']) rq1 w1) (\<lambda>_ w2.
         and_then (subscriptionGuard R now (gr_authProtocol rq1) w2) (\<lambda>_ w3.
           case gr_authProtocol rq1 of
             None \<Rightarrow> throw (JsError ''no protocol'') w3
           | Some p \<Rightarrow> logged N logId now latency (q\<lparr>lq_protocol := Some (logged_as p)\<rparr>)
               (rate_limited N now now2 rq1 (queueNotification E outcome now i dto p) w3)))))"

section \<open>Facts: what the guards leave alone\<close>

lemma validate_key_frame: "\<exists>s. snd (validateApiKey R sha256 dec now key w) = w\<lparr>w_redis := s\<rparr>"
  by (auto simp: validateApiKey_def Let_def flow_simps split: option.splits redis_value.splits intro: exI [of _ "w_redis w"])

lemma auth_guard_frame: "\<exists>s. snd (authGuard R sha256 dec ik now rq w) = w\<lparr>w_redis := s\<rparr>"
proof -
  have same: "\<exists>s. w = w\<lparr>w_redis := s\<rparr>" by (rule exI [of _ "w_redis w"]) simp
  have "\<exists>s. snd (and_then (validateApiKey R sha256 dec now key w) (\<lambda>res w'. case res of
      None \<Rightarrow> throw (HttpExn 401 ''AUTH_INVALID_KEY'') w' | Some p \<Rightarrow> ok (rq\<lparr>gr_authProtocol := Some p\<rparr>) w')) = w\<lparr>w_redis := s\<rparr>" for key
    using validate_key_frame [of R sha256 dec now key w]
    by (cases "validateApiKey R sha256 dec now key w"; cases "fst (validateApiKey R sha256 dec now key w)")
      (auto simp: throw_def ok_def split: option.splits)
  then show ?thesis using same by (auto simp: authGuard_def throw_def ok_def split: option.splits)
qed

lemma scope_guard_frame: "snd (scopeGuard scopes rq w) = w"
  by (auto simp: scopeGuard_def throw_def ok_def split: option.splits list.splits)

lemma subscription_guard_frame: "\<exists>s. snd (subscriptionGuard R now p w) = w\<lparr>w_redis := s\<rparr>"
  by (auto simp: subscriptionGuard_def load_subscription_def ok_def Let_def
      split: option.splits redis_value.splits intro: exI [of _ "w_redis w"])


section \<open>Facts: what gets through\<close>

lemma logged_frame:
  "w_notificationJobs (snd (logged N l now lat q r)) = w_notificationJobs (snd r)"
  "w_notifications (snd (logged N l now lat q r)) = w_notifications (snd r)"
  by (simp_all add: logged_def log_request_def Let_def split: option.splits)

lemma validate_sources:
  assumes "validateApiKey R sha256 dec now key w = (Inr (Some p), w')"
  shows "isValidKeyFormat key \<and> (cached_auth R sha256 now key w = Some p \<or> authorises sha256 dec now key w p)"
proof -
  have fmt: "isValidKeyFormat key"
    using assms by (auto simp: validateApiKey_def flow_simps split: if_splits)
  show ?thesis
  proof (cases "cached_auth R sha256 now key w")
    case None
    from validate_cold [OF None] assms fmt show ?thesis by blast
  next
    case (Some a)
    from validate_hit [OF fmt Some] assms Some fmt show ?thesis by simp
  qed
qed

text \<open>Authenticating writes the cached key and the hash of last uses, which no subscription is cached under.\<close>

lemma validate_keeps_subscription:
  assumes "redis_service R" "validateApiKey R sha256 dec now key w = (Inr (Some p), w')"
  shows "fst (load_subscription R now i w') = fst (load_subscription R now i w)"
proof (cases "cached_auth R sha256 now key w")
  case None
  have keys: "sub_cache_key i \<noteq> auth_cache_key (sha256 key)" "sub_cache_key i \<noteq> ''auth:last_used''"
    by (simp_all add: auth_cache_key_def sub_cache_key_def)
  have w': "w' = w\<lparr>w_redis := (if w_redisUp w
      then r_hset R (r_setex R (w_redis w) now (auth_cache_key (sha256 key)) (RAuth p) (CACHE_TTL_SECONDS * 1000))
             ''auth:last_used'' (ap_apiKeyId p) (show_int now)
      else w_redis w)\<rparr>"
    using assms(2) validate_cold [OF None] by simp
  have "r_get R (w_redis w') now (sub_cache_key i) = r_get R (w_redis w) now (sub_cache_key i)"
    unfolding w' by (simp add: redis_service.get_hset [OF assms(1) keys(2)] redis_service.get_setex [OF assms(1)] keys(1))
  moreover have "w_redisUp w' = w_redisUp w" "w_subscriptions w' = w_subscriptions w"
    by (simp_all add: w')
  ultimately show ?thesis
    by (simp add: load_subscription_def subscription_of_def split: option.splits redis_value.splits)
next
  case (Some q)
  then show ?thesis
    using assms(2) validate_sources [OF assms(2)] validate_hit [of key R sha256 now w q dec] by simp
qed

lemma guards_pass:
  assumes "redis_service R" "\<not> is_internal_request ik rq" "authGuard R sha256 dec ik now rq w = (Inr rq1, w1)"
    and "scopeGuard (Some [sc]) rq1 w1 = (Inr u, w2)" "subscriptionGuard R now (gr_authProtocol rq1) w2 = (Inr v, w3)"
  shows "\<exists>key p. gr_headers rq ''authorization'' = Some (''Bearer '' @ key) \<and> isValidKeyFormat key
    \<and> (cached_auth R sha256 now key w = Some p \<or> authorises sha256 dec now key w p)
    \<and> gr_authProtocol rq1 = Some p \<and> sc \<in> set (ap_scopes p)
    \<and> (ap_tier p = 0 \<or> subscription_verdict now (ap_tier p) (fst (load_subscription R now (ap_protocolId p) w)) = Inr ())"
proof -
  obtain key p where kp: "gr_headers rq ''authorization'' = Some (''Bearer '' @ key)"
      "validateApiKey R sha256 dec now key w = (Inr (Some p), w1)" "gr_authProtocol rq1 = Some p"
    using authGuard_ok [OF assms(3)] assms(2) by auto
  have w2: "w2 = w1" using scope_guard_frame [of "Some [sc]" rq1 w1] assms(4) by simp
  have sc: "sc \<in> set (ap_scopes p)"
    using assms(4) kp(3) by (auto simp: scopeGuard_def flow_simps split: if_splits)
  have "ap_tier p = 0 \<or> subscription_verdict now (ap_tier p) (fst (load_subscription R now (ap_protocolId p) w1)) = Inr ()"
    using assms(5) kp(3) w2 by (auto simp: subscriptionGuard_def ok_def Let_def split: if_splits prod.splits)
  then show ?thesis
    using kp validate_sources [OF kp(2)] sc validate_keeps_subscription [OF assms(1) kp(2)] by metis
qed

text \<open>C24: nothing is queued for a caller that is not entitled. A request to \<open>POST /v1/notify\<close> that adds a job or changes
  a notification carried a well-formed API key in its header; the key was cached or authorised by the database; it has
  the scope \<open>notify:write\<close>; and its protocol is on the free tier or its subscription, cached or stored, is active, not
  expired and below the sends of its tier.\<close>

theorem notify_endpoint_entitled:
  assumes "redis_service (ne_redis (en_notify N))" "gr_url rq = ''/v1/notify''"
    and "post_notify N outcome now now2 latency i logId rq q dto w = (r, w')"
    and "w_notificationJobs w' \<noteq> w_notificationJobs w \<or> w_notifications w' \<noteq> w_notifications w"
  shows "\<exists>key p. gr_headers rq ''authorization'' = Some (''Bearer '' @ key) \<and> isValidKeyFormat key
    \<and> (cached_auth (ne_redis (en_notify N)) (ne_sha (en_notify N)) now key w = Some p
        \<or> authorises (ne_sha (en_notify N)) (en_decryptName N) now key w p)
    \<and> ''notify:write'' \<in> set (ap_scopes p)
    \<and> (ap_tier p = 0 \<or> subscription_verdict now (ap_tier p)
          (fst (load_subscription (ne_redis (en_notify N)) now (ap_protocolId p) w)) = Inr ())"
proof -
  let ?R = "ne_redis (en_notify N)" let ?sha = "ne_sha (en_notify N)"
  have ext: "\<not> is_internal_request (en_internalKey N) rq"
    by (simp add: is_internal_request_def assms(2) startsWith_def)
  obtain a w1 where a: "authGuard ?R ?sha (en_decryptName N) (en_internalKey N) now rq w = (a, w1)" by fastforce
  have w1: "w_notificationJobs w1 = w_notificationJobs w" "w_notifications w1 = w_notifications w"
    using auth_guard_frame [of ?R ?sha "en_decryptName N" "en_internalKey N" now rq w] a by auto
  show ?thesis
  proof (cases a)
    case (Inl e)
    with assms(3,4) a w1 show ?thesis by (auto simp: post_notify_def Let_def)
  next
    case (Inr rq1)
    obtain b w2 where b: "scopeGuard (Some [''notify:write'']) rq1 w1 = (b, w2)" by fastforce
    have w2: "w2 = w1" using scope_guard_frame [of "Some [''notify:write'']" rq1 w1] b by simp
    obtain c w3 where c: "subscriptionGuard ?R now (gr_authProtocol rq1) w2 = (c, w3)" by fastforce
    have w3: "w_notificationJobs w3 = w_notificationJobs w" "w_notifications w3 = w_notifications w"
      using subscription_guard_frame [of ?R now "gr_authProtocol rq1" w2] c w1 w2 by auto
    obtain u v where "b = Inr u" "c = Inr v"
      using assms(3,4) a b c Inr w1 w2 w3 by (cases b; cases c) (auto simp: post_notify_def Let_def)
    with guards_pass [OF assms(1) ext] a b c Inr show ?thesis by blast
  qed
qed


text \<open>A live key of a protocol on the developer tier, whose subscription is active.\<close>

definition sample_endpoint :: "keyspace endpoint_env" where
  "sample_endpoint = \<lparr>en_notify = \<lparr>ne_redis = mem_redis, ne_sha = id, ne_ai = None, ne_useDevnet = False,
       ne_resolve = (\<lambda>_. \<lparr>dv_resolved = False, dv_channels = no_channels, dv_identity = None\<rparr>)\<rparr>,
     en_decryptName = (\<lambda>_. None), en_internalKey = None, en_scheme = ''https'', en_body = (\<lambda>_. JNull)\<rparr>"

definition sample_customer :: "keyspace world" where
  "sample_customer = sample_world\<lparr>w_apiKeys := [sample_ak\<lparr>ak_environment := ''production''\<rparr>],
     w_subscriptions := [(new_subscription ''p1'')\<lparr>sb_tier := 1, sb_status := ''active''\<rparr>]\<rparr>"

definition sample_call :: guard_request where
  "sample_call = \<lparr>gr_headers = [''authorization'' \<mapsto> ''Bearer '' @ ak_keyHash sample_ak], gr_url = ''/v1/notify'',
     gr_authProtocol = None, gr_walletHash = None\<rparr>"

definition sample_logged :: logged_request where
  "sample_logged = \<lparr>lq_protocol = None, lq_method = ''POST'', lq_path = ''/v1/notify'', lq_body = None,
     lq_forwardedFor = None, lq_remoteAddress = None, lq_correlationId = None\<rparr>"

lemma sample_sent:
  assumes "w_redisUp w" "mem_get (w_redis w) 0 (idempotency_key ''k'') = None" "w_notifications w = []"
  shows "w_notificationJobs (snd (queueProductionNotification mem_redis id None Added 0 ''n1'' sample_dto p w)) \<noteq> []"
  using assms by (simp add: queueProductionNotification_def claim_idempotency_def sample_dto_def mem_redis_def mem_setnx_def
      flow_simps template_pending_def sample_scan Let_def create_notification_def key_taken_def exists_row_def
      enqueueNotification_cases classifyAndFlag_def reaches_queue_def)

theorem notify_endpoint_entitled_witness:
  "\<exists>r w' key (p :: auth_protocol). post_notify sample_endpoint Added 0 0 5 ''n1'' ''l1'' sample_call sample_logged sample_dto sample_customer = (r, w')
     \<and> w_notificationJobs w' \<noteq> [] \<and> gr_headers sample_call ''authorization'' = Some (''Bearer '' @ key) \<and> isValidKeyFormat key
     \<and> ''notify:write'' \<in> set (ap_scopes p)"
proof -
  let ?key = "ak_keyHash sample_ak"
  let ?p = "auth_result (\<lambda>_. None) (sample_ak\<lparr>ak_environment := ''production''\<rparr>) sample_pr None"
  let ?w1 = "sample_customer\<lparr>w_redis := r_hset mem_redis (r_setex mem_redis (w_redis sample_customer) 0 (auth_cache_key ?key)
      (RAuth ?p) (CACHE_TTL_SECONDS * 1000)) ''auth:last_used'' (ap_apiKeyId ?p) (show_int 0)\<rparr>"
  let ?post = "post_notify sample_endpoint Added 0 0 5 ''n1'' ''l1'' sample_call sample_logged sample_dto sample_customer"
  note defs = sample_customer_def sample_defs
  have fmt: "isValidKeyFormat ?key"
    unfolding isValidKeyFormat_iff by (rule exI [of _ "''test''"], rule exI [of _ "replicate 30 CHR ''a''"])
      (simp add: sample_defs is_base58_def list_all_iff)
  have none: "cached_auth mem_redis id 0 ?key sample_customer = None"
    by (simp add: defs cached_auth_def mem_redis_def mem_get_def)
  have "authorises id (\<lambda>_. None) 0 ?key sample_customer ?p"
    using fmt by (simp add: authorises_def key_row_def protocol_row_def key_expired_def defs)
  then have v: "validateApiKey mem_redis id (\<lambda>_. None) 0 ?key sample_customer = (Inr (Some ?p), ?w1)"
    using validate_cold [OF none] by (simp add: defs)
  have a: "authGuard mem_redis id (\<lambda>_. None) None 0 sample_call sample_customer = (Inr (sample_call\<lparr>gr_authProtocol := Some ?p\<rparr>), ?w1)"
    by (simp add: authGuard_def is_internal_request_def sample_call_def startsWith_def v flow_simps)
  have b: "scopeGuard (Some [''notify:write'']) (sample_call\<lparr>gr_authProtocol := Some ?p\<rparr>) w = (Inr (), w)" for w :: "keyspace world"
    by (simp add: scopeGuard_def sample_defs auth_result_def flow_simps)
  obtain s where c: "subscriptionGuard mem_redis 0 (Some ?p) ?w1 = (Inr (), ?w1\<lparr>w_redis := s\<rparr>)"
      "s = r_setex mem_redis (w_redis ?w1) 0 (sub_cache_key ''p1'') (RSub ''active'' None 0) 30000"
    by (simp add: subscriptionGuard_def load_subscription_def defs auth_result_def mem_defs mem_hset_def subscription_verdict_def
        subscription_of_def new_subscription_def sub_facts_def TIER_SEND_LIMITS_def sub_cache_key_def auth_cache_key_def Let_def)
  let ?rq = "\<lparr>rq_protocol = UrlScheme ''https'', rq_authProtocol = Some ?p, rq_url = ''/v1/notify'', rq_notifications = None\<rparr>"
  have "str_includes ''/v1/notify'' ''/batch'' = False" by code_simp
  note limit = intercept_scheme [of ?rq "''https''" mem_redis s 0 0, simplified this]
  have "lr_allowed (fst (checkPerSecondLimit mem_redis True s 0 0 ''undefined'' 10 False))"
      "mem_get (snd (checkPerSecondLimit mem_redis True s 0 0 ''undefined'' 10 False)) 0 (idempotency_key ''k'') = None"
    by (simp_all add: c(2) defs checkPerSecondLimit_def RATE_LIMIT_LUA_def mem_defs rate_key_def sub_cache_key_def auth_cache_key_def
        idempotency_key_def Let_def)
  then obtain h s2 where d: "intercept mem_redis True s 0 0 ?rq = (Proceed h, s2)" "mem_get s2 0 (idempotency_key ''k'') = None"
    using limit by (cases "intercept mem_redis True s 0 0 ?rq") (auto split: intercepted.splits)
  have up: "w_redisUp sample_customer" by (simp add: defs)
  have env: "ne_redis (en_notify sample_endpoint) = mem_redis" "ne_sha (en_notify sample_endpoint) = id"
      "ne_ai (en_notify sample_endpoint) = None" "en_decryptName sample_endpoint = (\<lambda>_. None)"
      "en_internalKey sample_endpoint = None" "en_scheme sample_endpoint = ''https''"
    by (simp_all add: sample_endpoint_def)
  have url: "gr_url sample_call = ''/v1/notify''" by (simp add: sample_call_def)
  have "?post = logged sample_endpoint ''l1'' 0 5 (sample_logged\<lparr>lq_protocol := Some (logged_as ?p)\<rparr>)
      (queueNotification (en_notify sample_endpoint) Added 0 ''n1'' sample_dto ?p (?w1\<lparr>w_redis := s2\<rparr>))"
    by (simp add: post_notify_def Let_def env a b c(1) rate_limited_def url d(1) up)
  moreover have "ap_environment ?p \<noteq> ''sandbox''" by (simp add: auth_result_def)
  ultimately have jobs: "w_notificationJobs (snd ?post) \<noteq> []"
    using sample_sent [of "?w1\<lparr>w_redis := s2\<rparr>" ?p] d(2) up
    by (simp add: logged_frame queueNotification_def env) (simp add: defs)
  obtain r w' where post: "?post = (r, w')" by fastforce
  have jobs': "w_notificationJobs w' \<noteq> []" using jobs post by simp
  then have changed: "w_notificationJobs w' \<noteq> w_notificationJobs sample_customer \<or> w_notifications w' \<noteq> w_notifications sample_customer"
    by (simp add: defs)
  have R: "redis_service (ne_redis (en_notify sample_endpoint))" by (simp add: env mem.redis_service_axioms)
  obtain key and p :: auth_protocol where k: "gr_headers sample_call ''authorization'' = Some (''Bearer '' @ key)" "isValidKeyFormat key"
      "''notify:write'' \<in> set (ap_scopes p)"
    using notify_endpoint_entitled [OF R url post changed] by (elim exE conjE) (rule that)
  show ?thesis
    by (intro exI conjI, rule post, rule jobs', rule k(1), rule k(2), rule k(3))
qed

end
