(* ===== verification/Spec2Isabelle.thy ===== *)
theory Spec2Isabelle
  imports
    Rate_Limit Auth Scanner Sandbox Audience Job_Queue Notify Notify_Facts
    Rpc_Manager Routing Webhook Unsubscribe
    Markdown Sms Template Telegram Telegram_Migration Dispatch Metering Mail_Worker Mail_Invariant Bounce Suppression
    Receipt Digest Scheduler Billing Telegram_Bot Custom_Bot Domains Campaign Request_Log Analytics Playground Portal Mail_Providers
    Notify_Endpoint
begin

text \<open>
  A verification development of the Herald notification gateway, a NestJS service that takes
  notification requests from protocols over HTTP, resolves the recipient's encrypted channels from
  Solana, and delivers by email, Telegram and SMS. Everything below models the TypeScript under
  \<open>src/src/\<close>; file names are relative to \<open>src/src/modules/\<close> unless they start with another directory.

  \<^bold>\<open>The program.\<close> A request passes the guards (API key to protocol), the rate limit interceptor and
  a handler of the notify controller. The notify service claims the idempotency key in Redis, applies
  the template gate and the content scanner, writes a notification row to PostgreSQL and puts a job
  on a BullMQ queue. Workers take the jobs: the mail worker resolves the identity, has the enclave
  decrypt its channels and dispatches to the providers; the webhook worker posts events to the
  protocols' endpoints. Sandbox requests (test keys) have their own path with quotas. Wallet owners
  subscribe to protocols and opt out through signed links.

  \<^bold>\<open>How it is modelled.\<close> PostgreSQL is a record of tables, each a list of rows in insertion order; the
  queries are list functions (\<open>updateMany\<close>, \<open>deleteMany\<close>, \<open>List.find\<close>) and the constraints a query can
  violate are exceptions (\<open>P2002\<close> unique, \<open>P2025\<close> no such row, \<open>P2000\<close> value too long). BullMQ queues
  are logs of jobs in the same record. Redis is third-party code and is a parameter, a record of
  operations \<open>redis_api\<close> with the documented laws as the locale \<open>redis_service\<close>; a keyspace of values
  with expiry times is proved an instance and used in the witnesses. SHA-256, HMAC, AES-GCM, NaCl boxes,
  DNS, HTTP and JSON of payloads are parameters, with their documented laws as named hypotheses where a
  property needs one. Every handler returns a result or an exception together with the new state
  (\<open>handled\<close>), so a throw keeps the writes made before it. Times are integers in milliseconds, counters
  integers, byte strings lists of 8-bit words. The only theory with a byte order is \<open>Routing\<close>, where
  the two-byte length is assembled on 32-bit words as JavaScript's operators do.

  \<^bold>\<open>Theories.\<close>
  \<^item> \<open>Gateway_Prelude\<close>: JavaScript string operations, decimal numerals, handlers and their composition,
    table queries; the rule collections \<open>js_simps\<close>, \<open>flow_simps\<close> and \<open>row_simps\<close>.
  \<^item> \<open>Gateway_Types\<close>: the types of \<open>common/types\<close> (protocol, identity, channels, job data).
  \<^item> \<open>Redis_Service\<close>: the Redis interface and its laws; the in-memory instance.
  \<^item> \<open>Js_Regex\<close>: regular expressions with JavaScript's search semantics, \<open>matches\<close> proved to list exactly
    the prefixes in the language, so \<open>test\<close> is exactly "some substring is in the language".
  \<^item> \<open>Gateway_World\<close>: the tables of \<open>prisma/schema.prisma\<close> that the rest uses, the queues, the sent messages.
  \<^item> \<open>Rate_Limit\<close>: \<open>auth/rate-limit.constants.ts\<close>, \<open>auth/rate-limit.service.ts\<close>,
    \<open>common/interceptors/rate-limit.interceptor.ts\<close>.
  \<^item> \<open>Auth\<close>: \<open>auth/auth.service.ts\<close> and the four guards of \<open>common/guards\<close>.
  \<^item> \<open>Scanner\<close>: \<open>notify/content-scanner.service.ts\<close>, its patterns as regular expressions.
  \<^item> \<open>Sandbox\<close>: \<open>sandbox/sandbox.service.ts\<close>; both daily quotas are instances of one locale \<open>quota_gate\<close>.
  \<^item> \<open>Audience\<close>: \<open>subscriptions/subscriptions.service.ts\<close>.
  \<^item> \<open>Job_Queue\<close>: \<open>queue/queue.service.ts\<close>. An enqueue is added, rejected, or times out after ten seconds
    (and then may still be added): \<open>add_outcome\<close>, a parameter of every handler that enqueues.
  \<^item> \<open>Notify\<close> and \<open>Notify_Facts\<close>: \<open>notify/notify.service.ts\<close>, the batch handler of
    \<open>notify/notify.controller.ts\<close>, \<open>classifyAndFlag\<close> of \<open>notify/ai-classifier.service.ts\<close>,
    \<open>routing/sandbox-routing.service.ts\<close>; definitions and facts.
  \<^item> \<open>Base64\<close>: Node's base64 and base64url, with the round trip.
  \<^item> \<open>Rpc_Manager\<close>: \<open>solana/rpc-manager.service.ts\<close> as a step relation.
  \<^item> \<open>Routing\<close>: \<open>routing/routing.service.ts\<close> and \<open>routing/enclave.service.ts\<close>.
  \<^item> \<open>Webhook\<close>: \<open>common/crypto/webhook-crypto.ts\<close> and the controller, service and worker of \<open>webhook/\<close>.
  \<^item> \<open>Unsubscribe\<close>: \<open>notify/unsubscribe.service.ts\<close> and the link generator of the dispatcher.
  \<^item> \<open>Markdown\<close>: \<open>common/utils/link-parser.ts\<close>; \<open>Sms\<close>: \<open>channel/providers/sns.provider.ts\<close>. Text that can
    hold characters above 255 is a list of 16-bit units, as JavaScript's strings are.
  \<^item> \<open>Template\<close>: \<open>template/template.service.ts\<close> and \<open>template/template.controller.ts\<close>; Handlebars, juice,
    DOMPurify and the template files are parameters.
  \<^item> \<open>Telegram\<close>: \<open>channel/providers/telegram.provider.ts\<close>; \<open>Telegram_Migration\<close>: the migration marks and
    prompts of \<open>telegram/telegram-migration.service.ts\<close>. The Bot API is a parameter.
  \<^item> \<open>Dispatch\<close>: \<open>channel/channel-dispatch.service.ts\<close>. The channels of one notification, which the code
    starts together, are delivered one after the other: they share no state but the list of sent messages
    and, for Telegram, its Redis keys.
  \<^item> \<open>Metering\<close>: \<open>billing/overage-metering.service.ts\<close>; \<open>Mail_Worker\<close>: \<open>queue/workers/mail.worker.ts\<close>, one attempt
    at a job and the retries BullMQ makes; \<open>Mail_Invariant\<close>: well-formed notification rows.
  \<^item> \<open>Bounce\<close>: the bounce service, controller and worker, the Resend webhook and the SQS consumer; \<open>Suppression\<close>:
    what a bounce does to the mails that follow it, across \<open>Bounce\<close>, \<open>Mail_Worker\<close> and \<open>Dispatch\<close>.
  \<^item> \<open>Receipt\<close>: \<open>receipt/receipt.service.ts\<close> and the batch worker; \<open>Digest\<close>: the digest service and its worker;
    \<open>Scheduler\<close>: \<open>notify/scheduler.service.ts\<close> with its cron arithmetic.
  \<^item> \<open>Billing\<close>: subscriptions, their guard, the webhook of Helio, status and usage, of \<open>billing/\<close>.
  \<^item> \<open>Telegram_Bot\<close>: \<open>telegram/telegram-webhook.service.ts\<close>, the updates of Herald's bot; \<open>Custom_Bot\<close>: the updates of the
    protocols' own bots, the commands the two share, and the fan-out of the migration prompts.
  \<^item> \<open>Domains\<close>: \<open>domain/\<close>, DKIM keys and their verification, DMARC and BIMI; \<open>Mail_Providers\<close>: \<open>mail/\<close>, the three
    providers and the choice between them.
  \<^item> \<open>Campaign\<close>: \<open>admin/\<close> and the campaign controllers; \<open>Analytics\<close>: \<open>analytics/\<close>; \<open>Request_Log\<close>:
    \<open>common/interceptors/request-log.interceptor.ts\<close>; \<open>Playground\<close>: the playground of \<open>sandbox/\<close>; \<open>Portal\<close>: the
    portal, the subscription endpoints and the pages behind the unsubscribe links.
  \<^item> \<open>Notify_Endpoint\<close>: \<open>POST /v1/notify\<close> as the framework runs it, guards, log, rate limit and handler composed.

  \<^bold>\<open>What the lemmas show.\<close> Of the intake: the outcome of every branch, idempotency within the window and
  its two gaps, containment of the sandbox, uniqueness of ids and keys as an invariant of all requests, and
  that the composed endpoint queues nothing for a caller without key, scope and subscription.
  Of the limits: that the Lua window admits exactly the burst, the decision of the three layers, and what
  the interceptor makes of them. Of authentication: issued keys are accepted, how long a revoked key
  still is, and what each guard lets through. Of the scanner: the verdict as a sum over matching rules.
  Of the sandbox and the playground: the quotas exactly, key lifetime, retention. Of the audience: the life
  cycle, consistent figures, and which subscriptions a broadcast cannot reach. Of routing: both blob formats
  and the cache. Of webhooks: secrets, requests, giving up on dead endpoints, fan-out. Of unsubscribe links:
  round trip and replay. Of delivery: the contract of the dispatcher, one metered send however often a job is
  tried, rows that stay well formed, bounces as a reputation that suppresses and is lifted again, digests as
  a partition of what was buffered, receipts that drain, schedules that are reconciled exactly. Of billing:
  a payment counts once, and which counter nothing resets. Of the bots: who may link a group, that the two
  bots answer alike, mutes and pending connections. Of domains: which records verify a key, and BIMI records
  read back as published. Of campaigns, analytics and the log: single launch and its channels, usage figures
  that agree with the quota check, and redaction.

  \<^bold>\<open>Bounds.\<close> No definition needs fuel: loops are over lists, and \<open>matches\<close> terminates because a
  starred expression only iterates on a shorter rest.

  \<^bold>\<open>Not modelled.\<close> Logging, metrics and OpenAPI decorators; HTTP parsing, DTO validation by class-validator, the
  request timeout; bootstrap, configuration and dependency wiring. The MJML compiler, the HTML sanitiser and the
  URL validator of \<open>template/\<close>, which no module provides, are wrappers of third-party parsers; the controllers of the
  portal's notification list, the status page and the protocol settings read rows and copy them; the socket client
  of the enclave is one function. Sweeps over Redis keys (\<open>SCAN\<close>) are left out, since \<open>redis_api\<close> has no
  enumeration; the theories that have one say so. Ids that reach a query are taken to be well-formed UUIDs, so
  PostgreSQL's syntax error for others does not arise. JavaScript numbers are integers here: the code
  only counts, adds and compares small ones.
\<close>

end
